(* ===== verification/Grover_Prelude.thy ===== *)
theory Grover_Prelude
  imports Main "HOL-Library.Word"
begin

text \<open>
  Generic material the components share: Rust strings, tables as lists of rows, and the
  fixed-width integers that cross the boundary between Rust and PostgreSQL.

  A Rust \<open>String\<close> is a list of characters, one per Unicode scalar value below U+0100, so
  \<open>s.chars().count()\<close> is \<open>length\<close> and \<open>s.len()\<close> (bytes of the UTF-8 encoding) is \<open>byte_len\<close>.
  A table is the list of its rows; statements filter it, map over it and append to it.
\<close>

named_theorems table_simps \<open>rewriting of table operations\<close>

section \<open>Integers\<close>

type_synonym u32 = "32 word"
type_synonym u64 = "64 word"

text \<open>
  A Rust \<open>u32\<close> is written to an \<open>INTEGER\<close> column with \<open>value as i32\<close> and read back with
  \<open>row.get::<i32, _>(..) as u32\<close>. Columns hold the signed value as an \<open>int\<close>.
\<close>

definition as_i32 :: "u32 \<Rightarrow> int" where
  "as_i32 w = sint w"

definition as_u32 :: "int \<Rightarrow> u32" where
  "as_u32 i = word_of_int i"

definition int4_range :: "int \<Rightarrow> bool" where
  "int4_range i \<longleftrightarrow> - (2 ^ 31) \<le> i \<and> i < 2 ^ 31"

lemma as_u32_as_i32 [simp]: "as_u32 (as_i32 w) = w"
  by (simp add: as_u32_def as_i32_def)

lemma as_i32_range: "int4_range (as_i32 w)"
  using sint_range_size [of w] by (simp add: int4_range_def as_i32_def word_size)

lemma as_i32_as_u32: "int4_range i \<Longrightarrow> as_i32 (as_u32 i) = i"
  by (simp add: as_i32_def as_u32_def int4_range_def sint_sbintrunc' signed_take_bit_int_eq_self)

section \<open>Strings\<close>

definition is_whitespace :: "char \<Rightarrow> bool" where
  "is_whitespace c \<longleftrightarrow> of_char c \<in> {9, 10, 11, 12, 13, 32, 133, 160 :: nat}"

definition trim :: "string \<Rightarrow> string" where
  "trim s = rev (dropWhile is_whitespace (rev (dropWhile is_whitespace s)))"

definition is_blank :: "string \<Rightarrow> bool" where
  "is_blank s \<longleftrightarrow> trim s = []"

definition byte_len :: "string \<Rightarrow> nat" where
  "byte_len s = sum_list (map (\<lambda>c. if of_char c < (128 :: nat) then 1 else 2) s)"

definition ascii_lower :: "char \<Rightarrow> char" where
  "ascii_lower c = (let n = of_char c :: nat in if 65 \<le> n \<and> n \<le> 90 then char_of (n + 32) else c)"

definition to_ascii_lowercase :: "string \<Rightarrow> string" where
  "to_ascii_lowercase s = map ascii_lower s"

definition ascii_upper :: "char \<Rightarrow> char" where
  "ascii_upper c = (let n = of_char c :: nat in if 97 \<le> n \<and> n \<le> 122 then char_of (n - 32) else c)"

definition to_ascii_uppercase :: "string \<Rightarrow> string" where
  "to_ascii_uppercase s = map ascii_upper s"

definition is_ascii_digit :: "char \<Rightarrow> bool" where
  "is_ascii_digit c \<longleftrightarrow> 48 \<le> (of_char c :: nat) \<and> (of_char c :: nat) \<le> 57"

definition is_ascii_alphanumeric :: "char \<Rightarrow> bool" where
  "is_ascii_alphanumeric c \<longleftrightarrow>
     (let n = of_char c :: nat in
      (48 \<le> n \<and> n \<le> 57) \<or> (65 \<le> n \<and> n \<le> 90) \<or> (97 \<le> n \<and> n \<le> 122))"

definition replace_char :: "char \<Rightarrow> char \<Rightarrow> string \<Rightarrow> string" where
  "replace_char a b s = map (\<lambda>c. if c = a then b else c) s"

text \<open>\<open>s.split(c)\<close>: always at least one part; \<open>parts.join(sep)\<close> is its inverse.\<close>

fun split_on :: "char \<Rightarrow> string \<Rightarrow> string list" where
  "split_on c [] = [[]]"
| "split_on c (d # s) =
     (if d = c then [] # split_on c s
      else (case split_on c s of [] \<Rightarrow> [[d]] | p # ps \<Rightarrow> (d # p) # ps))"

fun join_with :: "char \<Rightarrow> string list \<Rightarrow> string" where
  "join_with c [] = []"
| "join_with c [p] = p"
| "join_with c (p # ps) = p @ c # join_with c ps"

fun strip_prefix :: "string \<Rightarrow> string \<Rightarrow> string option" where
  "strip_prefix [] s = Some s"
| "strip_prefix (c # p) [] = None"
| "strip_prefix (c # p) (d # s) = (if c = d then strip_prefix p s else None)"

text \<open>\<open>starts_with\<close>, \<open>ends_with\<close>, \<open>contains\<close> and \<open>trim_start_matches\<close> with a string pattern.\<close>

fun starts_with :: "string \<Rightarrow> string \<Rightarrow> bool" where
  "starts_with [] s = True"
| "starts_with (c # p) [] = False"
| "starts_with (c # p) (d # s) = (c = d \<and> starts_with p s)"

definition ends_with :: "string \<Rightarrow> string \<Rightarrow> bool" where
  "ends_with p s = starts_with (rev p) (rev s)"

fun contains_string :: "string \<Rightarrow> string \<Rightarrow> bool" where
  "contains_string p [] = (p = [])"
| "contains_string p (c # s) = (starts_with p (c # s) \<or> contains_string p s)"

lemma starts_with_iff: "starts_with p s \<longleftrightarrow> (\<exists>t. s = p @ t)"
  by (induction p s rule: starts_with.induct) auto

lemma starts_with_append [simp]: "starts_with p (p @ t)"
  by (auto simp: starts_with_iff)

lemma starts_with_trans: "starts_with p q \<Longrightarrow> starts_with q s \<Longrightarrow> starts_with p s"
  by (auto simp: starts_with_iff)

lemma ends_with_iff: "ends_with p s \<longleftrightarrow> (\<exists>t. s = t @ p)"
  unfolding ends_with_def starts_with_iff by (metis rev_append rev_rev_ident)

function trim_start_matches :: "string \<Rightarrow> string \<Rightarrow> string" where
  "trim_start_matches p s = (if p = [] \<or> \<not> starts_with p s then s
     else trim_start_matches p (drop (length p) s))"
  by pat_completeness auto
termination
  by (relation "measure (\<lambda>(p, s). length s)") (auto simp: starts_with_iff)

declare trim_start_matches.simps [simp del]

text \<open>\<open>s.parse::<u32>()\<close>: an optional sign, at least one digit, no overflow. \<open>nat_text\<close> is \<open>to_string\<close>.\<close>

definition digit_value :: "char \<Rightarrow> nat" where
  "digit_value c = of_char c - 48"

definition digits_value :: "string \<Rightarrow> nat" where
  "digits_value s = foldl (\<lambda>n c. 10 * n + digit_value c) 0 s"

definition parse_u32 :: "string \<Rightarrow> u32 option" where
  "parse_u32 s =
     (let ds = (case s of [] \<Rightarrow> [] | c # t \<Rightarrow> if c = CHR ''+'' then t else s) in
      if ds = [] \<or> \<not> list_all is_ascii_digit ds \<or> 2 ^ 32 \<le> digits_value ds then None
      else Some (word_of_nat (digits_value ds)))"

definition digit_char :: "nat \<Rightarrow> char" where
  "digit_char d = char_of (48 + d)"

fun nat_text :: "nat \<Rightarrow> string" where
  "nat_text n = (if n < 10 then [digit_char n] else nat_text (n div 10) @ [digit_char (n mod 10)])"

declare nat_text.simps [simp del]

definition int_text :: "int \<Rightarrow> string" where
  "int_text i = (if i < 0 then CHR ''-'' # nat_text (nat (- i)) else nat_text (nat i))"

text \<open>SQL \<open>LIKE\<close> without escapes: \<open>%\<close> matches any run, \<open>_\<close> any single character.\<close>

function sql_like :: "string \<Rightarrow> string \<Rightarrow> bool" where
  "sql_like [] s = (s = [])"
| "sql_like (c # p) s =
     (if c = CHR ''%'' then sql_like p s \<or> (case s of [] \<Rightarrow> False | _ # t \<Rightarrow> sql_like (c # p) t)
      else (case s of [] \<Rightarrow> False | d # t \<Rightarrow> (c = CHR ''_'' \<or> c = d) \<and> sql_like p t))"
  by pat_completeness auto
termination
  by (relation "measure (\<lambda>(p, s). length p + length s)") auto

declare sql_like.simps [simp del]

lemma strip_prefix_append [simp]: "strip_prefix p (p @ s) = Some s"
  by (induction p) auto

lemma split_on_nonempty [simp]: "split_on c s \<noteq> []"
  by (cases s) (auto split: list.splits)

lemma join_split: "join_with c (split_on c s) = s"
proof (induction s)
  case Nil
  then show ?case by simp
next
  case (Cons d s)
  obtain p ps where sp: "split_on c s = p # ps" by (cases "split_on c s") auto
  with Cons show ?case by (cases ps) auto
qed

lemma split_no_sep: "c \<notin> set s \<Longrightarrow> split_on c s = [s]"
  by (induction s) auto

lemma split_append_sep: "c \<notin> set p \<Longrightarrow> split_on c (p @ c # s) = p # split_on c s"
  by (induction p) auto

lemma trim_Nil [simp]: "trim [] = []"
  by (simp add: trim_def)

lemma is_blank_iff: "is_blank s \<longleftrightarrow> (\<forall>c \<in> set s. is_whitespace c)"
  by (auto simp: is_blank_def trim_def dropWhile_eq_Nil_conv dest: set_dropWhileD)
     (metis dropWhile_eq_Nil_conv dropWhile_eq_self_iff hd_dropWhile hd_in_set set_rev)

lemma digit_char_digit [simp]: "d < 10 \<Longrightarrow> is_ascii_digit (digit_char d)"
  by (simp add: is_ascii_digit_def digit_char_def)

lemma digit_value_char [simp]: "d < 10 \<Longrightarrow> digit_value (digit_char d) = d"
  by (simp add: digit_value_def digit_char_def)

lemma digit_char_value [simp]: "is_ascii_digit c \<Longrightarrow> digit_char (digit_value c) = c"
  by (simp add: is_ascii_digit_def digit_char_def digit_value_def)

lemma digit_value_less: "is_ascii_digit c \<Longrightarrow> digit_value c < 10"
  unfolding is_ascii_digit_def digit_value_def by linarith

lemma digits_value_append [simp]: "digits_value (s @ [c]) = 10 * digits_value s + digit_value c"
  by (simp add: digits_value_def)

lemma digits_value_Nil [simp]: "digits_value [] = 0"
  by (simp add: digits_value_def)

lemma digits_value_bound: "list_all is_ascii_digit s \<Longrightarrow> digits_value s < 10 ^ length s"
proof (induction s rule: rev_induct)
  case (snoc c s)
  then have "digits_value s < 10 ^ length s" and "digit_value c < 10"
    using digit_value_less by auto
  then show ?case by simp
qed simp

lemma nat_text_digits: "list_all is_ascii_digit (nat_text n)"
  by (induction n rule: nat_text.induct) (subst nat_text.simps, auto)

lemma nat_text_nonempty [simp]: "nat_text n \<noteq> []"
  by (subst nat_text.simps) simp

lemma digits_value_nat_text [simp]: "digits_value (nat_text n) = n"
proof (induction n rule: nat_text.induct)
  case (1 n)
  show ?case
  proof (cases "n < 10")
    case True
    then show ?thesis by (subst nat_text.simps) (simp add: digits_value_def)
  next
    case False
    with 1 show ?thesis by (subst nat_text.simps) simp
  qed
qed

lemma nat_text_inject [simp]: "nat_text m = nat_text n \<longleftrightarrow> m = n"
  by (metis digits_value_nat_text)

lemma is_ascii_digit_less: "is_ascii_digit c \<Longrightarrow> of_char c < (128 :: nat)"
  by (simp add: is_ascii_digit_def)

lemma byte_len_ascii: "(\<forall>c \<in> set s. of_char c < (128 :: nat)) \<Longrightarrow> byte_len s = length s"
  by (induction s) (auto simp: byte_len_def)

lemma byte_len_ge: "length s \<le> byte_len s"
  by (induction s) (auto simp: byte_len_def)

section \<open>Tables\<close>

text \<open>
  \<open>lookup key k rows\<close> is \<open>SELECT .. WHERE key = k\<close> with \<open>fetch_optional\<close>; \<open>update_where\<close> and
  \<open>delete_where\<close> are the statements of that name, \<open>affected\<close> their \<open>rows_affected()\<close>.
\<close>

definition lookup_by :: "('r \<Rightarrow> bool) \<Rightarrow> 'r list \<Rightarrow> 'r option" where
  "lookup_by P rows = List.find P rows"

definition update_where :: "('r \<Rightarrow> bool) \<Rightarrow> ('r \<Rightarrow> 'r) \<Rightarrow> 'r list \<Rightarrow> 'r list" where
  "update_where P f rows = map (\<lambda>r. if P r then f r else r) rows"

definition delete_where :: "('r \<Rightarrow> bool) \<Rightarrow> 'r list \<Rightarrow> 'r list" where
  "delete_where P rows = filter (\<lambda>r. \<not> P r) rows"

definition affected :: "('r \<Rightarrow> bool) \<Rightarrow> 'r list \<Rightarrow> nat" where
  "affected P rows = length (filter P rows)"

definition exists_row :: "('r \<Rightarrow> bool) \<Rightarrow> 'r list \<Rightarrow> bool" where
  "exists_row P rows \<longleftrightarrow> list_ex P rows"

lemma exists_row_iff [simp]: "exists_row P rows \<longleftrightarrow> (\<exists>r \<in> set rows. P r)"
  by (simp add: exists_row_def list_ex_iff)

lemma lookup_by_Some: "lookup_by P rows = Some r \<Longrightarrow> r \<in> set rows \<and> P r"
  by (auto simp: lookup_by_def find_Some_iff)

lemma lookup_by_None [table_simps]: "lookup_by P rows = None \<longleftrightarrow> (\<forall>r \<in> set rows. \<not> P r)"
  by (auto simp: lookup_by_def find_None_iff)

lemma lookup_by_Nil [simp]: "lookup_by P [] = None"
  by (simp add: lookup_by_def)

lemma lookup_by_Cons [simp]:
  "lookup_by P (r # rows) = (if P r then Some r else lookup_by P rows)"
  by (simp add: lookup_by_def)

lemma set_update_where: "set (update_where P f rows) = (\<lambda>r. if P r then f r else r) ` set rows"
  by (simp add: update_where_def)

lemma update_where_hit: "r \<in> set rows \<Longrightarrow> P r \<Longrightarrow> f r \<in> set (update_where P f rows)"
  by (force simp: set_update_where)

lemma update_where_Nil [simp]: "update_where P f [] = []"
  by (simp add: update_where_def)

lemma update_where_Cons [simp]:
  "update_where P f (r # rows) = (if P r then f r else r) # update_where P f rows"
  by (simp add: update_where_def)

lemma update_where_none: "(\<And>r. r \<in> set rows \<Longrightarrow> \<not> P r) \<Longrightarrow> update_where P f rows = rows"
  by (induction rows) auto

lemma length_update_where [simp]: "length (update_where P f rows) = length rows"
  by (simp add: update_where_def)

lemma map_update_where:
  "(\<And>r. r \<in> set rows \<Longrightarrow> P r \<Longrightarrow> key (f r) = key r) \<Longrightarrow> map key (update_where P f rows) = map key rows"
  by (induction rows) auto

lemma filter_update_where_other:
  "(\<And>r. r \<in> set rows \<Longrightarrow> P r \<Longrightarrow> \<not> Q r \<and> \<not> Q (f r)) \<Longrightarrow>
   filter Q (update_where P f rows) = filter Q rows"
  by (induction rows) auto

lemma affected_0 [simp]: "affected P rows = 0 \<longleftrightarrow> (\<forall>r \<in> set rows. \<not> P r)"
  by (simp add: affected_def filter_empty_conv)

lemma affected_pos: "0 < affected P rows \<longleftrightarrow> (\<exists>r \<in> set rows. P r)"
  by (metis affected_0 neq0_conv)

lemma affected_Nil: "affected P [] = 0"
  by simp

lemma affected_Cons: "affected P (r # rows) = (if P r then 1 else 0) + affected P rows"
  by (simp add: affected_def)

lemma affected_le: "affected P rows \<le> length rows"
  by (simp add: affected_def)

lemma set_delete_where [simp]: "set (delete_where P rows) = {r \<in> set rows. \<not> P r}"
  by (auto simp: delete_where_def)

lemma affected_unique:
  assumes "distinct (map key rows)" and "\<And>r. P r \<Longrightarrow> key r = k"
  shows "affected P rows \<le> 1"
  using assms(1)
proof (induction rows)
  case Nil
  then show ?case by (simp add: affected_def)
next
  case (Cons r rows)
  show ?case
  proof (cases "P r")
    case True
    with Cons.prems assms(2) have "\<And>r'. r' \<in> set rows \<Longrightarrow> \<not> P r'" by force
    then have "affected P rows = 0" by simp
    with True show ?thesis by (simp add: affected_Cons)
  next
    case False
    with Cons show ?thesis by (simp add: affected_Cons)
  qed
qed

lemma lookup_by_unique:
  assumes "distinct (map key rows)" and "r \<in> set rows" and "P r" and "\<And>x. P x \<Longrightarrow> key x = k"
  shows "lookup_by P rows = Some r"
  using assms(1,2)
proof (induction rows)
  case Nil
  then show ?case by simp
next
  case (Cons a rows)
  then show ?case using assms(3,4) by (auto simp: image_iff)
qed

lemma filter_by_key:
  "distinct (map key rows) \<Longrightarrow> r \<in> set rows \<Longrightarrow> filter (\<lambda>x. key x = key r) rows = [r]"
proof (induction rows)
  case Nil
  then show ?case by simp
next
  case (Cons x rows)
  show ?case
  proof (cases "x = r")
    case True
    then have "\<forall>y \<in> set rows. key y \<noteq> key r" using Cons.prems(1) by (metis distinct.simps(2) imageI list.set_map list.simps(9))
    then show ?thesis using True by (simp add: filter_empty_conv)
  next
    case False
    then have "r \<in> set rows" using Cons.prems(2) by simp
    moreover from this have "key x \<noteq> key r" using Cons.prems(1) by auto
    ultimately show ?thesis using Cons by simp
  qed
qed

lemmas table_defs = lookup_by_def update_where_def delete_where_def affected_def

end
