(* ===== verification/Access_Control.thy ===== *)
theory Access_Control
  imports Grover_Prelude
begin

text \<open>
  \<open>backend/src/access_control.rs\<close>: the roles, the permission each operation asks for, and the
  organization scope of a caller; and the storage form of a role
  (\<open>access_role_from_storage\<close>, \<open>access_role_to_storage\<close> of \<open>backend/src/organizations.rs\<close>).
\<close>

datatype access_role = OrganizationOwner | Manager | CrewLead | CrewMember
  | PropertyOwner | PropertyManager | SupportAdmin

definition all_roles :: "access_role list" where
  "all_roles = [OrganizationOwner, Manager, CrewLead, CrewMember, PropertyOwner, PropertyManager,
     SupportAdmin]"

lemma all_roles_complete [simp]: "r \<in> set all_roles"
  by (cases r) (simp_all add: all_roles_def)

text \<open>Finitely many roles: a property of all of them can be evaluated.\<close>

instantiation access_role :: enum
begin

definition enum_access_role :: "access_role list" where
  "enum_access_role = all_roles"

definition enum_all_access_role :: "(access_role \<Rightarrow> bool) \<Rightarrow> bool" where
  "enum_all_access_role P = list_all P all_roles"

definition enum_ex_access_role :: "(access_role \<Rightarrow> bool) \<Rightarrow> bool" where
  "enum_ex_access_role P = list_ex P all_roles"

instance
proof
  show "(UNIV :: access_role set) = set enum_class.enum"
    by (auto simp: enum_access_role_def)
  show "distinct (enum_class.enum :: access_role list)"
    by (simp add: enum_access_role_def all_roles_def)
  show "enum_class.enum_all P = Ball UNIV P" for P :: "access_role \<Rightarrow> bool"
    by (auto simp: enum_all_access_role_def list_all_iff)
  show "enum_class.enum_ex P = Bex UNIV P" for P :: "access_role \<Rightarrow> bool"
    by (auto simp: enum_ex_access_role_def list_ex_iff)
qed

end

definition from_cognito_group :: "string \<Rightarrow> access_role option" where
  "from_cognito_group g =
     (if g = ''OrganizationOwner'' then Some OrganizationOwner
      else if g = ''Manager'' then Some Manager
      else if g = ''CrewLead'' then Some CrewLead
      else if g = ''CrewMember'' then Some CrewMember
      else if g = ''PropertyOwner'' then Some PropertyOwner
      else if g = ''PropertyManager'' then Some PropertyManager
      else if g = ''SupportAdmin'' then Some SupportAdmin
      else None)"

record access_context =
  context_user_id :: string
  context_organization_id :: string
  context_roles :: "access_role list"

fun can_manage_organization :: "access_role \<Rightarrow> bool" where
  "can_manage_organization OrganizationOwner = True"
| "can_manage_organization SupportAdmin = True"
| "can_manage_organization _ = False"

fun can_manage_schedule :: "access_role \<Rightarrow> bool" where
  "can_manage_schedule OrganizationOwner = True"
| "can_manage_schedule Manager = True"
| "can_manage_schedule SupportAdmin = True"
| "can_manage_schedule _ = False"

fun can_view_crew_route :: "access_role \<Rightarrow> bool" where
  "can_view_crew_route OrganizationOwner = True"
| "can_view_crew_route Manager = True"
| "can_view_crew_route CrewLead = True"
| "can_view_crew_route CrewMember = True"
| "can_view_crew_route SupportAdmin = True"
| "can_view_crew_route _ = False"

fun can_view_customer_portal :: "access_role \<Rightarrow> bool" where
  "can_view_customer_portal PropertyOwner = True"
| "can_view_customer_portal PropertyManager = True"
| "can_view_customer_portal SupportAdmin = True"
| "can_view_customer_portal _ = False"

fun can_view_customer_property_portfolios :: "access_role \<Rightarrow> bool" where
  "can_view_customer_property_portfolios OrganizationOwner = True"
| "can_view_customer_property_portfolios Manager = True"
| "can_view_customer_property_portfolios PropertyManager = True"
| "can_view_customer_property_portfolios SupportAdmin = True"
| "can_view_customer_property_portfolios _ = False"

fun can_manage_property_portfolios :: "access_role \<Rightarrow> bool" where
  "can_manage_property_portfolios OrganizationOwner = True"
| "can_manage_property_portfolios Manager = True"
| "can_manage_property_portfolios PropertyManager = True"
| "can_manage_property_portfolios SupportAdmin = True"
| "can_manage_property_portfolios _ = False"

fun can_manage_crew_assignments :: "access_role \<Rightarrow> bool" where
  "can_manage_crew_assignments OrganizationOwner = True"
| "can_manage_crew_assignments Manager = True"
| "can_manage_crew_assignments SupportAdmin = True"
| "can_manage_crew_assignments _ = False"

fun can_submit_completion_report :: "access_role \<Rightarrow> bool" where
  "can_submit_completion_report OrganizationOwner = True"
| "can_submit_completion_report Manager = True"
| "can_submit_completion_report CrewLead = True"
| "can_submit_completion_report CrewMember = True"
| "can_submit_completion_report SupportAdmin = True"
| "can_submit_completion_report _ = False"

fun can_review_completion_report :: "access_role \<Rightarrow> bool" where
  "can_review_completion_report OrganizationOwner = True"
| "can_review_completion_report Manager = True"
| "can_review_completion_report SupportAdmin = True"
| "can_review_completion_report _ = False"

fun can_deliver_completion_report :: "access_role \<Rightarrow> bool" where
  "can_deliver_completion_report OrganizationOwner = True"
| "can_deliver_completion_report Manager = True"
| "can_deliver_completion_report SupportAdmin = True"
| "can_deliver_completion_report _ = False"

definition can_access_organization :: "access_context \<Rightarrow> string \<Rightarrow> bool" where
  "can_access_organization ctx organization_id \<longleftrightarrow> context_organization_id ctx = organization_id"

definition can_manage_schedule_for_organization :: "access_context \<Rightarrow> string \<Rightarrow> bool" where
  "can_manage_schedule_for_organization ctx organization_id \<longleftrightarrow>
     can_access_organization ctx organization_id \<and> list_ex can_manage_schedule (context_roles ctx)"

definition can_view_customer_portal_for_organization :: "access_context \<Rightarrow> string \<Rightarrow> bool" where
  "can_view_customer_portal_for_organization ctx organization_id \<longleftrightarrow>
     can_access_organization ctx organization_id \<and> list_ex can_view_customer_portal (context_roles ctx)"

definition can_manage_property_portfolios_for_organization :: "access_context \<Rightarrow> string \<Rightarrow> bool" where
  "can_manage_property_portfolios_for_organization ctx organization_id \<longleftrightarrow>
     can_access_organization ctx organization_id
     \<and> list_ex can_manage_property_portfolios (context_roles ctx)"

definition can_manage_crew_assignments_for_organization :: "access_context \<Rightarrow> string \<Rightarrow> bool" where
  "can_manage_crew_assignments_for_organization ctx organization_id \<longleftrightarrow>
     can_access_organization ctx organization_id
     \<and> list_ex can_manage_crew_assignments (context_roles ctx)"

definition can_submit_completion_report_for_organization :: "access_context \<Rightarrow> string \<Rightarrow> bool" where
  "can_submit_completion_report_for_organization ctx organization_id \<longleftrightarrow>
     can_access_organization ctx organization_id
     \<and> list_ex can_submit_completion_report (context_roles ctx)"

definition can_review_completion_report_for_organization :: "access_context \<Rightarrow> string \<Rightarrow> bool" where
  "can_review_completion_report_for_organization ctx organization_id \<longleftrightarrow>
     can_access_organization ctx organization_id
     \<and> list_ex can_review_completion_report (context_roles ctx)"

definition can_deliver_completion_report_for_organization :: "access_context \<Rightarrow> string \<Rightarrow> bool" where
  "can_deliver_completion_report_for_organization ctx organization_id \<longleftrightarrow>
     can_access_organization ctx organization_id
     \<and> list_ex can_deliver_completion_report (context_roles ctx)"

definition access_role_from_storage :: "string \<Rightarrow> access_role option" where
  "access_role_from_storage role =
     (if role = ''organization_owner'' then Some OrganizationOwner
      else if role = ''manager'' then Some Manager
      else if role = ''crew_lead'' then Some CrewLead
      else if role = ''crew_member'' then Some CrewMember
      else if role = ''property_owner'' then Some PropertyOwner
      else if role = ''property_manager'' then Some PropertyManager
      else if role = ''support_admin'' then Some SupportAdmin
      else None)"

fun access_role_to_storage :: "access_role \<Rightarrow> string" where
  "access_role_to_storage OrganizationOwner = ''organization_owner''"
| "access_role_to_storage Manager = ''manager''"
| "access_role_to_storage CrewLead = ''crew_lead''"
| "access_role_to_storage CrewMember = ''crew_member''"
| "access_role_to_storage PropertyOwner = ''property_owner''"
| "access_role_to_storage PropertyManager = ''property_manager''"
| "access_role_to_storage SupportAdmin = ''support_admin''"

section \<open>Properties\<close>

lemma from_to_storage [simp]: "access_role_from_storage (access_role_to_storage r) = Some r"
  by (cases r) (simp_all add: access_role_from_storage_def)

lemma to_from_storage:
  "access_role_from_storage s = Some r \<Longrightarrow> access_role_to_storage r = s"
  by (auto simp: access_role_from_storage_def split: if_splits)

text \<open>
  The field roles and the customer roles are separated: who runs routes cannot open the customer
  portal and the other way round, the support administrator apart.
\<close>

lemma field_customer_separation:
  "can_view_crew_route r \<Longrightarrow> can_view_customer_portal r \<Longrightarrow> r = SupportAdmin"
  by (cases r) simp_all

lemma schedule_implies_route: "can_manage_schedule r \<Longrightarrow> can_view_crew_route r"
  by (cases r) simp_all

lemma organization_implies_schedule: "can_manage_organization r \<Longrightarrow> can_manage_schedule r"
  by (cases r) simp_all

lemma review_is_schedule: "can_review_completion_report r = can_manage_schedule r"
  by (cases r) simp_all

lemma deliver_is_review: "can_deliver_completion_report r = can_review_completion_report r"
  by (cases r) simp_all

lemma submit_is_route: "can_submit_completion_report r = can_view_crew_route r"
  by (cases r) simp_all

lemmas permission_order = schedule_implies_route organization_implies_schedule review_is_schedule
  deliver_is_review submit_is_route

end
