(* ===== verification/Sql_Tx.thy ===== *)
theory Sql_Tx
  imports Grover_Prelude
begin

text \<open>
  Database calls as the code makes them through \<open>sqlx\<close>: a statement on the pool commits by
  itself, a transaction commits, rolls back, or is dropped.

  PostgreSQL and the network are not part of the program. A call therefore takes a schedule of
  outages, one flag per round trip (\<open>True\<close>: this round trip fails; an exhausted schedule means no
  further outage), and every round trip can end in \<open>Inl ConnectionLost\<close>. A statement that breaks a
  constraint of the migrations ends in \<open>Inl ConstraintViolation\<close>. \<open>expr.await?\<close> is \<open>db_bind\<close>.
  A lost \<open>COMMIT\<close> is taken as not committed.
\<close>

datatype sqlx_error = ConnectionLost | ConstraintViolation | InvalidInput

type_synonym 'd conn = "bool list \<times> 'd"
type_synonym ('d, 'a) db_call = "'d conn \<Rightarrow> (sqlx_error + 'a) \<times> 'd conn"
type_synonym ('d, 'a) statement = "'d \<Rightarrow> sqlx_error + ('a \<times> 'd)"

datatype 'a tx_end = Commit 'a | Rollback 'a | Dropped 'a

definition outage :: "bool list \<Rightarrow> bool" where
  "outage fs = (case fs of [] \<Rightarrow> False | b # _ \<Rightarrow> b)"

definition db_return :: "'a \<Rightarrow> ('d, 'a) db_call" where
  "db_return a c = (Inr a, c)"

definition db_bind :: "('d, 'a) db_call \<Rightarrow> ('a \<Rightarrow> ('d, 'b) db_call) \<Rightarrow> ('d, 'b) db_call" where
  "db_bind m k c = (case m c of (Inl e, c') \<Rightarrow> (Inl e, c') | (Inr a, c') \<Rightarrow> k a c')"

definition db_stmt :: "('d, 'a) statement \<Rightarrow> ('d, 'a) db_call" where
  "db_stmt f c = (case c of (fs, d) \<Rightarrow>
     if outage fs then (Inl ConnectionLost, (tl fs, d))
     else (case f d of Inl e \<Rightarrow> (Inl e, (tl fs, d)) | Inr (a, d') \<Rightarrow> (Inr a, (tl fs, d'))))"

definition db_select :: "('d \<Rightarrow> 'a) \<Rightarrow> ('d, 'a) db_call" where
  "db_select f = db_stmt (\<lambda>d. Inr (f d, d))"

definition db_transaction :: "('d, 'a tx_end) db_call \<Rightarrow> ('d, 'a) db_call" where
  "db_transaction body c = (case c of (fs, d) \<Rightarrow>
     if outage fs then (Inl ConnectionLost, (tl fs, d))
     else (case body (tl fs, d) of
         (Inl e, (fs', _)) \<Rightarrow> (Inl e, (fs', d))
       | (Inr (Commit a), (fs', d')) \<Rightarrow>
           if outage fs' then (Inl ConnectionLost, (tl fs', d)) else (Inr a, (tl fs', d'))
       | (Inr (Rollback a), (fs', _)) \<Rightarrow>
           if outage fs' then (Inl ConnectionLost, (tl fs', d)) else (Inr a, (tl fs', d))
       | (Inr (Dropped a), (fs', _)) \<Rightarrow> (Inr a, (fs', d))))"

definition db_map :: "('a \<Rightarrow> 'b) \<Rightarrow> ('d, 'a) db_call \<Rightarrow> ('d, 'b) db_call" where
  "db_map f m = db_bind m (\<lambda>a. db_return (f a))"

text \<open>
  The repositories turn the outcome of a call into a value of their own result type
  (\<open>match .. await { Ok(..) .. Err(..) => Unavailable }\<close>): \<open>db_catch\<close>.
\<close>

definition db_catch :: "('d, 'a) db_call \<Rightarrow> (sqlx_error \<Rightarrow> ('d, 'b) db_call) \<Rightarrow>
    ('a \<Rightarrow> ('d, 'b) db_call) \<Rightarrow> ('d, 'b) db_call" where
  "db_catch m handler k c = (case m c of (Inl e, c') \<Rightarrow> handler e c' | (Inr a, c') \<Rightarrow> k a c')"

text \<open>The outcome with no outage.\<close>

definition run_call :: "('d, 'a) db_call \<Rightarrow> 'd \<Rightarrow> (sqlx_error + 'a) \<times> 'd" where
  "run_call m d = (case m ([], d) of (r, (_, d')) \<Rightarrow> (r, d'))"

definition result_of :: "('d, 'a) db_call \<Rightarrow> 'd \<Rightarrow> sqlx_error + 'a" where
  "result_of m d = fst (run_call m d)"

definition state_after :: "('d, 'a) db_call \<Rightarrow> 'd \<Rightarrow> 'd" where
  "state_after m d = snd (run_call m d)"

lemmas db_defs = db_return_def db_bind_def db_stmt_def db_select_def db_transaction_def
  db_map_def db_catch_def outage_def

lemmas run_defs = run_call_def result_of_def state_after_def

lemma state_after_snd: "state_after m d = snd (snd (m ([], d)))"
  by (simp add: run_defs split_beta)

lemma result_of_fst: "result_of m d = fst (m ([], d))"
  by (simp add: run_defs split_beta)

lemma answered_run: "fst c = r \<Longrightarrow> c = (r, (fst (snd c), snd (snd c)))"
  by auto

lemma outage_Nil [simp]: "\<not> outage []"
  by (simp add: outage_def)

lemma outage_Cons [simp]: "outage (b # fs) = b"
  by (simp add: outage_def)

section \<open>Inversion rules: how a call can have returned\<close>

lemma db_return_cases [elim!]:
  assumes "db_return a c = (r, c')"
  obtains "r = Inr a" and "c' = c"
  using assms by (simp add: db_return_def)

lemma db_bind_InrE:
  assumes "db_bind m k c = (Inr b, c')"
  obtains a c1 where "m c = (Inr a, c1)" and "k a c1 = (Inr b, c')"
  using assms by (auto simp: db_bind_def split: prod.splits sum.splits)

lemma db_stmt_InrE:
  assumes "db_stmt f (fs, d) = (Inr a, (fs', d'))"
  obtains "f d = Inr (a, d')" and "fs' = tl fs" and "\<not> outage fs"
  using assms by (auto simp: db_stmt_def split: if_splits sum.splits)

lemma db_select_InrE:
  assumes "db_select f (fs, d) = (Inr a, (fs', d'))"
  obtains "a = f d" and "d' = d" and "fs' = tl fs" and "\<not> outage fs"
proof -
  have "\<not> outage fs" and "a = f d" and "d' = d" and "fs' = tl fs"
    using assms by (auto simp: db_select_def db_stmt_def split: if_splits)
  then show thesis using that by blast
qed

lemma db_transaction_InrE:
  assumes "db_transaction body (fs, d) = (Inr a, (fs', d'))"
  obtains (committed) fs1 where "body (tl fs, d) = (Inr (Commit a), (fs1, d'))"
        and "\<not> outage fs" and "\<not> outage fs1" and "fs' = tl fs1"
    | (rolled_back) fs1 d1 where "body (tl fs, d) = (Inr (Rollback a), (fs1, d1))" and "d' = d"
        and "\<not> outage fs" and "\<not> outage fs1" and "fs' = tl fs1"
    | (dropped) fs1 d1 where "body (tl fs, d) = (Inr (Dropped a), (fs1, d1))" and "d' = d"
        and "\<not> outage fs" and "fs' = fs1"
proof -
  obtain r fs1 d1 where b: "body (tl fs, d) = (r, (fs1, d1))" by (metis prod.collapse)
  have up: "\<not> outage fs" using assms by (auto simp: db_transaction_def split: if_splits)
  show thesis
  proof (cases r)
    case (Inl e)
    with assms b up show thesis by (simp add: db_transaction_def)
  next
    case (Inr t)
    show thesis
    proof (cases t)
      case (Commit x)
      have "x = a \<and> d1 = d' \<and> \<not> outage fs1 \<and> tl fs1 = fs'"
        using assms up by (cases "outage fs1") (simp_all add: db_transaction_def b Inr Commit)
      then show thesis using b up Inr Commit committed by metis
    next
      case (Rollback x)
      have "x = a \<and> d = d' \<and> \<not> outage fs1 \<and> tl fs1 = fs'"
        using assms up by (cases "outage fs1") (simp_all add: db_transaction_def b Inr Rollback)
      then show thesis using b up Inr Rollback rolled_back by metis
    next
      case (Dropped x)
      have "x = a \<and> d = d' \<and> fs1 = fs'"
        using assms up by (simp add: db_transaction_def b Inr Dropped)
      then show thesis using b up Inr Dropped dropped by metis
    qed
  qed
qed

lemma db_transaction_Inl:
  assumes "db_transaction body (fs, d) = (Inl e, (fs', d'))"
  shows "d' = d"
proof -
  obtain r fs1 d1 where b: "body (tl fs, d) = (r, (fs1, d1))" by (metis prod.collapse)
  show ?thesis
  proof (cases r)
    case (Inl e)
    with assms b show ?thesis by (simp add: db_transaction_def split: if_splits)
  next
    case (Inr t)
    with assms b show ?thesis by (cases t) (simp_all add: db_transaction_def split: if_splits)
  qed
qed

lemma db_select_state: "db_select f (fs, d) = (r, (fs', d')) \<Longrightarrow> d' = d"
  by (auto simp: db_select_def db_stmt_def split: if_splits)

text \<open>The same for a connection that is not written as a pair.\<close>

lemma db_stmt_InrE':
  assumes "db_stmt f c = (Inr a, c')"
  obtains "f (snd c) = Inr (a, snd c')" and "fst c' = tl (fst c)" and "\<not> outage (fst c)"
  using assms by (cases c; cases c') (auto elim: db_stmt_InrE)

lemma db_select_InrE':
  assumes "db_select f c = (Inr a, c')"
  obtains "a = f (snd c)" and "snd c' = snd c" and "fst c' = tl (fst c)" and "\<not> outage (fst c)"
proof -
  obtain fs d fs' d' where c: "c = (fs, d)" "c' = (fs', d')" by (cases c; cases c') auto
  then have "db_select f (fs, d) = (Inr a, (fs', d'))" using assms by simp
  then have "a = f d \<and> d' = d \<and> fs' = tl fs \<and> \<not> outage fs" by (rule db_select_InrE) simp
  then show thesis using that c by simp
qed

lemma db_stmt_Inl: "db_stmt f (fs, d) = (Inl e, (fs', d')) \<Longrightarrow> d' = d"
  by (auto simp: db_stmt_def split: if_splits sum.splits)

lemma db_catch_cases:
  assumes "db_catch m h k c = (r, c')"
  obtains (failed) e c1 where "m c = (Inl e, c1)" and "h e c1 = (r, c')"
    | (answered) a c1 where "m c = (Inr a, c1)" and "k a c1 = (r, c')"
  using assms by (auto simp: db_catch_def split: prod.splits sum.splits)

lemmas db_InrE = db_bind_InrE db_stmt_InrE db_select_InrE

section \<open>Evaluation without outages\<close>

lemma db_stmt_run [simp]:
  "db_stmt f ([], d) = (case f d of Inl e \<Rightarrow> (Inl e, ([], d)) | Inr (a, d') \<Rightarrow> (Inr a, ([], d')))"
  by (auto simp: db_stmt_def split: sum.splits)

lemma db_select_run [simp]: "db_select f ([], d) = (Inr (f d), ([], d))"
  by (simp add: db_select_def)

lemma db_return_run [simp]: "db_return a c = (Inr a, c)"
  by (simp add: db_return_def)

lemma db_bind_return [simp]: "db_bind (db_return a) k = k a"
  by (rule ext) (simp add: db_bind_def db_return_def)

lemma transaction_commits:
  assumes "db_transaction body (fs, d) = (Inr a, (fs', d'))"
    and "\<And>t c'. body (tl fs, d) = (Inr t, c') \<Longrightarrow> t \<noteq> Rollback a \<and> t \<noteq> Dropped a"
  obtains fs1 where "body (tl fs, d) = (Inr (Commit a), (fs1, d'))"
  using assms(1) by (cases rule: db_transaction_InrE) (use assms(2) that in blast)+

lemma db_transaction_run [simp]:
  "db_transaction body ([], d) = (case body ([], d) of
      (Inl e, (fs, _)) \<Rightarrow> (Inl e, (fs, d))
    | (Inr (Commit a), (fs, d')) \<Rightarrow>
        if outage fs then (Inl ConnectionLost, (tl fs, d)) else (Inr a, (tl fs, d'))
    | (Inr (Rollback a), (fs, _)) \<Rightarrow>
        if outage fs then (Inl ConnectionLost, (tl fs, d)) else (Inr a, (tl fs, d))
    | (Inr (Dropped a), (fs, _)) \<Rightarrow> (Inr a, (fs, d)))"
  by (auto simp: db_transaction_def split: prod.splits sum.splits tx_end.splits)

lemma db_bind_Inr [simp]: "m c = (Inr a, c') \<Longrightarrow> db_bind m k c = k a c'"
  by (simp add: db_bind_def)

lemma db_bind_Inl [simp]: "m c = (Inl e, c') \<Longrightarrow> db_bind m k c = (Inl e, c')"
  by (simp add: db_bind_def)

section \<open>What a call keeps\<close>

text \<open>
  \<open>keeps R m\<close>: whatever \<open>m\<close> answers and whichever round trips fail, the state before and the state
  after are related by \<open>R\<close>. For a reflexive and transitive \<open>R\<close> the property composes.
\<close>

named_theorems keeps_rules \<open>composition of \<open>keeps\<close>\<close>

definition keeps :: "('d \<Rightarrow> 'd \<Rightarrow> bool) \<Rightarrow> ('d, 'a) db_call \<Rightarrow> bool" where
  "keeps R m \<longleftrightarrow> (\<forall>fs d r fs' d'. m (fs, d) = (r, (fs', d')) \<longrightarrow> R d d')"

lemma keepsI: "(\<And>fs d r fs' d'. m (fs, d) = (r, (fs', d')) \<Longrightarrow> R d d') \<Longrightarrow> keeps R m"
  by (simp add: keeps_def)

lemma keepsD: "keeps R m \<Longrightarrow> m (fs, d) = (r, (fs', d')) \<Longrightarrow> R d d'"
  by (simp add: keeps_def)

lemma keeps_return [keeps_rules]: "reflp R \<Longrightarrow> keeps R (db_return a)"
  by (auto simp: keeps_def db_return_def reflpD)

lemma keeps_stmt [keeps_rules]:
  assumes "reflp R" and "\<And>d a d'. f d = Inr (a, d') \<Longrightarrow> R d d'"
  shows "keeps R (db_stmt f)"
  using assms by (auto simp: keeps_def db_stmt_def reflpD split: if_splits sum.splits)

lemma keeps_select [keeps_rules]: "reflp R \<Longrightarrow> keeps R (db_select f)"
  by (auto simp: keeps_def reflpD dest: db_select_state)

lemma keeps_bind [keeps_rules]:
  assumes "transp R" and "keeps R m" and "\<And>a. keeps R (k a)"
  shows "keeps R (db_bind m k)"
proof (rule keepsI)
  fix fs d r fs' d'
  assume eq: "db_bind m k (fs, d) = (r, (fs', d'))"
  obtain r1 fs1 d1 where m: "m (fs, d) = (r1, (fs1, d1))" by (metis prod.collapse)
  with assms(2) have one: "R d d1" by (rule keepsD)
  show "R d d'"
  proof (cases r1)
    case (Inl e)
    with m eq one show ?thesis by simp
  next
    case (Inr a)
    with m eq have "k a (fs1, d1) = (r, (fs', d'))" by simp
    with assms(3) have "R d1 d'" by (rule keepsD)
    with one show ?thesis using assms(1) by (blast dest: transpD)
  qed
qed

lemma keeps_catch [keeps_rules]:
  assumes "transp R" and "keeps R m" and "\<And>e. keeps R (h e)" and "\<And>a. keeps R (k a)"
  shows "keeps R (db_catch m h k)"
proof (rule keepsI)
  fix fs d r fs' d'
  assume eq: "db_catch m h k (fs, d) = (r, (fs', d'))"
  obtain r1 fs1 d1 where m: "m (fs, d) = (r1, (fs1, d1))" by (metis prod.collapse)
  with assms(2) have one: "R d d1" by (rule keepsD)
  have "R d1 d'"
    using m eq keepsD [OF assms(3)] keepsD [OF assms(4)]
    by (cases r1) (auto simp: db_catch_def)
  with one show "R d d'" using assms(1) by (blast dest: transpD)
qed

lemma keeps_transaction_commit:
  assumes "reflp R"
    and "\<And>fs d a fs1 d1. body (fs, d) = (Inr (Commit a), (fs1, d1)) \<Longrightarrow> R d d1"
  shows "keeps R (db_transaction body)"
proof (rule keepsI)
  fix fs d r fs' d'
  assume eq: "db_transaction body (fs, d) = (r, (fs', d'))"
  show "R d d'"
  proof (cases r)
    case (Inl e)
    with eq have "d' = d" by (metis db_transaction_Inl)
    with assms(1) show ?thesis by (simp add: reflpD)
  next
    case (Inr a)
    from eq [unfolded Inr] show ?thesis
      by (cases rule: db_transaction_InrE) (use assms in \<open>auto simp: reflpD\<close>)
  qed
qed

lemma keeps_transaction [keeps_rules]:
  "reflp R \<Longrightarrow> keeps R body \<Longrightarrow> keeps R (db_transaction body)"
  by (rule keeps_transaction_commit) (auto simp: keeps_def)

lemma keeps_map [keeps_rules]:
  "reflp R \<Longrightarrow> transp R \<Longrightarrow> keeps R m \<Longrightarrow> keeps R (db_map f m)"
  unfolding db_map_def by (intro keeps_rules)

lemma keeps_if [keeps_rules]: "(b \<Longrightarrow> keeps R m) \<Longrightarrow> (\<not> b \<Longrightarrow> keeps R n) \<Longrightarrow> keeps R (if b then m else n)"
  by simp

lemma keeps_option [keeps_rules]:
  "keeps R m \<Longrightarrow> (\<And>a. keeps R (n a)) \<Longrightarrow> keeps R (case x of None \<Rightarrow> m | Some a \<Rightarrow> n a)"
  by (cases x) simp_all

lemma db_catch_Inr [simp]: "m c = (Inr a, c') \<Longrightarrow> db_catch m h k c = k a c'"
  by (simp add: db_catch_def)

lemma db_catch_Inl [simp]: "m c = (Inl e, c') \<Longrightarrow> db_catch m h k c = h e c'"
  by (simp add: db_catch_def)

text \<open>An invariant is the relation \<open>invariant P\<close>.\<close>

definition invariant :: "('d \<Rightarrow> bool) \<Rightarrow> 'd \<Rightarrow> 'd \<Rightarrow> bool" where
  "invariant P d d' \<longleftrightarrow> (P d \<longrightarrow> P d')"

lemma invariant_refl [simp]: "reflp (invariant P)"
  by (simp add: reflp_def invariant_def)

lemma invariant_trans [simp]: "transp (invariant P)"
  by (simp add: transp_def invariant_def)

section \<open>Interfaces\<close>

text \<open>
  What the code relies on when it answers an error with \<open>Unavailable\<close>: a call that failed has left
  no trace, so the client may send it again. Every operation that runs in one transaction, or is a
  single statement, provides this; an operation of several statements on the pool need not.
\<close>

locale atomic_call =
  fixes call :: "('d, 'a) db_call"
  assumes failed_unchanged: "call (fs, d) = (Inl e, (fs', d')) \<Longrightarrow> d' = d"
begin

text \<open>A client that repeats the call until it answers, one outage schedule per attempt.\<close>

lemma no_partial_state:
  "call (fs, d) = (r, (fs', d')) \<Longrightarrow> d' \<noteq> d \<Longrightarrow> \<exists>a. r = Inr a"
  using failed_unchanged by (cases r) auto

lemma retry_after_failure:
  assumes "call (fs, d) = (Inl e, (fs1, d1))"
  shows "call (fs2, d1) = call (fs2, d)"
  using failed_unchanged [OF assms] by simp

end

lemma atomic_transaction: "atomic_call (db_transaction body)"
  by unfold_locales (rule db_transaction_Inl)

lemma atomic_statement: "atomic_call (db_stmt f)"
  by unfold_locales (rule db_stmt_Inl)

lemma atomic_map: "atomic_call m \<Longrightarrow> atomic_call (db_map f m)"
  by (auto simp: atomic_call_def db_map_def db_bind_def split: prod.splits sum.splits)

text \<open>
  A write that can refuse (\<open>Ok(None)\<close>) and then has not written either, so that a client that sees
  anything but an answer can send it again.
\<close>

locale refusing_call = atomic_call call for call :: "('d, 'a option) db_call" +
  assumes refused_unchanged: "call (fs, d) = (Inr None, (fs', d')) \<Longrightarrow> d' = d"
begin

lemma changed_means_answered:
  assumes "call (fs, d) = (r, (fs', d'))" and "d' \<noteq> d"
  shows "\<exists>a. r = Inr (Some a)"
  using assms failed_unchanged refused_unchanged
  by (cases r) (auto, metis option.exhaust_sel)

end

text \<open>A call that never writes.\<close>

locale read_only_call =
  fixes call :: "('d, 'a) db_call"
  assumes state_unchanged: "call (fs, d) = (r, (fs', d')) \<Longrightarrow> d' = d"

sublocale read_only_call \<subseteq> atomic_call
  by unfold_locales (rule state_unchanged)

lemma read_only_select: "read_only_call (db_select f)"
  by unfold_locales (rule db_select_state)

lemma read_only_bind:
  assumes "read_only_call m" and "\<And>a. read_only_call (k a)"
  shows "read_only_call (db_bind m k)"
proof
  fix fs d r fs' d'
  assume eq: "db_bind m k (fs, d) = (r, (fs', d'))"
  obtain r1 fs1 d1 where m: "m (fs, d) = (r1, (fs1, d1))" by (metis prod.collapse)
  with assms(1) have d1: "d1 = d" by (auto simp: read_only_call_def)
  show "d' = d"
  proof (cases r1)
    case (Inl e)
    with m eq d1 show ?thesis by simp
  next
    case (Inr a)
    with m eq d1 assms(2) [of a] show ?thesis by (auto simp: read_only_call_def)
  qed
qed

lemma read_only_return: "read_only_call (db_return a)"
  by unfold_locales (auto simp: db_return_def)

end
