(* ===== verification/Schema.thy ===== *)
theory Schema
  imports Sql_Tx
begin

text \<open>
  The tables the modelled parts of the backend read and write (\<open>backend/migrations/\<close>), one record
  per row type and one list of rows per table, with the constraints a statement can run into.

  \<open>TEXT\<close> columns are strings also where a \<open>CHECK\<close> restricts them, \<open>INTEGER\<close> columns are \<open>int\<close> (the
  signed value), a \<open>DATE\<close> is a day number and a \<open>TIMESTAMPTZ\<close> an instant, both \<open>int\<close>. A column that
  no modelled statement reads is left out.
\<close>

section \<open>Rows\<close>

datatype json = JNull | JBool bool | JNum nat | JInt int | JStr string | JArr "json list"
  | JObj "(string \<times> json) list"

record organization_row =
  organization_pk :: string
  organization_display_name :: string
  organization_kind :: string
  organization_status :: string
  organization_time_zone :: string
  organization_service_area :: "string option"

record membership_row =
  membership_pk :: string
  membership_organization_id :: string
  membership_user_id :: string
  membership_display_name :: "string option"
  membership_role :: string
  membership_status :: string
  membership_scope_type :: string
  membership_scope_id :: "string option"

record branch_row =
  branch_pk :: string
  branch_organization_id :: string
  branch_name :: string
  branch_code :: string
  branch_time_zone :: string
  branch_service_area :: "string option"
  branch_status :: string

record territory_row =
  territory_pk :: string
  territory_organization_id :: string
  territory_branch_id :: string
  territory_name :: string
  territory_status :: string

record crew_row =
  crew_pk :: string
  crew_name :: string
  crew_organization_id :: string
  crew_branch_id :: "string option"
  crew_territory_id :: "string option"
  crew_status :: string
  crew_daily_stop_capacity :: int
  crew_lead_membership_id :: "string option"

record day_plan_row =
  plan_pk :: string
  plan_crew_id :: string
  plan_service_date :: int
  plan_status :: string
  plan_route_status :: string
  plan_time_zone :: string
  plan_service_area :: "string option"
  plan_stop_capacity :: int
  plan_updated_at :: int

record stop_row =
  stop_pk :: string
  stop_plan_id :: string
  stop_job_id :: string
  stop_order :: int
  stop_status :: string
  stop_drive_minutes :: int
  stop_service_minutes :: int
  stop_updated_at :: int

record amendment_row =
  amendment_pk :: string
  amendment_plan_id :: string
  amendment_crew_id :: string
  amendment_type :: string
  amendment_status :: string
  amendment_stop_id :: "string option"
  amendment_service_id :: "string option"
  amendment_service_name :: "string option"
  amendment_service_description :: "string option"
  amendment_duration_minutes :: "int option"
  amendment_price_cents :: "int option"
  amendment_requires_approval :: bool
  amendment_requires_bid :: bool
  amendment_note :: "string option"
  amendment_manager_note :: "string option"
  amendment_created_at :: int

record job_row =
  job_pk :: string
  job_organization_id :: string
  job_assigned_crew_id :: "string option"
  job_customer_account_id :: "string option"
  job_customer_name :: string
  job_property_address :: string
  job_status :: string
  job_scheduled_date :: string
  job_before_photos :: int
  job_after_photos :: int
  job_checklist_items :: int
  job_completed_items :: int
  job_updated_at :: int

record account_row =
  account_pk :: string
  account_customer_name :: string
  account_billing_model :: string
  account_payment_status :: string
  account_service_approval_status :: string
  account_contracted_services :: int
  account_completed_services :: int
  account_billing_notes :: "string option"

record item_row =
  item_pk :: string
  item_job_id :: string
  item_label :: string
  item_completed :: bool
  item_sort_order :: int

record add_on_row =
  add_on_pk :: string
  add_on_job_id :: string
  add_on_service_name :: string
  add_on_service_description :: "string option"
  add_on_quantity :: int
  add_on_unit_price_cents :: int
  add_on_note :: "string option"
  add_on_status :: string
  add_on_created_at :: int

record stop_mutation_row =
  sm_client_mutation_id :: nat
  sm_organization_id :: string
  sm_actor_id :: string
  sm_plan_id :: string
  sm_stop_id :: string
  sm_requested_status :: string

record job_mutation_row =
  jm_client_mutation_id :: nat
  jm_organization_id :: string
  jm_actor_id :: string
  jm_job_id :: string
  jm_requested_action :: string

record item_mutation_row =
  im_client_mutation_id :: nat
  im_organization_id :: string
  im_actor_id :: string
  im_job_id :: string
  im_item_id :: string
  im_requested_completed :: bool

record photo_row =
  photo_pk :: string
  photo_job_id :: string
  photo_type :: string
  photo_file_name :: string
  photo_content_type :: string
  photo_object_key :: string
  photo_upload_mode :: string
  photo_thumbnail_key :: "string option"
  photo_status :: string
  photo_created_at :: int
  photo_uploaded_at :: "int option"
  photo_file_size :: "int option"
  photo_width :: "int option"
  photo_height :: "int option"
  photo_metadata_source :: "string option"
  photo_metadata_captured_at :: "int option"
  photo_rejected_reason :: "string option"
  photo_rejected_at :: "int option"
  photo_erased_at :: "int option"
  photo_erased_by :: "string option"
  photo_erasure_reason :: "string option"
  photo_erased_object_key :: "string option"
  photo_erased_thumbnail_key :: "string option"

record photo_task_row =
  task_pk :: string
  task_photo_id :: string
  task_job_id :: string
  task_organization_id :: string
  task_type :: string
  task_status :: string
  task_attempt_count :: int
  task_available_at :: int
  task_last_attempt_at :: "int option"
  task_completed_at :: "int option"
  task_last_error :: "string option"
  task_failure_reason :: "string option"
  task_resolved_at :: "int option"
  task_resolution_note :: "string option"
  task_created_at :: int
  task_updated_at :: int

record deletion_row =
  deletion_pk :: string
  deletion_account_id :: string
  deletion_organization_id :: string
  deletion_object_key :: string
  deletion_status :: string
  deletion_attempt_count :: int
  deletion_available_at :: int
  deletion_last_attempt_at :: "int option"
  deletion_completed_at :: "int option"
  deletion_resolved_at :: "int option"
  deletion_last_error :: "string option"
  deletion_resolution_note :: "string option"
  deletion_created_at :: int
  deletion_updated_at :: int

record report_row =
  report_row_id :: string
  report_row_job_id :: string
  report_row_status :: string
  report_row_ready :: bool
  report_row_progress :: int
  report_row_before :: int
  report_row_after :: int
  report_row_issue :: int
  report_row_share_token :: "string option"
  report_row_submitted_at :: "int option"
  report_row_reviewed_by :: "string option"
  report_row_reviewed_at :: "int option"
  report_row_delivered_by :: "string option"
  report_row_delivered_at :: "int option"
  report_row_sent_at :: "int option"
  report_row_snapshot :: "json option"
  report_row_snapshot_at :: "int option"
  report_row_generated_at :: int

record history_row =
  history_pk :: string
  history_report_id :: string
  history_from_status :: "string option"
  history_to_status :: string
  history_changed_by :: string
  history_reason :: "string option"
  history_changed_at :: int

record exception_row =
  exc_id :: string
  exc_organization_id :: string
  exc_category :: string
  exc_priority :: string
  exc_status :: string
  exc_title :: string
  exc_description :: "string option"
  exc_resource_type :: "string option"
  exc_resource_id :: "string option"
  exc_assigned_user_id :: "string option"
  exc_reported_by :: string
  exc_resolved_by :: "string option"
  exc_resolution_note :: "string option"
  exc_resolved_at :: "int option"
  exc_created_at :: int
  exc_updated_at :: int

record audit_row =
  audit_pk :: string
  audit_actor :: string
  audit_organization_id :: string
  audit_kind :: string
  audit_target :: string
  audit_at :: int
  audit_metadata :: "(string \<times> string) list"

text \<open>
  Of bids and their conversions the routes read the source amendment, the status and the job; of the
  visit recommendations a route removal sees the stops they reference.
\<close>

record bid_row =
  bid_pk :: string
  bid_source_amendment_id :: string
  bid_status :: string

record conversion_row =
  conversion_bid_id :: string
  conversion_job_id :: string

section \<open>The database\<close>

record db =
  organizations :: "organization_row list"
  memberships :: "membership_row list"
  branches :: "branch_row list"
  territories :: "territory_row list"
  crews :: "crew_row list"
  day_plans :: "day_plan_row list"
  day_plan_stops :: "stop_row list"
  amendments :: "amendment_row list"
  service_jobs :: "job_row list"
  customer_accounts :: "account_row list"
  checklist_items :: "item_row list"
  add_ons :: "add_on_row list"
  stop_mutations :: "stop_mutation_row list"
  job_mutations :: "job_mutation_row list"
  item_mutations :: "item_mutation_row list"
  job_photos :: "photo_row list"
  photo_tasks :: "photo_task_row list"
  deletion_jobs :: "deletion_row list"
  reports :: "report_row list"
  report_history :: "history_row list"
  exceptions :: "exception_row list"
  audit_events :: "audit_row list"
  bids :: "bid_row list"
  conversions :: "conversion_row list"
  recommended_stop_ids :: "string list"

definition empty_db :: db where
  "empty_db = \<lparr> organizations = [], memberships = [], branches = [], territories = [], crews = [],
     day_plans = [], day_plan_stops = [], amendments = [], service_jobs = [], customer_accounts = [],
     checklist_items = [],
     add_ons = [], stop_mutations = [], job_mutations = [], item_mutations = [], job_photos = [],
     photo_tasks = [], deletion_jobs = [], reports = [], report_history = [], exceptions = [], audit_events = [],
     bids = [], conversions = [], recommended_stop_ids = [] \<rparr>"

text \<open>
  What a request takes from its surroundings, none of it code of the repository: the clock, the
  calendar of PostgreSQL (\<open>text::date\<close> and back), the UUIDs drawn (\<open>fresh_uuid k\<close> is the \<open>k\<close>-th one
  of the request), the parser of UUIDs, the nanosecond clock used as a nonce, and the order in which
  the executor visits the stops of a multi-row \<open>UPDATE\<close>.
\<close>

record env =
  now_at :: int
  now_nanos :: nat
  current_date :: int
  parse_date :: "string \<Rightarrow> int option"
  date_text :: "int \<Rightarrow> string"
  fresh_uuid :: "nat \<Rightarrow> string"
  parse_uuid :: "string \<Rightarrow> nat option"
  uuid_simple :: "nat \<Rightarrow> string"
  scan_stops :: "stop_row list \<Rightarrow> stop_row list"

section \<open>Statements that constraints can refuse\<close>

text \<open>
  An \<open>INSERT\<close>: the row has to satisfy the \<open>CHECK\<close>s and foreign keys of its table (\<open>ok\<close>) and no
  primary key or unique index may hold it already (\<open>clash\<close>).
\<close>

definition insert_row :: "('r \<Rightarrow> bool) \<Rightarrow> ('r \<Rightarrow> 'r \<Rightarrow> bool) \<Rightarrow> 'r \<Rightarrow> 'r list \<Rightarrow> sqlx_error + 'r list" where
  "insert_row ok clash r rows =
     (if ok r \<and> \<not> exists_row (clash r) rows then Inr (rows @ [r]) else Inl ConstraintViolation)"

text \<open>
  A multi-row \<open>UPDATE\<close> visits its rows one after the other; the unique indexes are not deferrable, so
  each new version is checked against the versions that are current when it is written.
\<close>

fun update_each :: "('r \<Rightarrow> 'k) \<Rightarrow> ('r \<Rightarrow> 'r \<Rightarrow> bool) \<Rightarrow> ('r \<Rightarrow> 'r) \<Rightarrow> 'r list \<Rightarrow> 'r list \<Rightarrow>
    sqlx_error + 'r list" where
  "update_each key clash f [] rows = Inr rows"
| "update_each key clash f (t # ts) rows =
     (if exists_row (\<lambda>r. key r \<noteq> key t \<and> clash (f t) r) rows then Inl ConstraintViolation
      else update_each key clash f ts (update_where (\<lambda>r. key r = key t) (\<lambda>_. f t) rows))"

lemma insert_row_Inr:
  "insert_row ok clash r rows = Inr rows' \<longleftrightarrow>
     ok r \<and> (\<forall>x \<in> set rows. \<not> clash r x) \<and> rows' = rows @ [r]"
  by (auto simp: insert_row_def)

lemma insert_row_Inl:
  "insert_row ok clash r rows = Inl e \<longleftrightarrow>
     e = ConstraintViolation \<and> (ok r \<longrightarrow> (\<exists>x \<in> set rows. clash r x))"
  by (auto simp: insert_row_def)

text \<open>What such an \<open>UPDATE\<close> makes of the table when it is not refused.\<close>

lemma update_each_result:
  assumes "update_each key clash f ts rows = Inr rows'"
    and "distinct (map key ts)" and "distinct (map key rows)" and "set ts \<subseteq> set rows"
    and key: "\<And>r. key (f r) = key r"
  shows "rows' = update_where (\<lambda>r. key r \<in> key ` set ts) f rows"
  using assms(1-4)
proof (induction ts arbitrary: rows)
  case Nil
  then show ?case by (simp add: update_where_none)
next
  case (Cons t ts)
  let ?one = "update_where (\<lambda>r. key r = key t) (\<lambda>_. f t) rows"
  have step: "update_each key clash f ts ?one = Inr rows'"
    using Cons.prems(1) by (simp split: if_splits)
  have keys: "map key ?one = map key rows"
    by (rule map_update_where) (simp add: key)
  have sub: "set ts \<subseteq> set ?one"
  proof
    fix r
    assume r: "r \<in> set ts"
    with Cons.prems(2) have "key r \<noteq> key t" by (force simp: image_iff)
    with r Cons.prems(4) show "r \<in> set ?one"
      by (auto simp: set_update_where intro!: image_eqI [where x = r])
  qed
  have "rows' = update_where (\<lambda>r. key r \<in> key ` set ts) f ?one"
    using Cons.IH [OF step _ _ sub] Cons.prems(2,3) keys by simp
  moreover have "r = t" if "r \<in> set rows" "key r = key t" for r
    using that Cons.prems(3,4) by (auto simp: distinct_map dest: inj_onD)
  moreover have "key t \<notin> key ` set ts"
    using Cons.prems(2) by auto
  ultimately show ?case
    by (auto simp: update_where_def key)
qed

lemma update_each_keys:
  assumes "update_each key clash f ts rows = Inr rows'" and "\<And>r. key (f r) = key r"
  shows "map key rows' = map key rows"
  using assms(1)
proof (induction ts arbitrary: rows)
  case (Cons t ts)
  let ?one = "update_where (\<lambda>r. key r = key t) (\<lambda>_. f t) rows"
  have "map key rows' = map key ?one"
    using Cons.IH Cons.prems by (simp split: if_splits)
  also have "\<dots> = map key rows"
    by (rule map_update_where) (simp add: assms(2))
  finally show ?case .
qed simp

text \<open>Rows that do not clash still do not clash after such an \<open>UPDATE\<close>.\<close>

lemma update_each_clash_free:
  assumes "update_each key clash f ts rows = Inr rows'"
    and "\<And>r. key (f r) = key r" and "\<And>r s. clash r s \<Longrightarrow> clash s r"
    and "\<forall>r \<in> set rows. \<forall>s \<in> set rows. key r \<noteq> key s \<longrightarrow> \<not> clash r s"
  shows "\<forall>r \<in> set rows'. \<forall>s \<in> set rows'. key r \<noteq> key s \<longrightarrow> \<not> clash r s"
  using assms(1,4)
proof (induction ts arbitrary: rows)
  case (Cons t ts)
  let ?one = "update_where (\<lambda>r. key r = key t) (\<lambda>_. f t) rows"
  have free: "\<not> clash (f t) r" if "r \<in> set rows" "key r \<noteq> key t" for r
    using Cons.prems(1) that by (auto split: if_splits)
  moreover have "\<not> clash r (f t)" if "r \<in> set rows" "key r \<noteq> key t" for r
    using free [OF that] assms(3) by blast
  ultimately have "\<not> clash r s"
    if "r \<in> set ?one" "s \<in> set ?one" "key r \<noteq> key s" for r s
    using that Cons.prems(2) by (auto simp: set_update_where assms(2) split: if_splits)
  then have "\<forall>r \<in> set ?one. \<forall>s \<in> set ?one. key r \<noteq> key s \<longrightarrow> \<not> clash r s" by blast
  moreover have "update_each key clash f ts ?one = Inr rows'"
    using Cons.prems(1) by (simp split: if_splits)
  ultimately show ?case by (rule Cons.IH [rotated])
qed simp

text \<open>When it is not refused, whatever the order of the visits.\<close>

lemma update_each_accepted:
  assumes "\<And>t r. t \<in> set ts \<Longrightarrow> r \<in> set rows \<Longrightarrow> key r \<noteq> key t \<Longrightarrow> \<not> clash (f t) r"
    and "\<And>t r. t \<in> set ts \<Longrightarrow> r \<in> set ts \<Longrightarrow> key r \<noteq> key t \<Longrightarrow> \<not> clash (f t) (f r)"
    and key: "\<And>r. key (f r) = key r"
  shows "\<exists>rows'. update_each key clash f ts rows = Inr rows'"
  using assms(1,2)
proof (induction ts arbitrary: rows)
  case (Cons t ts)
  let ?one = "update_where (\<lambda>r. key r = key t) (\<lambda>_. f t) rows"
  have "\<exists>rows'. update_each key clash f ts ?one = Inr rows'"
  proof (rule Cons.IH)
    fix u r
    assume u: "u \<in> set ts" and r: "r \<in> set ?one" "key r \<noteq> key u"
    from r(1) consider "r \<in> set rows" "key r \<noteq> key t" | "r = f t"
      by (auto simp: set_update_where split: if_splits)
    then show "\<not> clash (f u) r"
      by cases (use u r(2) Cons.prems key in auto)
  qed (use Cons.prems in auto)
  then show ?case using Cons.prems(1) by (auto simp: set_update_where)
qed simp

lemma update_each_Inl: "update_each key clash f ts rows = Inl e \<Longrightarrow> e = ConstraintViolation"
  by (induction ts arbitrary: rows) (auto split: if_splits)

text \<open>Sorting by an integer key, then by a string, as \<open>ORDER BY\<close> does.\<close>

fun string_less :: "string \<Rightarrow> string \<Rightarrow> bool" where
  "string_less _ [] = False"
| "string_less [] (d # s) = True"
| "string_less (c # p) (d # s) =
     (of_char c < (of_char d :: nat) \<or> (c = d \<and> string_less p s))"

fun insert_by :: "('r \<Rightarrow> 'r \<Rightarrow> bool) \<Rightarrow> 'r \<Rightarrow> 'r list \<Rightarrow> 'r list" where
  "insert_by precedes r [] = [r]"
| "insert_by precedes r (x # xs) = (if precedes r x then r # x # xs else x # insert_by precedes r xs)"

definition order_by :: "('r \<Rightarrow> 'r \<Rightarrow> bool) \<Rightarrow> 'r list \<Rightarrow> 'r list" where
  "order_by precedes rows = foldr (insert_by precedes) rows []"

lemma set_insert_by [simp]: "set (insert_by b r xs) = insert r (set xs)"
  by (induction xs) auto

lemma length_insert_by [simp]: "length (insert_by b r xs) = Suc (length xs)"
  by (induction xs) auto

lemma set_order_by [simp]: "set (order_by b rows) = set rows"
  by (induction rows) (auto simp: order_by_def)

lemma length_order_by [simp]: "length (order_by b rows) = length rows"
  by (induction rows) (auto simp: order_by_def)

lemma distinct_insert_by: "distinct (map k (insert_by b r xs)) = distinct (map k (r # xs))"
  by (induction xs) auto

lemma distinct_order_by [simp]: "distinct (map k (order_by b rows)) = distinct (map k rows)"
proof (induction rows)
  case Nil
  then show ?case by (simp add: order_by_def)
next
  case (Cons r rows)
  have "order_by b (r # rows) = insert_by b r (order_by b rows)"
    by (simp add: order_by_def)
  with Cons show ?case by (auto simp: distinct_insert_by)
qed

lemma order_by_eq_Nil [simp]: "order_by b rows = [] \<longleftrightarrow> rows = []"
  by (metis length_0_conv length_order_by)

lemma string_less_irrefl [simp]: "\<not> string_less s s"
  by (induction s) auto

lemma sorted_insert_by:
  assumes "\<And>x. before r x \<Longrightarrow> key r \<le> (key x :: 'k :: linorder)"
    and "\<And>x. \<not> before r x \<Longrightarrow> key x \<le> key r" and "sorted (map key xs)"
  shows "sorted (map key (insert_by before r xs))"
  using assms(3)
proof (induction xs)
  case (Cons x xs)
  show ?case
  proof (cases "before r x")
    case True
    with Cons.prems assms(1) [OF True] show ?thesis by (auto intro: order_trans)
  next
    case False
    with Cons assms(2) [OF False] show ?thesis by auto
  qed
qed simp

lemma sorted_order_by:
  assumes "\<And>r x. before r x \<Longrightarrow> key r \<le> (key x :: 'k :: linorder)"
    and "\<And>r x. \<not> before r x \<Longrightarrow> key x \<le> key r"
  shows "sorted (map key (order_by before rows))"
proof (induction rows)
  case (Cons r rows)
  have "order_by before (r # rows) = insert_by before r (order_by before rows)"
    by (simp add: order_by_def)
  with Cons show ?case using assms by (simp add: sorted_insert_by)
qed (simp add: order_by_def)

text \<open>A list that is sorted by distinct keys is determined by its elements.\<close>

lemma sorted_by_key_unique:
  assumes "sorted (map key xs)" and "sorted (map (key :: 'r \<Rightarrow> 'k :: linorder) ys)"
    and "distinct (map key xs)" and "distinct (map key ys)" and "set xs = set ys"
  shows "xs = ys"
proof -
  have "inj_on key (set xs \<union> set ys)"
    using assms(3,5) by (simp add: distinct_map)
  then show ?thesis using assms by (intro map_sorted_distinct_set_unique [of key])
qed

end
