(* ===== verification/Day_Plan_Requests.thy ===== *)
theory Day_Plan_Requests
  imports Schema
begin

text \<open>
  The requests and responses of the route planner and its pure functions
  (\<open>backend/src/day_plans.rs\<close>, \<open>stop_progress.rs\<close>, \<open>day_plan_status.rs\<close>): normalisation and validation
  of requests, the identifiers of plans and stops and how they are read back, the responses of a
  repository without a database.
\<close>

section \<open>Results, requests, responses\<close>

datatype 'a persisted_mutation = Applied 'a | NotFound | Conflict | Unavailable

datatype 'a persisted_read = Loaded 'a | ReadUnavailable

record create_day_plan_request =
  req_crew_id :: string
  req_service_date :: string

record assign_stop_request =
  req_job_id :: string
  req_drive_minutes :: "u32 option"
  req_service_minutes :: "u32 option"

record amendment_service =
  svc_id :: string
  svc_name :: string
  svc_description :: "string option"
  svc_duration_minutes :: "u32 option"
  svc_price_cents :: "u32 option"
  svc_requires_approval :: bool

record create_amendment_request =
  req_amendment_type :: string
  req_requested_by_crew_id :: string
  req_stop_id :: "string option"
  req_service :: "amendment_service option"
  req_note :: "string option"
  req_client_mutation_id :: "string option"

record review_amendment_request =
  req_decision :: string
  req_manager_note :: "string option"

record amendment_response =
  ar_id :: string
  ar_day_plan_id :: string
  ar_type :: string
  ar_status :: string
  ar_crew_id :: string
  ar_stop_id :: "string option"
  ar_service :: "amendment_service option"
  ar_note :: "string option"
  ar_requires_bid :: bool
  ar_manager_note :: "string option"
  ar_persisted :: bool

record amendment_review_response =
  rr_id :: string
  rr_day_plan_id :: string
  rr_status :: string
  rr_manager_note :: "string option"
  rr_persisted :: bool

record day_plan_response =
  dp_id :: string
  dp_crew_id :: string
  dp_service_date :: string
  dp_status :: string
  dp_route_status :: string
  dp_time_zone :: string
  dp_service_area :: "string option"
  dp_stop_capacity :: u32
  dp_persisted :: bool

record stop_response =
  sr_day_plan_id :: string
  sr_stop_id :: string
  sr_job_id :: string
  sr_stop_order :: u32
  sr_persisted :: bool

record removal_response =
  rm_day_plan_id :: string
  rm_stop_id :: string
  rm_persisted :: bool

record reorder_response =
  ro_day_plan_id :: string
  ro_stop_ids :: "string list"
  ro_persisted :: bool

record day_plan_stop =
  ds_id :: string
  ds_job_id :: string
  ds_customer_name :: string
  ds_property_address :: string
  ds_stop_order :: u32
  ds_job_status :: string
  ds_stop_status :: string
  ds_drive_minutes :: u32
  ds_service_minutes :: u32

record day_plan_summary =
  sum_id :: string
  sum_crew_id :: string
  sum_crew_name :: string
  sum_organization_id :: string
  sum_service_date :: string
  sum_status :: string
  sum_route_status :: string
  sum_stops :: "day_plan_stop list"

datatype today_result = Found day_plan_summary | TodayNotFound | TodayUnavailable

record stop_progress_response =
  sp_day_plan_id :: string
  sp_stop_id :: string
  sp_status :: string
  sp_persisted :: bool
  sp_replay :: bool

section \<open>Statuses\<close>

definition valid_day_plan_statuses :: "string list" where
  "valid_day_plan_statuses = [''draft'', ''published'', ''archived'']"

definition valid_route_statuses :: "string list" where
  "valid_route_statuses = [''manual'', ''optimized'']"

definition is_valid_day_plan_status :: "string \<Rightarrow> bool" where
  "is_valid_day_plan_status status \<longleftrightarrow> status \<in> set valid_day_plan_statuses"

definition is_valid_route_status :: "string \<Rightarrow> bool" where
  "is_valid_route_status status \<longleftrightarrow> status \<in> set valid_route_statuses"

definition valid_stop_progress_statuses :: "string list" where
  "valid_stop_progress_statuses = [''pending'', ''in_progress'', ''finished'']"

definition is_valid_stop_progress_status :: "string \<Rightarrow> bool" where
  "is_valid_stop_progress_status status \<longleftrightarrow> status \<in> set valid_stop_progress_statuses"

definition stop_progress_response :: "string \<Rightarrow> string \<Rightarrow> string \<Rightarrow> bool \<Rightarrow> stop_progress_response" where
  "stop_progress_response day_plan_id stop_id status persisted =
     \<lparr> sp_day_plan_id = day_plan_id, sp_stop_id = stop_id, sp_status = status,
       sp_persisted = persisted, sp_replay = False \<rparr>"

definition local_stop_progress_response :: "string \<Rightarrow> string \<Rightarrow> string \<Rightarrow> stop_progress_response" where
  "local_stop_progress_response day_plan_id stop_id status =
     stop_progress_response day_plan_id stop_id status False"

definition persisted_stop_progress_response :: "string \<Rightarrow> string \<Rightarrow> string \<Rightarrow> stop_progress_response" where
  "persisted_stop_progress_response day_plan_id stop_id status =
     stop_progress_response day_plan_id stop_id status True"

definition replayed_stop_progress_response :: "string \<Rightarrow> string \<Rightarrow> string \<Rightarrow> stop_progress_response" where
  "replayed_stop_progress_response day_plan_id stop_id status =
     (stop_progress_response day_plan_id stop_id status True)\<lparr> sp_replay := True \<rparr>"

section \<open>Validation\<close>

definition normalize_create_day_plan_request :: "create_day_plan_request \<Rightarrow> create_day_plan_request" where
  "normalize_create_day_plan_request r =
     \<lparr> req_crew_id = trim (req_crew_id r), req_service_date = trim (req_service_date r) \<rparr>"

definition validate_create_crew_name :: "string \<Rightarrow> string + unit" where
  "validate_create_crew_name name =
     (let len = length (trim name) in
      if len < 2 then Inl ''crew name must contain at least two characters''
      else if len > 120 then Inl ''crew name cannot exceed 120 characters''
      else Inr ())"

definition is_leap_year :: "u32 \<Rightarrow> bool" where
  "is_leap_year year \<longleftrightarrow> (year mod 4 = 0 \<and> year mod 100 \<noteq> 0) \<or> year mod 400 = 0"

definition max_day_of_month :: "u32 \<Rightarrow> u32 \<Rightarrow> u32 option" where
  "max_day_of_month year month =
     (if month = 1 \<or> month = 3 \<or> month = 5 \<or> month = 7 \<or> month = 8 \<or> month = 10 \<or> month = 12
      then Some 31
      else if month = 4 \<or> month = 6 \<or> month = 9 \<or> month = 11 then Some 30
      else if month = 2 then Some (if is_leap_year year then 29 else 28)
      else None)"

definition is_valid_service_date :: "string \<Rightarrow> bool" where
  "is_valid_service_date service_date =
     (case split_on CHR ''-'' service_date of
        [year, month, day] \<Rightarrow>
          if byte_len year \<noteq> 4 \<or> byte_len month \<noteq> 2 \<or> byte_len day \<noteq> 2 then False
          else if \<not> list_all is_ascii_digit year \<or> \<not> list_all is_ascii_digit month
              \<or> \<not> list_all is_ascii_digit day then False
          else (case (parse_u32 year, parse_u32 month, parse_u32 day) of
              (Some y, Some m, Some d) \<Rightarrow>
                if y = 0 then False
                else (case max_day_of_month y m of
                    None \<Rightarrow> False
                  | Some max_day \<Rightarrow> 1 \<le> d \<and> d \<le> max_day)
            | _ \<Rightarrow> False)
      | _ \<Rightarrow> False)"

definition validate_create_day_plan_request :: "create_day_plan_request \<Rightarrow> string + unit" where
  "validate_create_day_plan_request r =
     (if is_blank (req_crew_id r) then Inl ''crew_id is required''
      else if is_blank (req_service_date r) then Inl ''service_date is required''
      else if \<not> is_valid_service_date (req_service_date r)
        then Inl ''service_date must use YYYY-MM-DD''
      else Inr ())"

definition amendment_review_status :: "string \<Rightarrow> string option" where
  "amendment_review_status decision =
     (if decision = ''approve'' then Some ''approved''
      else if decision = ''reject'' then Some ''rejected''
      else if decision = ''send_to_bid_review'' then Some ''bid_review''
      else None)"

definition is_some_blank :: "string option \<Rightarrow> bool" where
  "is_some_blank s = (case s of None \<Rightarrow> False | Some t \<Rightarrow> is_blank t)"

definition validate_amendment_review :: "review_amendment_request \<Rightarrow> string + unit" where
  "validate_amendment_review r =
     (if amendment_review_status (req_decision r) = None
        then Inl (''unsupported amendment decision: '' @ req_decision r)
      else if is_some_blank (req_manager_note r) then Inl ''manager_note cannot be blank''
      else Inr ())"

definition validate_amendment_request :: "env \<Rightarrow> create_amendment_request \<Rightarrow> string + unit" where
  "validate_amendment_request env r =
     (if (case req_client_mutation_id r of None \<Rightarrow> False | Some i \<Rightarrow> parse_uuid env i = None)
        then Inl ''client_mutation_id must be a UUID when provided''
      else if is_blank (req_requested_by_crew_id r) then Inl ''requested_by_crew_id is required''
      else if is_some_blank (req_note r) then Inl ''note cannot be blank''
      else if req_amendment_type r = ''add_stop'' \<and> req_stop_id r = None \<and> req_service r = None
        then Inr ()
      else if req_amendment_type r = ''remove_stop'' \<and> req_stop_id r \<noteq> None \<and> req_service r = None
        then Inr ()
      else if req_amendment_type r = ''add_service'' \<and> req_stop_id r \<noteq> None \<and> req_service r \<noteq> None
        then (case req_service r of
            None \<Rightarrow> Inr ()
          | Some service \<Rightarrow>
              if is_blank (svc_id service) \<or> is_blank (svc_name service)
              then Inl ''service id and name are required'' else Inr ())
      else if req_amendment_type r \<in> {''add_stop'', ''remove_stop'', ''add_service''}
        then Inl (''amendment fields do not match amendment_type '' @ req_amendment_type r)
      else Inl (''unsupported amendment_type: '' @ req_amendment_type r))"

section \<open>Identifiers and local responses\<close>

definition draft_day_plan_id :: "string \<Rightarrow> string \<Rightarrow> string" where
  "draft_day_plan_id crew_id service_date =
     ''day_plan_'' @ replace_char CHR ''-'' CHR ''_'' service_date @ ''_'' @ crew_id"

definition draft_stop_id :: "string \<Rightarrow> string \<Rightarrow> string" where
  "draft_stop_id day_plan_id job_id = ''stop_'' @ day_plan_id @ ''_'' @ job_id"

definition day_plan_parts_from_id :: "string \<Rightarrow> (string \<times> string) option" where
  "day_plan_parts_from_id i =
     (case strip_prefix ''day_plan_'' i of
        None \<Rightarrow> None
      | Some rest \<Rightarrow>
          (case split_on CHR ''_'' rest of
             y # m # d # c # cs \<Rightarrow> Some (y @ ''-'' @ m @ ''-'' @ d, join_with CHR ''_'' (c # cs))
           | _ \<Rightarrow> None))"

definition draft_day_plan_response :: "create_day_plan_request \<Rightarrow> bool \<Rightarrow> day_plan_response" where
  "draft_day_plan_response r persisted =
     \<lparr> dp_id = draft_day_plan_id (req_crew_id r) (req_service_date r), dp_crew_id = req_crew_id r,
       dp_service_date = req_service_date r, dp_status = ''draft'', dp_route_status = ''manual'',
       dp_time_zone = ''America/Phoenix'', dp_service_area = Some ''Phoenix metro'',
       dp_stop_capacity = 12, dp_persisted = persisted \<rparr>"

definition local_published_day_plan_response :: "string \<Rightarrow> day_plan_response" where
  "local_published_day_plan_response i =
     (let (service_date, crew_id) = (case day_plan_parts_from_id i of None \<Rightarrow> ([], []) | Some p \<Rightarrow> p)
      in \<lparr> dp_id = i, dp_crew_id = crew_id, dp_service_date = service_date,
           dp_status = ''published'', dp_route_status = ''manual'',
           dp_time_zone = ''America/Phoenix'', dp_service_area = Some ''Phoenix metro'',
           dp_stop_capacity = 12, dp_persisted = False \<rparr>)"

definition local_amendment_response :: "env \<Rightarrow> string \<Rightarrow> create_amendment_request \<Rightarrow> amendment_response" where
  "local_amendment_response env day_plan_id r =
     (let mutation_uuid = (case req_client_mutation_id r of None \<Rightarrow> None | Some i \<Rightarrow> parse_uuid env i);
          nonce = (case mutation_uuid of Some u \<Rightarrow> u | None \<Rightarrow> now_nanos env);
          requires_bid = (req_amendment_type r = ''add_service'' \<and>
            (case req_service r of None \<Rightarrow> False | Some s \<Rightarrow> svc_requires_approval s))
      in \<lparr> ar_id = (case mutation_uuid of
               Some u \<Rightarrow> ''amendment_offline_'' @ uuid_simple env u
             | None \<Rightarrow> ''amendment_'' @ map (\<lambda>c. if is_ascii_alphanumeric c then c else CHR ''_'') day_plan_id
                 @ ''_'' @ req_amendment_type r @ ''_'' @ nat_text nonce),
           ar_day_plan_id = day_plan_id, ar_type = req_amendment_type r, ar_status = ''submitted'',
           ar_crew_id = req_requested_by_crew_id r, ar_stop_id = req_stop_id r,
           ar_service = req_service r, ar_note = req_note r, ar_requires_bid = requires_bid,
           ar_manager_note = None, ar_persisted = False \<rparr>)"

definition seed_organization_id_for_crew :: "string \<Rightarrow> string option" where
  "seed_organization_id_for_crew crew =
     (if crew = ''crew_1001'' then Some ''org_demo_landscaping'' else None)"

definition seed_day_plan :: "string \<Rightarrow> day_plan_summary" where
  "seed_day_plan crew =
     \<lparr> sum_id = ''day_plan_2026_06_15_crew_1001'', sum_crew_id = crew,
       sum_crew_name = ''North Route Crew'', sum_organization_id = ''org_demo_landscaping'',
       sum_service_date = ''2026-06-15'', sum_status = ''published'', sum_route_status = ''manual'',
       sum_stops =
         [\<lparr> ds_id = ''stop_1001'', ds_job_id = ''job_1001'', ds_customer_name = ''Sample Customer'',
            ds_property_address = ''123 Oak Street'', ds_stop_order = 1, ds_job_status = ''scheduled'',
            ds_stop_status = ''pending'', ds_drive_minutes = 12, ds_service_minutes = 45 \<rparr>,
          \<lparr> ds_id = ''stop_1002'', ds_job_id = ''job_1002'', ds_customer_name = ''Demo Property Owner'',
            ds_property_address = ''456 Maple Avenue'', ds_stop_order = 2, ds_job_status = ''in_progress'',
            ds_stop_status = ''pending'', ds_drive_minutes = 8, ds_service_minutes = 60 \<rparr>] \<rparr>"

section \<open>Service dates\<close>

text \<open>The calendar the validation stands for: years 1 to 9999, printed with fixed width.\<close>

definition leap_year :: "nat \<Rightarrow> bool" where
  "leap_year y \<longleftrightarrow> 4 dvd y \<and> (\<not> 100 dvd y \<or> 400 dvd y)"

definition days_in_month :: "nat \<Rightarrow> nat \<Rightarrow> nat" where
  "days_in_month y m =
     (if m = 2 then (if leap_year y then 29 else 28)
      else if m \<in> {4, 6, 9, 11} then 30 else 31)"

fun pad :: "nat \<Rightarrow> nat \<Rightarrow> string" where
  "pad 0 n = []"
| "pad (Suc k) n = pad k (n div 10) @ [digit_char (n mod 10)]"

lemma length_pad [simp]: "length (pad k n) = k"
  by (induction k arbitrary: n) auto

lemma pad_digits [simp]: "list_all is_ascii_digit (pad k n)"
  by (induction k arbitrary: n) auto

lemma digits_value_pad: "n < 10 ^ k \<Longrightarrow> digits_value (pad k n) = n"
  by (induction k arbitrary: n) auto

lemma pad_digits_value: "list_all is_ascii_digit s \<Longrightarrow> pad (length s) (digits_value s) = s"
proof (induction s rule: rev_induct)
  case (snoc c s)
  moreover have "digit_value c < 10" using snoc.prems digit_value_less by simp
  ultimately show ?case by simp
qed simp

lemma digits_no_sep:
  "list_all is_ascii_digit s \<Longrightarrow> CHR ''-'' \<notin> set s \<and> CHR ''_'' \<notin> set s"
  by (auto simp: list_all_iff is_ascii_digit_def)

lemma byte_len_digits: "list_all is_ascii_digit s \<Longrightarrow> byte_len s = length s"
  by (rule byte_len_ascii) (auto simp: list_all_iff intro: is_ascii_digit_less)

lemma parse_u32_digits:
  assumes "list_all is_ascii_digit s" and "s \<noteq> []" and "length s \<le> 4"
  shows "parse_u32 s = Some (word_of_nat (digits_value s))"
proof -
  have "digits_value s < 10 ^ length s" by (rule digits_value_bound) (rule assms)
  also have "\<dots> \<le> 10 ^ 4" using assms(3) by (rule power_increasing) simp
  finally have bound: "digits_value s < 2 ^ 32" by simp
  have "hd s \<noteq> CHR ''+''" using assms(1,2) by (cases s) (auto simp: is_ascii_digit_def)
  then have "(case s of [] \<Rightarrow> [] | c # t \<Rightarrow> if c = CHR ''+'' then t else s) = s"
    by (cases s) auto
  with assms bound show ?thesis by (simp add: parse_u32_def)
qed

lemma unat_word_nat: "m < 2 ^ 32 \<Longrightarrow> unat (word_of_nat m :: u32) = m"
  by (subst unat_of_nat) (simp add: take_bit_nat_eq_self)

lemma word_nat_eq_numeral:
  assumes "m < 2 ^ 32" and "n < 2 ^ 32"
  shows "(word_of_nat m :: u32) = word_of_nat n \<longleftrightarrow> m = n"
  using unat_word_nat [OF assms(1)] unat_word_nat [OF assms(2)] by metis

lemma is_leap_year_nat:
  assumes "y < 2 ^ 32"
  shows "is_leap_year (word_of_nat y) = leap_year y"
proof -
  have mod: "(word_of_nat y :: u32) mod numeral k = 0 \<longleftrightarrow> y mod numeral k = 0"
    if "numeral k < (2 ^ 32 :: nat)" for k
  proof -
    have n: "unat (numeral k :: u32) = numeral k"
      using unat_word_nat [OF that] by simp
    have "unat ((word_of_nat y :: u32) mod numeral k) = y mod numeral k"
      unfolding unat_mod_distrib unat_word_nat [OF assms] n ..
    then show ?thesis by (metis unat_0 unat_eq_zero)
  qed
  have "(word_of_nat y :: u32) mod 4 = 0 \<longleftrightarrow> y mod 4 = 0"
    and "(word_of_nat y :: u32) mod 100 = 0 \<longleftrightarrow> y mod 100 = 0"
    and "(word_of_nat y :: u32) mod 400 = 0 \<longleftrightarrow> y mod 400 = 0"
    by (rule mod, simp)+
  moreover have "y mod 100 = 0" if "y mod 400 = 0"
    using that by presburger
  moreover have "y mod 4 = 0" if "y mod 400 = 0"
    using that by presburger
  ultimately show ?thesis
    unfolding is_leap_year_def leap_year_def dvd_eq_mod_eq_0 by metis
qed

lemma max_day_nat:
  assumes "y < 2 ^ 32" and "m < 100"
  shows "max_day_of_month (word_of_nat y) (word_of_nat m) =
    (if 1 \<le> m \<and> m \<le> 12 then Some (word_of_nat (days_in_month y m)) else None)"
proof -
  have m: "m < 2 ^ 32" using assms(2) by simp
  have eqs: "(word_of_nat m :: u32) = numeral k \<longleftrightarrow> m = numeral k" if "numeral k < (2 ^ 32 :: nat)" for k
    using word_nat_eq_numeral [OF m that] by simp
  have one: "(word_of_nat m :: u32) = 1 \<longleftrightarrow> m = 1"
    using word_nat_eq_numeral [OF m, of 1] by simp
  have range: "1 \<le> m \<and> m \<le> 12 \<longleftrightarrow> m = 1 \<or> m = 2 \<or> m = 3 \<or> m = 4 \<or> m = 5 \<or> m = 6 \<or> m = 7
      \<or> m = 8 \<or> m = 9 \<or> m = 10 \<or> m = 11 \<or> m = 12"
    by arith
  show ?thesis
    unfolding range using assms
    by (auto simp: max_day_of_month_def days_in_month_def is_leap_year_nat eqs one)
qed

lemma day_between_nat:
  assumes "d < 100" and "n < 100"
  shows "(1 :: u32) \<le> word_of_nat d \<and> (word_of_nat d :: u32) \<le> word_of_nat n \<longleftrightarrow> 1 \<le> d \<and> d \<le> n"
  using assms by (simp add: word_le_nat_alt unat_word_nat)

lemma days_in_month_le: "days_in_month y m \<le> 31"
  by (simp add: days_in_month_def)

definition calendar_date :: "nat \<Rightarrow> nat \<Rightarrow> nat \<Rightarrow> bool" where
  "calendar_date y m d \<longleftrightarrow> 1 \<le> y \<and> y \<le> 9999 \<and> 1 \<le> m \<and> m \<le> 12 \<and> 1 \<le> d \<and> d \<le> days_in_month y m"

definition print_date :: "nat \<Rightarrow> nat \<Rightarrow> nat \<Rightarrow> string" where
  "print_date y m d = pad 4 y @ CHR ''-'' # pad 2 m @ CHR ''-'' # pad 2 d"

text \<open>The validation on the three parts, in natural numbers.\<close>

lemma date_parts_valid:
  assumes "list_all is_ascii_digit ys" "list_all is_ascii_digit ms" "list_all is_ascii_digit ds"
    and "length ys = 4" "length ms = 2" "length ds = 2"
  shows "is_valid_service_date (ys @ CHR ''-'' # ms @ CHR ''-'' # ds) =
    calendar_date (digits_value ys) (digits_value ms) (digits_value ds)"
proof -
  let ?y = "digits_value ys" and ?m = "digits_value ms" and ?d = "digits_value ds"
  have bounds: "?y < 10000" "?m < 100" "?d < 100"
    using digits_value_bound [OF assms(1)] digits_value_bound [OF assms(2)]
      digits_value_bound [OF assms(3)] assms(4-6) by simp_all
  have split: "split_on CHR ''-'' (ys @ CHR ''-'' # ms @ CHR ''-'' # ds) = [ys, ms, ds]"
    using assms(1-3) by (simp add: split_append_sep split_no_sep digits_no_sep)
  have parsed: "parse_u32 ys = Some (word_of_nat ?y)" "parse_u32 ms = Some (word_of_nat ?m)"
    "parse_u32 ds = Some (word_of_nat ?d)"
    using assms by (auto intro!: parse_u32_digits)
  have y0: "(word_of_nat ?y :: u32) = 0 \<longleftrightarrow> ?y = 0"
    using word_nat_eq_numeral [of ?y 0] bounds(1) by simp
  have max: "max_day_of_month (word_of_nat ?y) (word_of_nat ?m) =
      (if 1 \<le> ?m \<and> ?m \<le> 12 then Some (word_of_nat (days_in_month ?y ?m)) else None)"
    using bounds by (intro max_day_nat) simp_all
  have "days_in_month ?y ?m < 100" using days_in_month_le [of ?y ?m] by simp
  note day = day_between_nat [OF bounds(3) this]
  show ?thesis
    using assms bounds
    by (auto simp: is_valid_service_date_def split parsed byte_len_digits y0 max day calendar_date_def)
qed

lemma valid_date_shape:
  assumes "is_valid_service_date s"
  obtains ys ms ds where "s = ys @ CHR ''-'' # ms @ CHR ''-'' # ds"
    and "list_all is_ascii_digit ys" "list_all is_ascii_digit ms" "list_all is_ascii_digit ds"
    and "length ys = 4" "length ms = 2" "length ds = 2"
proof -
  obtain ys ms ds where sp: "split_on CHR ''-'' s = [ys, ms, ds]"
    using assms by (auto simp: is_valid_service_date_def split: list.splits)
  have "s = ys @ CHR ''-'' # ms @ CHR ''-'' # ds"
    using join_split [of "CHR ''-''" s] sp by simp
  moreover have digits: "list_all is_ascii_digit ys \<and> list_all is_ascii_digit ms \<and> list_all is_ascii_digit ds"
    using assms by (simp add: is_valid_service_date_def sp split: if_splits)
  moreover have "byte_len ys = 4 \<and> byte_len ms = 2 \<and> byte_len ds = 2"
    using assms by (simp add: is_valid_service_date_def sp split: if_splits)
  ultimately show thesis using that by (simp add: byte_len_digits)
qed

lemma print_date_valid:
  assumes "calendar_date y m d"
  shows "is_valid_service_date (print_date y m d)"
proof -
  have "y < 10 ^ 4" "m < 10 ^ 2" "d < 10 ^ 2"
    using assms days_in_month_le [of y m] by (auto simp: calendar_date_def)
  with assms show ?thesis
    by (simp add: print_date_def date_parts_valid digits_value_pad)
qed

lemma valid_date_printed:
  assumes "is_valid_service_date s"
  obtains y m d where "calendar_date y m d" and "s = print_date y m d"
proof -
  obtain ys ms ds where s: "s = ys @ CHR ''-'' # ms @ CHR ''-'' # ds"
    and dg: "list_all is_ascii_digit ys" "list_all is_ascii_digit ms" "list_all is_ascii_digit ds"
    and len: "length ys = 4" "length ms = 2" "length ds = 2"
    using assms by (rule valid_date_shape)
  have "calendar_date (digits_value ys) (digits_value ms) (digits_value ds)"
    using assms date_parts_valid [OF dg len] s by simp
  moreover have "s = print_date (digits_value ys) (digits_value ms) (digits_value ds)"
    using pad_digits_value [OF dg(1)] pad_digits_value [OF dg(2)] pad_digits_value [OF dg(3)] len s
    by (simp add: print_date_def)
  ultimately show thesis by (rule that)
qed

lemma draft_id_of_valid_date:
  assumes "is_valid_service_date s"
  shows "day_plan_parts_from_id (draft_day_plan_id crew s) = Some (s, crew)"
proof -
  obtain ys ms ds where s: "s = ys @ CHR ''-'' # ms @ CHR ''-'' # ds"
    and dg: "list_all is_ascii_digit ys" "list_all is_ascii_digit ms" "list_all is_ascii_digit ds"
    using assms by (rule valid_date_shape)
  have same: "replace_char CHR ''-'' CHR ''_'' t = t" if "list_all is_ascii_digit t" for t
    using digits_no_sep [OF that] by (auto simp: replace_char_def intro: map_idI)
  have "replace_char CHR ''-'' CHR ''_'' s = ys @ CHR ''_'' # ms @ CHR ''_'' # ds"
    using same dg s by (simp add: replace_char_def)
  then have i: "draft_day_plan_id crew s =
      ''day_plan_'' @ (ys @ CHR ''_'' # ms @ CHR ''_'' # ds @ CHR ''_'' # crew)"
    by (simp add: draft_day_plan_id_def)
  have "split_on CHR ''_'' (ys @ CHR ''_'' # ms @ CHR ''_'' # ds @ CHR ''_'' # crew) =
      ys # ms # ds # split_on CHR ''_'' crew"
    using dg by (simp add: split_append_sep digits_no_sep)
  moreover obtain c cs where "split_on CHR ''_'' crew = c # cs"
    by (cases "split_on CHR ''_'' crew") auto
  moreover from this have "join_with CHR ''_'' (c # cs) = crew"
    using join_split [of "CHR ''_''" crew] by simp
  ultimately show ?thesis
    unfolding i day_plan_parts_from_id_def strip_prefix_append by (simp add: s)
qed

end
