(* ===== verification/Route_Plans.thy ===== *)
theory Route_Plans
  imports Day_Plan_Requests "HOL-Library.Product_Lexorder" "HOL-Library.Multiset"
begin

text \<open>
  Day plans and their stops: the statements of \<open>backend/src/postgres_day_plans.rs\<close> and the
  repository operations of \<open>backend/src/day_plans.rs\<close> over them.

  Constraints of the migrations the statements meet: \<open>day_plans\<close> (primary key, status, route status,
  capacity between 1 and 100), \<open>day_plan_stops\<close> (primary key, one stop per order and per job in a
  plan, foreign keys to plan and job), the references to a stop that refuse or change its removal,
  and the primary key and event kinds of \<open>access_audit_events\<close>.
\<close>

section \<open>Constraints\<close>

definition plan_ok :: "db \<Rightarrow> day_plan_row \<Rightarrow> bool" where
  "plan_ok d p \<longleftrightarrow>
     plan_crew_id p \<in> crew_pk ` set (crews d)
     \<and> plan_status p \<in> {''draft'', ''published'', ''completed''}
     \<and> plan_route_status p \<in> {''manual'', ''optimized''}
     \<and> 1 \<le> plan_stop_capacity p \<and> plan_stop_capacity p \<le> 100"

definition plan_clash :: "day_plan_row \<Rightarrow> day_plan_row \<Rightarrow> bool" where
  "plan_clash p q \<longleftrightarrow> plan_pk p = plan_pk q"

definition stop_ok :: "db \<Rightarrow> stop_row \<Rightarrow> bool" where
  "stop_ok d s \<longleftrightarrow>
     stop_plan_id s \<in> plan_pk ` set (day_plans d)
     \<and> stop_job_id s \<in> job_pk ` set (service_jobs d)
     \<and> stop_status s \<in> {''pending'', ''in_progress'', ''finished''}"

definition stop_clash :: "stop_row \<Rightarrow> stop_row \<Rightarrow> bool" where
  "stop_clash s t \<longleftrightarrow> stop_pk s = stop_pk t
     \<or> (stop_plan_id s = stop_plan_id t \<and> (stop_order s = stop_order t \<or> stop_job_id s = stop_job_id t))"

definition audit_kinds :: "string list" where
  "audit_kinds =
     [''login'', ''organization_bootstrapped'', ''organization_profile_updated'', ''branch_created'',
      ''branch_status_updated'', ''territory_created'', ''territory_status_updated'',
      ''invite_accepted'', ''invitation_revoked'', ''invitation_reissued'', ''role_changed'',
      ''membership_profile_updated'', ''membership_suspended'', ''membership_reactivated'',
      ''account_viewed'', ''account_archived'', ''account_reactivated'',
      ''account_relationship_updated'', ''portfolio_changed'', ''crew_assignment_changed'',
      ''crew_profile_updated'', ''crew_hierarchy_updated'', ''crew_deactivated'',
      ''crew_reactivated'', ''property_identity_updated'', ''property_archived'',
      ''property_reactivated'', ''property_activated'', ''property_status_updated'',
      ''route_draft_saved'', ''route_published'', ''route_completed'', ''route_stop_assigned'',
      ''route_stop_removed'', ''route_stops_reordered'', ''job_reassigned'',
      ''dispatch_customer_notified'', ''bid_approved'', ''bid_rejected'', ''bid_converted'',
      ''notification_retried'', ''notification_resolved'', ''report_review_started'',
      ''report_changes_requested'', ''report_resubmitted'', ''report_delivered'',
      ''photo_processing_retried'', ''photo_processing_resolved'', ''photo_erasure_deletion_retried'',
      ''photo_erasure_deletion_resolved'', ''customer_privacy_exported'',
      ''customer_photo_evidence_erased'', ''operational_exception_created'',
      ''operational_exception_assign'', ''operational_exception_start'',
      ''operational_exception_resolve'', ''operational_exception_reopen'']"

definition audit_ok :: "audit_row \<Rightarrow> bool" where
  "audit_ok a \<longleftrightarrow> audit_kind a \<in> set audit_kinds"

definition audit_clash :: "audit_row \<Rightarrow> audit_row \<Rightarrow> bool" where
  "audit_clash a b \<longleftrightarrow> audit_pk a = audit_pk b"

definition append_audit :: "audit_row \<Rightarrow> db \<Rightarrow> sqlx_error + (unit \<times> db)" where
  "append_audit a d = (case insert_row audit_ok audit_clash a (audit_events d) of
      Inl e \<Rightarrow> Inl e | Inr rows \<Rightarrow> Inr ((), d\<lparr> audit_events := rows \<rparr>))"

text \<open>The shape every amendment has (the last \<open>CHECK\<close> of \<open>day_plan_amendment_requests\<close>).\<close>

definition amendment_shape :: "amendment_row \<Rightarrow> bool" where
  "amendment_shape a \<longleftrightarrow>
     (amendment_type a = ''add_stop'' \<and> amendment_stop_id a = None \<and> amendment_service_id a = None)
     \<or> (amendment_type a = ''remove_stop'' \<and> amendment_stop_id a \<noteq> None \<and> amendment_service_id a = None)
     \<or> (amendment_type a = ''add_service'' \<and> amendment_stop_id a \<noteq> None
         \<and> amendment_service_id a \<noteq> None \<and> amendment_service_name a \<noteq> None)"

section \<open>Statements\<close>

definition find_plan :: "db \<Rightarrow> string \<Rightarrow> day_plan_row option" where
  "find_plan d i = lookup_by (\<lambda>p. plan_pk p = i) (day_plans d)"

definition find_crew :: "db \<Rightarrow> string \<Rightarrow> crew_row option" where
  "find_crew d i = lookup_by (\<lambda>c. crew_pk c = i) (crews d)"

definition find_organization :: "db \<Rightarrow> string \<Rightarrow> organization_row option" where
  "find_organization d i = lookup_by (\<lambda>c. organization_pk c = i) (organizations d)"

definition stops_of :: "db \<Rightarrow> string \<Rightarrow> stop_row list" where
  "stops_of d i = filter (\<lambda>s. stop_plan_id s = i) (day_plan_stops d)"

definition is_draft :: "db \<Rightarrow> string \<Rightarrow> bool" where
  "is_draft d i \<longleftrightarrow> exists_row (\<lambda>p. plan_pk p = i \<and> plan_status p = ''draft'') (day_plans d)"

definition organization_id_for_crew :: "string \<Rightarrow> (db, string option) db_call" where
  "organization_id_for_crew crew = db_select (\<lambda>d. map_option crew_organization_id (find_crew d crew))"

definition day_plan_organization :: "db \<Rightarrow> string \<Rightarrow> string option" where
  "day_plan_organization d i = (case find_plan d i of
      None \<Rightarrow> None
    | Some p \<Rightarrow> map_option crew_organization_id (find_crew d (plan_crew_id p)))"

definition organization_id_for_day_plan :: "string \<Rightarrow> (db, string option) db_call" where
  "organization_id_for_day_plan i = db_select (\<lambda>d. day_plan_organization d i)"

definition route_audit_row :: "env \<Rightarrow> day_plan_row \<Rightarrow> crew_row \<Rightarrow> string \<Rightarrow> string \<Rightarrow> string option \<Rightarrow>
    string option \<Rightarrow> int option \<Rightarrow> audit_row" where
  "route_audit_row env p c actor kind stop job stop_count =
     \<lparr> audit_pk = ''audit_'' @ kind @ ''_'' @ fresh_uuid env 0, audit_actor = actor,
       audit_organization_id = crew_organization_id c, audit_kind = kind,
       audit_target = plan_pk p, audit_at = now_at env,
       audit_metadata =
         [(''crew_id'', plan_crew_id p), (''service_date'', date_text env (plan_service_date p))]
         @ (case stop of None \<Rightarrow> [] | Some s \<Rightarrow> [(''stop_id'', s)])
         @ (case job of None \<Rightarrow> [] | Some j \<Rightarrow> [(''job_id'', j)])
         @ (case stop_count of None \<Rightarrow> [] | Some n \<Rightarrow> [(''stop_count'', int_text n)]) \<rparr>"

definition insert_route_audit_event :: "env \<Rightarrow> string \<Rightarrow> string \<Rightarrow> string \<Rightarrow> string option \<Rightarrow>
    string option \<Rightarrow> int option \<Rightarrow> (db, unit) db_call" where
  "insert_route_audit_event env day_plan_id actor kind stop job stop_count = db_stmt (\<lambda>d.
     case find_plan d day_plan_id of
       None \<Rightarrow> Inr ((), d)
     | Some p \<Rightarrow>
         (case find_crew d (plan_crew_id p) of
            None \<Rightarrow> Inr ((), d)
          | Some c \<Rightarrow> append_audit (route_audit_row env p c actor kind stop job stop_count) d))"

definition day_plan_mutation_response :: "env \<Rightarrow> day_plan_row \<Rightarrow> bool \<Rightarrow> day_plan_response" where
  "day_plan_mutation_response env p persisted =
     \<lparr> dp_id = plan_pk p, dp_crew_id = plan_crew_id p,
       dp_service_date = date_text env (plan_service_date p), dp_status = plan_status p,
       dp_route_status = plan_route_status p, dp_time_zone = plan_time_zone p,
       dp_service_area = plan_service_area p, dp_stop_capacity = as_u32 (plan_stop_capacity p),
       dp_persisted = persisted \<rparr>"

text \<open>The \<open>INSERT .. SELECT .. ON CONFLICT (id) DO UPDATE .. WHERE status = 'draft'\<close> of a draft.\<close>

definition upsert_draft :: "env \<Rightarrow> string \<Rightarrow> string \<Rightarrow> string \<Rightarrow> (db, day_plan_row option) statement" where
  "upsert_draft env i crew date d =
     (case lookup_by (\<lambda>c. crew_pk c = crew \<and> crew_status c = ''active'') (crews d) of
        None \<Rightarrow> Inr (None, d)
      | Some c \<Rightarrow>
        (case find_organization d (crew_organization_id c) of
           None \<Rightarrow> Inr (None, d)
         | Some org \<Rightarrow>
           (case parse_date env date of
              None \<Rightarrow> Inl InvalidInput
            | Some day \<Rightarrow>
                let row = \<lparr> plan_pk = i, plan_crew_id = crew_pk c, plan_service_date = day,
                    plan_status = ''draft'', plan_route_status = ''manual'',
                    plan_time_zone = organization_time_zone org,
                    plan_service_area = organization_service_area org,
                    plan_stop_capacity = crew_daily_stop_capacity c, plan_updated_at = now_at env \<rparr>
                in if \<not> plan_ok d row then Inl ConstraintViolation
                   else (case find_plan d i of
                       None \<Rightarrow> Inr (Some row, d\<lparr> day_plans := day_plans d @ [row] \<rparr>)
                     | Some p \<Rightarrow>
                         if plan_status p = ''draft''
                         then Inr (Some row, d\<lparr> day_plans := update_where (\<lambda>q. plan_pk q = i) (\<lambda>_. row) (day_plans d) \<rparr>)
                         else Inr (None, d)))))"

definition create_draft_day_plan :: "env \<Rightarrow> string \<Rightarrow> string \<Rightarrow> string \<Rightarrow> string \<Rightarrow>
    (db, day_plan_response option) db_call" where
  "create_draft_day_plan env i crew date actor = db_transaction (
     db_bind (db_stmt (upsert_draft env i crew date)) (\<lambda>row.
     db_bind (if row \<noteq> None
              then insert_route_audit_event env i actor ''route_draft_saved'' None None None
              else db_return ()) (\<lambda>_.
     db_return (Commit (map_option (\<lambda>p. day_plan_mutation_response env p True) row)))))"

definition workload :: "stop_row list \<Rightarrow> int" where
  "workload ss = sum_list (map (\<lambda>s. stop_drive_minutes s + stop_service_minutes s) ss)"

definition minutes_in_range :: "stop_row list \<Rightarrow> bool" where
  "minutes_in_range ss = list_all (\<lambda>s. int4_range (stop_drive_minutes s + stop_service_minutes s)) ss"

definition publish_statement :: "env \<Rightarrow> string \<Rightarrow> (db, day_plan_row option) statement" where
  "publish_statement env i d =
     (case lookup_by (\<lambda>p. plan_pk p = i \<and> plan_status p = ''draft'') (day_plans d) of
        None \<Rightarrow> Inr (None, d)
      | Some p \<Rightarrow>
          if stops_of d i = [] then Inr (None, d)
          else if \<not> minutes_in_range (stops_of d i) then Inl InvalidInput
          else if workload (stops_of d i) \<le> 0 then Inr (None, d)
          else let row = p\<lparr> plan_status := ''published'', plan_updated_at := now_at env \<rparr>
               in Inr (Some row, d\<lparr> day_plans := update_where (\<lambda>q. plan_pk q = i) (\<lambda>_. row) (day_plans d) \<rparr>))"

definition publish_day_plan :: "env \<Rightarrow> string \<Rightarrow> string \<Rightarrow> (db, day_plan_response option) db_call" where
  "publish_day_plan env i actor = db_transaction (
     db_bind (db_stmt (publish_statement env i)) (\<lambda>row. case row of
         None \<Rightarrow> db_return (Rollback None)
       | Some p \<Rightarrow>
           db_bind (insert_route_audit_event env i actor ''route_published'' None None None) (\<lambda>_.
           db_return (Commit (Some (day_plan_mutation_response env p True))))))"

text \<open>The statement of \<open>assign_stop\<close>: capacity, next order, insert or update of the minutes.\<close>

definition next_stop_order :: "db \<Rightarrow> string \<Rightarrow> int" where
  "next_stop_order d i =
     (case stops_of d i of [] \<Rightarrow> 0 | s # ss \<Rightarrow> fold max (map stop_order ss) (stop_order s)) + 1"

definition requested_minutes :: "u32 option \<Rightarrow> int" where
  "requested_minutes m = as_i32 (case m of None \<Rightarrow> 0 | Some n \<Rightarrow> n)"

definition new_stop :: "env \<Rightarrow> string \<Rightarrow> string \<Rightarrow> assign_stop_request \<Rightarrow> int \<Rightarrow> stop_row" where
  "new_stop env i sid r next_order =
     \<lparr> stop_pk = sid, stop_plan_id = i, stop_job_id = req_job_id r, stop_order = next_order,
       stop_status = ''pending'', stop_drive_minutes = requested_minutes (req_drive_minutes r),
       stop_service_minutes = requested_minutes (req_service_minutes r),
       stop_updated_at = now_at env \<rparr>"

definition revised_stop :: "env \<Rightarrow> assign_stop_request \<Rightarrow> stop_row \<Rightarrow> stop_row" where
  "revised_stop env r old = old\<lparr> stop_drive_minutes := requested_minutes (req_drive_minutes r),
     stop_service_minutes := requested_minutes (req_service_minutes r),
     stop_updated_at := now_at env \<rparr>"

definition assign_statement :: "env \<Rightarrow> string \<Rightarrow> string \<Rightarrow> assign_stop_request \<Rightarrow>
    (db, stop_row option) statement" where
  "assign_statement env i sid r d =
     (case lookup_by (\<lambda>p. plan_pk p = i \<and> plan_status p = ''draft'') (day_plans d) of
        None \<Rightarrow> Inr (None, d)
      | Some p \<Rightarrow>
        (case lookup_by (\<lambda>s. stop_job_id s = req_job_id r) (stops_of d i) of
           Some old \<Rightarrow>
             Inr (Some (revised_stop env r old), d\<lparr> day_plan_stops :=
               update_where (\<lambda>s. stop_pk s = stop_pk old) (\<lambda>_. revised_stop env r old) (day_plan_stops d) \<rparr>)
         | None \<Rightarrow>
             if plan_stop_capacity p \<le> int (length (stops_of d i)) then Inr (None, d)
             else if \<not> int4_range (next_stop_order d i) then Inl InvalidInput
             else
               (case insert_row (stop_ok d) stop_clash (new_stop env i sid r (next_stop_order d i))
                   (day_plan_stops d) of
                  Inl e \<Rightarrow> Inl e
                | Inr rows \<Rightarrow>
                    Inr (Some (new_stop env i sid r (next_stop_order d i)), d\<lparr> day_plan_stops := rows \<rparr>))))"

definition assign_stop :: "env \<Rightarrow> string \<Rightarrow> string \<Rightarrow> assign_stop_request \<Rightarrow> string \<Rightarrow>
    (db, stop_response option) db_call" where
  "assign_stop env i sid r actor = db_transaction (
     db_bind (db_stmt (assign_statement env i sid r)) (\<lambda>row. case row of
         None \<Rightarrow> db_return (Rollback None)
       | Some s \<Rightarrow>
           db_bind (insert_route_audit_event env i actor ''route_stop_assigned'' (Some sid)
             (Some (req_job_id r)) None) (\<lambda>_.
           db_return (Commit (Some \<lparr> sr_day_plan_id = stop_plan_id s, sr_stop_id = stop_pk s,
             sr_job_id = stop_job_id s, sr_stop_order = as_u32 (stop_order s), sr_persisted = True \<rparr>)))))"

text \<open>
  The \<open>DELETE\<close> of \<open>remove_stop\<close> and what refers to the row: progress mutations and visit
  recommendations refuse it, amendments lose their stop (\<open>ON DELETE SET NULL\<close>) if their shape allows.
\<close>

definition delete_stop_statement :: "string \<Rightarrow> string \<Rightarrow> (db, nat) statement" where
  "delete_stop_statement i sid d =
     (let hit = (\<lambda>s. stop_plan_id s = i \<and> stop_pk s = sid \<and> is_draft d i);
          n = affected hit (day_plan_stops d);
          cleared = update_where (\<lambda>a. amendment_stop_id a = Some sid)
            (\<lambda>a. a\<lparr> amendment_stop_id := None \<rparr>) (amendments d) in
      if n = 0 then Inr (0, d)
      else if exists_row (\<lambda>m. sm_stop_id m = sid) (stop_mutations d) then Inl ConstraintViolation
      else if sid \<in> set (recommended_stop_ids d) then Inl ConstraintViolation
      else if exists_row (\<lambda>a. amendment_stop_id a = Some sid
          \<and> \<not> amendment_shape (a\<lparr> amendment_stop_id := None \<rparr>)) (amendments d)
        then Inl ConstraintViolation
      else Inr (n, d\<lparr> day_plan_stops := delete_where hit (day_plan_stops d), amendments := cleared \<rparr>))"

definition stop_before :: "stop_row \<Rightarrow> stop_row \<Rightarrow> bool" where
  "stop_before s t \<longleftrightarrow> stop_order s < stop_order t
     \<or> (stop_order s = stop_order t \<and> \<not> string_less (stop_pk t) (stop_pk s))"

fun position :: "string \<Rightarrow> string list \<Rightarrow> nat" where
  "position k [] = 1"
| "position k (x # xs) = (if x = k then 1 else Suc (position k xs))"

definition set_order :: "env \<Rightarrow> (stop_row \<Rightarrow> int) \<Rightarrow> stop_row \<Rightarrow> stop_row" where
  "set_order env f s = s\<lparr> stop_order := f s, stop_updated_at := now_at env \<rparr>"

definition renumber_statement :: "env \<Rightarrow> string \<Rightarrow> (db, nat) statement" where
  "renumber_statement env i d =
     (let ordered = map stop_pk (order_by stop_before (stops_of d i)) in
      case update_each stop_pk stop_clash (set_order env (\<lambda>s. int (position (stop_pk s) ordered)))
          (scan_stops env (stops_of d i)) (day_plan_stops d) of
        Inl e \<Rightarrow> Inl e
      | Inr rows \<Rightarrow> Inr (length (stops_of d i), d\<lparr> day_plan_stops := rows \<rparr>))"

definition remove_body :: "env \<Rightarrow> string \<Rightarrow> string \<Rightarrow> string \<Rightarrow> (db, bool tx_end) db_call" where
  "remove_body env i sid actor =
     db_bind (db_stmt (delete_stop_statement i sid)) (\<lambda>n.
       if n \<noteq> 1 then db_return (Commit False)
       else db_bind (db_stmt (renumber_statement env i)) (\<lambda>_.
            db_bind (insert_route_audit_event env i actor ''route_stop_removed'' (Some sid) None None) (\<lambda>_.
            db_return (Commit True))))"

definition remove_stop :: "env \<Rightarrow> string \<Rightarrow> string \<Rightarrow> string \<Rightarrow> (db, bool) db_call" where
  "remove_stop env i sid actor = db_transaction (remove_body env i sid actor)"

definition shift_statement :: "env \<Rightarrow> string \<Rightarrow> (db, nat) statement" where
  "shift_statement env i d =
     (if \<not> list_all (\<lambda>s. int4_range (stop_order s + 10000)) (stops_of d i) then Inl InvalidInput
      else (case update_each stop_pk stop_clash (\<lambda>s. s\<lparr> stop_order := stop_order s + 10000 \<rparr>)
          (scan_stops env (stops_of d i)) (day_plan_stops d) of
        Inl e \<Rightarrow> Inl e
      | Inr rows \<Rightarrow> Inr (length (stops_of d i), d\<lparr> day_plan_stops := rows \<rparr>)))"

definition apply_order_statement :: "env \<Rightarrow> string \<Rightarrow> string list \<Rightarrow> (db, nat) statement" where
  "apply_order_statement env i sids d =
     (let hit = filter (\<lambda>s. stop_pk s \<in> set sids \<and> is_draft d i) (stops_of d i) in
      case update_each stop_pk stop_clash (set_order env (\<lambda>s. int (position (stop_pk s) sids)))
          (scan_stops env hit) (day_plan_stops d) of
        Inl e \<Rightarrow> Inl e
      | Inr rows \<Rightarrow> Inr (length hit, d\<lparr> day_plan_stops := rows \<rparr>))"

definition reorder_body :: "env \<Rightarrow> string \<Rightarrow> string list \<Rightarrow> string \<Rightarrow> (db, bool tx_end) db_call" where
  "reorder_body env i sids actor =
     db_bind (db_select (\<lambda>d. if is_draft d i then length (stops_of d i) else 0)) (\<lambda>count.
       if count \<noteq> length sids then db_return (Commit False)
       else db_bind (db_stmt (shift_statement env i)) (\<lambda>_.
            db_bind (db_stmt (apply_order_statement env i sids)) (\<lambda>n.
            db_bind (if n = length sids
                     then insert_route_audit_event env i actor ''route_stops_reordered'' None None
                       (Some (int (length sids)))
                     else db_return ()) (\<lambda>_.
            db_return (Commit (n = length sids))))))"

definition reorder_stops :: "env \<Rightarrow> string \<Rightarrow> string list \<Rightarrow> string \<Rightarrow> (db, bool) db_call" where
  "reorder_stops env i sids actor =
     (if sids = [] then db_return False
      else if \<not> distinct sids then db_return False
      else db_transaction (reorder_body env i sids actor))"

section \<open>Repository operations\<close>

text \<open>
  \<open>DayPlanRepository\<close> holds an optional pool: \<open>pool = False\<close> is the repository without a database,
  which answers from the seed data.
\<close>

definition repo_organization_id_for_crew :: "bool \<Rightarrow> string \<Rightarrow> (db, string option persisted_read) db_call" where
  "repo_organization_id_for_crew pool crew =
     (if pool then db_catch (organization_id_for_crew crew) (\<lambda>_. db_return ReadUnavailable)
        (\<lambda>org. db_return (Loaded org))
      else db_return (Loaded (seed_organization_id_for_crew crew)))"

definition repo_organization_id_for_day_plan :: "bool \<Rightarrow> string \<Rightarrow>
    (db, string option persisted_read) db_call" where
  "repo_organization_id_for_day_plan pool i =
     (if pool then db_catch (organization_id_for_day_plan i) (\<lambda>_. db_return ReadUnavailable)
        (\<lambda>org. db_return (Loaded org))
      else db_return (Loaded (case day_plan_parts_from_id i of
          None \<Rightarrow> None | Some (_, crew) \<Rightarrow> seed_organization_id_for_crew crew)))"

text \<open>The recovery query of a refused write: which of two refusals it was.\<close>

definition refusal :: "('d \<Rightarrow> bool) \<Rightarrow> ('d, 'a persisted_mutation) db_call" where
  "refusal present = db_catch (db_select present) (\<lambda>_. db_return Unavailable)
     (\<lambda>b. db_return (if b then Conflict else NotFound))"

definition answer :: "('d, 'a option) db_call \<Rightarrow> ('d \<Rightarrow> bool) \<Rightarrow> ('d, 'a persisted_mutation) db_call" where
  "answer write present = db_catch write (\<lambda>_. db_return Unavailable)
     (\<lambda>res. case res of Some a \<Rightarrow> db_return (Applied a) | None \<Rightarrow> refusal present)"

definition create_draft_day_plan_as :: "env \<Rightarrow> bool \<Rightarrow> create_day_plan_request \<Rightarrow> string \<Rightarrow>
    (db, day_plan_response persisted_mutation) db_call" where
  "create_draft_day_plan_as env pool request actor =
     (let r = normalize_create_day_plan_request request;
          i = draft_day_plan_id (req_crew_id r) (req_service_date r) in
      if pool
      then answer (create_draft_day_plan env i (req_crew_id r) (req_service_date r) actor)
        (\<lambda>d. exists_row (\<lambda>c. crew_pk c = req_crew_id r \<and> crew_status c = ''active'') (crews d))
      else db_return (Applied (draft_day_plan_response r False)))"

definition publish_day_plan_as :: "env \<Rightarrow> bool \<Rightarrow> string \<Rightarrow> string \<Rightarrow>
    (db, day_plan_response persisted_mutation) db_call" where
  "publish_day_plan_as env pool i actor =
     (if pool
      then answer (publish_day_plan env i actor) (\<lambda>d. day_plan_organization d i \<noteq> None)
      else db_return (Applied (local_published_day_plan_response i)))"

definition assign_stop_as :: "env \<Rightarrow> bool \<Rightarrow> string \<Rightarrow> assign_stop_request \<Rightarrow> string \<Rightarrow>
    (db, stop_response persisted_mutation) db_call" where
  "assign_stop_as env pool i r actor =
     (let sid = draft_stop_id i (req_job_id r) in
      if pool
      then answer (assign_stop env i sid r actor)
        (\<lambda>d. exists_row (\<lambda>p. plan_pk p = i) (day_plans d)
          \<and> exists_row (\<lambda>j. job_pk j = req_job_id r) (service_jobs d))
      else db_return (Applied \<lparr> sr_day_plan_id = i, sr_stop_id = sid, sr_job_id = req_job_id r,
        sr_stop_order = 0, sr_persisted = False \<rparr>))"

definition remove_stop_as :: "env \<Rightarrow> bool \<Rightarrow> string \<Rightarrow> string \<Rightarrow> string \<Rightarrow>
    (db, removal_response persisted_mutation) db_call" where
  "remove_stop_as env pool i sid actor =
     (let response = \<lparr> rm_day_plan_id = i, rm_stop_id = sid, rm_persisted = pool \<rparr> in
      if pool
      then db_catch (remove_stop env i sid actor) (\<lambda>_. db_return Unavailable)
        (\<lambda>removed. if removed then db_return (Applied response)
          else refusal (\<lambda>d. exists_row (\<lambda>s. stop_plan_id s = i \<and> stop_pk s = sid) (day_plan_stops d)))
      else db_return (Applied response))"

definition reorder_stops_as :: "env \<Rightarrow> bool \<Rightarrow> string \<Rightarrow> string list \<Rightarrow> string \<Rightarrow>
    (db, reorder_response persisted_mutation) db_call" where
  "reorder_stops_as env pool i sids actor =
     (let response = \<lparr> ro_day_plan_id = i, ro_stop_ids = sids, ro_persisted = pool \<rparr> in
      if pool
      then db_catch (reorder_stops env i sids actor) (\<lambda>_. db_return Unavailable)
        (\<lambda>done. if done then db_return (Applied response)
          else refusal (\<lambda>d. day_plan_organization d i \<noteq> None))
      else db_return (Applied response))"

section \<open>The route of the day\<close>

text \<open>
  \<open>today_for_crew\<close>: the published plan with stops that is for today, else the latest past one, else the
  earliest future one, the most recently updated among equals.
\<close>

definition today_key :: "env \<Rightarrow> day_plan_row \<Rightarrow> int \<times> int \<times> int" where
  "today_key env p =
     (let day = plan_service_date p; today = current_date env in
      ((if day = today then 0 else if day < today then 1 else 2),
       (if day < today then - day else if day > today then day else 0),
       - plan_updated_at p))"

definition selected_plan :: "env \<Rightarrow> string \<Rightarrow> db \<Rightarrow> day_plan_row option" where
  "selected_plan env crew d =
     (case order_by (\<lambda>p q. today_key env p \<le> today_key env q)
         (filter (\<lambda>p. plan_crew_id p = crew \<and> plan_status p = ''published''
            \<and> stops_of d (plan_pk p) \<noteq> []) (day_plans d)) of
        [] \<Rightarrow> None | p # _ \<Rightarrow> Some p)"

definition converted_minutes :: "db \<Rightarrow> stop_row \<Rightarrow> int" where
  "converted_minutes d s = sum_list
     [m. a \<leftarrow> amendments d, b \<leftarrow> bids d, c \<leftarrow> conversions d,
         m \<leftarrow> (case amendment_duration_minutes a of None \<Rightarrow> [] | Some m \<Rightarrow> [m]),
         bid_source_amendment_id b = amendment_pk a, conversion_bid_id c = bid_pk b,
         amendment_plan_id a = stop_plan_id s, amendment_stop_id a = Some (stop_pk s),
         conversion_job_id c = stop_job_id s, bid_status b = ''converted'']"

definition today_stop :: "db \<Rightarrow> stop_row \<Rightarrow> job_row \<Rightarrow> day_plan_stop" where
  "today_stop d s j =
     \<lparr> ds_id = stop_pk s, ds_job_id = stop_job_id s, ds_customer_name = job_customer_name j,
       ds_property_address = job_property_address j, ds_stop_order = as_u32 (stop_order s),
       ds_job_status = job_status j, ds_stop_status = stop_status s,
       ds_drive_minutes = as_u32 (stop_drive_minutes s),
       ds_service_minutes = as_u32 (stop_service_minutes s + converted_minutes d s) \<rparr>"

definition today_rows :: "db \<Rightarrow> string \<Rightarrow> (stop_row \<times> job_row) list" where
  "today_rows d i =
     [(s, j). s \<leftarrow> order_by (\<lambda>s t. stop_order s \<le> stop_order t) (stops_of d i),
        j \<leftarrow> service_jobs d, job_pk j = stop_job_id s]"

definition today_statement :: "env \<Rightarrow> string \<Rightarrow> (db, day_plan_summary option) statement" where
  "today_statement env crew d =
     (case selected_plan env crew d of
        None \<Rightarrow> Inr (None, d)
      | Some p \<Rightarrow>
        (case find_crew d (plan_crew_id p) of
           None \<Rightarrow> Inr (None, d)
         | Some c \<Rightarrow>
             let rows = today_rows d (plan_pk p) in
             if \<not> list_all (\<lambda>(s, j). int4_range (converted_minutes d s)
                 \<and> int4_range (stop_service_minutes s + converted_minutes d s)) rows
             then Inl InvalidInput
             else if rows = [] then Inr (None, d)
             else Inr (Some
               \<lparr> sum_id = plan_pk p, sum_crew_id = plan_crew_id p, sum_crew_name = crew_name c,
                 sum_organization_id = crew_organization_id c,
                 sum_service_date = date_text env (plan_service_date p), sum_status = plan_status p,
                 sum_route_status = plan_route_status p,
                 sum_stops = map (\<lambda>(s, j). today_stop d s j) rows \<rparr>, d)))"

definition today_for_crew :: "env \<Rightarrow> bool \<Rightarrow> string \<Rightarrow> (db, today_result) db_call" where
  "today_for_crew env pool crew =
     (if pool
      then db_catch (db_stmt (today_statement env crew)) (\<lambda>_. db_return TodayUnavailable)
        (\<lambda>res. db_return (case res of Some plan \<Rightarrow> Found plan | None \<Rightarrow> TodayNotFound))
      else db_return (Found (seed_day_plan crew)))"

end
