(* ===== verification/Route_Facts.thy ===== *)
theory Route_Facts
  imports Route_Plans
begin

text \<open>
  What the route operations guarantee: every write is one transaction, a refused write leaves no
  trace (reordering apart), the invariant \<open>route_ok\<close> of plans and stops, and that a plan that is no
  longer a draft keeps its row and its stops (\<open>route_keeps\<close>).
\<close>

section \<open>The invariant\<close>

definition plans_ok :: "db \<Rightarrow> bool" where
  "plans_ok d \<longleftrightarrow> distinct (map plan_pk (day_plans d)) \<and> list_all (plan_ok d) (day_plans d)"

definition clash_free :: "stop_row list \<Rightarrow> bool" where
  "clash_free rows \<longleftrightarrow>
     list_all (\<lambda>s. list_all (\<lambda>t. stop_pk s \<noteq> stop_pk t \<longrightarrow> \<not> stop_clash s t) rows) rows"

definition stops_ok :: "db \<Rightarrow> bool" where
  "stops_ok d \<longleftrightarrow> distinct (map stop_pk (day_plan_stops d)) \<and> clash_free (day_plan_stops d)
     \<and> list_all (stop_ok d) (day_plan_stops d)"

text \<open>What publication demands, and what therefore holds of every plan that is not a draft.\<close>

definition published_ok :: "db \<Rightarrow> bool" where
  "published_ok d \<longleftrightarrow> list_all (\<lambda>p. plan_status p \<noteq> ''draft'' \<longrightarrow>
     stops_of d (plan_pk p) \<noteq> [] \<and> 0 < workload (stops_of d (plan_pk p))) (day_plans d)"

definition route_ok :: "db \<Rightarrow> bool" where
  "route_ok d \<longleftrightarrow> plans_ok d \<and> stops_ok d \<and> published_ok d"

text \<open>The executor visits every row of a statement once, in some order.\<close>

definition scan_ok :: "env \<Rightarrow> bool" where
  "scan_ok env \<longleftrightarrow> (\<forall>rows. mset (scan_stops env rows) = mset rows)"

text \<open>What a stop is, apart from its progress.\<close>

definition stop_plan_part :: "stop_row \<Rightarrow> string \<times> string \<times> int \<times> int \<times> int" where
  "stop_plan_part s =
     (stop_pk s, stop_job_id s, stop_order s, stop_drive_minutes s, stop_service_minutes s)"

definition frozen :: "db \<Rightarrow> db \<Rightarrow> bool" where
  "frozen d d' \<longleftrightarrow> (\<forall>p \<in> set (day_plans d). plan_status p \<noteq> ''draft'' \<longrightarrow>
     p \<in> set (day_plans d')
     \<and> map stop_plan_part (stops_of d' (plan_pk p)) = map stop_plan_part (stops_of d (plan_pk p)))"

definition route_keeps :: "db \<Rightarrow> db \<Rightarrow> bool" where
  "route_keeps d d' \<longleftrightarrow> (route_ok d \<longrightarrow> route_ok d' \<and> frozen d d')"

lemma frozen_refl [simp]: "frozen d d"
  by (simp add: frozen_def)

lemma frozen_trans: "frozen d d1 \<Longrightarrow> frozen d1 d2 \<Longrightarrow> frozen d d2"
  unfolding frozen_def by metis

lemma route_keeps_refl [simp]: "reflp route_keeps"
  by (simp add: reflp_def route_keeps_def)

lemma route_keeps_trans [simp]: "transp route_keeps"
  by (auto simp: transp_def route_keeps_def intro: frozen_trans)

lemmas route_defs = route_ok_def plans_ok_def stops_ok_def published_ok_def

lemma route_okD:
  assumes "route_ok d"
  shows "distinct (map plan_pk (day_plans d))" and "distinct (map stop_pk (day_plan_stops d))"
    and "\<And>p. p \<in> set (day_plans d) \<Longrightarrow> plan_ok d p"
    and "\<And>s. s \<in> set (day_plan_stops d) \<Longrightarrow> stop_ok d s"
    and "\<And>s t. s \<in> set (day_plan_stops d) \<Longrightarrow> t \<in> set (day_plan_stops d) \<Longrightarrow> stop_pk s \<noteq> stop_pk t
      \<Longrightarrow> \<not> stop_clash s t"
  using assms by (auto simp: route_defs clash_free_def list_all_iff)

section \<open>Tables the statements do not touch\<close>

lemma same_plans_stops:
  assumes "day_plans d' = day_plans d" and "day_plan_stops d' = day_plan_stops d"
    and "crews d' = crews d" and "service_jobs d' = service_jobs d"
  shows "route_keeps d d'"
  using assms
  by (simp add: route_keeps_def route_defs frozen_def list_all_iff plan_ok_def stop_ok_def stops_of_def)

lemma append_audit_Inr:
  "append_audit a d = Inr (u, d') \<Longrightarrow>
     d' = d\<lparr> audit_events := audit_events d @ [a] \<rparr> \<and> audit_ok a
     \<and> (\<forall>b \<in> set (audit_events d). audit_pk b \<noteq> audit_pk a)"
  by (auto simp: append_audit_def insert_row_def audit_clash_def split: sum.splits if_splits)

lemma keeps_audit [keeps_rules]: "keeps route_keeps (insert_route_audit_event env i actor k s j n)"
  unfolding insert_route_audit_event_def
  by (intro keeps_rules route_keeps_refl)
     (auto split: option.splits dest!: append_audit_Inr intro: same_plans_stops)

section \<open>Rows by key\<close>

lemma plan_unique:
  "distinct (map plan_pk ps) \<Longrightarrow> p \<in> set ps \<Longrightarrow> q \<in> set ps \<Longrightarrow> plan_pk p = plan_pk q \<Longrightarrow> p = q"
  by (auto simp: distinct_map dest: inj_onD)

lemma stop_unique:
  "distinct (map stop_pk ps) \<Longrightarrow> p \<in> set ps \<Longrightarrow> q \<in> set ps \<Longrightarrow> stop_pk p = stop_pk q \<Longrightarrow> p = q"
  by (auto simp: distinct_map dest: inj_onD)

lemma find_plan_in: "find_plan d i = Some p \<Longrightarrow> p \<in> set (day_plans d) \<and> plan_pk p = i"
  unfolding find_plan_def by (drule lookup_by_Some) simp

lemma find_plan_None: "find_plan d i = None \<longleftrightarrow> (\<forall>p \<in> set (day_plans d). plan_pk p \<noteq> i)"
  by (simp add: find_plan_def lookup_by_None)

lemma find_plan_unique:
  "distinct (map plan_pk (day_plans d)) \<Longrightarrow> p \<in> set (day_plans d) \<Longrightarrow> find_plan d (plan_pk p) = Some p"
  unfolding find_plan_def by (rule lookup_by_unique [where key = plan_pk and k = "plan_pk p"]) auto

lemma draft_not_frozen:
  assumes "route_ok d" and "p \<in> set (day_plans d)" and "plan_status p = ''draft''"
    and "q \<in> set (day_plans d)" and "plan_status q \<noteq> ''draft''"
  shows "plan_pk q \<noteq> plan_pk p"
  using assms plan_unique [OF route_okD(1)] by metis

section \<open>Changing a draft plan's row\<close>

lemma replace_draft:
  assumes ok: "route_ok d" and p: "p \<in> set (day_plans d)" "plan_status p = ''draft''"
    and row: "plan_ok d row" "plan_pk row = plan_pk p"
    and pub: "plan_status row \<noteq> ''draft'' \<Longrightarrow>
      stops_of d (plan_pk p) \<noteq> [] \<and> 0 < workload (stops_of d (plan_pk p))"
  shows "route_keeps d (d\<lparr> day_plans := update_where (\<lambda>q. plan_pk q = plan_pk p) (\<lambda>_. row) (day_plans d) \<rparr>)"
    (is "route_keeps d ?d'")
proof -
  have keys: "map plan_pk (day_plans ?d') = map plan_pk (day_plans d)"
    by (auto intro!: map_update_where simp: row(2))
  have pks: "plan_pk ` set (day_plans ?d') = plan_pk ` set (day_plans d)"
    using arg_cong [OF keys, of set] by simp
  have "plans_ok ?d'"
    using ok row keys by (auto simp: route_defs list_all_iff set_update_where plan_ok_def)
  moreover have "stop_ok ?d' = stop_ok d"
    by (rule ext) (simp only: stop_ok_def pks, simp)
  then have "stops_ok ?d'"
    using ok by (simp add: route_defs)
  moreover have "published_ok ?d'"
    using ok pub row(2) by (auto simp: route_defs list_all_iff set_update_where stops_of_def)
  moreover have "frozen d ?d'"
    using draft_not_frozen [OF ok p] by (auto simp: frozen_def set_update_where stops_of_def image_iff)
  ultimately show ?thesis by (simp add: route_keeps_def route_ok_def)
qed

lemma upsert_draft_keeps:
  assumes "upsert_draft env i crew date d = Inr (r, d')"
  shows "route_keeps d d'"
proof (cases "route_ok d")
  case False
  then show ?thesis by (simp add: route_keeps_def)
next
  case ok: True
  show ?thesis
  proof (cases r)
    case None
    then have "d' = d" using assms by (auto simp: upsert_draft_def Let_def split: option.splits if_splits)
    then show ?thesis by (simp add: same_plans_stops)
  next
    case (Some row)
    have row: "plan_ok d row \<and> plan_pk row = i \<and> plan_status row = ''draft''"
      using assms Some by (auto simp: upsert_draft_def Let_def split: option.splits if_splits)
    show ?thesis
    proof (cases "find_plan d i")
      case None
      then have d': "d' = d\<lparr> day_plans := day_plans d @ [row] \<rparr>"
        using assms Some by (auto simp: upsert_draft_def Let_def split: option.splits if_splits)
      have "stop_ok d s \<Longrightarrow> stop_ok d' s" for s
        by (auto simp: stop_ok_def d')
      then show ?thesis
        using ok row None unfolding d'
        by (auto simp: route_keeps_def route_defs frozen_def list_all_iff find_plan_None plan_ok_def stops_of_def)
    next
      case (Some p)
      then have d': "d' = d\<lparr> day_plans := update_where (\<lambda>q. plan_pk q = i) (\<lambda>_. row) (day_plans d) \<rparr>"
        and p: "plan_status p = ''draft''"
        using assms \<open>r = Some row\<close> by (auto simp: upsert_draft_def Let_def split: option.splits if_splits)
      show ?thesis
        using replace_draft [OF ok _ p, of row] find_plan_in [OF Some] row unfolding d' by simp
    qed
  qed
qed

lemma publish_keeps:
  assumes "publish_statement env i d = Inr (r, d')"
  shows "route_keeps d d'"
proof (cases "route_ok d \<and> r \<noteq> None")
  case False
  then have "d' = d" if "route_ok d"
    using assms that by (auto simp: publish_statement_def Let_def split: option.splits if_splits)
  then show ?thesis by (auto simp: route_keeps_def)
next
  case True
  then obtain row p where r: "r = Some row" and ok: "route_ok d"
    and l: "lookup_by (\<lambda>p. plan_pk p = i \<and> plan_status p = ''draft'') (day_plans d) = Some p"
    and row: "row = p\<lparr> plan_status := ''published'', plan_updated_at := now_at env \<rparr>"
    and pos: "stops_of d i \<noteq> []" "0 < workload (stops_of d i)"
    and d': "d' = d\<lparr> day_plans := update_where (\<lambda>q. plan_pk q = i) (\<lambda>_. row) (day_plans d) \<rparr>"
    using assms by (auto simp: publish_statement_def Let_def split: option.splits if_splits)
  from l have p: "p \<in> set (day_plans d)" "plan_pk p = i" "plan_status p = ''draft''"
    by (auto dest: lookup_by_Some)
  have "plan_ok d row"
    using route_okD(3) [OF ok p(1)] by (simp add: row plan_ok_def)
  then show ?thesis
    using replace_draft [OF ok p(1,3), of row] p(2) pos unfolding d' by (simp add: row)
qed

section \<open>Changing the stops of a draft plan\<close>

lemma clash_free_keys:
  assumes "map (\<lambda>s. (stop_pk s, stop_plan_id s, stop_order s, stop_job_id s)) rows' =
      map (\<lambda>s. (stop_pk s, stop_plan_id s, stop_order s, stop_job_id s)) rows" (is "map ?k _ = _")
  shows "clash_free rows' = clash_free rows"
proof -
  have char: "clash_free r = (\<forall>a \<in> set (map ?k r). \<forall>b \<in> set (map ?k r).
      fst a \<noteq> fst b \<longrightarrow> \<not> (fst (snd a) = fst (snd b) \<and>
          (fst (snd (snd a)) = fst (snd (snd b)) \<or> snd (snd (snd a)) = snd (snd (snd b)))))" for r
    by (simp add: clash_free_def list_all_iff stop_clash_def)
  show ?thesis by (simp only: char assms)
qed

lemma clash_free_subset: "clash_free rows \<Longrightarrow> set rows' \<subseteq> set rows \<Longrightarrow> clash_free rows'"
  by (auto simp: clash_free_def list_all_iff)

lemma stop_clash_sym: "stop_clash s t \<Longrightarrow> stop_clash t s"
  by (auto simp: stop_clash_def)

lemma replace_stops:
  assumes ok: "route_ok d" and draft: "is_draft d i"
    and rows: "distinct (map stop_pk rows)" "clash_free rows" "list_all (stop_ok d) rows"
    and other: "\<And>j. j \<noteq> i \<Longrightarrow> filter (\<lambda>s. stop_plan_id s = j) rows = stops_of d j"
  shows "route_keeps d (d\<lparr> day_plan_stops := rows \<rparr>)" (is "route_keeps d ?d'")
proof -
  obtain p where p: "p \<in> set (day_plans d)" "plan_pk p = i" "plan_status p = ''draft''"
    using draft by (auto simp: is_draft_def)
  have same: "stops_of ?d' (plan_pk q) = stops_of d (plan_pk q)"
    if "q \<in> set (day_plans d)" "plan_status q \<noteq> ''draft''" for q
    using draft_not_frozen [OF ok p(1,3) that] p(2) other by (simp add: stops_of_def)
  have "plan_ok ?d' = plan_ok d" "stop_ok ?d' = stop_ok d"
    by (auto simp: plan_ok_def stop_ok_def)
  then have "plans_ok ?d'" "stops_ok ?d'"
    using ok rows by (simp_all add: route_defs)
  moreover have "published_ok ?d'" "frozen d ?d'"
    using ok same by (auto simp: route_defs frozen_def list_all_iff)
  ultimately show ?thesis by (simp add: route_keeps_def route_ok_def)
qed

lemma update_stops:
  assumes ok: "route_ok d" and draft: "is_draft d i"
    and f: "\<And>s. s \<in> set (day_plan_stops d) \<Longrightarrow> P s \<Longrightarrow> stop_plan_id s = i \<and> stop_plan_id (f s) = i
      \<and> stop_pk (f s) = stop_pk s \<and> stop_job_id (f s) = stop_job_id s
      \<and> stop_status (f s) = stop_status s"
    and free: "clash_free (update_where P f (day_plan_stops d))"
  shows "route_keeps d (d\<lparr> day_plan_stops := update_where P f (day_plan_stops d) \<rparr>)"
proof (rule replace_stops [OF ok draft _ free])
  show "distinct (map stop_pk (update_where P f (day_plan_stops d)))"
    using route_okD(2) [OF ok] f by (metis (no_types, lifting) map_update_where)
  have "stop_ok d (if P s then f s else s)" if "s \<in> set (day_plan_stops d)" for s
    using route_okD(4) [OF ok that] f [OF that] by (cases "P s") (simp_all add: stop_ok_def)
  then show "list_all (stop_ok d) (update_where P f (day_plan_stops d))"
    by (simp only: update_where_def list_all_iff set_map ball_simps) blast
  show "filter (\<lambda>s. stop_plan_id s = j) (update_where P f (day_plan_stops d)) = stops_of d j"
    if "j \<noteq> i" for j
    unfolding stops_of_def using f that by (intro filter_update_where_other) auto
qed

text \<open>The three ways \<open>assign_stop\<close>'s statement can answer.\<close>

lemma assign_statement_cases:
  assumes "assign_statement env i sid r d = Inr (res, d')"
  obtains (refused) "res = None" and "d' = d"
    | (revised) p old where "p \<in> set (day_plans d)" and "plan_pk p = i" and "plan_status p = ''draft''"
        and "old \<in> set (stops_of d i)" and "stop_job_id old = req_job_id r"
        and "res = Some (revised_stop env r old)"
        and "d' = d\<lparr> day_plan_stops := update_where (\<lambda>s. stop_pk s = stop_pk old)
          (\<lambda>_. revised_stop env r old) (day_plan_stops d) \<rparr>"
    | (inserted) p row where "p \<in> set (day_plans d)" and "plan_pk p = i" and "plan_status p = ''draft''"
        and "\<forall>s \<in> set (stops_of d i). stop_job_id s \<noteq> req_job_id r"
        and "int (length (stops_of d i)) < plan_stop_capacity p"
        and "row = new_stop env i sid r (next_stop_order d i)"
        and "stop_ok d row" and "\<forall>s \<in> set (day_plan_stops d). \<not> stop_clash row s"
        and "res = Some row" and "d' = d\<lparr> day_plan_stops := day_plan_stops d @ [row] \<rparr>"
proof (cases "lookup_by (\<lambda>p. plan_pk p = i \<and> plan_status p = ''draft'') (day_plans d)")
  case None
  with assms have "res = None" "d' = d" by (simp_all add: assign_statement_def)
  then show thesis by (rule refused)
next
  case (Some p)
  note plan = Some
  from lookup_by_Some [OF plan] have p: "p \<in> set (day_plans d)" "plan_pk p = i" "plan_status p = ''draft''"
    by auto
  show thesis
  proof (cases "lookup_by (\<lambda>s. stop_job_id s = req_job_id r) (stops_of d i)")
    case (Some old)
    with assms plan have "res = Some (revised_stop env r old)"
      and "d' = d\<lparr> day_plan_stops := update_where (\<lambda>s. stop_pk s = stop_pk old)
          (\<lambda>_. revised_stop env r old) (day_plan_stops d) \<rparr>"
      by (simp_all add: assign_statement_def)
    with p lookup_by_Some [OF Some] show thesis by (intro revised) auto
  next
    case None
    show thesis
    proof (cases "plan_stop_capacity p \<le> int (length (stops_of d i))")
      case True
      with assms plan None have "res = None" "d' = d" by (simp_all add: assign_statement_def)
      then show thesis by (rule refused)
    next
      case False
      let ?row = "new_stop env i sid r (next_stop_order d i)"
      obtain rows where ins: "insert_row (stop_ok d) stop_clash ?row (day_plan_stops d) = Inr rows"
        and res: "res = Some ?row" and d': "d' = d\<lparr> day_plan_stops := rows \<rparr>"
        using assms plan None False
        by (auto simp: assign_statement_def split: if_splits sum.splits)
      from ins have row: "stop_ok d ?row" "\<forall>s \<in> set (day_plan_stops d). \<not> stop_clash ?row s"
        "rows = day_plan_stops d @ [?row]"
        by (auto simp: insert_row_Inr)
      show thesis
        using p None False res d' row by (intro inserted [of p ?row]) (auto simp: lookup_by_None)
    qed
  qed
qed

lemma assign_keeps:
  assumes "assign_statement env i sid r d = Inr (res, d')"
  shows "route_keeps d d'"
proof (cases "route_ok d")
  case False
  then show ?thesis by (simp add: route_keeps_def)
next
  case ok: True
  from assms show ?thesis
  proof (cases rule: assign_statement_cases)
    case refused
    then show ?thesis by (simp add: same_plans_stops)
  next
    case (revised p old)
    have draft: "is_draft d i" using revised by (auto simp: is_draft_def)
    have old: "old \<in> set (day_plan_stops d)" "stop_plan_id old = i"
      using revised(4) by (auto simp: stops_of_def)
    have eq: "s = old" if "s \<in> set (day_plan_stops d)" "stop_pk s = stop_pk old" for s
      using stop_unique [OF route_okD(2) [OF ok] that(1) old(1) that(2)] .
    have "clash_free (update_where (\<lambda>s. stop_pk s = stop_pk old) (\<lambda>_. revised_stop env r old) (day_plan_stops d))
        = clash_free (day_plan_stops d)"
      by (intro clash_free_keys map_update_where) (auto dest!: eq simp: revised_stop_def)
    then show ?thesis
      unfolding revised(7) using ok old
      by (intro update_stops [OF ok draft]) (auto dest!: eq simp: route_defs revised_stop_def)
  next
    case (inserted p row)
    have draft: "is_draft d i" using inserted by (auto simp: is_draft_def)
    show ?thesis
      unfolding inserted(10)
    proof (rule replace_stops [OF ok draft])
      show "distinct (map stop_pk (day_plan_stops d @ [row]))"
        using route_okD(2) [OF ok] inserted(8) by (auto simp: stop_clash_def)
      show "clash_free (day_plan_stops d @ [row])"
        using ok inserted(8) stop_clash_sym by (auto simp: route_defs clash_free_def list_all_iff)
      show "list_all (stop_ok d) (day_plan_stops d @ [row])"
        using ok inserted(7) by (simp add: route_defs)
      show "filter (\<lambda>s. stop_plan_id s = j) (day_plan_stops d @ [row]) = stops_of d j" if "j \<noteq> i" for j
        using inserted(6) that by (simp add: stops_of_def new_stop_def)
    qed
  qed
qed

lemma delete_stop_keeps:
  assumes "delete_stop_statement i sid d = Inr (n, d')"
  shows "route_keeps d d'"
proof (cases "n = 0 \<or> \<not> route_ok d")
  case True
  with assms show ?thesis
    by (auto simp: delete_stop_statement_def Let_def route_keeps_def split: if_splits)
next
  case False
  let ?hit = "\<lambda>s. stop_plan_id s = i \<and> stop_pk s = sid \<and> is_draft d i"
  let ?rows = "delete_where ?hit (day_plan_stops d)"
  from False have ok: "route_ok d" by simp
  have "0 < affected ?hit (day_plan_stops d)"
    using assms False by (auto simp: delete_stop_statement_def Let_def split: if_splits)
  then have draft: "is_draft d i" by (auto simp: affected_pos)
  obtain as where d': "d' = (d\<lparr> day_plan_stops := ?rows \<rparr>)\<lparr> amendments := as \<rparr>"
    using assms False by (auto simp: delete_stop_statement_def Let_def split: if_splits)
  have "route_keeps d (d\<lparr> day_plan_stops := ?rows \<rparr>)"
  proof (rule replace_stops [OF ok draft])
    show "distinct (map stop_pk ?rows)"
      using route_okD(2) [OF ok] unfolding delete_where_def by (rule distinct_map_filter)
    show "clash_free ?rows"
      using ok by (auto simp: route_defs intro: clash_free_subset)
    show "list_all (stop_ok d) ?rows"
      using ok by (auto simp: route_defs list_all_iff)
    show "filter (\<lambda>s. stop_plan_id s = j) ?rows = stops_of d j" if "j \<noteq> i" for j
      using that by (auto simp: delete_where_def stops_of_def intro: filter_cong)
  qed
  moreover have "route_keeps (d\<lparr> day_plan_stops := ?rows \<rparr>) d'"
    by (rule same_plans_stops) (simp_all add: d')
  ultimately show ?thesis by (metis route_keeps_trans transpD)
qed

text \<open>The multi-row updates of the order of a draft's stops.\<close>

lemma scan_set: "scan_ok env \<Longrightarrow> set (scan_stops env rows) = set rows"
  by (metis scan_ok_def set_mset_mset)

lemma scan_distinct:
  "scan_ok env \<Longrightarrow> distinct (map stop_pk (scan_stops env rows)) = distinct (map stop_pk rows)"
  by (metis scan_ok_def mset_map mset_eq_imp_distinct_iff)

lemma order_update:
  assumes ok: "route_ok d" and draft: "is_draft d i" and scan: "scan_ok env"
    and ts: "ts = filter Q (stops_of d i)"
    and up: "update_each stop_pk stop_clash f (scan_stops env ts) (day_plan_stops d) = Inr rows"
    and f: "\<And>s. stop_pk (f s) = stop_pk s \<and> stop_plan_id (f s) = stop_plan_id s
      \<and> stop_job_id (f s) = stop_job_id s \<and> stop_status (f s) = stop_status s"
  shows "rows = update_where (\<lambda>s. stop_plan_id s = i \<and> Q s) f (day_plan_stops d)"
    and "route_keeps d (d\<lparr> day_plan_stops := rows \<rparr>)"
proof -
  have sub: "set ts \<subseteq> set (day_plan_stops d)" by (auto simp: ts stops_of_def)
  have "distinct (map stop_pk ts)"
    unfolding ts stops_of_def using route_okD(2) [OF ok] by (intro distinct_map_filter)
  then have "rows = update_where (\<lambda>s. stop_pk s \<in> stop_pk ` set (scan_stops env ts)) f (day_plan_stops d)"
    using up sub route_okD(2) [OF ok] f
    by (intro update_each_result [where clash = stop_clash]) (simp_all add: scan_set [OF scan] scan_distinct [OF scan])
  moreover have "stop_pk s \<in> stop_pk ` set ts \<longleftrightarrow> stop_plan_id s = i \<and> Q s"
    if "s \<in> set (day_plan_stops d)" for s
    using that sub stop_unique [OF route_okD(2) [OF ok] that]
    by (auto simp: ts stops_of_def)
  ultimately show rows: "rows = update_where (\<lambda>s. stop_plan_id s = i \<and> Q s) f (day_plan_stops d)"
    by (simp add: update_where_def scan_set [OF scan])
  have "\<forall>r \<in> set rows. \<forall>s \<in> set rows. stop_pk r \<noteq> stop_pk s \<longrightarrow> \<not> stop_clash r s"
  proof (rule update_each_clash_free [OF up])
    show "\<forall>r \<in> set (day_plan_stops d). \<forall>s \<in> set (day_plan_stops d).
        stop_pk r \<noteq> stop_pk s \<longrightarrow> \<not> stop_clash r s"
      using route_okD(5) [OF ok] by blast
  qed (use f stop_clash_sym in blast)+
  then have "clash_free rows"
    by (simp add: clash_free_def list_all_iff)
  then show "route_keeps d (d\<lparr> day_plan_stops := rows \<rparr>)"
    unfolding rows using f by (intro update_stops [OF ok draft]) auto
qed

lemma set_order_simps [simp]:
  "stop_pk (set_order env f s) = stop_pk s" "stop_plan_id (set_order env f s) = stop_plan_id s"
  "stop_job_id (set_order env f s) = stop_job_id s" "stop_status (set_order env f s) = stop_status s"
  "stop_order (set_order env f s) = f s"
  "stop_drive_minutes (set_order env f s) = stop_drive_minutes s"
  "stop_service_minutes (set_order env f s) = stop_service_minutes s"
  by (simp_all add: set_order_def)

lemma renumber_keeps:
  assumes "renumber_statement env i d = Inr (n, d')" and "is_draft d i" and "scan_ok env"
  shows "route_keeps d d'"
proof (cases "route_ok d")
  case ok: True
  from assms(1) obtain rows where
    up: "update_each stop_pk stop_clash (set_order env (\<lambda>s. int (position (stop_pk s)
        (map stop_pk (order_by stop_before (stops_of d i)))))) (scan_stops env (stops_of d i))
        (day_plan_stops d) = Inr rows"
    and d': "d' = d\<lparr> day_plan_stops := rows \<rparr>"
    by (auto simp: renumber_statement_def Let_def split: sum.splits)
  show ?thesis
    unfolding d' using order_update(2) [OF ok assms(2,3) _ up, where Q = "\<lambda>_. True"] by simp
qed (simp add: route_keeps_def)

lemma shift_keeps:
  assumes "shift_statement env i d = Inr (n, d')" and "is_draft d i" and "scan_ok env"
  shows "route_keeps d d'"
proof (cases "route_ok d")
  case ok: True
  from assms(1) obtain rows where
    up: "update_each stop_pk stop_clash (\<lambda>s. s\<lparr> stop_order := stop_order s + 10000 \<rparr>)
        (scan_stops env (stops_of d i)) (day_plan_stops d) = Inr rows"
    and d': "d' = d\<lparr> day_plan_stops := rows \<rparr>"
    by (auto simp: shift_statement_def Let_def split: if_splits sum.splits)
  show ?thesis
    unfolding d' using order_update(2) [OF ok assms(2,3) _ up, where Q = "\<lambda>_. True"] by simp
qed (simp add: route_keeps_def)

lemma apply_order_keeps:
  assumes "apply_order_statement env i sids d = Inr (n, d')" and "is_draft d i" and "scan_ok env"
  shows "route_keeps d d'"
proof (cases "route_ok d")
  case ok: True
  from assms(1) obtain rows where
    up: "update_each stop_pk stop_clash (set_order env (\<lambda>s. int (position (stop_pk s) sids)))
        (scan_stops env (filter (\<lambda>s. stop_pk s \<in> set sids \<and> is_draft d i) (stops_of d i)))
        (day_plan_stops d) = Inr rows"
    and d': "d' = d\<lparr> day_plan_stops := rows \<rparr>"
    by (auto simp: apply_order_statement_def Let_def split: sum.splits)
  show ?thesis
    unfolding d' using order_update(2) [OF ok assms(2,3) refl up] by simp
qed (simp add: route_keeps_def)

section \<open>Operations\<close>

lemma keeps_commit [keeps_rules]: "keeps route_keeps (db_return a)"
  by (rule keeps_return) simp

lemma create_draft_keeps [keeps_rules]: "keeps route_keeps (create_draft_day_plan env i crew date actor)"
  unfolding create_draft_day_plan_def
  by (intro keeps_rules route_keeps_refl route_keeps_trans) (rule upsert_draft_keeps)

lemma publish_day_plan_keeps [keeps_rules]: "keeps route_keeps (publish_day_plan env i actor)"
  unfolding publish_day_plan_def
  by (intro keeps_rules route_keeps_refl route_keeps_trans) (rule publish_keeps)

lemma assign_stop_keeps [keeps_rules]: "keeps route_keeps (assign_stop env i sid r actor)"
  unfolding assign_stop_def
  by (intro keeps_rules route_keeps_refl route_keeps_trans) (rule assign_keeps)

lemma audit_keeps_drafts:
  assumes "insert_route_audit_event env i actor k s j n (fs, d) = (Inr u, (fs', d'))"
  shows "route_keeps d d'"
  using keepsD [OF keeps_audit assms] .

text \<open>How the bodies of the two transactions with several statements can have committed.\<close>

lemma remove_commit:
  assumes "remove_body env i sid actor (fs, d) = (Inr (Commit b), (fs1, d1))"
  obtains (none) n where "delete_stop_statement i sid d = Inr (n, d1)" and "n \<noteq> 1" and "\<not> b"
  | (removed) d2 m d3 fs2 fs3 u where "delete_stop_statement i sid d = Inr (1, d2)"
      and "renumber_statement env i d2 = Inr (m, d3)"
      and "insert_route_audit_event env i actor ''route_stop_removed'' (Some sid) None None (fs2, d3)
        = (Inr u, (fs3, d1))" and b
proof -
  from assms obtain n c2 where del: "db_stmt (delete_stop_statement i sid) (fs, d) = (Inr n, c2)"
    and rest: "(if n \<noteq> 1 then db_return (Commit False)
       else db_bind (db_stmt (renumber_statement env i)) (\<lambda>_.
            db_bind (insert_route_audit_event env i actor ''route_stop_removed'' (Some sid) None None) (\<lambda>_.
            db_return (Commit True)))) c2 = (Inr (Commit b), (fs1, d1))"
    unfolding remove_body_def by (rule db_bind_InrE)
  from del have del': "delete_stop_statement i sid d = Inr (n, snd c2)"
    by (rule db_stmt_InrE') simp
  show thesis
  proof (cases "n = 1")
    case False
    with rest have "c2 = (fs1, d1)" "\<not> b" by (auto simp: db_return_def)
    with del' False show thesis by (intro none) auto
  next
    case True
    from rest [unfolded True, simplified] obtain m c3 c4 u where
      "renumber_statement env i (snd c2) = Inr (m, snd c3)"
      "insert_route_audit_event env i actor ''route_stop_removed'' (Some sid) None None c3 = (Inr u, c4)"
      "c4 = (fs1, d1)" b
      by (elim db_bind_InrE db_stmt_InrE') (auto simp: db_return_def)
    with del' True show thesis
      by (intro removed [of "snd c2" m "snd c3" "fst c3" u fs1]) auto
  qed
qed

lemma delete_stop_draft:
  assumes "delete_stop_statement i sid d = Inr (n, d')" and "0 < n"
  shows "is_draft d i" and "is_draft d' i" and "day_plans d' = day_plans d"
  using assms
  by (auto simp: delete_stop_statement_def Let_def affected_pos is_draft_def split: if_splits)

lemma remove_stop_keeps:
  assumes "scan_ok env"
  shows "keeps route_keeps (remove_stop env i sid actor)"
  unfolding remove_stop_def
proof (rule keeps_transaction_commit [OF route_keeps_refl], goal_cases)
  case (1 fs d b fs1 d1)
  then show ?case
  proof (cases rule: remove_commit)
    case (none n)
    then show ?thesis by (intro delete_stop_keeps)
  next
    case (removed d2 m d3 fs2 fs3 u)
    have "route_keeps d d2" by (rule delete_stop_keeps [OF removed(1)])
    moreover have "route_keeps d2 d3"
      using renumber_keeps [OF removed(2) _ assms] delete_stop_draft [OF removed(1)] by simp
    moreover have "route_keeps d3 d1" by (rule audit_keeps_drafts [OF removed(3)])
    ultimately show ?thesis by (metis route_keeps_trans transpD)
  qed
qed

lemma shift_same_plans: "shift_statement env i d = Inr (n, d') \<Longrightarrow> day_plans d' = day_plans d"
  by (auto simp: shift_statement_def split: if_splits sum.splits)

lemma reorder_commit:
  assumes "reorder_body env i sids actor (fs, d) = (Inr (Commit b), (fs1, d1))" and "sids \<noteq> []"
  obtains (count) "d1 = d" and "\<not> b"
      and "(if is_draft d i then length (stops_of d i) else 0) \<noteq> length sids"
  | (reordered) d2 d3 m n fs2 fs3 u where "is_draft d i" and "length (stops_of d i) = length sids"
      and "shift_statement env i d = Inr (m, d2)" and "apply_order_statement env i sids d2 = Inr (n, d3)"
      and "b = (n = length sids)"
      and "if b then insert_route_audit_event env i actor ''route_stops_reordered'' None None
             (Some (int (length sids))) (fs2, d3) = (Inr u, (fs3, d1)) else d1 = d3"
proof -
  from assms(1) obtain k c2 where
    sel: "db_select (\<lambda>d. if is_draft d i then length (stops_of d i) else 0) (fs, d) = (Inr k, c2)"
    and rest: "(if k \<noteq> length sids then db_return (Commit False)
       else db_bind (db_stmt (shift_statement env i)) (\<lambda>_.
            db_bind (db_stmt (apply_order_statement env i sids)) (\<lambda>n.
            db_bind (if n = length sids
                     then insert_route_audit_event env i actor ''route_stops_reordered'' None None
                       (Some (int (length sids)))
                     else db_return ()) (\<lambda>_.
            db_return (Commit (n = length sids)))))) c2 = (Inr (Commit b), (fs1, d1))"
    unfolding reorder_body_def by (rule db_bind_InrE)
  from sel have k: "k = (if is_draft d i then length (stops_of d i) else 0)" and c2: "snd c2 = d"
    by (auto elim: db_select_InrE')
  show thesis
  proof (cases "k = length sids")
    case False
    with rest have "c2 = (fs1, d1)" "\<not> b" by (auto simp: db_return_def)
    with c2 k False show thesis by (intro count) auto
  next
    case True
    with assms(2) k have draft: "is_draft d i" "length (stops_of d i) = length sids"
      by (auto split: if_splits)
    from rest True obtain m c3 n c4 u c5 where
      "shift_statement env i (snd c2) = Inr (m, snd c3)"
      "apply_order_statement env i sids (snd c3) = Inr (n, snd c4)"
      "(if n = length sids
        then insert_route_audit_event env i actor ''route_stops_reordered'' None None
          (Some (int (length sids)))
        else db_return ()) c4 = (Inr u, c5)"
      "c5 = (fs1, d1)" "b = (n = length sids)"
      by (auto simp: db_return_def elim!: db_bind_InrE db_stmt_InrE')
    with draft c2 show thesis
      by (intro reordered [of m "snd c3" n "snd c4" "fst c4" u fs1]) (auto simp: db_return_def split: if_splits)
  qed
qed

lemma reorder_keeps:
  assumes "scan_ok env"
  shows "keeps route_keeps (reorder_stops env i sids actor)"
  unfolding reorder_stops_def
proof (intro keeps_if keeps_commit)
  assume "sids \<noteq> []"
  show "keeps route_keeps (db_transaction (reorder_body env i sids actor))"
  proof (rule keeps_transaction_commit [OF route_keeps_refl])
    fix fs d b fs1 d1
    assume "reorder_body env i sids actor (fs, d) = (Inr (Commit b), (fs1, d1))"
    from this \<open>sids \<noteq> []\<close> show "route_keeps d d1"
    proof (cases rule: reorder_commit)
      case count
      then show ?thesis by (simp add: same_plans_stops)
    next
      case (reordered d2 d3 m n fs2 fs3 u)
      have draft2: "is_draft d2 i"
        using reordered(1) shift_same_plans [OF reordered(3)] by (simp add: is_draft_def)
      have "route_keeps d d2" by (rule shift_keeps [OF reordered(3,1) assms])
      moreover have "route_keeps d2 d3" by (rule apply_order_keeps [OF reordered(4) draft2 assms])
      moreover have "route_keeps d3 d1"
        using reordered(6) audit_keeps_drafts by (auto simp: same_plans_stops split: if_splits)
      ultimately show ?thesis by (metis route_keeps_trans transpD)
    qed
  qed
qed

section \<open>All or nothing\<close>

context refusing_call
begin

text \<open>A repository operation over such a write: anything but \<open>Applied\<close> has changed nothing.\<close>

lemma answer_unchanged:
  assumes "answer call present (fs, d) = (Inr r, (fs', d'))" and "\<And>a. r \<noteq> Applied a"
  shows "d' = d"
proof -
  obtain r1 fs1 d1 where m: "call (fs, d) = (r1, (fs1, d1))" by (metis prod.collapse)
  show ?thesis
  proof (cases r1)
    case (Inl e)
    with m assms(1) have "d' = d1" by (auto simp: answer_def db_return_def)
    with m Inl failed_unchanged show ?thesis by blast
  next
    case (Inr res)
    show ?thesis
    proof (cases res)
      case None
      with m Inr refused_unchanged have "d1 = d" by blast
      moreover have "refusal present (fs1, d1) = (Inr r, (fs', d'))"
        using m Inr None assms(1) by (simp add: answer_def)
      then have "d' = d1"
        by (auto simp: refusal_def db_catch_def db_select_def db_stmt_def db_return_def split: if_splits)
      ultimately show ?thesis by simp
    next
      case (Some a)
      with m Inr assms show ?thesis by (auto simp: answer_def db_return_def)
    qed
  qed
qed

end

lemma transaction_refuses:
  assumes "db_transaction body (fs, d) = (Inr None, (fs', d'))"
    and "\<And>fs d fs1 d1. body (fs, d) = (Inr (Commit None), (fs1, d1)) \<Longrightarrow> d1 = d"
  shows "d' = d"
  using assms(1) by (cases rule: db_transaction_InrE) (use assms(2) in auto)

lemma upsert_refused: "upsert_draft env i crew date d = Inr (None, d') \<Longrightarrow> d' = d"
  by (auto simp: upsert_draft_def Let_def split: option.splits if_splits)

interpretation create_draft: refusing_call "create_draft_day_plan env i crew date actor"
  for env i crew date actor
proof
  fix fs d e fs' d'
  assume "create_draft_day_plan env i crew date actor (fs, d) = (Inl e, (fs', d'))"
  then show "d' = d" unfolding create_draft_day_plan_def by (rule db_transaction_Inl)
next
  fix fs d fs' d'
  assume "create_draft_day_plan env i crew date actor (fs, d) = (Inr None, (fs', d'))"
  then show "d' = d"
    unfolding create_draft_day_plan_def
    by (rule transaction_refuses)
       (auto simp: db_return_def elim!: db_bind_InrE db_stmt_InrE' dest: upsert_refused split: if_splits)
qed

interpretation publish: refusing_call "publish_day_plan env i actor" for env i actor
proof
  fix fs d e fs' d'
  assume "publish_day_plan env i actor (fs, d) = (Inl e, (fs', d'))"
  then show "d' = d" unfolding publish_day_plan_def by (rule db_transaction_Inl)
next
  fix fs d fs' d'
  assume "publish_day_plan env i actor (fs, d) = (Inr None, (fs', d'))"
  then show "d' = d"
    unfolding publish_day_plan_def
    by (rule transaction_refuses)
       (auto simp: db_return_def elim!: db_bind_InrE db_stmt_InrE' split: option.splits)
qed

interpretation assign: refusing_call "assign_stop env i sid r actor" for env i sid r actor
proof
  fix fs d e fs' d'
  assume "assign_stop env i sid r actor (fs, d) = (Inl e, (fs', d'))"
  then show "d' = d" unfolding assign_stop_def by (rule db_transaction_Inl)
next
  fix fs d fs' d'
  assume "assign_stop env i sid r actor (fs, d) = (Inr None, (fs', d'))"
  then show "d' = d"
    unfolding assign_stop_def
    by (rule transaction_refuses)
       (auto simp: db_return_def elim!: db_bind_InrE db_stmt_InrE' split: option.splits)
qed

interpretation remove: atomic_call "remove_stop env i sid actor" for env i sid actor
  unfolding remove_stop_def by (rule atomic_transaction)

interpretation reorder: atomic_call "reorder_stops env i sids actor" for env i sids actor
  by unfold_locales
     (auto simp: reorder_stops_def db_return_def split: if_splits dest: db_transaction_Inl)

end
