(* ===== verification/Route_Properties.thy ===== *)
theory Route_Properties
  imports Route_Facts
begin

text \<open>
  The properties of the route operations: which answer each gives and what it leaves in the
  database, on every branch. \<open>result_of\<close> and \<open>state_after\<close> are the outcome without an outage.
\<close>

section \<open>Evaluation\<close>

text \<open>UUIDs are not drawn twice: the audit event of the request does not exist yet.\<close>

definition audit_fresh :: "env \<Rightarrow> string \<Rightarrow> db \<Rightarrow> bool" where
  "audit_fresh env kind d \<longleftrightarrow>
     (\<forall>a \<in> set (audit_events d). audit_pk a \<noteq> ''audit_'' @ kind @ ''_'' @ fresh_uuid env 0)"

lemma append_audit_fresh:
  assumes "audit_kind a \<in> set audit_kinds" and "\<forall>b \<in> set (audit_events d). audit_pk b \<noteq> audit_pk a"
  shows "append_audit a d = Inr ((), d\<lparr> audit_events := audit_events d @ [a] \<rparr>)"
  using assms by (force simp: append_audit_def insert_row_def audit_ok_def audit_clash_def)

lemma route_audit_run:
  assumes "find_plan d i = Some p" and "find_crew d (plan_crew_id p) = Some c"
    and "kind \<in> set audit_kinds" and "audit_fresh env kind d"
  shows "insert_route_audit_event env i actor kind s j n ([], d) =
    (Inr (), ([], d\<lparr> audit_events := audit_events d @ [route_audit_row env p c actor kind s j n] \<rparr>))"
  using assms append_audit_fresh [of "route_audit_row env p c actor kind s j n" d]
  by (simp add: insert_route_audit_event_def route_audit_row_def audit_fresh_def)

lemma plan_has_crew:
  assumes "route_ok d" and "p \<in> set (day_plans d)"
  obtains c where "find_crew d (plan_crew_id p) = Some c"
proof (cases "find_crew d (plan_crew_id p)")
  case None
  moreover have "plan_crew_id p \<in> crew_pk ` set (crews d)"
    using route_okD(3) [OF assms] by (simp add: plan_ok_def)
  ultimately show thesis by (auto simp: find_crew_def lookup_by_None)
qed (rule that)

lemma day_plan_organization_iff:
  assumes "route_ok d"
  shows "day_plan_organization d i \<noteq> None \<longleftrightarrow> find_plan d i \<noteq> None"
proof (cases "find_plan d i")
  case None
  then show ?thesis by (simp add: day_plan_organization_def)
next
  case (Some p)
  then have "p \<in> set (day_plans d)" by (simp add: find_plan_in)
  with assms obtain c where "find_crew d (plan_crew_id p) = Some c" by (rule plan_has_crew)
  with Some show ?thesis by (simp add: day_plan_organization_def)
qed

lemma draft_lookup:
  assumes "distinct (map plan_pk (day_plans d))"
  shows "lookup_by (\<lambda>p. plan_pk p = i \<and> plan_status p = ''draft'') (day_plans d) =
    (case find_plan d i of None \<Rightarrow> None | Some p \<Rightarrow> if plan_status p = ''draft'' then Some p else None)"
proof (cases "find_plan d i")
  case None
  then have "lookup_by (\<lambda>p. plan_pk p = i \<and> plan_status p = ''draft'') (day_plans d) = None"
    by (auto simp: find_plan_def lookup_by_None)
  with None show ?thesis by simp
next
  case (Some p)
  then have p: "p \<in> set (day_plans d)" "plan_pk p = i" by (auto dest: find_plan_in)
  show ?thesis
  proof (cases "plan_status p = ''draft''")
    case True
    have "lookup_by (\<lambda>p. plan_pk p = i \<and> plan_status p = ''draft'') (day_plans d) = Some p"
      using assms p True by (intro lookup_by_unique [where key = plan_pk and k = i]) auto
    with Some True show ?thesis by simp
  next
    case False
    have "\<not> (plan_pk q = i \<and> plan_status q = ''draft'')" if "q \<in> set (day_plans d)" for q
      using plan_unique [OF assms that p(1)] p(2) False by auto
    then have "lookup_by (\<lambda>p. plan_pk p = i \<and> plan_status p = ''draft'') (day_plans d) = None"
      by (simp add: lookup_by_None)
    with Some False show ?thesis by simp
  qed
qed

lemma find_plan_update:
  assumes "find_plan d i = Some p" and "plan_pk row = i"
  shows "find_plan (d\<lparr> day_plans := update_where (\<lambda>q. plan_pk q = i) (\<lambda>_. row) (day_plans d) \<rparr>) i = Some row"
proof -
  have "lookup_by (\<lambda>p. plan_pk p = i) ps = Some p \<Longrightarrow>
      lookup_by (\<lambda>p. plan_pk p = i) (update_where (\<lambda>q. plan_pk q = i) (\<lambda>_. row) ps) = Some row" for ps
    using assms(2) by (induction ps) (auto split: if_splits)
  then show ?thesis using assms(1) by (simp add: find_plan_def)
qed

section \<open>Publication\<close>

definition publishable :: "db \<Rightarrow> day_plan_row \<Rightarrow> bool" where
  "publishable d p \<longleftrightarrow> plan_status p = ''draft'' \<and> stops_of d (plan_pk p) \<noteq> []
     \<and> 0 < workload (stops_of d (plan_pk p))"

lemma publish_run:
  assumes ok: "route_ok d" and fresh: "audit_fresh env ''route_published'' d"
    and range: "minutes_in_range (stops_of d i)"
  shows "run_call (publish_day_plan_as env True i actor) d =
    (case find_plan d i of
       None \<Rightarrow> (Inr NotFound, d)
     | Some p \<Rightarrow>
         if publishable d p
         then let row = p\<lparr> plan_status := ''published'', plan_updated_at := now_at env \<rparr> in
           (Inr (Applied (day_plan_mutation_response env row True)),
            d\<lparr> day_plans := update_where (\<lambda>q. plan_pk q = i) (\<lambda>_. row) (day_plans d),
               audit_events := audit_events d @
                 [route_audit_row env row (the (find_crew d (plan_crew_id p))) actor ''route_published''
                    None None None] \<rparr>)
         else (Inr Conflict, d))"
proof (cases "find_plan d i")
  case None
  then show ?thesis
    using route_okD(1) [OF ok] day_plan_organization_iff [OF ok, of i]
    by (simp add: run_call_def publish_day_plan_as_def answer_def publish_day_plan_def
        publish_statement_def draft_lookup db_bind_def db_catch_def refusal_def)
next
  case (Some p)
  then have p: "p \<in> set (day_plans d)" "plan_pk p = i" by (auto dest: find_plan_in)
  show ?thesis
  proof (cases "publishable d p")
    case False
    then show ?thesis
      using Some p range route_okD(1) [OF ok] day_plan_organization_iff [OF ok, of i]
      by (auto simp: run_call_def publish_day_plan_as_def answer_def publish_day_plan_def publishable_def
          publish_statement_def draft_lookup db_bind_def db_catch_def refusal_def)
  next
    case True
    obtain c where c: "find_crew d (plan_crew_id p) = Some c"
      using ok p(1) by (rule plan_has_crew)
    let ?row = "p\<lparr> plan_status := ''published'', plan_updated_at := now_at env \<rparr>"
    let ?d1 = "d\<lparr> day_plans := update_where (\<lambda>q. plan_pk q = i) (\<lambda>_. ?row) (day_plans d) \<rparr>"
    have stmt: "publish_statement env i d = Inr (Some ?row, ?d1)"
      using True Some p range route_okD(1) [OF ok]
      by (simp add: publish_statement_def draft_lookup publishable_def Let_def)
    have "find_plan ?d1 i = Some ?row"
      using find_plan_update [OF Some] p(2) by simp
    moreover have "find_crew ?d1 (plan_crew_id ?row) = Some c"
      using c by (simp add: find_crew_def)
    ultimately have audit: "insert_route_audit_event env i actor ''route_published'' None None None ([], ?d1) =
        (Inr (), ([], ?d1\<lparr> audit_events := audit_events d @
          [route_audit_row env ?row c actor ''route_published'' None None None] \<rparr>))"
      using route_audit_run [of ?d1 i ?row c "''route_published''" env] fresh
      by (simp add: audit_kinds_def audit_fresh_def)
    show ?thesis
      using True Some c
      by (simp add: run_call_def publish_day_plan_as_def answer_def publish_day_plan_def stmt audit
          db_catch_def Let_def)
  qed
qed

section \<open>Assignment\<close>

lemma answer_applied:
  assumes "answer call present (fs, d) = (Inr (Applied a), (fs', d'))"
  shows "call (fs, d) = (Inr (Some a), (fs', d'))"
proof -
  obtain r1 fs1 d1 where m: "call (fs, d) = (r1, (fs1, d1))" by (metis prod.collapse)
  with assms show ?thesis
    by (cases r1) (auto simp: answer_def refusal_def db_return_def db_catch_def db_select_def db_stmt_def
        split: option.splits if_splits)
qed

lemma audit_same_stops:
  assumes "insert_route_audit_event env i actor k s j n c = (Inr u, c')"
  shows "day_plan_stops (snd c') = day_plan_stops (snd c)" and "day_plans (snd c') = day_plans (snd c)"
    and "service_jobs (snd c') = service_jobs (snd c)"
  using assms unfolding insert_route_audit_event_def
  by (auto elim!: db_stmt_InrE' dest!: append_audit_Inr split: option.splits)

lemma assign_applied:
  assumes "assign_stop_as env True i r actor (fs, d) = (Inr (Applied resp), (fs', d'))"
  obtains row d1 where "assign_statement env i (draft_stop_id i (req_job_id r)) r d = Inr (Some row, d1)"
    and "day_plan_stops d' = day_plan_stops d1" and "day_plans d' = day_plans d1"
    and "resp = \<lparr> sr_day_plan_id = stop_plan_id row, sr_stop_id = stop_pk row,
             sr_job_id = stop_job_id row, sr_stop_order = as_u32 (stop_order row), sr_persisted = True \<rparr>"
proof -
  let ?sid = "draft_stop_id i (req_job_id r)"
  have "assign_stop env i ?sid r actor (fs, d) = (Inr (Some resp), (fs', d'))"
    using assms by (intro answer_applied [where present = "\<lambda>d. exists_row (\<lambda>p. plan_pk p = i) (day_plans d)
          \<and> exists_row (\<lambda>j. job_pk j = req_job_id r) (service_jobs d)"])
       (simp add: assign_stop_as_def Let_def)
  then show thesis
    unfolding assign_stop_def
  proof (cases rule: db_transaction_InrE)
    case (committed fs1)
    then show thesis
      using audit_same_stops
      by (auto simp: db_return_def elim!: db_bind_InrE db_stmt_InrE' split: option.splits)
         (metis that snd_conv)
  qed (auto simp: db_return_def elim!: db_bind_InrE db_stmt_InrE' split: option.splits)
qed

lemma stops_of_update:
  assumes "\<And>s. s \<in> set (day_plan_stops d) \<Longrightarrow> P s \<Longrightarrow> stop_plan_id (f s) = stop_plan_id s"
  shows "stops_of (d\<lparr> day_plan_stops := update_where P f (day_plan_stops d) \<rparr>) i =
    update_where P f (stops_of d i)"
proof -
  have "filter (\<lambda>s. stop_plan_id s = i) (update_where P f rows) =
      update_where P f (filter (\<lambda>s. stop_plan_id s = i) rows)"
    if "\<And>s. s \<in> set rows \<Longrightarrow> P s \<Longrightarrow> stop_plan_id (f s) = stop_plan_id s" for rows
    using that by (induction rows) auto
  then show ?thesis using assms by (simp add: stops_of_def)
qed

text \<open>
  What \<open>Applied\<close> means: the plan is a draft, the job is on it exactly once and with the requested
  minutes, the stops of other jobs are untouched, and a stop was added only below the capacity.
\<close>

lemma assign_stop_effect:
  assumes "assign_stop_as env True i r actor (fs, d) = (Inr (Applied resp), (fs', d'))" and ok: "route_ok d"
  shows "is_draft d i"
    and "\<exists>s. filter (\<lambda>s. stop_job_id s = req_job_id r) (stops_of d' i) = [s] \<and> stop_pk s = sr_stop_id resp
      \<and> stop_drive_minutes s = requested_minutes (req_drive_minutes r)
      \<and> stop_service_minutes s = requested_minutes (req_service_minutes r)"
    and "filter (\<lambda>s. stop_job_id s \<noteq> req_job_id r) (stops_of d' i) =
      filter (\<lambda>s. stop_job_id s \<noteq> req_job_id r) (stops_of d i)"
    and "stops_of d' i \<noteq> [] \<and> (length (stops_of d' i) = length (stops_of d i)
      \<or> (\<exists>p. find_plan d i = Some p \<and> int (length (stops_of d' i)) \<le> plan_stop_capacity p))"
proof -
  obtain row d1 where st: "assign_statement env i (draft_stop_id i (req_job_id r)) r d = Inr (Some row, d1)"
    and rows: "day_plan_stops d' = day_plan_stops d1"
    and resp: "resp = \<lparr> sr_day_plan_id = stop_plan_id row, sr_stop_id = stop_pk row,
             sr_job_id = stop_job_id row, sr_stop_order = as_u32 (stop_order row), sr_persisted = True \<rparr>"
    using assms(1) by (rule assign_applied)
  have d'_stops: "stops_of d' i = stops_of d1 i" by (simp add: stops_of_def rows)
  from st have "is_draft d i \<and>
    (\<exists>s. filter (\<lambda>s. stop_job_id s = req_job_id r) (stops_of d1 i) = [s] \<and> stop_pk s = stop_pk row
      \<and> stop_drive_minutes s = requested_minutes (req_drive_minutes r)
      \<and> stop_service_minutes s = requested_minutes (req_service_minutes r)) \<and>
    filter (\<lambda>s. stop_job_id s \<noteq> req_job_id r) (stops_of d1 i) =
      filter (\<lambda>s. stop_job_id s \<noteq> req_job_id r) (stops_of d i) \<and>
    (stops_of d1 i \<noteq> [] \<and> (length (stops_of d1 i) = length (stops_of d i)
      \<or> (\<exists>p. find_plan d i = Some p \<and> int (length (stops_of d1 i)) \<le> plan_stop_capacity p)))"
  proof (cases rule: assign_statement_cases)
    case (revised p old)
    have old: "old \<in> set (day_plan_stops d)" "stop_plan_id old = i"
      using revised(4) by (auto simp: stops_of_def)
    have eq: "s = old" if "s \<in> set (day_plan_stops d)" "stop_pk s = stop_pk old" for s
      using stop_unique [OF route_okD(2) [OF ok] that(1) old(1) that(2)] .
    let ?up = "update_where (\<lambda>s. stop_pk s = stop_pk old) (\<lambda>_. revised_stop env r old)"
    have stops: "stops_of d1 i = ?up (stops_of d i)"
      unfolding revised(7) by (rule stops_of_update) (auto dest!: eq simp: revised_stop_def)
    have others: "stop_job_id s \<noteq> req_job_id r" if "s \<in> set (stops_of d i)" "stop_pk s \<noteq> stop_pk old" for s
    proof -
      have "\<not> stop_clash s old" using that old route_okD(5) [OF ok] by (auto simp: stops_of_def)
      with that old revised(5) show ?thesis by (auto simp: stop_clash_def stops_of_def)
    qed
    have dist: "distinct (map stop_pk (stops_of d i))"
      unfolding stops_of_def using route_okD(2) [OF ok] by (rule distinct_map_filter)
    have one: "filter (\<lambda>s. stop_job_id s = req_job_id r) (?up ss) = [revised_stop env r old]
        \<and> filter (\<lambda>s. stop_job_id s \<noteq> req_job_id r) (?up ss) = filter (\<lambda>s. stop_job_id s \<noteq> req_job_id r) ss"
      if "distinct (map stop_pk ss)" "old \<in> set ss" "set ss \<subseteq> set (stops_of d i)" for ss
      using that
    proof (induction ss)
      case (Cons s ss)
      have job: "stop_job_id (revised_stop env r old) = req_job_id r"
        using revised(5) by (simp add: revised_stop_def)
      show ?case
      proof (cases "stop_pk s = stop_pk old")
        case True
        then have "s = old" using Cons.prems(3) eq by (auto simp: stops_of_def)
        moreover have "stop_pk t \<noteq> stop_pk old" if "t \<in> set ss" for t
          using Cons.prems(1) True imageI [OF that, of stop_pk] by auto
        then have "?up ss = ss" "filter (\<lambda>s. stop_job_id s = req_job_id r) ss = []"
          using others Cons.prems(3) by (auto simp: filter_empty_conv intro: update_where_none)
        ultimately show ?thesis using job revised(5) by simp
      next
        case False
        then have "stop_job_id s \<noteq> req_job_id r" using others Cons.prems(3) by auto
        with False Cons show ?thesis by auto
      qed
    qed simp
    show ?thesis
      using revised one [OF dist revised(4)] stops
      by (auto simp: is_draft_def revised_stop_def update_where_def)
  next
    case (inserted p row')
    have stops: "stops_of d1 i = stops_of d i @ [row]"
      using inserted by (simp add: stops_of_def new_stop_def)
    have "find_plan d i = Some p"
      using find_plan_unique [OF route_okD(1) [OF ok] inserted(1)] inserted(2) by simp
    moreover have "stop_job_id row = req_job_id r"
      using inserted(6,9) by (simp add: new_stop_def)
    moreover have "filter (\<lambda>s. stop_job_id s = req_job_id r) (stops_of d i) = []"
      using inserted(4) by (simp add: filter_empty_conv)
    ultimately show ?thesis
      using inserted(1-3,5,6,9) unfolding stops
      by (auto simp: is_draft_def new_stop_def)
  qed simp
  then show "is_draft d i"
    and "\<exists>s. filter (\<lambda>s. stop_job_id s = req_job_id r) (stops_of d' i) = [s] \<and> stop_pk s = sr_stop_id resp
      \<and> stop_drive_minutes s = requested_minutes (req_drive_minutes r)
      \<and> stop_service_minutes s = requested_minutes (req_service_minutes r)"
    and "filter (\<lambda>s. stop_job_id s \<noteq> req_job_id r) (stops_of d' i) =
      filter (\<lambda>s. stop_job_id s \<noteq> req_job_id r) (stops_of d i)"
    and "stops_of d' i \<noteq> [] \<and> (length (stops_of d' i) = length (stops_of d i)
      \<or> (\<exists>p. find_plan d i = Some p \<and> int (length (stops_of d' i)) \<le> plan_stop_capacity p))"
    by (simp_all add: d'_stops resp)
qed

section \<open>The order of the stops\<close>

text \<open>The stops of a plan in visiting order.\<close>

definition visit_order :: "db \<Rightarrow> string \<Rightarrow> stop_row list" where
  "visit_order d i = order_by stop_before (stops_of d i)"

lemma sorted_visit: "sorted (map stop_order (order_by stop_before rows))"
  by (rule sorted_order_by) (auto simp: stop_before_def)

lemma distinct_orders:
  assumes "route_ok d"
  shows "distinct (map stop_order (stops_of d i))"
proof -
  have "distinct (stops_of d i)"
    using route_okD(2) [OF assms] by (simp add: stops_of_def distinct_map)
  moreover have "inj_on stop_order (set (stops_of d i))"
  proof (rule inj_onI)
    fix s t assume st: "s \<in> set (stops_of d i)" "t \<in> set (stops_of d i)" "stop_order s = stop_order t"
    then have "stop_clash s t" by (auto simp: stops_of_def stop_clash_def)
    then have "stop_pk s = stop_pk t" using st route_okD(5) [OF assms] by (auto simp: stops_of_def)
    then show "s = t" using st stop_unique [OF route_okD(2) [OF assms]] by (auto simp: stops_of_def)
  qed
  ultimately show ?thesis by (simp add: distinct_map)
qed

lemma position_nth:
  "distinct ks \<Longrightarrow> map (\<lambda>k. position k ks) ks = [1..<Suc (length ks)]"
proof (induction ks)
  case (Cons k ks)
  have "map (\<lambda>x. position x (k # ks)) ks = map (\<lambda>x. Suc (position x ks)) ks"
    using Cons.prems by auto
  also have "\<dots> = map Suc (map (\<lambda>x. position x ks) ks)" by simp
  also have "\<dots> = map Suc [1..<Suc (length ks)]" using Cons by simp
  finally show ?case by (simp add: map_Suc_upt upt_conv_Cons del: upt_Suc)
qed simp

lemma sorted_int_upt: "sorted (map int [m..<n])"
  by (induction n) (auto simp: sorted_append)

lemma int_positions:
  "distinct ks \<Longrightarrow> map (\<lambda>k. int (position k ks)) ks = map int [1..<Suc (length ks)]"
proof -
  assume "distinct ks"
  have "map (\<lambda>k. int (position k ks)) ks = map int (map (\<lambda>k. position k ks) ks)" by simp
  also have "\<dots> = map int [1..<Suc (length ks)]"
    by (simp only: position_nth [OF \<open>distinct ks\<close>])
  finally show ?thesis .
qed

lemma sorted_positions:
  assumes "distinct ks"
  shows "sorted (map (\<lambda>k. int (position k ks)) ks)" and "distinct (map (\<lambda>k. int (position k ks)) ks)"
  by (simp_all only: int_positions [OF assms] sorted_int_upt) (simp add: distinct_map)

text \<open>
  Rows numbered by their position in a list of their keys come out in the order of that list: the
  common core of removal and reordering.
\<close>

lemma numbered_visit_order:
  fixes env :: env
  assumes ks: "distinct ks" "set ks = stop_pk ` set rows" and rows: "distinct (map stop_pk rows)"
  defines "f \<equiv> set_order env (\<lambda>s. int (position (stop_pk s) ks))"
  shows "map stop_pk (order_by stop_before (map f rows)) = ks"
    and "map stop_order (order_by stop_before (map f rows)) = map int [1..<Suc (length ks)]"
proof -
  let ?by_key = "\<lambda>k. the (lookup_by (\<lambda>s. stop_pk s = k) rows)"
  have by_key: "?by_key (stop_pk s) = s" if "s \<in> set rows" for s
    using lookup_by_unique [OF rows that, of "\<lambda>x. stop_pk x = stop_pk s" "stop_pk s"] by simp
  have pk: "stop_pk (?by_key k) = k \<and> ?by_key k \<in> set rows" if "k \<in> set ks" for k
    using that ks(2) by_key by auto
  have keys: "map stop_pk (map (f \<circ> ?by_key) ks) = ks"
    unfolding map_map using pk by (intro map_idI) (simp add: f_def)
  have orders: "map stop_order (map (f \<circ> ?by_key) ks) = map (\<lambda>k. int (position k ks)) ks"
    unfolding map_map using pk by (intro map_cong) (simp_all add: f_def)
  have same: "order_by stop_before (map f rows) = map (f \<circ> ?by_key) ks"
  proof (rule sorted_by_key_unique [where key = stop_order])
    have elems: "set (map (f \<circ> ?by_key) ks) = f ` set rows"
      using ks(2) by_key by (force simp: image_image)
    then show "set (order_by stop_before (map f rows)) = set (map (f \<circ> ?by_key) ks)" by simp
    show "sorted (map stop_order (order_by stop_before (map f rows)))" by (rule sorted_visit)
    show "sorted (map stop_order (map (f \<circ> ?by_key) ks))"
      unfolding orders by (rule sorted_positions [OF ks(1)])
    show "distinct (map stop_order (map (f \<circ> ?by_key) ks))"
      unfolding orders by (rule sorted_positions [OF ks(1)])
    have "inj_on (stop_order \<circ> f) (set rows)"
    proof (rule inj_onI)
      fix s t assume st: "s \<in> set rows" "t \<in> set rows" "(stop_order \<circ> f) s = (stop_order \<circ> f) t"
      then have "position (stop_pk s) ks = position (stop_pk t) ks" by (simp add: f_def)
      moreover have inj: "inj_on (\<lambda>k. int (position k ks)) (set ks)"
        using sorted_positions(2) [OF ks(1)] by (simp add: distinct_map)
      ultimately have "stop_pk s = stop_pk t"
        using st(1,2) ks(2) inj_onD [OF inj, of "stop_pk s" "stop_pk t"] by simp
      then show "s = t" using rows st(1,2) stop_unique by blast
    qed
    then have "distinct (map (stop_order \<circ> f) rows)"
      using rows by (simp add: distinct_map)
    then show "distinct (map stop_order (order_by stop_before (map f rows)))"
      unfolding distinct_order_by by simp
  qed
  show "map stop_pk (order_by stop_before (map f rows)) = ks"
    unfolding same by (rule keys)
  show "map stop_order (order_by stop_before (map f rows)) = map int [1..<Suc (length ks)]"
    unfolding same orders by (rule int_positions [OF ks(1)])
qed

text \<open>What a removal leaves: the other stops, in their order, numbered from 1.\<close>

lemma delete_stop_cases:
  assumes "delete_stop_statement i sid d = Inr (n, d')"
  obtains (none) "n = 0" and "d' = d"
    | (deleted) "0 < n" and "n = affected (\<lambda>s. stop_plan_id s = i \<and> stop_pk s = sid) (day_plan_stops d)"
        and "is_draft d i" and "day_plans d' = day_plans d"
        and "day_plan_stops d' = filter (\<lambda>s. \<not> (stop_plan_id s = i \<and> stop_pk s = sid)) (day_plan_stops d)"
proof (cases "n = 0")
  case True
  with assms have "d' = d" by (auto simp: delete_stop_statement_def Let_def split: if_splits)
  with True show thesis by (rule none)
next
  case False
  then have draft: "is_draft d i" using delete_stop_draft(1) [OF assms] by simp
  with assms False show thesis
    by (intro deleted) (auto simp: delete_stop_statement_def Let_def delete_where_def split: if_splits)
qed

lemma renumber_effect:
  assumes "renumber_statement env i d = Inr (n, d')" and ok: "route_ok d" and "is_draft d i" and "scan_ok env"
  shows "map stop_pk (visit_order d' i) = map stop_pk (visit_order d i)"
    and "map stop_order (visit_order d' i) = map int [1..<Suc (length (stops_of d i))]"
proof -
  let ?ks = "map stop_pk (visit_order d i)"
  let ?f = "set_order env (\<lambda>s. int (position (stop_pk s) ?ks))"
  from assms(1) obtain rows where
    up: "update_each stop_pk stop_clash ?f (scan_stops env (stops_of d i)) (day_plan_stops d) = Inr rows"
    and d': "d' = d\<lparr> day_plan_stops := rows \<rparr>"
    by (auto simp: renumber_statement_def visit_order_def Let_def split: sum.splits)
  have "rows = update_where (\<lambda>s. stop_plan_id s = i \<and> True) ?f (day_plan_stops d)"
    by (rule order_update(1) [OF ok assms(3,4) _ up]) simp_all
  then have stops: "stops_of d' i = map ?f (stops_of d i)"
    unfolding d' by (simp add: stops_of_update) (simp add: update_where_def stops_of_def)
  have "distinct (map stop_pk (stops_of d i))"
    unfolding stops_of_def using route_okD(2) [OF ok] by (rule distinct_map_filter)
  then show "map stop_pk (visit_order d' i) = ?ks"
    and "map stop_order (visit_order d' i) = map int [1..<Suc (length (stops_of d i))]"
    using numbered_visit_order [of ?ks "stops_of d i" env]
    by (simp_all add: visit_order_def stops del: upt_Suc)
qed

lemma remove_stop_effect:
  assumes "remove_stop_as env True i sid actor (fs, d) = (Inr (Applied resp), (fs', d'))"
    and ok: "route_ok d" and scan: "scan_ok env"
  shows "is_draft d i" and "sid \<in> set (map stop_pk (visit_order d i))"
    and "map stop_pk (visit_order d' i) = filter (\<lambda>k. k \<noteq> sid) (map stop_pk (visit_order d i))"
    and "map stop_order (visit_order d' i) = map int [1..<Suc (length (stops_of d' i))]"
proof -
  have "remove_stop env i sid actor (fs, d) = (Inr True, (fs', d'))"
    using assms(1)
    by (auto simp: remove_stop_as_def Let_def refusal_def db_return_def db_select_def db_stmt_def
        elim!: db_catch_cases split: if_splits)
  then obtain fs1 where "remove_body env i sid actor (tl fs, d) = (Inr (Commit True), (fs1, d'))"
    unfolding remove_stop_def
    by (cases rule: db_transaction_InrE)
       (auto simp: remove_body_def db_return_def elim!: db_bind_InrE split: if_splits)
  then have "is_draft d i \<and> sid \<in> set (map stop_pk (visit_order d i)) \<and>
      map stop_pk (visit_order d' i) = filter (\<lambda>k. k \<noteq> sid) (map stop_pk (visit_order d i)) \<and>
      map stop_order (visit_order d' i) = map int [1..<Suc (length (stops_of d' i))]"
  proof (cases rule: remove_commit)
    case (removed d2 m d3 fs2 fs3 u)
    from removed(1) have del: "is_draft d i" "day_plans d2 = day_plans d"
      and rows2: "day_plan_stops d2 = filter (\<lambda>s. \<not> (stop_plan_id s = i \<and> stop_pk s = sid)) (day_plan_stops d)"
      and "0 < affected (\<lambda>s. stop_plan_id s = i \<and> stop_pk s = sid) (day_plan_stops d)"
      by (cases rule: delete_stop_cases, simp_all)+
    then have hit: "\<exists>s \<in> set (stops_of d i). stop_pk s = sid"
      by (auto simp: affected_pos stops_of_def)
    have del_stops: "stops_of d2 i = filter (\<lambda>s. stop_pk s \<noteq> sid) (stops_of d i)"
      unfolding stops_of_def rows2 filter_filter by (intro filter_cong) auto
    have draft2: "is_draft d2 i" using del by (simp add: is_draft_def)
    have ok2: "route_ok d2"
      using delete_stop_keeps [OF removed(1)] ok by (simp add: route_keeps_def)
    have "order_by stop_before (filter (\<lambda>s. stop_pk s \<noteq> sid) (stops_of d i)) =
        filter (\<lambda>s. stop_pk s \<noteq> sid) (order_by stop_before (stops_of d i))"
      using distinct_orders [OF ok, of i]
      by (intro sorted_by_key_unique [where key = stop_order])
         (auto simp: sorted_visit sorted_filter distinct_map_filter)
    then have visit2: "map stop_pk (visit_order d2 i) = filter (\<lambda>k. k \<noteq> sid) (map stop_pk (visit_order d i))"
      by (simp add: visit_order_def del_stops filter_map comp_def)
    have d': "stops_of d' i = stops_of d3 i"
      using audit_same_stops(1) [OF removed(3)] by (simp add: stops_of_def)
    note re = renumber_effect [OF removed(2) ok2 draft2 scan]
    have len: "length (stops_of d3 i) = length (stops_of d2 i)"
      using arg_cong [OF re(1), of length] by (simp add: visit_order_def)
    show ?thesis
      using del(1) hit re visit2 len d' by (auto simp: visit_order_def simp del: upt_Suc)
  qed simp
  then show "is_draft d i" and "sid \<in> set (map stop_pk (visit_order d i))"
    and "map stop_pk (visit_order d' i) = filter (\<lambda>k. k \<noteq> sid) (map stop_pk (visit_order d i))"
    and "map stop_order (visit_order d' i) = map int [1..<Suc (length (stops_of d' i))]"
    by blast+
qed

text \<open>Reordering.\<close>

lemma update_all:
  assumes "\<And>s. s \<in> set (stops_of d i) \<Longrightarrow> Q s" and "\<And>s. stop_plan_id (f s) = stop_plan_id s"
  shows "stops_of (d\<lparr> day_plan_stops :=
      update_where (\<lambda>s. stop_plan_id s = i \<and> Q s) f (day_plan_stops d) \<rparr>) i = map f (stops_of d i)"
proof -
  have "stops_of (d\<lparr> day_plan_stops :=
      update_where (\<lambda>s. stop_plan_id s = i \<and> Q s) f (day_plan_stops d) \<rparr>) i =
      update_where (\<lambda>s. stop_plan_id s = i \<and> Q s) f (stops_of d i)"
    by (rule stops_of_update) (simp add: assms(2))
  also have "\<dots> = map f (stops_of d i)"
    using assms(1) by (auto simp: update_where_def stops_of_def)
  finally show ?thesis .
qed

lemma shift_effect:
  assumes "shift_statement env i d = Inr (n, d')" and "route_ok d" and "is_draft d i" and "scan_ok env"
  shows "stops_of d' i = map (\<lambda>s. s\<lparr> stop_order := stop_order s + 10000 \<rparr>) (stops_of d i)"
    and "day_plans d' = day_plans d"
proof -
  from assms(1) obtain rows where
    up: "update_each stop_pk stop_clash (\<lambda>s. s\<lparr> stop_order := stop_order s + 10000 \<rparr>)
        (scan_stops env (stops_of d i)) (day_plan_stops d) = Inr rows"
    and d': "d' = d\<lparr> day_plan_stops := rows \<rparr>"
    by (auto simp: shift_statement_def split: if_splits sum.splits)
  have "rows = update_where (\<lambda>s. stop_plan_id s = i \<and> True)
      (\<lambda>s. s\<lparr> stop_order := stop_order s + 10000 \<rparr>) (day_plan_stops d)"
    by (rule order_update(1) [OF assms(2-4) _ up]) simp_all
  then show "stops_of d' i = map (\<lambda>s. s\<lparr> stop_order := stop_order s + 10000 \<rparr>) (stops_of d i)"
    unfolding d' using update_all [of d i "\<lambda>_. True"] by simp
  show "day_plans d' = day_plans d" by (simp add: d')
qed

lemma plan_stop_keys: "route_ok d \<Longrightarrow> distinct (map stop_pk (stops_of d i))"
  unfolding stops_of_def using route_okD(2) by (rule distinct_map_filter)

lemma apply_order_effect:
  assumes st: "apply_order_statement env i sids d = Inr (n, d')" and ok: "route_ok d" and draft: "is_draft d i"
    and scan: "scan_ok env" and n: "n = length sids" and len: "length (stops_of d i) = length sids"
    and sids: "distinct sids"
  shows "set sids = stop_pk ` set (stops_of d i)"
    and "map stop_pk (visit_order d' i) = sids"
    and "map stop_order (visit_order d' i) = map int [1..<Suc (length sids)]"
proof -
  let ?hit = "filter (\<lambda>s. stop_pk s \<in> set sids \<and> is_draft d i) (stops_of d i)"
  let ?f = "set_order env (\<lambda>s. int (position (stop_pk s) sids))"
  from st obtain rows where up: "update_each stop_pk stop_clash ?f (scan_stops env ?hit) (day_plan_stops d) = Inr rows"
    and d': "d' = d\<lparr> day_plan_stops := rows \<rparr>" and n': "n = length ?hit"
    by (auto simp: apply_order_statement_def Let_def split: sum.splits)
  have all: "stop_pk s \<in> set sids" if "s \<in> set (stops_of d i)" for s
  proof -
    have "length ?hit = length (stops_of d i)" using n n' len by simp
    then have "?hit = stops_of d i" by (metis filter_True length_filter_less less_irrefl)
    then show ?thesis using that by (simp add: filter_id_conv)
  qed
  then have "stop_pk ` set (stops_of d i) \<subseteq> set sids" by auto
  moreover have "card (stop_pk ` set (stops_of d i)) = card (set sids)"
    using plan_stop_keys [OF ok, of i] sids len
    by (metis distinct_card length_map set_map)
  ultimately show keys: "set sids = stop_pk ` set (stops_of d i)"
    by (metis List.finite_set card_subset_eq)
  have "rows = update_where (\<lambda>s. stop_plan_id s = i \<and> stop_pk s \<in> set sids \<and> is_draft d i) ?f (day_plan_stops d)"
    by (rule order_update(1) [OF ok draft scan refl up]) simp
  then have stops: "stops_of d' i = map ?f (stops_of d i)"
    unfolding d' using all draft by (simp add: update_all)
  show "map stop_pk (visit_order d' i) = sids"
    and "map stop_order (visit_order d' i) = map int [1..<Suc (length sids)]"
    using numbered_visit_order [OF sids keys plan_stop_keys [OF ok], of env]
    by (simp_all add: visit_order_def stops del: upt_Suc)
qed

lemma reorder_stops_effect:
  assumes "reorder_stops_as env True i sids actor (fs, d) = (Inr (Applied resp), (fs', d'))"
    and ok: "route_ok d" and scan: "scan_ok env"
  shows "is_draft d i \<and> distinct sids \<and> set sids = stop_pk ` set (stops_of d i) \<and>
    map stop_pk (visit_order d' i) = sids \<and>
    map stop_order (visit_order d' i) = map int [1..<Suc (length sids)]"
proof -
  have run: "reorder_stops env i sids actor (fs, d) = (Inr True, (fs', d'))"
    using assms(1)
    by (auto simp: reorder_stops_as_def Let_def refusal_def db_return_def db_select_def db_stmt_def
        elim!: db_catch_cases split: if_splits)
  then have sids: "sids \<noteq> []" "distinct sids"
    by (auto simp: reorder_stops_def db_return_def split: if_splits)
  from run have "db_transaction (reorder_body env i sids actor) (fs, d) = (Inr True, (fs', d'))"
    using sids by (simp add: reorder_stops_def)
  then obtain fs1 where "reorder_body env i sids actor (tl fs, d) = (Inr (Commit True), (fs1, d'))"
    by (cases rule: db_transaction_InrE)
       (auto simp: reorder_body_def db_return_def elim!: db_bind_InrE split: if_splits)
  from this sids(1) show ?thesis
  proof (cases rule: reorder_commit)
    case (reordered d2 d3 m n fs2 fs3 u)
    note shift = shift_effect [OF reordered(3) ok reordered(1) scan]
    have draft2: "is_draft d2 i" using reordered(1) shift(2) by (simp add: is_draft_def)
    have ok2: "route_ok d2"
      using shift_keeps [OF reordered(3,1) scan] ok by (simp add: route_keeps_def)
    have len2: "length (stops_of d2 i) = length sids"
      using shift(1) reordered(2) by simp
    have "n = length sids" using reordered(5) by simp
    note order = apply_order_effect [OF reordered(4) ok2 draft2 scan this len2 sids(2)]
    have "stops_of d' i = stops_of d3 i"
      using audit_same_stops(1) reordered(5,6) \<open>n = length sids\<close> by (auto simp: stops_of_def)
    then show ?thesis
      using reordered(1) sids(2) order shift(1) by (simp add: visit_order_def image_image)
  qed simp
qed

text \<open>
  The shift by 10000 makes room: whatever the order in which the executor visits the rows, neither of
  the two updates meets an occupied position.
\<close>

definition orders_small :: "db \<Rightarrow> string \<Rightarrow> bool" where
  "orders_small d i \<longleftrightarrow> list_all (\<lambda>s. 1 \<le> stop_order s \<and> stop_order s \<le> 10000) (stops_of d i)"

lemma no_clash_change:
  assumes "\<not> stop_clash s t" and "stop_pk (f s) = stop_pk s" and "stop_plan_id (f s) = stop_plan_id s"
    and "stop_job_id (f s) = stop_job_id s" and "stop_plan_id s = stop_plan_id t \<Longrightarrow> stop_order (f s) \<noteq> stop_order t"
  shows "\<not> stop_clash (f s) t"
  using assms by (auto simp: stop_clash_def)

lemma shift_accepted:
  assumes ok: "route_ok d" and small: "orders_small d i" and scan: "scan_ok env"
  shows "\<exists>n d'. shift_statement env i d = Inr (n, d')"
proof -
  let ?f = "\<lambda>s. s\<lparr> stop_order := stop_order s + 10000 \<rparr>"
  have mem: "s \<in> set (day_plan_stops d)" "stop_plan_id s = i" "1 \<le> stop_order s" "stop_order s \<le> 10000"
    if "s \<in> set (scan_stops env (stops_of d i))" for s
    using that small by (auto simp: scan_set [OF scan] stops_of_def orders_small_def list_all_iff)
  have free: "\<not> stop_clash t r"
    if "t \<in> set (day_plan_stops d)" "r \<in> set (day_plan_stops d)" "stop_pk r \<noteq> stop_pk t" for t r
    using route_okD(5) [OF ok that(1,2)] that(3) by simp
  have "\<exists>rows. update_each stop_pk stop_clash ?f (scan_stops env (stops_of d i)) (day_plan_stops d) = Inr rows"
  proof (rule update_each_accepted)
    fix t r assume t: "t \<in> set (scan_stops env (stops_of d i))" and r: "r \<in> set (day_plan_stops d)" "stop_pk r \<noteq> stop_pk t"
    have "stop_order (?f t) \<noteq> stop_order r" if "stop_plan_id t = stop_plan_id r"
    proof -
      have "r \<in> set (scan_stops env (stops_of d i))"
        using that mem(2) [OF t] r(1) by (simp add: scan_set [OF scan] stops_of_def)
      from mem(4) [OF this] mem(3) [OF t] show ?thesis by simp
    qed
    then show "\<not> stop_clash (?f t) r"
      by (intro no_clash_change [of t r ?f] free [OF mem(1) [OF t] r]) simp_all
  next
    fix t r assume t: "t \<in> set (scan_stops env (stops_of d i))" and r: "r \<in> set (scan_stops env (stops_of d i))"
      and ne: "stop_pk r \<noteq> stop_pk t"
    show "\<not> stop_clash (?f t) (?f r)"
      using free [OF mem(1) [OF t] mem(1) [OF r] ne] by (auto simp: stop_clash_def)
  qed simp
  moreover have "list_all (\<lambda>s. int4_range (stop_order s + 10000)) (stops_of d i)"
    using small by (auto simp: orders_small_def list_all_iff int4_range_def)
  ultimately show ?thesis by (auto simp: shift_statement_def)
qed

lemma position_range: "k \<in> set ks \<Longrightarrow> 1 \<le> position k ks \<and> position k ks \<le> length ks"
  by (induction ks) auto

lemma position_inject:
  "distinct ks \<Longrightarrow> k \<in> set ks \<Longrightarrow> l \<in> set ks \<Longrightarrow> position k ks = position l ks \<Longrightarrow> k = l"
  by (induction ks) (auto split: if_splits dest: position_range)

lemma apply_order_accepted:
  assumes ok: "route_ok d" and draft: "is_draft d i" and scan: "scan_ok env"
    and sids: "distinct sids" "set sids = stop_pk ` set (stops_of d i)"
    and room: "\<And>s. s \<in> set (stops_of d i) \<Longrightarrow> int (length sids) < stop_order s"
  shows "\<exists>d'. apply_order_statement env i sids d = Inr (length sids, d')"
proof -
  let ?f = "set_order env (\<lambda>s. int (position (stop_pk s) sids))"
  have hit: "filter (\<lambda>s. stop_pk s \<in> set sids \<and> is_draft d i) (stops_of d i) = stops_of d i"
    using sids(2) draft by (simp add: filter_id_conv)
  have mem: "s \<in> set (day_plan_stops d)" "stop_plan_id s = i" "stop_pk s \<in> set sids"
    if "s \<in> set (scan_stops env (stops_of d i))" for s
    using that sids(2) by (auto simp: scan_set [OF scan] stops_of_def)
  have free: "\<not> stop_clash t r"
    if "t \<in> set (day_plan_stops d)" "r \<in> set (day_plan_stops d)" "stop_pk r \<noteq> stop_pk t" for t r
    using route_okD(5) [OF ok that(1,2)] that(3) by simp
  have "\<exists>rows. update_each stop_pk stop_clash ?f (scan_stops env (stops_of d i)) (day_plan_stops d) = Inr rows"
  proof (rule update_each_accepted)
    fix t r assume t: "t \<in> set (scan_stops env (stops_of d i))" and r: "r \<in> set (day_plan_stops d)" "stop_pk r \<noteq> stop_pk t"
    have "stop_order (?f t) \<noteq> stop_order r" if "stop_plan_id t = stop_plan_id r"
    proof -
      have "r \<in> set (stops_of d i)" using that mem(2) [OF t] r(1) by (simp add: stops_of_def)
      from room [OF this] position_range [OF mem(3) [OF t]] show ?thesis by simp
    qed
    then show "\<not> stop_clash (?f t) r"
      by (intro no_clash_change [of t r ?f] free [OF mem(1) [OF t] r]) simp_all
  next
    fix t r assume t: "t \<in> set (scan_stops env (stops_of d i))" and r: "r \<in> set (scan_stops env (stops_of d i))"
      and ne: "stop_pk r \<noteq> stop_pk t"
    have "position (stop_pk t) sids \<noteq> position (stop_pk r) sids"
      using position_inject [OF sids(1) mem(3) [OF t] mem(3) [OF r]] ne by auto
    then show "\<not> stop_clash (?f t) (?f r)"
      using free [OF mem(1) [OF t] mem(1) [OF r] ne] by (auto simp: stop_clash_def)
  qed simp
  moreover have "length (stops_of d i) = length sids"
    using sids plan_stop_keys [OF ok, of i] by (metis distinct_card length_map set_map)
  ultimately show ?thesis
    unfolding apply_order_statement_def hit by auto
qed

lemma small_length:
  assumes "route_ok d" and "orders_small d i"
  shows "length (stops_of d i) \<le> 10000"
proof -
  have "length (stops_of d i) = card (stop_order ` set (stops_of d i))"
    using distinct_orders [OF assms(1), of i] by (metis distinct_card length_map set_map)
  also have "\<dots> \<le> card {1 .. 10000 :: int}"
    using assms(2) by (intro card_mono) (auto simp: orders_small_def list_all_iff)
  finally show ?thesis by simp
qed

lemma reorder_stops_accepted:
  assumes ok: "route_ok d" and draft: "is_draft d i" and small: "orders_small d i" and scan: "scan_ok env"
    and sids: "sids \<noteq> []" "distinct sids" "set sids = stop_pk ` set (stops_of d i)"
    and fresh: "audit_fresh env ''route_stops_reordered'' d"
  shows "result_of (reorder_stops_as env True i sids actor) d =
    Inr (Applied \<lparr> ro_day_plan_id = i, ro_stop_ids = sids, ro_persisted = True \<rparr>)"
proof -
  have len: "length (stops_of d i) = length sids"
    using sids plan_stop_keys [OF ok, of i] by (metis distinct_card length_map set_map)
  obtain n d1 where shift: "shift_statement env i d = Inr (n, d1)"
    using shift_accepted [OF ok small scan] by blast
  note eff = shift_effect [OF shift ok draft scan]
  have draft1: "is_draft d1 i" using draft eff(2) by (simp add: is_draft_def)
  have ok1: "route_ok d1"
    using shift_keeps [OF shift draft scan] ok by (simp add: route_keeps_def)
  have keys1: "set sids = stop_pk ` set (stops_of d1 i)" by (simp add: eff(1) sids(3) image_image)
  have room: "int (length sids) < stop_order s" if "s \<in> set (stops_of d1 i)" for s
    using that small small_length [OF ok small] len
    by (auto simp: eff(1) orders_small_def list_all_iff)
  obtain d2 where app: "apply_order_statement env i sids d1 = Inr (length sids, d2)"
    using apply_order_accepted [OF ok1 draft1 scan sids(2) keys1 room] by blast
  have ok2: "route_ok d2"
    using apply_order_keeps [OF app draft1 scan] ok1 by (simp add: route_keeps_def)
  have "day_plans d2 = day_plans d1" "audit_events d2 = audit_events d1" "audit_events d1 = audit_events d"
    using app shift by (auto simp: apply_order_statement_def shift_statement_def Let_def split: sum.splits if_splits)
  moreover obtain p where p: "p \<in> set (day_plans d2)" "plan_pk p = i"
    using draft1 calculation(1) by (auto simp: is_draft_def)
  moreover obtain c where "find_crew d2 (plan_crew_id p) = Some c"
    using ok2 p(1) by (rule plan_has_crew)
  moreover have "find_plan d2 i = Some p"
    using find_plan_unique [OF route_okD(1) [OF ok2] p(1)] p(2) by simp
  ultimately have audit: "\<exists>d3. insert_route_audit_event env i actor ''route_stops_reordered'' None None
      (Some (int (length sids))) ([], d2) = (Inr (), ([], d3))"
    using fresh by (auto simp: route_audit_run audit_kinds_def audit_fresh_def)
  have "\<exists>d3. reorder_body env i sids actor ([], d) = (Inr (Commit True), ([], d3))"
    using audit by (auto simp: reorder_body_def db_bind_def draft len shift app)
  then show ?thesis
    using sids(1,2)
    by (auto simp: result_of_def run_call_def reorder_stops_as_def reorder_stops_def Let_def)
qed

section \<open>The route of the day\<close>

definition eligible :: "db \<Rightarrow> string \<Rightarrow> day_plan_row \<Rightarrow> bool" where
  "eligible d crew p \<longleftrightarrow> p \<in> set (day_plans d) \<and> plan_crew_id p = crew \<and> plan_status p = ''published''
     \<and> stops_of d (plan_pk p) \<noteq> []"

text \<open>\<open>p\<close> goes before \<open>q\<close>: today's route, else the latest past one, else the earliest future one.\<close>

definition dated_before :: "int \<Rightarrow> day_plan_row \<Rightarrow> day_plan_row \<Rightarrow> bool" where
  "dated_before today p q \<longleftrightarrow>
     (let a = plan_service_date p; b = plan_service_date q in
      (b = today \<longrightarrow> a = today) \<and> (b < today \<longrightarrow> a = today \<or> (b \<le> a \<and> a < today))
      \<and> (today < b \<longrightarrow> a \<le> b))"

lemma today_key_dated: "today_key env p \<le> today_key env q \<Longrightarrow> dated_before (current_date env) p q"
  by (auto simp: today_key_def dated_before_def Let_def less_eq_prod_def split: if_splits)

lemma selected_plan_first:
  assumes "selected_plan env crew d = Some p"
  shows "eligible d crew p" and "\<And>q. eligible d crew q \<Longrightarrow> dated_before (current_date env) p q"
proof -
  let ?ps = "filter (\<lambda>p. plan_crew_id p = crew \<and> plan_status p = ''published''
            \<and> stops_of d (plan_pk p) \<noteq> []) (day_plans d)"
  let ?sorted = "order_by (\<lambda>p q. today_key env p \<le> today_key env q) ?ps"
  obtain rest where first: "?sorted = p # rest"
    using assms by (auto simp: selected_plan_def split: list.splits)
  have elems: "q \<in> set (p # rest) \<longleftrightarrow> eligible d crew q" for q
    unfolding first [symmetric] by (auto simp: eligible_def)
  have "sorted (map (today_key env) ?sorted)" by (rule sorted_order_by) auto
  then have "today_key env p \<le> today_key env q" if "q \<in> set (p # rest)" for q
    using that by (auto simp: first)
  then show "\<And>q. eligible d crew q \<Longrightarrow> dated_before (current_date env) p q"
    using elems today_key_dated by blast
  show "eligible d crew p" using elems [of p] by simp
qed

lemma joined_jobs:
  assumes "distinct (map job_pk js)" and "j \<in> set js"
  shows "[x. x \<leftarrow> js, job_pk x = job_pk j] = [j]"
  using assms
proof (induction js)
  case (Cons x js)
  have "[y. y \<leftarrow> js, job_pk y = job_pk j] = []" if "job_pk x = job_pk j"
    using Cons.prems(1) that by (auto simp: image_iff)
  with Cons show ?case by (cases "job_pk x = job_pk j") auto
qed simp

lemma today_rows_stops:
  assumes jobs: "distinct (map job_pk (service_jobs d))" and ok: "route_ok d"
  shows "map fst (today_rows d i) = visit_order d i"
proof -
  have "order_by (\<lambda>s t. stop_order s \<le> stop_order t) (stops_of d i) = visit_order d i"
    unfolding visit_order_def using distinct_orders [OF ok, of i]
    by (intro sorted_by_key_unique [where key = stop_order])
       (auto simp: sorted_visit intro: sorted_order_by)
  moreover have "map fst (concat (map (\<lambda>s. [(s, j). j \<leftarrow> service_jobs d, job_pk j = stop_job_id s]) ss)) = ss"
    if "set ss \<subseteq> set (stops_of d i)" for ss
    using that
  proof (induction ss)
    case (Cons s ss)
    have "stop_ok d s" using Cons.prems route_okD(4) [OF ok] by (auto simp: stops_of_def)
    then obtain j where j: "j \<in> set (service_jobs d)" "stop_job_id s = job_pk j"
      by (auto simp: stop_ok_def)
    have "[(s, j). j \<leftarrow> service_jobs d, job_pk j = stop_job_id s] =
        map (Pair s) [x. x \<leftarrow> service_jobs d, job_pk x = job_pk j]"
      by (simp add: j(2) map_concat comp_def if_distrib cong: if_cong)
    also have "\<dots> = [(s, j)]" by (simp add: joined_jobs [OF jobs j(1)])
    finally show ?case using Cons by simp
  qed simp
  ultimately show ?thesis
    unfolding today_rows_def by (simp add: visit_order_def)
qed

lemma today_found:
  assumes "today_for_crew env True crew (fs, d) = (Inr (Found plan), (fs', d'))"
    and ok: "route_ok d" and jobs: "distinct (map job_pk (service_jobs d))"
  shows "d' = d \<and> (\<exists>p. eligible d crew p \<and> (\<forall>q. eligible d crew q \<longrightarrow> dated_before (current_date env) p q)
    \<and> sum_id plan = plan_pk p \<and> sum_crew_id plan = crew
    \<and> map ds_id (sum_stops plan) = map stop_pk (visit_order d (plan_pk p))
    \<and> map ds_stop_order (sum_stops plan) = map (as_u32 \<circ> stop_order) (visit_order d (plan_pk p)))"
proof -
  obtain c1 where st: "db_stmt (today_statement env crew) (fs, d) = (Inr (Some plan), c1)" and "c1 = (fs', d')"
    using assms(1)
    by (auto simp: today_for_crew_def db_return_def elim!: db_catch_cases split: option.splits)
  from st have stmt: "today_statement env crew d = Inr (Some plan, d')"
    unfolding \<open>c1 = (fs', d')\<close> by (rule db_stmt_InrE)
  then obtain p c where p: "selected_plan env crew d = Some p" and c: "find_crew d (plan_crew_id p) = Some c"
    by (auto simp: today_statement_def split: option.splits)
  let ?rows = "today_rows d (plan_pk p)"
  have plan: "d' = d" "sum_id plan = plan_pk p" "sum_crew_id plan = plan_crew_id p"
    "sum_stops plan = map (\<lambda>(s, j). today_stop d s j) ?rows"
    using stmt p c by (auto simp: today_statement_def Let_def split: if_splits)
  have "map ds_id (sum_stops plan) = map stop_pk (map fst ?rows)"
    "map ds_stop_order (sum_stops plan) = map (as_u32 \<circ> stop_order) (map fst ?rows)"
    unfolding plan(4) by (auto simp: today_stop_def)
  then show ?thesis
    using plan selected_plan_first [OF p] unfolding today_rows_stops [OF jobs ok]
    by (auto simp: eligible_def intro!: exI [of _ p])
qed

end
