(* ===== verification/Sample_Data.thy ===== *)
theory Sample_Data
  imports Schema
begin

text \<open>
  A small database and surroundings at which the properties are applied: one organization with a
  crew, a draft route of two stops, a published route of one, three jobs.
\<close>

definition sample_env :: env where
  "sample_env = \<lparr> now_at = 1000, now_nanos = 77, current_date = 20,
     parse_date = (\<lambda>s. if s = ''2026-06-15'' then Some 20 else None),
     date_text = (\<lambda>_. ''2026-06-15''),
     fresh_uuid = (\<lambda>k. if k = 0 then ''u0'' else ''u1''),
     parse_uuid = (\<lambda>s. if s = ''id-7'' then Some 7 else if s = ''id-8'' then Some 8 else None),
     uuid_simple = (\<lambda>n. if n = 7 then ''07'' else ''08''),
     scan_stops = (\<lambda>rows. rows) \<rparr>"

definition sample_stop :: "string \<Rightarrow> string \<Rightarrow> string \<Rightarrow> int \<Rightarrow> stop_row" where
  "sample_stop i plan job n = \<lparr> stop_pk = i, stop_plan_id = plan, stop_job_id = job, stop_order = n,
     stop_status = ''pending'', stop_drive_minutes = 10, stop_service_minutes = 45, stop_updated_at = 0 \<rparr>"

definition sample_plan :: "string \<Rightarrow> string \<Rightarrow> int \<Rightarrow> day_plan_row" where
  "sample_plan i status day = \<lparr> plan_pk = i, plan_crew_id = ''crew_1'', plan_service_date = day,
     plan_status = status, plan_route_status = ''manual'', plan_time_zone = ''America/Phoenix'',
     plan_service_area = None, plan_stop_capacity = 3, plan_updated_at = 0 \<rparr>"

definition sample_job :: "string \<Rightarrow> job_row" where
  "sample_job i = \<lparr> job_pk = i, job_organization_id = ''org_1'', job_assigned_crew_id = Some ''crew_1'',
     job_customer_account_id = Some ''acct_1'',
     job_customer_name = ''Customer'', job_property_address = ''1 Oak'', job_status = ''scheduled'',
     job_scheduled_date = ''2026-06-15'', job_before_photos = 0, job_after_photos = 0,
     job_checklist_items = 2, job_completed_items = 0, job_updated_at = 0 \<rparr>"

definition sample_account :: account_row where
  "sample_account = \<lparr> account_pk = ''acct_1'', account_customer_name = ''Customer'',
     account_billing_model = ''per_job'', account_payment_status = ''paid'',
     account_service_approval_status = ''approved'', account_contracted_services = 4,
     account_completed_services = 1, account_billing_notes = None \<rparr>"

definition sample_item :: "string \<Rightarrow> int \<Rightarrow> item_row" where
  "sample_item i n = \<lparr> item_pk = i, item_job_id = ''job_1'', item_label = i, item_completed = False,
     item_sort_order = n \<rparr>"

definition sample_add_on :: add_on_row where
  "sample_add_on = \<lparr> add_on_pk = ''addon_1'', add_on_job_id = ''job_1'', add_on_service_name = ''Mulch'',
     add_on_service_description = None, add_on_quantity = 1, add_on_unit_price_cents = 5000,
     add_on_note = None, add_on_status = ''scheduled'', add_on_created_at = 0 \<rparr>"

definition sample_organization :: organization_row where
  "sample_organization = \<lparr> organization_pk = ''org_1'', organization_display_name = ''Green'',
     organization_kind = ''yard_care_company'', organization_status = ''active'',
     organization_time_zone = ''America/Phoenix'', organization_service_area = None \<rparr>"

definition sample_crew :: crew_row where
  "sample_crew = \<lparr> crew_pk = ''crew_1'', crew_name = ''North'', crew_organization_id = ''org_1'',
     crew_branch_id = None, crew_territory_id = None, crew_status = ''active'',
     crew_daily_stop_capacity = 3, crew_lead_membership_id = None \<rparr>"

definition sample_member :: "string \<Rightarrow> string \<Rightarrow> membership_row" where
  "sample_member user role = \<lparr> membership_pk = ''m_'' @ user, membership_organization_id = ''org_1'',
     membership_user_id = user, membership_display_name = None, membership_role = role,
     membership_status = ''active'', membership_scope_type = ''organization'', membership_scope_id = None \<rparr>"

definition sample_db :: db where
  "sample_db = empty_db\<lparr>
     organizations := [sample_organization],
     memberships := [sample_member ''boss'' ''manager'', sample_member ''ann'' ''crew_member''],
     crews := [sample_crew],
     day_plans := [sample_plan ''plan_1'' ''draft'' 20, sample_plan ''plan_2'' ''published'' 19],
     day_plan_stops := [sample_stop ''s1'' ''plan_1'' ''job_1'' 1, sample_stop ''s2'' ''plan_1'' ''job_2'' 2,
       sample_stop ''s3'' ''plan_2'' ''job_1'' 1],
     service_jobs := [sample_job ''job_1'', sample_job ''job_2'', sample_job ''job_3''],
     customer_accounts := [sample_account],
     checklist_items := [sample_item ''job_1_before_photos'' 1, sample_item ''job_1_yard_service'' 2],
     add_ons := [sample_add_on] \<rparr>"

end
