(* ===== verification/Route_Claims.thy ===== *)
theory Route_Claims
  imports Route_Properties Sample_Data
begin

text \<open>
  The properties of the route planner, each applied at the sample database.
\<close>

lemma sample_scan [simp]: "scan_ok sample_env"
  by (simp add: scan_ok_def sample_env_def)

lemma sample_route_ok [simp]: "route_ok sample_db"
  by code_simp

text \<open>C17: A request to create, publish or assign that is not answered \<open>Applied\<close> (refused, not found,
  failed, or cut off by an outage at any round trip) has changed nothing in the database.\<close>

theorem refused_route_write_unchanged:
  assumes "\<And>a. r1 \<noteq> Applied a" and "\<And>a. r2 \<noteq> Applied a" and "\<And>a. r3 \<noteq> Applied a"
  shows "(create_draft_day_plan_as env True req actor (fs, d) = (Inr r1, (fs1, d1)) \<longrightarrow> d1 = d)
    \<and> (publish_day_plan_as env True i actor (fs, d) = (Inr r2, (fs2, d2)) \<longrightarrow> d2 = d)
    \<and> (assign_stop_as env True i asg actor (fs, d) = (Inr r3, (fs3, d3)) \<longrightarrow> d3 = d)"
  using create_draft.answer_unchanged [OF _ assms(1)] publish.answer_unchanged [OF _ assms(2)]
    assign.answer_unchanged [OF _ assms(3)]
  by (simp add: create_draft_day_plan_as_def publish_day_plan_as_def assign_stop_as_def Let_def)

theorem refused_route_write_unchanged_witness:
  "fst (publish_day_plan_as sample_env True ''plan_1'' ''boss'' ([False, False, True], sample_db)) = Inr Unavailable
   \<and> snd (snd (publish_day_plan_as sample_env True ''plan_1'' ''boss'' ([False, False, True], sample_db))) = sample_db"
proof -
  let ?run = "publish_day_plan_as sample_env True ''plan_1'' ''boss'' ([False, False, True], sample_db)"
  have r: "fst ?run = Inr Unavailable" by code_simp
  then have "?run = (Inr Unavailable, (fst (snd ?run), snd (snd ?run)))" by (rule answered_run)
  then have "snd (snd ?run) = sample_db"
    using refused_route_write_unchanged [of Unavailable Unavailable Unavailable] by blast
  with r show ?thesis by simp
qed

text \<open>C18: Publication, on every branch: a draft with at least one stop and a positive total of minutes
  becomes published, with one audit event; any other existing plan is a conflict, an unknown one is
  not found, and neither changes anything.\<close>

theorem publish_outcome:
  assumes "route_ok d" and "audit_fresh env ''route_published'' d" and "minutes_in_range (stops_of d i)"
  shows "run_call (publish_day_plan_as env True i actor) d =
    (case find_plan d i of
       None \<Rightarrow> (Inr NotFound, d)
     | Some p \<Rightarrow>
         if plan_status p = ''draft'' \<and> stops_of d i \<noteq> [] \<and> 0 < workload (stops_of d i)
         then let row = p\<lparr> plan_status := ''published'', plan_updated_at := now_at env \<rparr> in
           (Inr (Applied (day_plan_mutation_response env row True)),
            d\<lparr> day_plans := update_where (\<lambda>q. plan_pk q = i) (\<lambda>_. row) (day_plans d),
               audit_events := audit_events d @
                 [route_audit_row env row (the (find_crew d (plan_crew_id p))) actor ''route_published''
                    None None None] \<rparr>)
         else (Inr Conflict, d))"
  using publish_run [OF assms, of actor]
  by (auto simp: publishable_def dest!: find_plan_in split: option.splits)

theorem publish_outcome_witness:
  "result_of (publish_day_plan_as sample_env True ''plan_1'' ''boss'') sample_db =
     Inr (Applied (day_plan_mutation_response sample_env
       ((sample_plan ''plan_1'' ''draft'' 20)\<lparr> plan_status := ''published'', plan_updated_at := 1000 \<rparr>) True))"
proof -
  have "audit_fresh sample_env ''route_published'' sample_db"
    and "minutes_in_range (stops_of sample_db ''plan_1'')" by code_simp+
  moreover have "find_plan sample_db ''plan_1'' = Some (sample_plan ''plan_1'' ''draft'' 20)"
    and "stops_of sample_db ''plan_1'' \<noteq> []" and "0 < workload (stops_of sample_db ''plan_1'')"
    and "plan_status (sample_plan ''plan_1'' ''draft'' 20) = ''draft''" and "now_at sample_env = 1000"
    by code_simp+
  ultimately show ?thesis
    using publish_outcome [of sample_db sample_env "''plan_1''" "''boss''"]
    by (simp add: result_of_def Let_def)
qed

text \<open>C20: An assignment that is applied leaves the job on the draft exactly once, with the requested
  minutes, keeps the stops of the other jobs as they were, and never takes the route beyond its stop
  capacity: the number of stops is unchanged, or at most the capacity of the plan.\<close>

theorem assign_stop_applied:
  assumes "assign_stop_as env True i r actor (fs, d) = (Inr (Applied resp), (fs', d'))" and "route_ok d"
  shows "is_draft d i
    \<and> (\<exists>s. filter (\<lambda>s. stop_job_id s = req_job_id r) (stops_of d' i) = [s] \<and> stop_pk s = sr_stop_id resp
        \<and> stop_drive_minutes s = requested_minutes (req_drive_minutes r)
        \<and> stop_service_minutes s = requested_minutes (req_service_minutes r))
    \<and> filter (\<lambda>s. stop_job_id s \<noteq> req_job_id r) (stops_of d' i) =
        filter (\<lambda>s. stop_job_id s \<noteq> req_job_id r) (stops_of d i)
    \<and> (length (stops_of d' i) = length (stops_of d i)
        \<or> (\<exists>p. find_plan d i = Some p \<and> int (length (stops_of d' i)) \<le> plan_stop_capacity p))"
  using assign_stop_effect [OF assms] by blast

definition sample_assignment :: assign_stop_request where
  "sample_assignment = \<lparr> req_job_id = ''job_3'', req_drive_minutes = None, req_service_minutes = Some 30 \<rparr>"

theorem assign_stop_applied_witness:
  "length (stops_of (state_after (assign_stop_as sample_env True ''plan_1'' sample_assignment ''boss'') sample_db) ''plan_1'') = 3
   \<and> is_draft sample_db ''plan_1''"
proof -
  let ?run = "assign_stop_as sample_env True ''plan_1'' sample_assignment ''boss'' ([], sample_db)"
  let ?resp = "\<lparr> sr_day_plan_id = ''plan_1'', sr_stop_id = ''stop_plan_1_job_3'', sr_job_id = ''job_3'',
    sr_stop_order = 3, sr_persisted = True \<rparr>"
  have "fst ?run = Inr (Applied ?resp)" by code_simp
  then have "?run = (Inr (Applied ?resp), (fst (snd ?run), snd (snd ?run)))" by (rule answered_run)
  from assign_stop_applied [OF this] have "is_draft sample_db ''plan_1''" by simp
  moreover have "length (stops_of (state_after (assign_stop_as sample_env True ''plan_1'' sample_assignment ''boss'')
      sample_db) ''plan_1'') = 3" by code_simp
  ultimately show ?thesis by blast
qed

text \<open>C21: A removal that is applied takes exactly the named stop off the draft, keeps the visiting order
  of the others and numbers them 1, 2, and so on without a gap.\<close>

theorem remove_stop_applied:
  assumes "remove_stop_as env True i sid actor (fs, d) = (Inr (Applied resp), (fs', d'))"
    and "route_ok d" and "scan_ok env"
  shows "is_draft d i \<and> sid \<in> set (map stop_pk (visit_order d i))
    \<and> map stop_pk (visit_order d' i) = filter (\<lambda>k. k \<noteq> sid) (map stop_pk (visit_order d i))
    \<and> map stop_order (visit_order d' i) = map int [1..<Suc (length (stops_of d' i))]"
  using remove_stop_effect [OF assms] by blast

theorem remove_stop_applied_witness:
  "map stop_pk (visit_order (state_after (remove_stop_as sample_env True ''plan_1'' ''s1'' ''boss'') sample_db) ''plan_1'') = [''s2'']"
proof -
  let ?run = "remove_stop_as sample_env True ''plan_1'' ''s1'' ''boss'' ([], sample_db)"
  let ?resp = "\<lparr> rm_day_plan_id = ''plan_1'', rm_stop_id = ''s1'', rm_persisted = True \<rparr>"
  have "fst ?run = Inr (Applied ?resp)" by code_simp
  then have "?run = (Inr (Applied ?resp), (fst (snd ?run), snd (snd ?run)))" by (rule answered_run)
  from remove_stop_applied [OF this] have
    "map stop_pk (visit_order (snd (snd ?run)) ''plan_1'') = filter (\<lambda>k. k \<noteq> ''s1'') (map stop_pk (visit_order sample_db ''plan_1''))"
    by simp
  moreover have "filter (\<lambda>k. k \<noteq> ''s1'') (map stop_pk (visit_order sample_db ''plan_1'')) = [''s2'']" by code_simp
  ultimately show ?thesis by (simp add: state_after_snd)
qed

text \<open>C22: A reordering that is applied was a permutation of the stops of a draft, and leaves exactly the
  requested visiting order, numbered from 1.\<close>

theorem reorder_stops_applied:
  assumes "reorder_stops_as env True i sids actor (fs, d) = (Inr (Applied resp), (fs', d'))"
    and "route_ok d" and "scan_ok env"
  shows "is_draft d i \<and> distinct sids \<and> set sids = stop_pk ` set (stops_of d i)
    \<and> map stop_pk (visit_order d' i) = sids
    \<and> map stop_order (visit_order d' i) = map int [1..<Suc (length sids)]"
  using reorder_stops_effect [OF assms] .

theorem reorder_stops_applied_witness:
  "map stop_pk (visit_order (state_after (reorder_stops_as sample_env True ''plan_1'' [''s2'', ''s1''] ''boss'') sample_db) ''plan_1'')
     = [''s2'', ''s1'']"
proof -
  let ?run = "reorder_stops_as sample_env True ''plan_1'' [''s2'', ''s1''] ''boss'' ([], sample_db)"
  let ?resp = "\<lparr> ro_day_plan_id = ''plan_1'', ro_stop_ids = [''s2'', ''s1''], ro_persisted = True \<rparr>"
  have "fst ?run = Inr (Applied ?resp)" by code_simp
  then have "?run = (Inr (Applied ?resp), (fst (snd ?run), snd (snd ?run)))" by (rule answered_run)
  from reorder_stops_applied [OF this] show ?thesis
    by (simp add: state_after_snd)
qed

text \<open>C23: A permutation of the stops of a draft whose positions lie between 1 and 10000 is always accepted,
  in whatever order the database visits the rows: the two-phase renumbering never meets an occupied
  position.\<close>

theorem reorder_stops_succeeds:
  assumes "route_ok d" and "is_draft d i" and "orders_small d i" and "scan_ok env"
    and "sids \<noteq> []" and "distinct sids" and "set sids = stop_pk ` set (stops_of d i)"
    and "audit_fresh env ''route_stops_reordered'' d"
  shows "result_of (reorder_stops_as env True i sids actor) d =
    Inr (Applied \<lparr> ro_day_plan_id = i, ro_stop_ids = sids, ro_persisted = True \<rparr>)"
  using assms by (rule reorder_stops_accepted)

definition reverse_env :: env where
  "reverse_env = sample_env\<lparr> scan_stops := rev \<rparr>"

lemma reverse_scan [simp]: "scan_ok reverse_env"
  by (simp add: scan_ok_def reverse_env_def)

theorem reorder_stops_succeeds_witness:
  "result_of (reorder_stops_as reverse_env True ''plan_1'' [''s2'', ''s1''] ''boss'') sample_db =
    Inr (Applied \<lparr> ro_day_plan_id = ''plan_1'', ro_stop_ids = [''s2'', ''s1''], ro_persisted = True \<rparr>)"
proof (rule reorder_stops_succeeds)
  show "is_draft sample_db ''plan_1''" and "orders_small sample_db ''plan_1''"
    and "set [''s2'', ''s1''] = stop_pk ` set (stops_of sample_db ''plan_1'')"
    and "audit_fresh reverse_env ''route_stops_reordered'' sample_db"
    by code_simp+
qed simp_all


text \<open>Removing the first of three stops succeeds or fails with the order in which the database visits
  the rows of the renumbering: front to back it is applied, back to front a position is still taken
  when it is reused, and the operation is answered \<open>Unavailable\<close>, however often it is repeated.\<close>

definition three_stops_db :: db where
  "three_stops_db = sample_db\<lparr> day_plan_stops := day_plan_stops sample_db @
     [sample_stop ''s4'' ''plan_1'' ''job_3'' 3] \<rparr>"

theorem remove_stop_depends_on_scan:
  "result_of (remove_stop_as sample_env True ''plan_1'' ''s1'' ''boss'') three_stops_db =
     Inr (Applied \<lparr> rm_day_plan_id = ''plan_1'', rm_stop_id = ''s1'', rm_persisted = True \<rparr>)
   \<and> result_of (remove_stop_as reverse_env True ''plan_1'' ''s1'' ''boss'') three_stops_db = Inr Unavailable
   \<and> state_after (remove_stop_as reverse_env True ''plan_1'' ''s1'' ''boss'') three_stops_db = three_stops_db"
  by code_simp

text \<open>Assigning a job that does not exist to a draft with room is answered \<open>Unavailable\<close>, although the
  operation has a \<open>NotFound\<close> for it: the foreign key fails before the existence query is reached.\<close>

theorem assign_unknown_job_unavailable:
  assumes "route_ok d" and "find_plan d i = Some p" and "plan_status p = ''draft''"
    and "int (length (stops_of d i)) < plan_stop_capacity p"
    and "req_job_id r \<notin> job_pk ` set (service_jobs d)"
  shows "result_of (assign_stop_as env True i r actor) d = Inr Unavailable"
proof -
  have "stop_job_id s \<noteq> req_job_id r" if "s \<in> set (day_plan_stops d)" for s
    using route_okD(4) [OF assms(1) that] assms(5) by (auto simp: stop_ok_def)
  then have none: "lookup_by (\<lambda>s. stop_job_id s = req_job_id r) (stops_of d i) = None"
    by (simp add: lookup_by_None stops_of_def)
  have "\<not> stop_ok d (new_stop env i sid r n)" for sid n
    using assms(5) by (simp add: stop_ok_def new_stop_def)
  then have "\<exists>e. assign_statement env i (draft_stop_id i (req_job_id r)) r d = Inl e"
    using assms(2-4) none route_okD(1) [OF assms(1)]
    by (auto simp: assign_statement_def draft_lookup insert_row_def)
  then obtain e where "assign_statement env i (draft_stop_id i (req_job_id r)) r d = Inl e" ..
  then have "assign_stop env i (draft_stop_id i (req_job_id r)) r actor ([], d) = (Inl e, ([], d))"
    by (simp add: assign_stop_def db_bind_def)
  then show ?thesis
    by (simp add: result_of_fst assign_stop_as_def answer_def Let_def)
qed

theorem assign_unknown_job_unavailable_witness:
  "result_of (assign_stop_as sample_env True ''plan_1'' (sample_assignment\<lparr> req_job_id := ''job_9'' \<rparr>) ''boss'')
     sample_db = Inr Unavailable"
proof (rule assign_unknown_job_unavailable)
  show "find_plan sample_db ''plan_1'' = Some (sample_plan ''plan_1'' ''draft'' 20)"
    and "plan_status (sample_plan ''plan_1'' ''draft'' 20) = ''draft''"
    and "int (length (stops_of sample_db ''plan_1'')) < plan_stop_capacity (sample_plan ''plan_1'' ''draft'' 20)"
    and "req_job_id (sample_assignment\<lparr> req_job_id := ''job_9'' \<rparr>) \<notin> job_pk ` set (service_jobs sample_db)"
    by code_simp+
qed simp

text \<open>Two assignments to different routes can be given the same stop identifier, because the parts of
  the identifier are joined with a character they may contain; the second one is then refused by the
  primary key and answered \<open>Unavailable\<close>, on an empty draft with room for the job.\<close>

definition colliding_db :: db where
  "colliding_db = sample_db\<lparr>
     day_plans := [sample_plan ''p'' ''draft'' 20, sample_plan ''p_a'' ''draft'' 21],
     day_plan_stops := [],
     service_jobs := [sample_job ''a_b'', sample_job ''b''] \<rparr>"

theorem stop_id_collision:
  "draft_stop_id ''p'' ''a_b'' = draft_stop_id ''p_a'' ''b''
   \<and> (let d1 = state_after (assign_stop_as sample_env True ''p'' (sample_assignment\<lparr> req_job_id := ''a_b'' \<rparr>) ''boss'')
            colliding_db in
      map stop_pk (stops_of d1 ''p'') = [''stop_p_a_b''] \<and> stops_of d1 ''p_a'' = []
      \<and> result_of (assign_stop_as (sample_env\<lparr> fresh_uuid := (\<lambda>_. ''u5'') \<rparr>) True ''p_a''
           (sample_assignment\<lparr> req_job_id := ''b'' \<rparr>) ''boss'') d1 = Inr Unavailable)"
  by code_simp

text \<open>C24: The route of the day reads only, and answers with a published route of the crew that has stops:
  today's if there is one, else the latest past one, else the earliest future one; its stops come in
  visiting order, each exactly once.\<close>

theorem today_for_crew_found:
  assumes "today_for_crew env True crew (fs, d) = (Inr (Found plan), (fs', d'))"
    and "route_ok d" and "distinct (map job_pk (service_jobs d))"
  shows "d' = d \<and> (\<exists>p. eligible d crew p \<and> (\<forall>q. eligible d crew q \<longrightarrow> dated_before (current_date env) p q)
    \<and> sum_id plan = plan_pk p \<and> sum_crew_id plan = crew
    \<and> map ds_id (sum_stops plan) = map stop_pk (visit_order d (plan_pk p))
    \<and> map ds_stop_order (sum_stops plan) = map (as_u32 \<circ> stop_order) (visit_order d (plan_pk p)))"
  using assms by (rule today_found)

theorem today_for_crew_found_witness:
  "\<exists>plan. result_of (today_for_crew sample_env True ''crew_1'') sample_db = Inr (Found plan)
     \<and> sum_crew_id plan = ''crew_1''"
proof -
  let ?run = "today_for_crew sample_env True ''crew_1'' ([], sample_db)"
  have "case fst ?run of Inr (Found plan) \<Rightarrow> True | _ \<Rightarrow> False" by code_simp
  then obtain plan where r: "fst ?run = Inr (Found plan)"
    by (auto split: sum.splits today_result.splits)
  then have "?run = (Inr (Found plan), (fst (snd ?run), snd (snd ?run)))" by (rule answered_run)
  moreover have "distinct (map job_pk (service_jobs sample_db))" by code_simp
  ultimately have "sum_crew_id plan = ''crew_1''"
    using today_for_crew_found sample_route_ok by blast
  with r show ?thesis by (simp add: result_of_fst)
qed

text \<open>C28: The validation of service dates accepts exactly the dates of the calendar from year 1 to 9999,
  leap years included, printed as \<open>YYYY-MM-DD\<close>.\<close>

theorem service_date_valid_iff:
  "is_valid_service_date s \<longleftrightarrow> (\<exists>y m d. calendar_date y m d \<and> s = print_date y m d)"
  using print_date_valid valid_date_printed by metis

text \<open>The identifier of a draft can be read back into its date and crew, whatever characters the crew
  identifier contains.\<close>

theorem draft_id_roundtrip:
  assumes "is_valid_service_date s"
  shows "day_plan_parts_from_id (draft_day_plan_id crew s) = Some (s, crew)"
  using assms by (rule draft_id_of_valid_date)

theorem draft_id_roundtrip_witness:
  "day_plan_parts_from_id (draft_day_plan_id ''crew_north_1'' ''2028-02-29'') = Some (''2028-02-29'', ''crew_north_1'')"
proof (rule draft_id_roundtrip)
  have "print_date 2028 2 29 = ''2028-02-29''" by code_simp
  then show "is_valid_service_date ''2028-02-29''"
    using print_date_valid [of 2028 2 29] by (simp add: calendar_date_def days_in_month_def leap_year_def)
qed

end
