(* ===== verification/Idempotent_Writes.thy ===== *)
theory Idempotent_Writes
  imports Route_Plans
begin

text \<open>
  The field crew's writes: stop progress (\<open>backend/src/postgres_stop_progress.rs\<close>), job start and
  completion, checklist items and add-ons (\<open>backend/src/postgres_write.rs\<close>, \<open>db.rs\<close>). A write may
  carry the client's mutation id; a ledger table then keeps which request used the id, so that a
  request sent again is answered \<open>Replayed\<close> and not applied again.

  The three result enums of the code (\<open>StopProgressWriteResult\<close>, \<open>JobLifecycleWriteResult\<close>,
  \<open>ChecklistWriteResult\<close>) have the constructors of \<open>write_result\<close>; only the first has \<open>LocalFallback\<close>.
\<close>

datatype write_result = Persisted | Replayed | NoSuchRow | IdempotencyConflict | LocalFallback
  | WriteUnavailable

section \<open>Stop progress\<close>

definition set_stop_status :: "env \<Rightarrow> string \<Rightarrow> string \<Rightarrow> string \<Rightarrow> (db, nat) statement" where
  "set_stop_status env plan stop status d =
     (let hit = (\<lambda>s. stop_plan_id s = plan \<and> stop_pk s = stop);
          n = affected hit (day_plan_stops d) in
      if n = 0 then Inr (0, d)
      else if status \<notin> {''pending'', ''in_progress'', ''finished''} then Inl ConstraintViolation
      else Inr (n, d\<lparr> day_plan_stops := update_where hit
        (\<lambda>s. s\<lparr> stop_status := status, stop_updated_at := now_at env \<rparr>) (day_plan_stops d) \<rparr>))"

definition claim_stop :: "env \<Rightarrow> string \<Rightarrow> string \<Rightarrow> string \<Rightarrow> string \<Rightarrow> string \<Rightarrow> (db, bool) statement" where
  "claim_stop env plan stop status mutation actor d =
     (case parse_uuid env mutation of
        None \<Rightarrow> Inl InvalidInput
      | Some u \<Rightarrow>
        (case day_plan_organization d plan of
           None \<Rightarrow> Inr (False, d)
         | Some org \<Rightarrow>
           if \<not> exists_row (\<lambda>s. stop_plan_id s = plan \<and> stop_pk s = stop) (day_plan_stops d) then Inr (False, d)
           else if status \<notin> {''pending'', ''in_progress'', ''finished''} then Inl ConstraintViolation
           else if exists_row (\<lambda>m. sm_client_mutation_id m = u) (stop_mutations d) then Inr (False, d)
           else if org \<notin> organization_pk ` set (organizations d) then Inl ConstraintViolation
           else Inr (True, d\<lparr> stop_mutations := stop_mutations d @
             [\<lparr> sm_client_mutation_id = u, sm_organization_id = org, sm_actor_id = actor,
                sm_plan_id = plan, sm_stop_id = stop, sm_requested_status = status \<rparr>] \<rparr>)))"

definition find_stop_mutation :: "env \<Rightarrow> string \<Rightarrow> (db, stop_mutation_row option) statement" where
  "find_stop_mutation env mutation d =
     (case parse_uuid env mutation of
        None \<Rightarrow> Inl InvalidInput
      | Some u \<Rightarrow> Inr (lookup_by (\<lambda>m. sm_client_mutation_id m = u) (stop_mutations d), d))"

definition replay_or :: "('m \<Rightarrow> bool) \<Rightarrow> 'm option \<Rightarrow> write_result" where
  "replay_or same existing =
     (case existing of
        Some m \<Rightarrow> if same m then Replayed else IdempotencyConflict
      | None \<Rightarrow> NoSuchRow)"

text \<open>
  The shape of a claimed write: the ledger's \<open>INSERT .. ON CONFLICT DO NOTHING\<close>; if it inserted nothing,
  the row that holds the id decides the answer and the transaction is rolled back.
\<close>

definition with_claim :: "(db, bool) statement \<Rightarrow> (db, 'm option) statement \<Rightarrow> ('m \<Rightarrow> bool) \<Rightarrow>
    (db, write_result tx_end) db_call \<Rightarrow> (db, write_result tx_end) db_call" where
  "with_claim claim find_existing same apply_change =
     db_bind (db_stmt claim) (\<lambda>inserted.
     if \<not> inserted
     then db_bind (db_stmt find_existing) (\<lambda>existing. db_return (Rollback (replay_or same existing)))
     else apply_change)"

definition update_stop_progress :: "env \<Rightarrow> string \<Rightarrow> string \<Rightarrow> string \<Rightarrow> string option \<Rightarrow> string \<Rightarrow>
    (db, write_result) db_call" where
  "update_stop_progress env plan stop status mutation actor =
     (case mutation of
        Some cm \<Rightarrow> db_transaction (with_claim
          (claim_stop env plan stop status cm actor) (find_stop_mutation env cm)
          (\<lambda>m. sm_actor_id m = actor \<and> sm_plan_id m = plan \<and> sm_stop_id m = stop
            \<and> sm_requested_status m = status)
          (db_bind (db_stmt (set_stop_status env plan stop status)) (\<lambda>n.
            db_return (if n \<noteq> 1 then Rollback NoSuchRow else Commit Persisted))))
      | None \<Rightarrow> db_map (\<lambda>n. if n = 1 then Persisted else NoSuchRow)
          (db_stmt (set_stop_status env plan stop status)))"

text \<open>\<open>JobRepository\<close>: no pool means \<open>LocalFallback\<close> here and \<open>NotFound\<close> for jobs and checklists.\<close>

definition or_unavailable :: "(db, write_result) db_call \<Rightarrow> (db, write_result) db_call" where
  "or_unavailable m = db_catch m (\<lambda>_. db_return WriteUnavailable) db_return"

definition repo_update_stop_progress :: "env \<Rightarrow> bool \<Rightarrow> string \<Rightarrow> string \<Rightarrow> string \<Rightarrow> string option \<Rightarrow>
    string \<Rightarrow> (db, write_result) db_call" where
  "repo_update_stop_progress env pool plan stop status mutation actor =
     (if pool then or_unavailable (update_stop_progress env plan stop status mutation actor)
      else db_return LocalFallback)"

section \<open>Job lifecycle\<close>

definition find_job :: "db \<Rightarrow> string \<Rightarrow> job_row option" where
  "find_job d i = lookup_by (\<lambda>j. job_pk j = i) (service_jobs d)"

definition claim_job :: "env \<Rightarrow> string \<Rightarrow> string \<Rightarrow> string \<Rightarrow> string \<Rightarrow> (db, bool) statement" where
  "claim_job env i action mutation actor d =
     (case parse_uuid env mutation of
        None \<Rightarrow> Inl InvalidInput
      | Some u \<Rightarrow>
        (case find_job d i of
           None \<Rightarrow> Inr (False, d)
         | Some j \<Rightarrow>
           if action \<notin> {''start'', ''complete''} then Inl ConstraintViolation
           else if exists_row (\<lambda>m. jm_client_mutation_id m = u) (job_mutations d) then Inr (False, d)
           else if job_organization_id j \<notin> organization_pk ` set (organizations d) then Inl ConstraintViolation
           else Inr (True, d\<lparr> job_mutations := job_mutations d @
             [\<lparr> jm_client_mutation_id = u, jm_organization_id = job_organization_id j,
                jm_actor_id = actor, jm_job_id = i, jm_requested_action = action \<rparr>] \<rparr>)))"

definition find_job_mutation :: "env \<Rightarrow> string \<Rightarrow> (db, job_mutation_row option) statement" where
  "find_job_mutation env mutation d =
     (case parse_uuid env mutation of
        None \<Rightarrow> Inl InvalidInput
      | Some u \<Rightarrow> Inr (lookup_by (\<lambda>m. jm_client_mutation_id m = u) (job_mutations d), d))"

definition claim_job_lifecycle_mutation :: "env \<Rightarrow> string \<Rightarrow> string \<Rightarrow> string option \<Rightarrow> string \<Rightarrow>
    (db, write_result) db_call" where
  "claim_job_lifecycle_mutation env i action mutation actor =
     (case mutation of
        None \<Rightarrow> db_return Persisted
      | Some cm \<Rightarrow>
          db_bind (db_stmt (claim_job env i action cm actor)) (\<lambda>inserted.
          if inserted then db_return Persisted
          else db_bind (db_stmt (find_job_mutation env cm)) (\<lambda>existing.
            db_return (replay_or (\<lambda>m. jm_actor_id m = actor \<and> jm_job_id m = i
              \<and> jm_requested_action m = action) existing))))"

definition set_job :: "string \<Rightarrow> (job_row \<Rightarrow> job_row) \<Rightarrow> (db, nat) statement" where
  "set_job i f d = Inr (affected (\<lambda>j. job_pk j = i) (service_jobs d),
     d\<lparr> service_jobs := update_where (\<lambda>j. job_pk j = i) f (service_jobs d) \<rparr>)"

definition tick_items :: "(item_row \<Rightarrow> bool) \<Rightarrow> (db, nat) statement" where
  "tick_items hit d = Inr (affected hit (checklist_items d),
     d\<lparr> checklist_items := update_where hit (\<lambda>i. i\<lparr> item_completed := True \<rparr>) (checklist_items d) \<rparr>)"

definition lifecycle_transaction :: "(db, write_result) db_call \<Rightarrow> (db, nat) statement \<Rightarrow>
    (db, nat) statement \<Rightarrow> (db, write_result) db_call" where
  "lifecycle_transaction claim job_update item_update = db_transaction (
     db_bind claim (\<lambda>c.
     if c \<noteq> Persisted then db_return (Rollback c)
     else db_bind (db_stmt job_update) (\<lambda>n.
       if n \<noteq> 1 then db_return (Rollback NoSuchRow)
       else db_bind (db_stmt item_update) (\<lambda>_. db_return (Commit Persisted)))))"

definition started_job :: "env \<Rightarrow> job_row \<Rightarrow> job_row" where
  "started_job env j = j\<lparr> job_status := ''in_progress'', job_updated_at := now_at env \<rparr>"

definition completed_job :: "env \<Rightarrow> job_row \<Rightarrow> job_row" where
  "completed_job env j = j\<lparr> job_status := ''completed'',
     job_completed_items := job_checklist_items j, job_updated_at := now_at env \<rparr>"

definition start_job :: "env \<Rightarrow> string \<Rightarrow> string option \<Rightarrow> string \<Rightarrow> (db, write_result) db_call" where
  "start_job env i mutation actor = lifecycle_transaction
     (claim_job_lifecycle_mutation env i ''start'' mutation actor)
     (set_job i (started_job env))
     (tick_items (\<lambda>t. item_job_id t = i \<and> sql_like ''%yard_service'' (item_pk t)))"

definition complete_job :: "env \<Rightarrow> string \<Rightarrow> string option \<Rightarrow> string \<Rightarrow> (db, write_result) db_call" where
  "complete_job env i mutation actor = lifecycle_transaction
     (claim_job_lifecycle_mutation env i ''complete'' mutation actor)
     (set_job i (completed_job env))
     (tick_items (\<lambda>t. item_job_id t = i))"

definition repo_start_job :: "env \<Rightarrow> bool \<Rightarrow> string \<Rightarrow> string option \<Rightarrow> string \<Rightarrow> (db, write_result) db_call" where
  "repo_start_job env pool i mutation actor =
     (if pool then or_unavailable (start_job env i mutation actor) else db_return NoSuchRow)"

definition repo_complete_job :: "env \<Rightarrow> bool \<Rightarrow> string \<Rightarrow> string option \<Rightarrow> string \<Rightarrow> (db, write_result) db_call" where
  "repo_complete_job env pool i mutation actor =
     (if pool then or_unavailable (complete_job env i mutation actor) else db_return NoSuchRow)"

section \<open>Checklist items\<close>

definition claim_item :: "env \<Rightarrow> string \<Rightarrow> string \<Rightarrow> bool \<Rightarrow> string \<Rightarrow> string \<Rightarrow> (db, bool) statement" where
  "claim_item env job item tick mutation actor d =
     (case parse_uuid env mutation of
        None \<Rightarrow> Inl InvalidInput
      | Some u \<Rightarrow>
        (case find_job d job of
           None \<Rightarrow> Inr (False, d)
         | Some j \<Rightarrow>
           if \<not> exists_row (\<lambda>t. item_job_id t = job \<and> item_pk t = item) (checklist_items d) then Inr (False, d)
           else if exists_row (\<lambda>m. im_client_mutation_id m = u) (item_mutations d) then Inr (False, d)
           else if job_organization_id j \<notin> organization_pk ` set (organizations d) then Inl ConstraintViolation
           else Inr (True, d\<lparr> item_mutations := item_mutations d @
             [\<lparr> im_client_mutation_id = u, im_organization_id = job_organization_id j,
                im_actor_id = actor, im_job_id = job, im_item_id = item,
                im_requested_completed = tick \<rparr>] \<rparr>)))"

definition find_item_mutation :: "env \<Rightarrow> string \<Rightarrow> (db, item_mutation_row option) statement" where
  "find_item_mutation env mutation d =
     (case parse_uuid env mutation of
        None \<Rightarrow> Inl InvalidInput
      | Some u \<Rightarrow> Inr (lookup_by (\<lambda>m. im_client_mutation_id m = u) (item_mutations d), d))"

definition set_item :: "string \<Rightarrow> string \<Rightarrow> bool \<Rightarrow> (db, nat) statement" where
  "set_item job item tick d =
     (let hit = (\<lambda>t. item_job_id t = job \<and> item_pk t = item) in
      Inr (affected hit (checklist_items d),
        d\<lparr> checklist_items := update_where hit (\<lambda>t. t\<lparr> item_completed := tick \<rparr>) (checklist_items d) \<rparr>))"

definition completed_count :: "db \<Rightarrow> string \<Rightarrow> int" where
  "completed_count d job =
     int (length (filter (\<lambda>t. item_job_id t = job \<and> item_completed t) (checklist_items d)))"

definition recount_items :: "env \<Rightarrow> string \<Rightarrow> (db, nat) statement" where
  "recount_items env job d = set_job job
     (\<lambda>j. j\<lparr> job_completed_items := completed_count d job, job_updated_at := now_at env \<rparr>) d"

definition update_checklist_item :: "env \<Rightarrow> string \<Rightarrow> string \<Rightarrow> bool \<Rightarrow> string option \<Rightarrow> string \<Rightarrow>
    (db, write_result) db_call" where
  "update_checklist_item env job item tick mutation actor = db_transaction (
     let apply_change =
       db_bind (db_stmt (set_item job item tick)) (\<lambda>n.
       if n \<noteq> 1 then db_return (Rollback NoSuchRow)
       else db_bind (db_stmt (recount_items env job)) (\<lambda>_. db_return (Commit Persisted))) in
     case mutation of
       None \<Rightarrow> apply_change
     | Some cm \<Rightarrow> with_claim (claim_item env job item tick cm actor) (find_item_mutation env cm)
         (\<lambda>m. im_actor_id m = actor \<and> im_job_id m = job \<and> im_item_id m = item
           \<and> im_requested_completed m = tick)
         apply_change)"

definition repo_update_checklist_item :: "env \<Rightarrow> bool \<Rightarrow> string \<Rightarrow> string \<Rightarrow> bool \<Rightarrow> string option \<Rightarrow>
    string \<Rightarrow> (db, write_result) db_call" where
  "repo_update_checklist_item env pool job item tick mutation actor =
     (if pool then or_unavailable (update_checklist_item env job item tick mutation actor)
      else db_return NoSuchRow)"

section \<open>Add-ons\<close>

record job_add_on =
  jao_id :: string
  jao_job_id :: string
  jao_service_name :: string
  jao_service_description :: "string option"
  jao_quantity :: u32
  jao_unit_price_cents :: u32
  jao_note :: "string option"
  jao_status :: string

datatype add_on_update = AddOnUpdated job_add_on | InvalidStatus | InvalidTransition | AddOnNotFound
  | AddOnUnavailable

definition job_add_on_of :: "add_on_row \<Rightarrow> job_add_on" where
  "job_add_on_of a = \<lparr> jao_id = add_on_pk a, jao_job_id = add_on_job_id a,
     jao_service_name = add_on_service_name a, jao_service_description = add_on_service_description a,
     jao_quantity = as_u32 (add_on_quantity a), jao_unit_price_cents = as_u32 (add_on_unit_price_cents a),
     jao_note = add_on_note a, jao_status = add_on_status a \<rparr>"

definition get_job_add_on :: "string \<Rightarrow> string \<Rightarrow> (db, job_add_on option) db_call" where
  "get_job_add_on job add_on = db_select (\<lambda>d. map_option job_add_on_of
     (lookup_by (\<lambda>a. add_on_job_id a = job \<and> add_on_pk a = add_on) (add_ons d)))"

definition add_on_before :: "add_on_row \<Rightarrow> add_on_row \<Rightarrow> bool" where
  "add_on_before a b \<longleftrightarrow> add_on_created_at a < add_on_created_at b
     \<or> (add_on_created_at a = add_on_created_at b \<and> \<not> string_less (add_on_pk b) (add_on_pk a))"

definition list_job_add_ons :: "string \<Rightarrow> (db, job_add_on list) db_call" where
  "list_job_add_ons job = db_select (\<lambda>d. map job_add_on_of
     (order_by add_on_before (filter (\<lambda>a. add_on_job_id a = job) (add_ons d))))"

definition valid_add_on_transition :: "string \<Rightarrow> string \<Rightarrow> bool" where
  "valid_add_on_transition current target \<longleftrightarrow> current = target
     \<or> (current = ''scheduled'' \<and> target \<in> {''in_progress'', ''cancelled''})
     \<or> (current = ''in_progress'' \<and> target \<in> {''completed'', ''cancelled''})"

text \<open>The guard is repeated in the \<open>UPDATE\<close>, against a change between the two statements.\<close>

definition set_add_on_status :: "string \<Rightarrow> string \<Rightarrow> string \<Rightarrow> (db, nat) statement" where
  "set_add_on_status job add_on status d =
     (let hit = (\<lambda>a. add_on_job_id a = job \<and> add_on_pk a = add_on \<and>
            (add_on_status a = status
             \<or> (add_on_status a = ''scheduled'' \<and> status \<in> {''in_progress'', ''cancelled''})
             \<or> (add_on_status a = ''in_progress'' \<and> status \<in> {''completed'', ''cancelled''})));
          n = affected hit (add_ons d) in
      if 0 < n \<and> status \<notin> {''scheduled'', ''in_progress'', ''completed'', ''cancelled''}
      then Inl ConstraintViolation
      else Inr (n, d\<lparr> add_ons := update_where hit (\<lambda>a. a\<lparr> add_on_status := status \<rparr>) (add_ons d) \<rparr>))"

definition update_job_add_on_status :: "string \<Rightarrow> string \<Rightarrow> string \<Rightarrow> (db, bool) db_call" where
  "update_job_add_on_status job add_on status =
     db_map (\<lambda>n. n = 1) (db_stmt (set_add_on_status job add_on status))"

definition repo_update_job_add_on_status :: "bool \<Rightarrow> string \<Rightarrow> string \<Rightarrow> string \<Rightarrow> (db, add_on_update) db_call" where
  "repo_update_job_add_on_status pool job add_on status =
     (if status \<notin> {''scheduled'', ''in_progress'', ''completed'', ''cancelled''}
      then db_return InvalidStatus
      else if \<not> pool then db_return AddOnUnavailable
      else db_catch (get_job_add_on job add_on) (\<lambda>_. db_return AddOnUnavailable) (\<lambda>found.
        case found of
          None \<Rightarrow> db_return AddOnNotFound
        | Some current \<Rightarrow>
            if \<not> valid_add_on_transition (jao_status current) status then db_return InvalidTransition
            else db_catch (update_job_add_on_status job add_on status) (\<lambda>_. db_return AddOnUnavailable)
              (\<lambda>tick.
                if tick
                then db_catch (get_job_add_on job add_on) (\<lambda>_. db_return AddOnUnavailable)
                  (\<lambda>r. db_return (case r of Some a \<Rightarrow> AddOnUpdated a | None \<Rightarrow> AddOnUnavailable))
                else db_catch (get_job_add_on job add_on) (\<lambda>_. db_return AddOnUnavailable)
                  (\<lambda>r. db_return (case r of Some _ \<Rightarrow> InvalidTransition | None \<Rightarrow> AddOnNotFound)))))"

end
