(* ===== verification/Idempotent_Facts.thy ===== *)
theory Idempotent_Facts
  imports Idempotent_Writes
begin

text \<open>
  The contract of a write with a mutation id, as a locale, proved for the three ledgers; the
  checklist counter; the add-on state machine.
\<close>

section \<open>The contract\<close>

text \<open>
  A client that lost the answer sends the request again, with other requests in between. A history
  is a list of deliveries of the request (each with the surroundings and the outages of its time)
  and of other transitions.
\<close>

datatype ('e, 'd) event = Deliver 'e "bool list" | Other "'d \<Rightarrow> 'd"

fun answers :: "('e \<Rightarrow> ('d, 'a) db_call) \<Rightarrow> ('e, 'd) event list \<Rightarrow> 'd \<Rightarrow> (sqlx_error + 'a) list" where
  "answers m [] d = []"
| "answers m (Deliver e fs # evs) d = (case m e (fs, d) of (r, (_, d')) \<Rightarrow> r # answers m evs d')"
| "answers m (Other g # evs) d = answers m evs (g d)"

locale idempotent_mutation =
  fixes mutate :: "'e \<Rightarrow> ('d, write_result) db_call"
    and sound :: "'e \<Rightarrow> bool"
    and recorded :: "'d \<Rightarrow> bool"
  assumes only_persisted_changes:
      "mutate e (fs, d) = (r, (fs', d')) \<Longrightarrow> r \<noteq> Inr Persisted \<Longrightarrow> d' = d"
    and persisted_records:
      "sound e \<Longrightarrow> mutate e (fs, d) = (Inr Persisted, (fs', d')) \<Longrightarrow> recorded d'"
    and recorded_replays:
      "sound e \<Longrightarrow> recorded d \<Longrightarrow> mutate e (fs, d) = (Inr a, (fs', d')) \<Longrightarrow> a = Replayed"
begin

definition sound_history :: "('e, 'd) event list \<Rightarrow> bool" where
  "sound_history evs \<longleftrightarrow> (\<forall>ev \<in> set evs. case ev of
      Deliver e _ \<Rightarrow> sound e | Other g \<Rightarrow> (\<forall>d. recorded d \<longrightarrow> recorded (g d)))"

lemma recorded_kept:
  assumes "sound e" and "recorded d" and "mutate e (fs, d) = (r, (fs', d'))"
  shows "d' = d" and "r \<noteq> Inr Persisted"
proof -
  show r: "r \<noteq> Inr Persisted"
    using recorded_replays [OF assms(1,2)] assms(3) by (cases r) auto
  show "d' = d" by (rule only_persisted_changes [OF assms(3) r])
qed

lemma never_again:
  "sound_history evs \<Longrightarrow> recorded d \<Longrightarrow> Inr Persisted \<notin> set (answers mutate evs d)"
proof (induction evs arbitrary: d)
  case (Cons ev evs)
  then have rest: "sound_history evs" by (simp add: sound_history_def)
  show ?case
  proof (cases ev)
    case (Deliver e fs)
    with Cons.prems have e: "sound e" by (simp add: sound_history_def)
    obtain r fs' d' where m: "mutate e (fs, d) = (r, (fs', d'))" by (metis prod.collapse)
    show ?thesis
      using recorded_kept [OF e Cons.prems(2) m] Cons.IH [OF rest] Cons.prems(2) m Deliver by auto
  next
    case (Other g)
    with Cons rest show ?thesis by (simp add: sound_history_def)
  qed
qed simp

lemma at_most_once:
  "sound_history evs \<Longrightarrow> length (filter (\<lambda>r. r = Inr Persisted) (answers mutate evs d)) \<le> 1"
proof (induction evs arbitrary: d)
  case (Cons ev evs)
  then have rest: "sound_history evs" by (simp add: sound_history_def)
  show ?case
  proof (cases ev)
    case (Deliver e fs)
    with Cons.prems have e: "sound e" by (simp add: sound_history_def)
    obtain r fs' d' where m: "mutate e (fs, d) = (r, (fs', d'))" by (metis prod.collapse)
    show ?thesis
    proof (cases "r = Inr Persisted")
      case True
      with e m have "recorded d'" using persisted_records by blast
      then have "Inr Persisted \<notin> set (answers mutate evs d')" by (rule never_again [OF rest])
      then have "filter (\<lambda>r. r = Inr Persisted) (answers mutate evs d') = []"
        by (auto simp: filter_empty_conv)
      with m Deliver True show ?thesis by simp
    next
      case False
      with m Deliver Cons.IH [OF rest, of d'] show ?thesis by simp
    qed
  next
    case (Other g)
    with Cons.IH [OF rest] show ?thesis by simp
  qed
qed simp

end

section \<open>Claimed writes\<close>

text \<open>What a ledger and the change behind it have to provide.\<close>

locale claimed_mutation =
  fixes claim :: "'e \<Rightarrow> (db, bool) statement"
    and find_existing :: "'e \<Rightarrow> (db, 'm option) statement"
    and same :: "'m \<Rightarrow> bool"
    and apply_change :: "'e \<Rightarrow> (db, write_result tx_end) db_call"
    and sound :: "'e \<Rightarrow> bool"
    and recorded :: "db \<Rightarrow> bool"
  assumes not_claimed: "claim e d = Inr (False, d') \<Longrightarrow> d' = d"
    and claimed: "sound e \<Longrightarrow> claim e d = Inr (True, d') \<Longrightarrow> recorded d'"
    and held: "sound e \<Longrightarrow> recorded d \<Longrightarrow> claim e d \<noteq> Inr (True, d')"
    and found: "sound e \<Longrightarrow> recorded d \<Longrightarrow> find_existing e d = Inr (m, d') \<Longrightarrow>
      (case m of None \<Rightarrow> False | Some x \<Rightarrow> same x)"
    and change: "apply_change e (fs, d) = (Inr t, (fs', d')) \<Longrightarrow>
      (t = Commit Persisted \<or> t = Rollback NoSuchRow) \<and> (recorded d \<longrightarrow> recorded d')"
begin

definition body :: "'e \<Rightarrow> (db, write_result tx_end) db_call" where
  "body e = with_claim (claim e) (find_existing e) same (apply_change e)"

lemma body_cases:
  assumes "body e (fs, d) = (Inr t, (fs', d'))"
  obtains (known) m d1 where "find_existing e d = Inr (m, d1)" and "t = Rollback (replay_or same m)"
    | (changed) d1 fs1 where "claim e d = Inr (True, d1)" and "apply_change e (fs1, d1) = (Inr t, (fs', d'))"
proof -
  from assms obtain b c where claim: "db_stmt (claim e) (fs, d) = (Inr b, c)"
    and rest: "(if \<not> b
     then db_bind (db_stmt (find_existing e)) (\<lambda>existing. db_return (Rollback (replay_or same existing)))
     else apply_change e) c = (Inr t, (fs', d'))"
    unfolding body_def with_claim_def by (rule db_bind_InrE)
  from claim have st: "claim e d = Inr (b, snd c)" by (rule db_stmt_InrE') simp
  show thesis
  proof (cases b)
    case True
    with rest st show thesis by (intro changed [of "snd c" "fst c"]) simp_all
  next
    case False
    with st not_claimed have "snd c = d" by metis
    with rest False show thesis
      by (auto simp: db_return_def elim!: db_bind_InrE db_stmt_InrE' intro: known)
  qed
qed

lemma replay_or_kinds: "replay_or P m \<noteq> Persisted"
  by (cases m) (auto simp: replay_or_def)

lemma body_ends:
  assumes "body e (fs, d) = (Inr t, (fs', d'))"
  shows "t = Commit Persisted \<or> (\<exists>r. t = Rollback r \<and> r \<noteq> Persisted)"
  using assms
proof (cases rule: body_cases)
  case (known m d1)
  then show ?thesis using replay_or_kinds by blast
next
  case (changed d1 fs1)
  from change [OF changed(2)] show ?thesis by auto
qed

end

sublocale claimed_mutation \<subseteq> idempotent_mutation "\<lambda>e. db_transaction (body e)" sound recorded
proof
  fix e fs d r fs' d'
  assume run: "db_transaction (body e) (fs, d) = (r, (fs', d'))" and r: "r \<noteq> Inr Persisted"
  show "d' = d"
  proof (cases r)
    case (Inl x)
    with run show ?thesis by (metis db_transaction_Inl)
  next
    case (Inr a)
    from run [unfolded Inr] show ?thesis
      by (cases rule: db_transaction_InrE) (use r Inr in \<open>auto dest!: body_ends\<close>)
  qed
next
  fix e fs d fs' d'
  assume e: "sound e" and run: "db_transaction (body e) (fs, d) = (Inr Persisted, (fs', d'))"
  from run show "recorded d'"
  proof (cases rule: db_transaction_InrE)
    case (committed fs1)
    from committed(1) show ?thesis
    proof (cases rule: body_cases)
      case (changed d1 fs2)
      then show ?thesis using claimed [OF e changed(1)] change [OF changed(2)] by simp
    qed simp
  qed (auto dest!: body_ends)
next
  fix e fs d a fs' d'
  assume e: "sound e" and rec: "recorded d"
    and run: "db_transaction (body e) (fs, d) = (Inr a, (fs', d'))"
  have only: "t = Rollback Replayed" if "body e (fs2, d) = (Inr t, (fs1, d1))" for t fs2 fs1 d1
    using that
  proof (cases rule: body_cases)
    case (known m d2)
    then show ?thesis using found [OF e rec known(1)] by (auto simp: replay_or_def split: option.splits)
  next
    case (changed d2 fs2)
    then show ?thesis using held [OF e rec] by blast
  qed
  from run show "a = Replayed"
    by (cases rule: db_transaction_InrE) (auto dest: only)
qed

section \<open>The three ledgers\<close>

lemma lookup_append:
  "lookup_by P (xs @ [x]) = (case lookup_by P xs of Some y \<Rightarrow> Some y | None \<Rightarrow> if P x then Some x else None)"
  by (induction xs) auto

text \<open>The ledger holds the id \<open>u\<close>, and holds it for this request.\<close>

definition holds :: "('m \<Rightarrow> nat) \<Rightarrow> nat \<Rightarrow> ('m \<Rightarrow> bool) \<Rightarrow> 'm list \<Rightarrow> bool" where
  "holds key u same rows \<longleftrightarrow> (case lookup_by (\<lambda>m. key m = u) rows of None \<Rightarrow> False | Some m \<Rightarrow> same m)"

lemma holds_append:
  assumes "\<forall>m \<in> set rows. key m \<noteq> u" and "key r = u" and "same r"
  shows "holds key u same (rows @ [r])"
proof -
  have "lookup_by (\<lambda>m. key m = u) rows = None" using assms(1) by (simp add: lookup_by_None)
  then show ?thesis using assms(2,3) by (simp add: holds_def lookup_append)
qed

lemma holds_exists: "holds key u same rows \<Longrightarrow> \<exists>m \<in> set rows. key m = u"
  by (auto simp: holds_def dest!: lookup_by_Some split: option.splits)

definition same_stop :: "string \<Rightarrow> string \<Rightarrow> string \<Rightarrow> string \<Rightarrow> stop_mutation_row \<Rightarrow> bool" where
  "same_stop actor plan stop status m \<longleftrightarrow> sm_actor_id m = actor \<and> sm_plan_id m = plan \<and> sm_stop_id m = stop
     \<and> sm_requested_status m = status"

definition stop_recorded :: "nat \<Rightarrow> string \<Rightarrow> string \<Rightarrow> string \<Rightarrow> string \<Rightarrow> db \<Rightarrow> bool" where
  "stop_recorded u actor plan stop status d \<longleftrightarrow>
     holds sm_client_mutation_id u (same_stop actor plan stop status) (stop_mutations d)"

interpretation stop_ledger: claimed_mutation
  "\<lambda>env. claim_stop env plan stop status cm actor" "\<lambda>env. find_stop_mutation env cm"
  "same_stop actor plan stop status"
  "\<lambda>env. db_bind (db_stmt (set_stop_status env plan stop status)) (\<lambda>n.
            db_return (if n \<noteq> 1 then Rollback NoSuchRow else Commit Persisted))"
  "\<lambda>env. parse_uuid env cm = Some u" "stop_recorded u actor plan stop status"
  for plan stop status cm actor u
proof
  fix env d d'
  show "claim_stop env plan stop status cm actor d = Inr (False, d') \<Longrightarrow> d' = d"
    by (auto simp: claim_stop_def split: option.splits if_splits)
  show "parse_uuid env cm = Some u \<Longrightarrow> claim_stop env plan stop status cm actor d = Inr (True, d') \<Longrightarrow>
      stop_recorded u actor plan stop status d'"
    by (auto simp: claim_stop_def stop_recorded_def same_stop_def intro!: holds_append
        split: option.splits if_splits)
  show "parse_uuid env cm = Some u \<Longrightarrow> stop_recorded u actor plan stop status d \<Longrightarrow>
      claim_stop env plan stop status cm actor d \<noteq> Inr (True, d')"
    by (auto simp: claim_stop_def stop_recorded_def dest!: holds_exists split: option.splits if_splits)
next
  fix env d m d'
  show "parse_uuid env cm = Some u \<Longrightarrow> stop_recorded u actor plan stop status d \<Longrightarrow>
      find_stop_mutation env cm d = Inr (m, d') \<Longrightarrow>
      case m of None \<Rightarrow> False | Some x \<Rightarrow> same_stop actor plan stop status x"
    by (auto simp: find_stop_mutation_def stop_recorded_def holds_def)
next
  fix env fs d t fs' d'
  assume "db_bind (db_stmt (set_stop_status env plan stop status)) (\<lambda>n.
      db_return (if n \<noteq> 1 then Rollback NoSuchRow else Commit Persisted)) (fs, d) = (Inr t, (fs', d'))"
  then show "(t = Commit Persisted \<or> t = Rollback NoSuchRow) \<and>
      (stop_recorded u actor plan stop status d \<longrightarrow> stop_recorded u actor plan stop status d')"
    by (auto simp: db_return_def set_stop_status_def Let_def stop_recorded_def
        elim!: db_bind_InrE db_stmt_InrE' split: if_splits)
qed

lemma update_stop_progress_claimed:
  "update_stop_progress env plan stop status (Some cm) actor =
     db_transaction (stop_ledger.body plan stop status cm actor env)"
  unfolding update_stop_progress_def stop_ledger.body_def
  by (simp only: same_stop_def [abs_def] option.case)

definition same_item :: "string \<Rightarrow> string \<Rightarrow> string \<Rightarrow> bool \<Rightarrow> item_mutation_row \<Rightarrow> bool" where
  "same_item actor job item tick m \<longleftrightarrow> im_actor_id m = actor \<and> im_job_id m = job \<and> im_item_id m = item
     \<and> im_requested_completed m = tick"

definition item_recorded :: "nat \<Rightarrow> string \<Rightarrow> string \<Rightarrow> string \<Rightarrow> bool \<Rightarrow> db \<Rightarrow> bool" where
  "item_recorded u actor job item tick d \<longleftrightarrow>
     holds im_client_mutation_id u (same_item actor job item tick) (item_mutations d)"

definition item_change :: "env \<Rightarrow> string \<Rightarrow> string \<Rightarrow> bool \<Rightarrow> (db, write_result tx_end) db_call" where
  "item_change env job item tick =
     db_bind (db_stmt (set_item job item tick)) (\<lambda>n.
     if n \<noteq> 1 then db_return (Rollback NoSuchRow)
     else db_bind (db_stmt (recount_items env job)) (\<lambda>_. db_return (Commit Persisted)))"

lemma item_change_cases:
  assumes "item_change env job item tick (fs, d) = (Inr t, (fs', d'))"
  obtains (missing) n where "set_item job item tick d = Inr (n, d')" and "n \<noteq> 1" and "t = Rollback NoSuchRow"
    | (changed) d1 m where "set_item job item tick d = Inr (1, d1)" and "recount_items env job d1 = Inr (m, d')"
        and "t = Commit Persisted"
proof -
  from assms obtain n c where st: "db_stmt (set_item job item tick) (fs, d) = (Inr n, c)"
    and rest: "(if n \<noteq> 1 then db_return (Rollback NoSuchRow)
     else db_bind (db_stmt (recount_items env job)) (\<lambda>_. db_return (Commit Persisted))) c = (Inr t, (fs', d'))"
    unfolding item_change_def by (rule db_bind_InrE)
  from st have st': "set_item job item tick d = Inr (n, snd c)" by (rule db_stmt_InrE') simp
  show thesis
  proof (cases "n = 1")
    case True
    with rest st' show thesis
      by (auto simp: db_return_def elim!: db_bind_InrE db_stmt_InrE' intro: changed)
  next
    case False
    with rest st' show thesis by (auto simp: db_return_def intro: missing)
  qed
qed

interpretation item_ledger: claimed_mutation
  "\<lambda>env. claim_item env job item tick cm actor" "\<lambda>env. find_item_mutation env cm"
  "same_item actor job item tick" "\<lambda>env. item_change env job item tick"
  "\<lambda>env. parse_uuid env cm = Some u" "item_recorded u actor job item tick"
  for job item tick cm actor u
proof
  fix env d d'
  show "claim_item env job item tick cm actor d = Inr (False, d') \<Longrightarrow> d' = d"
    by (auto simp: claim_item_def split: option.splits if_splits)
  show "parse_uuid env cm = Some u \<Longrightarrow> claim_item env job item tick cm actor d = Inr (True, d') \<Longrightarrow>
      item_recorded u actor job item tick d'"
    by (auto simp: claim_item_def item_recorded_def same_item_def intro!: holds_append
        split: option.splits if_splits)
  show "parse_uuid env cm = Some u \<Longrightarrow> item_recorded u actor job item tick d \<Longrightarrow>
      claim_item env job item tick cm actor d \<noteq> Inr (True, d')"
    by (auto simp: claim_item_def item_recorded_def dest!: holds_exists split: option.splits if_splits)
next
  fix env d m d'
  show "parse_uuid env cm = Some u \<Longrightarrow> item_recorded u actor job item tick d \<Longrightarrow>
      find_item_mutation env cm d = Inr (m, d') \<Longrightarrow>
      case m of None \<Rightarrow> False | Some x \<Rightarrow> same_item actor job item tick x"
    by (auto simp: find_item_mutation_def item_recorded_def holds_def)
next
  fix env fs d t fs' d'
  assume "item_change env job item tick (fs, d) = (Inr t, (fs', d'))"
  then show "(t = Commit Persisted \<or> t = Rollback NoSuchRow) \<and>
      (item_recorded u actor job item tick d \<longrightarrow> item_recorded u actor job item tick d')"
    by (cases rule: item_change_cases)
       (auto simp: set_item_def recount_items_def set_job_def item_recorded_def Let_def)
qed

lemma update_checklist_item_claimed:
  "update_checklist_item env job item tick (Some cm) actor =
     db_transaction (item_ledger.body job item tick cm actor env)"
  unfolding update_checklist_item_def item_ledger.body_def Let_def
  by (simp only: same_item_def [abs_def] item_change_def option.case)

lemma update_checklist_item_plain:
  "update_checklist_item env job item tick None actor = db_transaction (item_change env job item tick)"
  unfolding update_checklist_item_def Let_def by (simp only: item_change_def option.case)

text \<open>Start and completion of a job.\<close>

definition same_job :: "string \<Rightarrow> string \<Rightarrow> string \<Rightarrow> job_mutation_row \<Rightarrow> bool" where
  "same_job actor job action m \<longleftrightarrow> jm_actor_id m = actor \<and> jm_job_id m = job \<and> jm_requested_action m = action"

definition job_recorded :: "nat \<Rightarrow> string \<Rightarrow> string \<Rightarrow> string \<Rightarrow> db \<Rightarrow> bool" where
  "job_recorded u actor job action d \<longleftrightarrow>
     holds jm_client_mutation_id u (same_job actor job action) (job_mutations d)"

definition job_change :: "(db, nat) statement \<Rightarrow> (db, nat) statement \<Rightarrow> (db, write_result tx_end) db_call" where
  "job_change job_update item_update =
     db_bind (db_stmt job_update) (\<lambda>n.
     if n \<noteq> 1 then db_return (Rollback NoSuchRow)
     else db_bind (db_stmt item_update) (\<lambda>_. db_return (Commit Persisted)))"

lemma job_change_cases:
  assumes "job_change (set_job i f) (tick_items hit) (fs, d) = (Inr t, (fs', d'))"
  obtains (missing) n where "set_job i f d = Inr (n, d')" and "n \<noteq> 1" and "t = Rollback NoSuchRow"
    | (changed) d1 m where "set_job i f d = Inr (1, d1)" and "tick_items hit d1 = Inr (m, d')"
        and "t = Commit Persisted"
proof -
  from assms obtain n c where st: "db_stmt (set_job i f) (fs, d) = (Inr n, c)"
    and rest: "(if n \<noteq> 1 then db_return (Rollback NoSuchRow)
     else db_bind (db_stmt (tick_items hit)) (\<lambda>_. db_return (Commit Persisted))) c = (Inr t, (fs', d'))"
    unfolding job_change_def by (rule db_bind_InrE)
  from st have st': "set_job i f d = Inr (n, snd c)" by (rule db_stmt_InrE') simp
  show thesis
  proof (cases "n = 1")
    case True
    with rest st' show thesis
      by (auto simp: db_return_def elim!: db_bind_InrE db_stmt_InrE' intro: changed)
  next
    case False
    with rest st' show thesis by (auto simp: db_return_def intro: missing)
  qed
qed

interpretation job_ledger: claimed_mutation
  "\<lambda>env. claim_job env i action cm actor" "\<lambda>env. find_job_mutation env cm"
  "same_job actor i action" "\<lambda>env. job_change (set_job i (f env)) (tick_items hit)"
  "\<lambda>env. parse_uuid env cm = Some u" "job_recorded u actor i action"
  for i action cm actor f hit u
proof
  fix env d d'
  show "claim_job env i action cm actor d = Inr (False, d') \<Longrightarrow> d' = d"
    by (auto simp: claim_job_def split: option.splits if_splits)
  show "parse_uuid env cm = Some u \<Longrightarrow> claim_job env i action cm actor d = Inr (True, d') \<Longrightarrow>
      job_recorded u actor i action d'"
    by (auto simp: claim_job_def job_recorded_def same_job_def intro!: holds_append
        split: option.splits if_splits)
  show "parse_uuid env cm = Some u \<Longrightarrow> job_recorded u actor i action d \<Longrightarrow>
      claim_job env i action cm actor d \<noteq> Inr (True, d')"
    by (auto simp: claim_job_def job_recorded_def dest!: holds_exists split: option.splits if_splits)
next
  fix env d m d'
  show "parse_uuid env cm = Some u \<Longrightarrow> job_recorded u actor i action d \<Longrightarrow>
      find_job_mutation env cm d = Inr (m, d') \<Longrightarrow>
      case m of None \<Rightarrow> False | Some x \<Rightarrow> same_job actor i action x"
    by (auto simp: find_job_mutation_def job_recorded_def holds_def)
next
  fix env fs d t fs' d'
  assume "job_change (set_job i (f env)) (tick_items hit) (fs, d) = (Inr t, (fs', d'))"
  then show "(t = Commit Persisted \<or> t = Rollback NoSuchRow) \<and>
      (job_recorded u actor i action d \<longrightarrow> job_recorded u actor i action d')"
    by (cases rule: job_change_cases) (auto simp: set_job_def tick_items_def job_recorded_def)
qed

lemma claim_then_change:
  assumes "\<And>m. replay_or same m \<noteq> Persisted"
  shows "db_bind (db_bind (db_stmt claim) (\<lambda>inserted.
          if inserted then db_return Persisted
          else db_bind (db_stmt find_existing) (\<lambda>existing. db_return (replay_or same existing))))
      (\<lambda>c. if c \<noteq> Persisted then db_return (Rollback c) else change) =
    with_claim claim find_existing same change"
proof (rule ext)
  fix conn
  obtain r c where claim: "db_stmt claim conn = (r, c)" by (cases "db_stmt claim conn")
  obtain r2 c2 where ex: "db_stmt find_existing c = (r2, c2)" by (cases "db_stmt find_existing c")
  show "db_bind (db_bind (db_stmt claim) (\<lambda>inserted.
          if inserted then db_return Persisted
          else db_bind (db_stmt find_existing) (\<lambda>existing. db_return (replay_or same existing))))
      (\<lambda>c. if c \<noteq> Persisted then db_return (Rollback c) else change) conn =
    with_claim claim find_existing same change conn"
    using assms by (cases r; cases r2) (auto simp: with_claim_def db_bind_def claim ex)
qed

lemma lifecycle_claimed:
  "lifecycle_transaction (claim_job_lifecycle_mutation env i action (Some cm) actor)
      (set_job i (f env)) (tick_items hit) =
     db_transaction (job_ledger.body i action cm actor f hit env)"
proof -
  have "claim_job_lifecycle_mutation env i action (Some cm) actor =
      db_bind (db_stmt (claim_job env i action cm actor)) (\<lambda>inserted.
          if inserted then db_return Persisted
          else db_bind (db_stmt (find_job_mutation env cm)) (\<lambda>existing.
            db_return (replay_or (same_job actor i action) existing)))"
    by (simp only: claim_job_lifecycle_mutation_def same_job_def [abs_def] option.case)
  then show ?thesis
    unfolding lifecycle_transaction_def job_ledger.body_def job_change_def [symmetric]
    by (simp only: claim_then_change [OF job_ledger.replay_or_kinds])
qed

lemma start_job_claimed:
  "start_job env i (Some cm) actor = db_transaction (job_ledger.body i ''start'' cm actor started_job
     (\<lambda>t. item_job_id t = i \<and> sql_like ''%yard_service'' (item_pk t)) env)"
  unfolding start_job_def by (rule lifecycle_claimed)

lemma complete_job_claimed:
  "complete_job env i (Some cm) actor = db_transaction (job_ledger.body i ''complete'' cm actor completed_job
     (\<lambda>t. item_job_id t = i) env)"
  unfolding complete_job_def by (rule lifecycle_claimed)

section \<open>Effects\<close>

text \<open>Checklist: the item is set, the others are kept, the job's counter is the number of ticked items.\<close>

lemma item_change_effect:
  assumes "item_change env job item tick (fs, d) = (Inr (Commit Persisted), (fs', d'))"
  shows "checklist_items d' = update_where (\<lambda>t. item_job_id t = job \<and> item_pk t = item)
      (\<lambda>t. t\<lparr> item_completed := tick \<rparr>) (checklist_items d)"
    and "service_jobs d' = update_where (\<lambda>j. job_pk j = job)
      (\<lambda>j. j\<lparr> job_completed_items := completed_count d' job, job_updated_at := now_at env \<rparr>) (service_jobs d)"
    and "affected (\<lambda>t. item_job_id t = job \<and> item_pk t = item) (checklist_items d) = 1"
  using assms
  by (cases rule: item_change_cases;
      auto simp: set_item_def recount_items_def set_job_def completed_count_def Let_def)+

lemma claimed_item_commit:
  assumes "item_ledger.body job item tick cm actor env (fs, d) = (Inr (Commit Persisted), (fs', d'))"
  obtains d1 fs1 where "claim_item env job item tick cm actor d = Inr (True, d1)"
    and "item_change env job item tick (fs1, d1) = (Inr (Commit Persisted), (fs', d'))"
  using assms by (cases rule: item_ledger.body_cases) auto

lemma claim_item_tables:
  "claim_item env job item tick cm actor d = Inr (b, d1) \<Longrightarrow>
    checklist_items d1 = checklist_items d \<and> service_jobs d1 = service_jobs d"
  by (auto simp: claim_item_def split: option.splits if_splits)

lemma checklist_persisted:
  assumes "update_checklist_item env job item tick mutation actor (fs, d) = (Inr Persisted, (fs', d'))"
  shows "checklist_items d' = update_where (\<lambda>t. item_job_id t = job \<and> item_pk t = item)
      (\<lambda>t. t\<lparr> item_completed := tick \<rparr>) (checklist_items d)"
    and "service_jobs d' = update_where (\<lambda>j. job_pk j = job)
      (\<lambda>j. j\<lparr> job_completed_items := completed_count d' job, job_updated_at := now_at env \<rparr>) (service_jobs d)"
    and "affected (\<lambda>t. item_job_id t = job \<and> item_pk t = item) (checklist_items d) = 1"
proof -
  obtain fs1 fs2 d1 where ch: "item_change env job item tick (fs1, d1) = (Inr (Commit Persisted), (fs2, d'))"
    and same: "checklist_items d1 = checklist_items d" "service_jobs d1 = service_jobs d"
  proof (cases mutation)
    case None
    from assms [unfolded None update_checklist_item_plain] obtain fs1 where
      "item_change env job item tick (tl fs, d) = (Inr (Commit Persisted), (fs1, d'))"
      by (rule transaction_commits) (auto elim!: item_change_cases)
    then show thesis by (rule that) simp_all
  next
    case (Some cm)
    from assms [unfolded Some update_checklist_item_claimed] obtain fs1 where
      "item_ledger.body job item tick cm actor env (tl fs, d) = (Inr (Commit Persisted), (fs1, d'))"
      by (rule transaction_commits) (auto dest: item_ledger.body_ends)
    then obtain d1 fs2 where claim: "claim_item env job item tick cm actor d = Inr (True, d1)"
      and ch: "item_change env job item tick (fs2, d1) = (Inr (Commit Persisted), (fs1, d'))"
      by (rule claimed_item_commit)
    from ch show thesis by (rule that) (use claim_item_tables [OF claim] in auto)
  qed
  show "checklist_items d' = update_where (\<lambda>t. item_job_id t = job \<and> item_pk t = item)
      (\<lambda>t. t\<lparr> item_completed := tick \<rparr>) (checklist_items d)"
    and "service_jobs d' = update_where (\<lambda>j. job_pk j = job)
      (\<lambda>j. j\<lparr> job_completed_items := completed_count d' job, job_updated_at := now_at env \<rparr>) (service_jobs d)"
    and "affected (\<lambda>t. item_job_id t = job \<and> item_pk t = item) (checklist_items d) = 1"
    using item_change_effect [OF ch] by (simp_all add: same)
qed

text \<open>Completion of a job.\<close>

lemma claim_job_tables:
  "claim_job env i action cm actor d = Inr (b, d1) \<Longrightarrow>
    checklist_items d1 = checklist_items d \<and> service_jobs d1 = service_jobs d"
  by (auto simp: claim_job_def split: option.splits if_splits)

lemma lifecycle_persisted:
  assumes "lifecycle_transaction (claim_job_lifecycle_mutation env i action mutation actor)
      (set_job i (f env)) (tick_items hit) (fs, d) = (Inr Persisted, (fs', d'))"
  shows "service_jobs d' = update_where (\<lambda>j. job_pk j = i) (f env) (service_jobs d)"
    and "checklist_items d' = update_where hit (\<lambda>t. t\<lparr> item_completed := True \<rparr>) (checklist_items d)"
    and "affected (\<lambda>j. job_pk j = i) (service_jobs d) = 1"
proof -
  obtain fs1 fs2 d1 where
    ch: "job_change (set_job i (f env)) (tick_items hit) (fs1, d1) = (Inr (Commit Persisted), (fs2, d'))"
    and same: "checklist_items d1 = checklist_items d" "service_jobs d1 = service_jobs d"
  proof (cases mutation)
    case None
    have "lifecycle_transaction (claim_job_lifecycle_mutation env i action None actor)
        (set_job i (f env)) (tick_items hit) =
        db_transaction (job_change (set_job i (f env)) (tick_items hit))"
      by (simp add: lifecycle_transaction_def claim_job_lifecycle_mutation_def job_change_def)
    with assms [unfolded None] have
      "db_transaction (job_change (set_job i (f env)) (tick_items hit)) (fs, d) = (Inr Persisted, (fs', d'))"
      by simp
    then obtain fs1 where
      "job_change (set_job i (f env)) (tick_items hit) (tl fs, d) = (Inr (Commit Persisted), (fs1, d'))"
      by (rule transaction_commits) (auto elim!: job_change_cases)
    then show thesis by (rule that) simp_all
  next
    case (Some cm)
    from assms [unfolded Some lifecycle_claimed] obtain fs3 where
      "job_ledger.body i action cm actor f hit env (tl fs, d) = (Inr (Commit Persisted), (fs3, d'))"
      by (rule transaction_commits) (auto dest: job_ledger.body_ends)
    then show thesis
    proof (cases rule: job_ledger.body_cases)
      case (changed d1 fs1)
      from changed(2) show thesis by (rule that) (use claim_job_tables [OF changed(1)] in auto)
    qed simp
  qed
  from ch show "service_jobs d' = update_where (\<lambda>j. job_pk j = i) (f env) (service_jobs d)"
    and "checklist_items d' = update_where hit (\<lambda>t. t\<lparr> item_completed := True \<rparr>) (checklist_items d)"
    and "affected (\<lambda>j. job_pk j = i) (service_jobs d) = 1"
    by (cases rule: job_change_cases; auto simp: set_job_def tick_items_def same)+
qed

text \<open>Add-ons: one row, and only along the transitions the repository names.\<close>

definition add_on_moves :: "string \<Rightarrow> string \<Rightarrow> string \<Rightarrow> db \<Rightarrow> db \<Rightarrow> bool" where
  "add_on_moves job add_on status d d' \<longleftrightarrow>
     list_all2 (\<lambda>a b. b = a \<or> (add_on_job_id a = job \<and> add_on_pk a = add_on
        \<and> valid_add_on_transition (add_on_status a) status \<and> b = a\<lparr> add_on_status := status \<rparr>))
      (add_ons d) (add_ons d')"

lemma add_on_moves_refl [simp]: "reflp (add_on_moves job add_on status)"
  by (simp add: reflp_def add_on_moves_def list_all2_refl)

lemma add_on_moves_trans [simp]: "transp (add_on_moves job add_on status)"
proof (rule transpI)
  fix d d1 d2
  assume "add_on_moves job add_on status d d1" and "add_on_moves job add_on status d1 d2"
  then show "add_on_moves job add_on status d d2"
    unfolding add_on_moves_def by (rule list_all2_trans [rotated]) auto
qed

lemma set_add_on_moves:
  assumes "set_add_on_status job add_on status d = Inr (n, d')"
  shows "add_on_moves job add_on status d d'"
  using assms
  by (auto simp: set_add_on_status_def Let_def update_where_def add_on_moves_def list_all2_map2
      list_all2_same valid_add_on_transition_def split: if_splits)

lemma add_on_update_moves:
  "keeps (add_on_moves job add_on status) (repo_update_job_add_on_status pool job add_on status)"
  unfolding repo_update_job_add_on_status_def get_job_add_on_def update_job_add_on_status_def
  by (intro keeps_rules add_on_moves_refl add_on_moves_trans) (erule set_add_on_moves)

end
