(* ===== verification/Field_Claims.thy ===== *)
theory Field_Claims
  imports Idempotent_Facts Sample_Data
begin

text \<open>The properties of the field crew's writes, each applied at the sample database.\<close>

text \<open>C19: A progress report that carries a mutation id is applied at most once, however often it is
  delivered, with whatever outages, and whatever else happens in between, as long as nothing removes
  the id from the ledger: at most one delivery is answered \<open>Persisted\<close>.\<close>

theorem stop_progress_at_most_once:
  assumes "\<And>env fs. Deliver env fs \<in> set evs \<Longrightarrow> parse_uuid env cm = Some u"
    and "\<And>g e. Other g \<in> set evs \<Longrightarrow> stop_recorded u actor plan stop status e \<Longrightarrow>
      stop_recorded u actor plan stop status (g e)"
  shows "length (filter (\<lambda>r. r = Inr Persisted)
    (answers (\<lambda>env. update_stop_progress env plan stop status (Some cm) actor) evs d)) \<le> 1"
proof -
  have "stop_ledger.sound_history cm u actor plan stop status evs"
    using assms unfolding stop_ledger.sound_history_def by (auto split: event.splits)
  from stop_ledger.at_most_once [OF this, of d] show ?thesis
    by (simp only: update_stop_progress_claimed)
qed

definition sample_history :: "(env, db) event list" where
  "sample_history = [Deliver sample_env [False, True],
     Other (\<lambda>d. d\<lparr> audit_events := [] \<rparr>), Deliver sample_env [], Deliver sample_env []]"

theorem stop_progress_at_most_once_witness:
  "answers (\<lambda>env. update_stop_progress env ''plan_2'' ''s3'' ''finished'' (Some ''id-7'') ''ann'')
     sample_history sample_db = [Inl ConnectionLost, Inr Persisted, Inr Replayed]
   \<and> length (filter (\<lambda>r. r = Inr Persisted)
     (answers (\<lambda>env. update_stop_progress env ''plan_2'' ''s3'' ''finished'' (Some ''id-7'') ''ann'')
       sample_history sample_db)) \<le> 1"
proof
  show "answers (\<lambda>env. update_stop_progress env ''plan_2'' ''s3'' ''finished'' (Some ''id-7'') ''ann'')
     sample_history sample_db = [Inl ConnectionLost, Inr Persisted, Inr Replayed]" by code_simp
  show "length (filter (\<lambda>r. r = Inr Persisted)
     (answers (\<lambda>env. update_stop_progress env ''plan_2'' ''s3'' ''finished'' (Some ''id-7'') ''ann'')
       sample_history sample_db)) \<le> 1"
    by (rule stop_progress_at_most_once [where u = 7])
       (auto simp: sample_history_def sample_env_def stop_recorded_def)
qed

text \<open>C25: The same for starting and completing a job.\<close>

theorem job_lifecycle_at_most_once:
  assumes "\<And>env fs. Deliver env fs \<in> set evs \<Longrightarrow> parse_uuid env cm = Some u"
    and "\<And>g e. Other g \<in> set evs \<Longrightarrow> job_recorded u actor i ''start'' e \<Longrightarrow> job_recorded u actor i ''start'' (g e)"
    and "\<And>g e. Other g \<in> set evs \<Longrightarrow> job_recorded u actor i ''complete'' e \<Longrightarrow> job_recorded u actor i ''complete'' (g e)"
  shows "length (filter (\<lambda>r. r = Inr Persisted)
      (answers (\<lambda>env. start_job env i (Some cm) actor) evs d)) \<le> 1
    \<and> length (filter (\<lambda>r. r = Inr Persisted)
      (answers (\<lambda>env. complete_job env i (Some cm) actor) evs d)) \<le> 1"
proof -
  have "job_ledger.sound_history cm u actor i ''start'' evs"
    using assms(1,2) unfolding job_ledger.sound_history_def by (auto split: event.splits)
  moreover have "job_ledger.sound_history cm u actor i ''complete'' evs"
    using assms(1,3) unfolding job_ledger.sound_history_def by (auto split: event.splits)
  ultimately show ?thesis
    using job_ledger.at_most_once by (simp add: start_job_claimed complete_job_claimed)
qed

theorem job_lifecycle_at_most_once_witness:
  "answers (\<lambda>env. start_job env ''job_1'' (Some ''id-7'') ''ann'') sample_history sample_db =
     [Inl ConnectionLost, Inr Persisted, Inr Replayed]
   \<and> length (filter (\<lambda>r. r = Inr Persisted)
      (answers (\<lambda>env. start_job env ''job_1'' (Some ''id-7'') ''ann'') sample_history sample_db)) \<le> 1"
proof
  show "answers (\<lambda>env. start_job env ''job_1'' (Some ''id-7'') ''ann'') sample_history sample_db =
     [Inl ConnectionLost, Inr Persisted, Inr Replayed]" by code_simp
  show "length (filter (\<lambda>r. r = Inr Persisted)
      (answers (\<lambda>env. start_job env ''job_1'' (Some ''id-7'') ''ann'') sample_history sample_db)) \<le> 1"
    by (rule job_lifecycle_at_most_once [where u = 7, THEN conjunct1])
       (auto simp: sample_history_def sample_env_def job_recorded_def)
qed

text \<open>The same for ticking a checklist item.\<close>

theorem checklist_at_most_once:
  assumes "\<And>env fs. Deliver env fs \<in> set evs \<Longrightarrow> parse_uuid env cm = Some u"
    and "\<And>g e. Other g \<in> set evs \<Longrightarrow> item_recorded u actor job item tick e \<Longrightarrow> item_recorded u actor job item tick (g e)"
  shows "length (filter (\<lambda>r. r = Inr Persisted)
      (answers (\<lambda>env. update_checklist_item env job item tick (Some cm) actor) evs d)) \<le> 1"
proof -
  have "item_ledger.sound_history cm u actor job item tick evs"
    using assms unfolding item_ledger.sound_history_def by (auto split: event.splits)
  then show ?thesis
    using item_ledger.at_most_once by (simp add: update_checklist_item_claimed)
qed

theorem checklist_at_most_once_witness:
  "answers (\<lambda>env. update_checklist_item env ''job_1'' ''job_1_yard_service'' True (Some ''id-8'') ''ann'')
     sample_history sample_db = [Inl ConnectionLost, Inr Persisted, Inr Replayed]
   \<and> length (filter (\<lambda>r. r = Inr Persisted)
      (answers (\<lambda>env. update_checklist_item env ''job_1'' ''job_1_yard_service'' True (Some ''id-8'') ''ann'')
        sample_history sample_db)) \<le> 1"
proof
  show "answers (\<lambda>env. update_checklist_item env ''job_1'' ''job_1_yard_service'' True (Some ''id-8'') ''ann'')
     sample_history sample_db = [Inl ConnectionLost, Inr Persisted, Inr Replayed]" by code_simp
  show "length (filter (\<lambda>r. r = Inr Persisted)
      (answers (\<lambda>env. update_checklist_item env ''job_1'' ''job_1_yard_service'' True (Some ''id-8'') ''ann'')
        sample_history sample_db)) \<le> 1"
    by (rule checklist_at_most_once [where u = 8])
       (auto simp: sample_history_def sample_env_def item_recorded_def)
qed

text \<open>C26: A checklist change that is persisted sets the named item, leaves every other item as it was, and
  leaves the job's counter equal to the number of its ticked items.\<close>

theorem checklist_counter:
  assumes "update_checklist_item env job item tick mutation actor (fs, d) = (Inr Persisted, (fs', d'))"
  shows "checklist_items d' = update_where (\<lambda>t. item_job_id t = job \<and> item_pk t = item)
      (\<lambda>t. t\<lparr> item_completed := tick \<rparr>) (checklist_items d)
    \<and> (\<exists>t \<in> set (checklist_items d'). item_job_id t = job \<and> item_pk t = item \<and> item_completed t = tick)
    \<and> (\<forall>j. find_job d' job = Some j \<longrightarrow> job_completed_items j =
        int (length (filter (\<lambda>t. item_job_id t = job \<and> item_completed t) (checklist_items d'))))"
proof -
  note eff = checklist_persisted [OF assms]
  have "0 < affected (\<lambda>t. item_job_id t = job \<and> item_pk t = item) (checklist_items d)"
    using eff(3) by simp
  then obtain t where t: "t \<in> set (checklist_items d)" "item_job_id t = job \<and> item_pk t = item"
    by (auto simp: affected_pos)
  have "\<exists>t \<in> set (checklist_items d'). item_job_id t = job \<and> item_pk t = item \<and> item_completed t = tick"
    unfolding eff(1) by (rule bexI [OF _ update_where_hit [OF t(1)]]) (use t(2) in simp_all)
  moreover have "job_completed_items j = completed_count d' job" if "find_job d' job = Some j" for j
  proof -
    from that have j: "j \<in> set (service_jobs d')" "job_pk j = job"
      by (auto simp: find_job_def dest: lookup_by_Some)
    let ?f = "\<lambda>j. j\<lparr> job_completed_items := completed_count d' job, job_updated_at := now_at env \<rparr>"
    from j(1) obtain x where x: "j = (if job_pk x = job then ?f x else x)"
      unfolding eff(2) set_update_where by blast
    show ?thesis
    proof (cases "job_pk x = job")
      case True
      with x have "j = ?f x" by simp
      then have "job_completed_items j = job_completed_items (?f x)" by (rule arg_cong)
      then show ?thesis by simp
    next
      case False
      with x j(2) show ?thesis by simp
    qed
  qed
  ultimately show ?thesis using eff(1) by (simp add: completed_count_def)
qed

theorem checklist_counter_witness:
  "map job_completed_items (service_jobs (state_after (update_checklist_item sample_env ''job_1''
      ''job_1_yard_service'' True None ''ann'') sample_db)) = [1, 0, 0]
   \<and> (\<exists>t \<in> set (checklist_items (state_after (update_checklist_item sample_env ''job_1''
      ''job_1_yard_service'' True None ''ann'') sample_db)). item_job_id t = ''job_1''
        \<and> item_pk t = ''job_1_yard_service'' \<and> item_completed t = True)"
proof -
  let ?run = "update_checklist_item sample_env ''job_1'' ''job_1_yard_service'' True None ''ann'' ([], sample_db)"
  have "fst ?run = Inr Persisted" by code_simp
  then have "?run = (Inr Persisted, (fst (snd ?run), snd (snd ?run)))" by (rule answered_run)
  from checklist_counter [OF this] have "\<exists>t \<in> set (checklist_items (snd (snd ?run))). item_job_id t = ''job_1''
        \<and> item_pk t = ''job_1_yard_service'' \<and> item_completed t = True" by blast
  moreover have "map job_completed_items (service_jobs (state_after (update_checklist_item sample_env ''job_1''
      ''job_1_yard_service'' True None ''ann'') sample_db)) = [1, 0, 0]" by code_simp
  ultimately show ?thesis by (simp add: state_after_snd)
qed

text \<open>Completing a job marks it completed with its checklist counter full, ticks every one of its
  items, and touches no other job and no item of another job.\<close>

theorem complete_job_effect:
  assumes "complete_job env i mutation actor (fs, d) = (Inr Persisted, (fs', d'))"
  shows "service_jobs d' = update_where (\<lambda>j. job_pk j = i) (completed_job env) (service_jobs d)
    \<and> (\<exists>j \<in> set (service_jobs d'). job_pk j = i \<and> job_status j = ''completed''
        \<and> job_completed_items j = job_checklist_items j)
    \<and> (\<forall>t \<in> set (checklist_items d'). item_job_id t = i \<longrightarrow> item_completed t)
    \<and> filter (\<lambda>t. item_job_id t \<noteq> i) (checklist_items d') = filter (\<lambda>t. item_job_id t \<noteq> i) (checklist_items d)"
proof -
  note eff = lifecycle_persisted [where f = completed_job, OF assms [unfolded complete_job_def]]
  have "0 < affected (\<lambda>j. job_pk j = i) (service_jobs d)" using eff(3) by simp
  then obtain j where j: "j \<in> set (service_jobs d)" "job_pk j = i" by (auto simp: affected_pos)
  have "\<exists>j \<in> set (service_jobs d'). job_pk j = i \<and> job_status j = ''completed''
        \<and> job_completed_items j = job_checklist_items j"
    unfolding eff(1) by (rule bexI [OF _ update_where_hit [OF j(1)]]) (use j(2) in \<open>simp_all add: completed_job_def\<close>)
  moreover have "filter (\<lambda>t. item_job_id t \<noteq> i) (checklist_items d') =
      filter (\<lambda>t. item_job_id t \<noteq> i) (checklist_items d)"
    unfolding eff(2) by (rule filter_update_where_other) simp
  moreover have "\<forall>t \<in> set (checklist_items d'). item_job_id t = i \<longrightarrow> item_completed t"
    unfolding eff(2) set_update_where by (simp only: ball_simps) simp
  ultimately show ?thesis using eff(1) by blast
qed

theorem complete_job_effect_witness:
  "\<exists>j \<in> set (service_jobs (state_after (complete_job sample_env ''job_1'' None ''ann'') sample_db)).
     job_pk j = ''job_1'' \<and> job_status j = ''completed'' \<and> job_completed_items j = job_checklist_items j"
proof -
  let ?run = "complete_job sample_env ''job_1'' None ''ann'' ([], sample_db)"
  have "fst ?run = Inr Persisted" by code_simp
  then have "?run = (Inr Persisted, (fst (snd ?run), snd (snd ?run)))" by (rule answered_run)
  from complete_job_effect [OF this] show ?thesis unfolding state_after_snd by blast
qed

text \<open>A completed job can be started again: start has no guard on the status, puts the job back in
  progress and leaves its checklist counter full; on a new job it ticks the yard-service item without
  counting it.\<close>

theorem start_job_unguarded:
  "(let d1 = state_after (complete_job sample_env ''job_1'' None ''ann'') sample_db;
        d2 = state_after (start_job sample_env ''job_1'' None ''ann'') d1 in
    result_of (start_job sample_env ''job_1'' None ''ann'') d1 = Inr Persisted
    \<and> map job_status (service_jobs d1) = [''completed'', ''scheduled'', ''scheduled'']
    \<and> map job_status (service_jobs d2) = [''in_progress'', ''scheduled'', ''scheduled'']
    \<and> map job_completed_items (service_jobs d2) = [2, 0, 0])
   \<and> (let d3 = state_after (start_job sample_env ''job_1'' None ''ann'') sample_db in
    completed_count d3 ''job_1'' = 1 \<and> map job_completed_items (service_jobs d3) = [0, 0, 0])"
  by code_simp

text \<open>C27: A status request for an add-on changes at most that add-on, and only along the transitions
  scheduled to in progress or cancelled, in progress to completed or cancelled, or to the status it
  has; with any outage, and whatever it answers.\<close>

theorem add_on_transitions:
  assumes "repo_update_job_add_on_status pool job add_on status (fs, d) = (r, (fs', d'))"
  shows "list_all2 (\<lambda>a b. b = a \<or> (add_on_job_id a = job \<and> add_on_pk a = add_on
        \<and> valid_add_on_transition (add_on_status a) status \<and> b = a\<lparr> add_on_status := status \<rparr>))
      (add_ons d) (add_ons d')"
  using keepsD [OF add_on_update_moves assms] by (simp add: add_on_moves_def)

theorem add_on_transitions_witness:
  "list_all2 (\<lambda>a b. b = a \<or> (add_on_job_id a = ''job_1'' \<and> add_on_pk a = ''addon_1''
        \<and> valid_add_on_transition (add_on_status a) ''in_progress'' \<and> b = a\<lparr> add_on_status := ''in_progress'' \<rparr>))
      (add_ons sample_db)
      (add_ons (state_after (repo_update_job_add_on_status True ''job_1'' ''addon_1'' ''in_progress'') sample_db))
   \<and> map add_on_status (add_ons (state_after (repo_update_job_add_on_status True ''job_1'' ''addon_1''
      ''in_progress'') sample_db)) = [''in_progress'']"
proof
  let ?run = "repo_update_job_add_on_status True ''job_1'' ''addon_1'' ''in_progress'' ([], sample_db)"
  have "?run = (fst ?run, (fst (snd ?run), snd (snd ?run)))" by simp
  from add_on_transitions [OF this]
  show "list_all2 (\<lambda>a b. b = a \<or> (add_on_job_id a = ''job_1'' \<and> add_on_pk a = ''addon_1''
        \<and> valid_add_on_transition (add_on_status a) ''in_progress'' \<and> b = a\<lparr> add_on_status := ''in_progress'' \<rparr>))
      (add_ons sample_db)
      (add_ons (state_after (repo_update_job_add_on_status True ''job_1'' ''addon_1'' ''in_progress'') sample_db))"
    by (simp add: state_after_snd)
  show "map add_on_status (add_ons (state_after (repo_update_job_add_on_status True ''job_1'' ''addon_1''
      ''in_progress'') sample_db)) = [''in_progress'']" by code_simp
qed

end
