(* ===== verification/Route_Amendments.thy ===== *)
theory Route_Amendments
  imports Route_Facts
begin

text \<open>
  Amendment requests of a running route: \<open>create_amendment\<close>, \<open>list_amendments\<close> and
  \<open>review_amendment\<close> of \<open>backend/src/postgres_day_plans.rs\<close> and the operations of
  \<open>DayPlanRepository\<close> (\<open>backend/src/day_plans.rs\<close>) over them.

  \<open>amendment_checks\<close> are the \<open>CHECK\<close>s of \<open>day_plan_amendment_requests\<close>, evaluated before the
  conflict of the primary key; \<open>amendment_refs\<close> are its foreign keys, looked up for a row that was
  inserted.
\<close>

section \<open>Constraints\<close>

definition amendment_statuses :: "string list" where
  "amendment_statuses = [''draft'', ''submitted'', ''bid_review'', ''approved'', ''rejected'']"

definition not_negative :: "int option \<Rightarrow> bool" where
  "not_negative m = (case m of None \<Rightarrow> True | Some n \<Rightarrow> 0 \<le> n)"

definition amendment_checks :: "amendment_row \<Rightarrow> bool" where
  "amendment_checks a \<longleftrightarrow>
     amendment_type a \<in> {''add_stop'', ''remove_stop'', ''add_service''}
     \<and> amendment_status a \<in> set amendment_statuses
     \<and> not_negative (amendment_duration_minutes a) \<and> not_negative (amendment_price_cents a)
     \<and> amendment_shape a"

definition amendment_refs :: "db \<Rightarrow> amendment_row \<Rightarrow> bool" where
  "amendment_refs d a \<longleftrightarrow>
     amendment_plan_id a \<in> plan_pk ` set (day_plans d)
     \<and> amendment_crew_id a \<in> crew_pk ` set (crews d)
     \<and> (case amendment_stop_id a of None \<Rightarrow> True | Some s \<Rightarrow> s \<in> stop_pk ` set (day_plan_stops d))"

definition amendments_ok :: "db \<Rightarrow> bool" where
  "amendments_ok d \<longleftrightarrow> distinct (map amendment_pk (amendments d))
     \<and> list_all amendment_checks (amendments d)"

section \<open>Statements\<close>

text \<open>The row of an amendment and the amendment of a row.\<close>

definition stored_amendment :: "env \<Rightarrow> amendment_response \<Rightarrow> amendment_row" where
  "stored_amendment env a =
     (let service = ar_service a in
      \<lparr> amendment_pk = ar_id a, amendment_plan_id = ar_day_plan_id a, amendment_crew_id = ar_crew_id a,
        amendment_type = ar_type a, amendment_status = ar_status a, amendment_stop_id = ar_stop_id a,
        amendment_service_id = map_option svc_id service,
        amendment_service_name = map_option svc_name service,
        amendment_service_description = Option.bind service svc_description,
        amendment_duration_minutes = Option.bind service (map_option as_i32 \<circ> svc_duration_minutes),
        amendment_price_cents = Option.bind service (map_option as_i32 \<circ> svc_price_cents),
        amendment_requires_approval = (case service of None \<Rightarrow> False | Some s \<Rightarrow> svc_requires_approval s),
        amendment_requires_bid = ar_requires_bid a, amendment_note = ar_note a,
        amendment_manager_note = ar_manager_note a, amendment_created_at = now_at env \<rparr>)"

definition amendment_of_row :: "amendment_row \<Rightarrow> amendment_response" where
  "amendment_of_row a =
     \<lparr> ar_id = amendment_pk a, ar_day_plan_id = amendment_plan_id a, ar_type = amendment_type a,
       ar_status = amendment_status a, ar_crew_id = amendment_crew_id a,
       ar_stop_id = amendment_stop_id a,
       ar_service = map_option (\<lambda>i.
         \<lparr> svc_id = i,
           svc_name = (case amendment_service_name a of None \<Rightarrow> [] | Some n \<Rightarrow> n),
           svc_description = amendment_service_description a,
           svc_duration_minutes = map_option as_u32 (amendment_duration_minutes a),
           svc_price_cents = map_option as_u32 (amendment_price_cents a),
           svc_requires_approval = amendment_requires_approval a \<rparr>) (amendment_service_id a),
       ar_note = amendment_note a, ar_requires_bid = amendment_requires_bid a,
       ar_manager_note = amendment_manager_note a, ar_persisted = True \<rparr>"

definition insert_amendment :: "env \<Rightarrow> amendment_response \<Rightarrow> (db, nat) statement" where
  "insert_amendment env a d =
     (let row = stored_amendment env a in
      if \<not> amendment_checks row then Inl ConstraintViolation
      else if exists_row (\<lambda>x. amendment_pk x = amendment_pk row) (amendments d) then Inr (0, d)
      else if \<not> amendment_refs d row then Inl ConstraintViolation
      else Inr (1, d\<lparr> amendments := amendments d @ [row] \<rparr>))"

definition create_amendment :: "env \<Rightarrow> amendment_response \<Rightarrow> (db, amendment_response option) db_call" where
  "create_amendment env a = db_map (\<lambda>n. if n \<noteq> 1 then None else Some (a\<lparr> ar_persisted := True \<rparr>))
     (db_stmt (insert_amendment env a))"

definition amendment_newer :: "amendment_row \<Rightarrow> amendment_row \<Rightarrow> bool" where
  "amendment_newer a b \<longleftrightarrow> amendment_created_at b < amendment_created_at a
     \<or> (amendment_created_at a = amendment_created_at b
        \<and> \<not> string_less (amendment_pk a) (amendment_pk b))"

definition amendments_of :: "db \<Rightarrow> string \<Rightarrow> amendment_response list" where
  "amendments_of d i = map amendment_of_row
     (order_by amendment_newer (filter (\<lambda>a. amendment_plan_id a = i) (amendments d)))"

definition list_amendments :: "string \<Rightarrow> (db, amendment_response list) db_call" where
  "list_amendments i = db_select (\<lambda>d. amendments_of d i)"

definition open_for_review :: "string \<Rightarrow> string \<Rightarrow> string \<Rightarrow> amendment_row \<Rightarrow> bool" where
  "open_for_review i aid status a \<longleftrightarrow> amendment_pk a = aid \<and> amendment_plan_id a = i
     \<and> amendment_status a \<in> {''submitted'', ''bid_review''}
     \<and> (status \<noteq> ''bid_review'' \<or> amendment_requires_bid a)"

definition reviewed :: "string \<Rightarrow> string option \<Rightarrow> amendment_row \<Rightarrow> amendment_row" where
  "reviewed status note a = a\<lparr> amendment_status := status, amendment_manager_note := note \<rparr>"

definition review_statement :: "string \<Rightarrow> string \<Rightarrow> string \<Rightarrow> string option \<Rightarrow>
    (db, amendment_row option) statement" where
  "review_statement i aid status note d =
     (case lookup_by (open_for_review i aid status) (amendments d) of
        None \<Rightarrow> Inr (None, d)
      | Some a \<Rightarrow>
          if status \<notin> set amendment_statuses then Inl ConstraintViolation
          else Inr (Some (reviewed status note a), d\<lparr> amendments :=
            update_where (open_for_review i aid status) (reviewed status note) (amendments d) \<rparr>))"

definition review_amendment :: "string \<Rightarrow> string \<Rightarrow> string \<Rightarrow> string option \<Rightarrow>
    (db, amendment_review_response option) db_call" where
  "review_amendment i aid status note = db_map (map_option (\<lambda>a.
       \<lparr> rr_id = amendment_pk a, rr_day_plan_id = amendment_plan_id a, rr_status = amendment_status a,
         rr_manager_note = amendment_manager_note a, rr_persisted = True \<rparr>))
     (db_stmt (review_statement i aid status note))"

section \<open>Repository operations\<close>

definition repo_create_amendment :: "env \<Rightarrow> bool \<Rightarrow> string \<Rightarrow> create_amendment_request \<Rightarrow>
    (db, amendment_response persisted_mutation) db_call" where
  "repo_create_amendment env pool i r =
     (let response = local_amendment_response env i r in
      if pool
      then db_catch (create_amendment env response) (\<lambda>_. db_return Unavailable) (\<lambda>res. case res of
          Some persisted \<Rightarrow> db_return (Applied persisted)
        | None \<Rightarrow> db_catch (list_amendments i) (\<lambda>_. db_return Unavailable)
            (\<lambda>all. db_return (case lookup_by (\<lambda>a. ar_id a = ar_id response) all of
                Some a \<Rightarrow> Applied a | None \<Rightarrow> Conflict)))
      else db_return (Applied response))"

definition repo_list_amendments :: "bool \<Rightarrow> string \<Rightarrow>
    (db, amendment_response list persisted_read) db_call" where
  "repo_list_amendments pool i =
     (if pool then db_catch (list_amendments i) (\<lambda>_. db_return ReadUnavailable)
        (\<lambda>all. db_return (Loaded all))
      else db_return (Loaded []))"

text \<open>The code panics on a decision that was not validated: \<open>None\<close>.\<close>

definition repo_review_amendment :: "bool \<Rightarrow> string \<Rightarrow> string \<Rightarrow> review_amendment_request \<Rightarrow>
    (db, amendment_review_response persisted_mutation) db_call option" where
  "repo_review_amendment pool i aid r = map_option (\<lambda>status.
     if pool
     then db_catch (review_amendment i aid status (req_manager_note r)) (\<lambda>_. db_return Unavailable)
       (\<lambda>res. case res of
          Some response \<Rightarrow> db_return (Applied response)
        | None \<Rightarrow> db_catch (list_amendments i) (\<lambda>_. db_return Unavailable)
            (\<lambda>all. db_return (if list_ex (\<lambda>a. ar_id a = aid) all then Conflict else NotFound)))
     else db_return (Applied \<lparr> rr_id = aid, rr_day_plan_id = i, rr_status = status,
       rr_manager_note = req_manager_note r, rr_persisted = False \<rparr>))
     (amendment_review_status (req_decision r))"

end
