(* ===== verification/Amendment_Facts.thy ===== *)
theory Amendment_Facts
  imports Route_Amendments
begin

text \<open>
  What the amendment operations guarantee: which rows a statement inserts or changes, that a row reads
  back as the amendment it was written from, and that a request sent again finds it.
\<close>

lemma amendment_of_stored:
  "amendment_of_row (stored_amendment env a) = a\<lparr> ar_persisted := True \<rparr>"
proof (cases "ar_service a")
  case None
  then show ?thesis by (simp add: amendment_of_row_def stored_amendment_def Let_def)
next
  case (Some s)
  then show ?thesis
    by (simp add: amendment_of_row_def stored_amendment_def Let_def option.map_comp comp_def option.map_ident)
qed

lemma amendment_keys [simp]: "ar_id (amendment_of_row a) = amendment_pk a"
  by (simp add: amendment_of_row_def)

lemma insert_amendment_Inr:
  assumes "insert_amendment env a d = Inr (n, d')"
  obtains (present) x where "n = 0" and "d' = d" and "x \<in> set (amendments d)"
      and "amendment_pk x = ar_id a" and "amendment_checks (stored_amendment env a)"
  | (inserted) "n = 1" and "d' = d\<lparr> amendments := amendments d @ [stored_amendment env a] \<rparr>"
      and "\<forall>x \<in> set (amendments d). amendment_pk x \<noteq> ar_id a"
      and "amendment_checks (stored_amendment env a)" and "amendment_refs d (stored_amendment env a)"
  using assms unfolding insert_amendment_def Let_def
  by (auto simp: stored_amendment_def exists_row_def Let_def split: if_splits)

lemma review_statement_Inr:
  assumes "review_statement i aid status note d = Inr (r, d')"
  obtains (refused) "r = None" and "d' = d" and "\<forall>a \<in> set (amendments d). \<not> open_for_review i aid status a"
  | (saved) a where "r = Some (reviewed status note a)" and "a \<in> set (amendments d)"
      and "open_for_review i aid status a" and "status \<in> set amendment_statuses"
      and "d' = d\<lparr> amendments := update_where (open_for_review i aid status) (reviewed status note) (amendments d) \<rparr>"
proof (cases "lookup_by (open_for_review i aid status) (amendments d)")
  case None
  with assms have "r = None" and "d' = d" by (simp_all add: review_statement_def)
  with None refused show thesis by (simp add: lookup_by_None)
next
  case (Some a)
  have "status \<in> set amendment_statuses"
    using assms Some by (simp add: review_statement_def split: if_splits)
  moreover from this have "r = Some (reviewed status note a)"
    and "d' = d\<lparr> amendments :=
      update_where (open_for_review i aid status) (reviewed status note) (amendments d) \<rparr>"
    using assms Some by (simp_all add: review_statement_def)
  ultimately show thesis using saved lookup_by_Some [OF Some] by blast
qed

lemma db_map_stmt_Inr:
  assumes "db_map f (db_stmt s) (fs, d) = (Inr b, (fs', d'))"
  obtains a where "s d = Inr (a, d')" and "b = f a"
  using assms by (auto simp: db_map_def db_return_def elim!: db_bind_InrE db_stmt_InrE')

interpretation amend: refusing_call "create_amendment env a" for env a
proof
  fix fs d e fs' d'
  assume "create_amendment env a (fs, d) = (Inl e, (fs', d'))"
  then show "d' = d"
    unfolding create_amendment_def by (rule atomic_call.failed_unchanged [OF atomic_map [OF atomic_statement]])
next
  fix fs d fs' d'
  assume "create_amendment env a (fs, d) = (Inr None, (fs', d'))"
  then obtain n where "insert_amendment env a d = Inr (n, d')" and "n \<noteq> 1"
    unfolding create_amendment_def by (rule db_map_stmt_Inr) (auto split: if_splits)
  then show "d' = d" by (cases rule: insert_amendment_Inr) simp_all
qed

interpretation review: refusing_call "review_amendment i aid status comment" for i aid status comment
proof
  fix fs d e fs' d'
  assume "review_amendment i aid status comment (fs, d) = (Inl e, (fs', d'))"
  then show "d' = d"
    unfolding review_amendment_def by (rule atomic_call.failed_unchanged [OF atomic_map [OF atomic_statement]])
next
  fix fs d fs' d'
  assume "review_amendment i aid status comment (fs, d) = (Inr None, (fs', d'))"
  then obtain r where "review_statement i aid status comment d = Inr (r, d')" and "r = None"
    unfolding review_amendment_def by (rule db_map_stmt_Inr) auto
  then show "d' = d" by (cases rule: review_statement_Inr) simp_all
qed

interpretation amendment_list: read_only_call "list_amendments i" for i
  unfolding list_amendments_def by (rule read_only_select)

interpretation plan_owner: read_only_call "organization_id_for_day_plan i" for i
  unfolding organization_id_for_day_plan_def by (rule read_only_select)

interpretation crew_owner: read_only_call "organization_id_for_crew i" for i
  unfolding organization_id_for_crew_def by (rule read_only_select)


text \<open>The life of an amendment: what an operation may do to the table.\<close>

definition amendment_moves :: "amendment_row \<Rightarrow> amendment_row \<Rightarrow> bool" where
  "amendment_moves a b \<longleftrightarrow> b = a \<or> (\<exists>status comment. b = reviewed status comment a
     \<and> amendment_status a \<in> {''submitted'', ''bid_review''}
     \<and> (status = ''bid_review'' \<longrightarrow> amendment_requires_bid a))"

lemma review_moves:
  assumes "review_statement i aid status comment d = Inr (r, d')"
  shows "list_all2 amendment_moves (amendments d) (amendments d')"
  using assms
proof (cases rule: review_statement_Inr)
  case refused
  then show ?thesis by (simp add: amendment_moves_def list_all2_refl)
next
  case (saved a)
  then show ?thesis
    by (auto simp: update_where_def list_all2_conv_all_nth amendment_moves_def open_for_review_def)
qed

text \<open>A replayed request: the identifier is drawn from the client's UUID.\<close>

lemma amendment_listed:
  "a \<in> set (amendments d) \<Longrightarrow> amendment_plan_id a = i \<Longrightarrow> amendment_of_row a \<in> set (amendments_of d i)"
  by (simp add: amendments_of_def)

lemma amendment_found:
  assumes "distinct (map amendment_pk (amendments d))" and "a \<in> set (amendments d)"
    and "amendment_plan_id a = i"
  shows "lookup_by (\<lambda>x. ar_id x = amendment_pk a) (amendments_of d i) = Some (amendment_of_row a)"
proof (rule lookup_by_unique [where key = ar_id and k = "amendment_pk a"])
  show "distinct (map ar_id (amendments_of d i))"
    using assms(1) by (simp add: amendments_of_def comp_def distinct_map_filter)
qed (use assms in \<open>auto simp: amendments_of_def\<close>)


lemma create_amendment_Inr:
  assumes "create_amendment env a (fs, d) = (Inr res, (fs', d'))"
  obtains (present) x where "res = None" and "d' = d" and "x \<in> set (amendments d)"
      and "amendment_pk x = ar_id a" and "amendment_checks (stored_amendment env a)"
  | (inserted) "res = Some (a\<lparr> ar_persisted := True \<rparr>)"
      and "d' = d\<lparr> amendments := amendments d @ [stored_amendment env a] \<rparr>"
      and "\<forall>x \<in> set (amendments d). amendment_pk x \<noteq> ar_id a"
      and "amendment_checks (stored_amendment env a)" and "amendment_refs d (stored_amendment env a)"
proof -
  from assms obtain n where n: "insert_amendment env a d = Inr (n, d')"
      "res = (if n \<noteq> 1 then None else Some (a\<lparr> ar_persisted := True \<rparr>))"
    unfolding create_amendment_def by (rule db_map_stmt_Inr)
  from n(1) show thesis
    by (cases rule: insert_amendment_Inr) (use n(2) present inserted in simp_all)
qed

lemma stored_key [simp]: "amendment_pk (stored_amendment env a) = ar_id a"
  "amendment_plan_id (stored_amendment env a) = ar_day_plan_id a"
  "amendment_status (stored_amendment env a) = ar_status a"
  by (simp_all add: stored_amendment_def Let_def)

lemma local_amendment_plan [simp]: "ar_day_plan_id (local_amendment_response env i r) = i"
  "ar_status (local_amendment_response env i r) = ''submitted''"
  by (simp_all add: local_amendment_response_def Let_def)

lemma repo_create_amendment_Applied:
  assumes "repo_create_amendment env True i r (fs, d) = (Inr (Applied a), (fs', d'))"
  obtains (inserted) "a = (local_amendment_response env i r)\<lparr> ar_persisted := True \<rparr>"
      and "d' = d\<lparr> amendments := amendments d @ [stored_amendment env (local_amendment_response env i r)] \<rparr>"
      and "\<forall>x \<in> set (amendments d). amendment_pk x \<noteq> ar_id a"
      and "amendment_checks (stored_amendment env (local_amendment_response env i r))"
  | (found) "d' = d" and "amendment_checks (stored_amendment env (local_amendment_response env i r))" and "ar_id a = ar_id (local_amendment_response env i r)"
      and "lookup_by (\<lambda>x. ar_id x = ar_id a) (amendments_of d i) = Some a"
proof -
  let ?l = "local_amendment_response env i r"
  have run: "db_catch (create_amendment env ?l) (\<lambda>_. db_return Unavailable) (\<lambda>res. case res of
          Some persisted \<Rightarrow> db_return (Applied persisted)
        | None \<Rightarrow> db_catch (list_amendments i) (\<lambda>_. db_return Unavailable)
            (\<lambda>all. db_return (case lookup_by (\<lambda>a. ar_id a = ar_id ?l) all of
                Some a \<Rightarrow> Applied a | None \<Rightarrow> Conflict))) (fs, d) = (Inr (Applied a), (fs', d'))"
    using assms by (simp add: repo_create_amendment_def Let_def)
  then show thesis
  proof (cases rule: db_catch_cases)
    case (failed e c1)
    then show thesis by (simp add: db_return_def)
  next
    case (answered res c1)
    obtain fs1 d1 where c1: "c1 = (fs1, d1)" by (metis prod.collapse)
    from answered(1) [unfolded c1] show thesis
    proof (cases rule: create_amendment_Inr)
      case (present x)
      from answered(2) present(1)
      have "db_catch (list_amendments i) (\<lambda>_. db_return Unavailable)
            (\<lambda>all. db_return (case lookup_by (\<lambda>a. ar_id a = ar_id ?l) all of
                Some a \<Rightarrow> Applied a | None \<Rightarrow> Conflict)) c1 = (Inr (Applied a), (fs', d'))" by simp
      then obtain all c2 where l: "list_amendments i c1 = (Inr all, c2)"
        and f: "lookup_by (\<lambda>a. ar_id a = ar_id ?l) all = Some a" and c2: "c2 = (fs', d')"
        by (cases rule: db_catch_cases) (auto simp: db_return_def split: option.splits)
      from l c1 c2 present(2) have "all = amendments_of d i" and "d' = d"
        by (auto simp: list_amendments_def elim: db_select_InrE)
      moreover from f have "ar_id a = ar_id ?l" by (auto dest: lookup_by_Some)
      ultimately show thesis using f found present(5) by simp
    next
      case inserted
      from answered(2) inserted(1) c1 have "a = ?l\<lparr> ar_persisted := True \<rparr>" and "d' = d1"
        by (auto simp: db_return_def)
      with inserted(2-4) show thesis by (intro that(1)) simp_all
    qed
  qed
qed

text \<open>What \<open>Applied\<close> answered is what the queue of the route then shows.\<close>

lemma applied_amendment_listed:
  assumes "repo_create_amendment env True i r (fs, d) = (Inr (Applied a), (fs', d'))"
    and "distinct (map amendment_pk (amendments d))"
  shows "lookup_by (\<lambda>x. ar_id x = ar_id a) (amendments_of d' i) = Some a
    \<and> distinct (map amendment_pk (amendments d'))"
  using assms(1)
proof (cases rule: repo_create_amendment_Applied)
  case inserted
  let ?row = "stored_amendment env (local_amendment_response env i r)"
  have "distinct (map amendment_pk (amendments d'))"
    using inserted assms(2) by auto
  moreover from this have "lookup_by (\<lambda>x. ar_id x = amendment_pk ?row) (amendments_of d' i)
      = Some (amendment_of_row ?row)"
    by (rule amendment_found) (simp_all add: inserted(2))
  ultimately show ?thesis using inserted(1) by (simp add: amendment_of_stored)
next
  case found
  with assms(2) show ?thesis by simp
qed


lemma same_request_same_identifier:
  assumes "req_client_mutation_id r = Some c" and "parse_uuid env c = Some u"
    and "parse_uuid env' c = Some u" and "uuid_simple env' u = uuid_simple env u"
  shows "local_amendment_response env' i r = local_amendment_response env i r"
  using assms by (simp add: local_amendment_response_def Let_def)

lemma checks_ignore_clock:
  "amendment_checks (stored_amendment env' a) = amendment_checks (stored_amendment env a)"
  by (simp add: amendment_checks_def amendment_shape_def stored_amendment_def Let_def)

lemma replayed_amendment:
  assumes first: "repo_create_amendment env True i r (fs, d) = (Inr (Applied a), (fs', d'))"
    and keys: "distinct (map amendment_pk (amendments d))"
    and same: "req_client_mutation_id r = Some c" "parse_uuid env c = Some u"
      "parse_uuid env' c = Some u" "uuid_simple env' u = uuid_simple env u"
  shows "run_call (repo_create_amendment env' True i r) d' = (Inr (Applied a), d')"
proof -
  let ?l = "local_amendment_response env i r"
  have l': "local_amendment_response env' i r = ?l"
    by (rule same_request_same_identifier [OF same])
  have listed: "lookup_by (\<lambda>x. ar_id x = ar_id a) (amendments_of d' i) = Some a"
    using applied_amendment_listed [OF first keys] by simp
  have "ar_id a = ar_id ?l \<and> amendment_checks (stored_amendment env ?l)"
    using first by (cases rule: repo_create_amendment_Applied) simp_all
  then have a: "ar_id a = ar_id ?l" and checks: "amendment_checks (stored_amendment env' ?l)"
    by (simp_all add: checks_ignore_clock [of env' _ env])
  have "exists_row (\<lambda>x. amendment_pk x = ar_id ?l) (amendments d')"
    using lookup_by_Some [OF listed] a by (auto simp: amendments_of_def exists_row_def)
  with checks have "insert_amendment env' ?l d' = Inr (0, d')"
    by (simp add: insert_amendment_def Let_def)
  then have "create_amendment env' ?l ([], d') = (Inr None, ([], d'))"
    by (simp add: create_amendment_def db_map_def)
  with listed a show ?thesis
    by (simp add: run_call_def repo_create_amendment_def l' Let_def list_amendments_def)
qed

text \<open>Every branch of a review.\<close>

lemma review_run:
  assumes "distinct (map amendment_pk (amendments d))"
    and status: "amendment_review_status (req_decision r) = Some status"
    and call: "repo_review_amendment True i aid r = Some m"
  shows "run_call m d =
    (case lookup_by (\<lambda>a. amendment_pk a = aid \<and> amendment_plan_id a = i) (amendments d) of
       None \<Rightarrow> (Inr NotFound, d)
     | Some a \<Rightarrow>
         if amendment_status a \<in> {''submitted'', ''bid_review''}
            \<and> (status \<noteq> ''bid_review'' \<or> amendment_requires_bid a)
         then (Inr (Applied \<lparr> rr_id = aid, rr_day_plan_id = i, rr_status = status,
                 rr_manager_note = req_manager_note r, rr_persisted = True \<rparr>),
               d\<lparr> amendments := update_where (\<lambda>x. amendment_pk x = aid)
                 (reviewed status (req_manager_note r)) (amendments d) \<rparr>)
         else (Inr Conflict, d))"
proof -
  have st: "status \<in> set amendment_statuses"
    using status by (auto simp: amendment_review_status_def amendment_statuses_def split: if_splits)
  let ?hit = "open_for_review i aid status"
  have listed: "list_ex (\<lambda>a. ar_id a = aid) (amendments_of d i) \<longleftrightarrow>
      (\<exists>a \<in> set (amendments d). amendment_pk a = aid \<and> amendment_plan_id a = i)"
    by (auto simp: list_ex_iff amendments_of_def)
  have m: "run_call m d = (case lookup_by ?hit (amendments d) of
      None \<Rightarrow> (Inr (if list_ex (\<lambda>a. ar_id a = aid) (amendments_of d i) then Conflict else NotFound), d)
    | Some a \<Rightarrow> (Inr (Applied \<lparr> rr_id = amendment_pk a, rr_day_plan_id = amendment_plan_id a,
          rr_status = status, rr_manager_note = req_manager_note r, rr_persisted = True \<rparr>),
        d\<lparr> amendments := update_where ?hit (reviewed status (req_manager_note r)) (amendments d) \<rparr>))"
    using call status st
    by (auto simp: repo_review_amendment_def run_call_def review_amendment_def db_map_def
        review_statement_def list_amendments_def reviewed_def split: option.splits)
  show ?thesis
  proof (cases "lookup_by (\<lambda>a. amendment_pk a = aid \<and> amendment_plan_id a = i) (amendments d)")
    case None
    then have none: "\<forall>a \<in> set (amendments d). \<not> (amendment_pk a = aid \<and> amendment_plan_id a = i)"
      by (simp add: lookup_by_None)
    then have "lookup_by ?hit (amendments d) = None" by (auto simp: lookup_by_None open_for_review_def)
    moreover have "\<not> list_ex (\<lambda>a. ar_id a = aid) (amendments_of d i)" using none listed by blast
    ultimately show ?thesis using None m by simp
  next
    case (Some a)
    then have a: "a \<in> set (amendments d)" "amendment_pk a = aid" "amendment_plan_id a = i"
      by (auto dest: lookup_by_Some)
    have only: "x = a" if "x \<in> set (amendments d)" "amendment_pk x = aid" for x
      using assms(1) a(1,2) that by (auto simp: distinct_map dest: inj_onD)
    have yes: "list_ex (\<lambda>a. ar_id a = aid) (amendments_of d i)" using a listed by blast
    show ?thesis
    proof (cases "?hit a")
      case True
      have "lookup_by ?hit (amendments d) = Some a"
        by (rule lookup_by_unique [where key = amendment_pk and k = aid])
           (use assms(1) a True in \<open>auto simp: open_for_review_def\<close>)
      moreover have "update_where ?hit (reviewed status (req_manager_note r)) (amendments d)
        = update_where (\<lambda>x. amendment_pk x = aid) (reviewed status (req_manager_note r)) (amendments d)"
        using only True a(2) by (auto simp: update_where_def open_for_review_def)
      ultimately show ?thesis using Some True m a(2,3) by (simp add: open_for_review_def)
    next
      case False
      have "\<forall>x \<in> set (amendments d). \<not> ?hit x"
        using only False by (metis open_for_review_def)
      then have "lookup_by ?hit (amendments d) = None" by (simp add: lookup_by_None)
      moreover have "\<not> (amendment_status a \<in> {''submitted'', ''bid_review''}
            \<and> (status \<noteq> ''bid_review'' \<or> amendment_requires_bid a))"
        using False a(2,3) by (simp add: open_for_review_def)
      ultimately show ?thesis using Some m yes by (simp only: if_False option.case simp_thms if_True)
    qed
  qed
qed

end
