(* ===== verification/Amendment_Claims.thy ===== *)
theory Amendment_Claims
  imports Amendment_Facts Sample_Data
begin

text \<open>The properties of amendment requests, each applied at the sample database.\<close>


definition sample_amendment :: create_amendment_request where
  "sample_amendment = \<lparr> req_amendment_type = ''add_service'', req_requested_by_crew_id = ''crew_1'',
     req_stop_id = Some ''s3'', req_service = Some \<lparr> svc_id = ''edge'', svc_name = ''Edging'',
       svc_description = None, svc_duration_minutes = Some 20, svc_price_cents = None,
       svc_requires_approval = True \<rparr>, req_note = None, req_client_mutation_id = Some ''id-7'' \<rparr>"

definition amended_db :: db where
  "amended_db = state_after (repo_create_amendment sample_env True ''plan_2'' sample_amendment) sample_db"


text \<open>C31: A review decides only what is open: an amendment of the route that is submitted or in bid
  review takes the decision (bid review only if it requires a bid) and the manager's note, any other
  amendment of the route is a conflict, an unknown one is not found, and neither changes anything.\<close>

theorem amendment_review_outcome:
  assumes "distinct (map amendment_pk (amendments d))"
    and "amendment_review_status (req_decision r) = Some status"
    and "repo_review_amendment True i aid r = Some m"
  shows "run_call m d =
    (case lookup_by (\<lambda>a. amendment_pk a = aid \<and> amendment_plan_id a = i) (amendments d) of
       None \<Rightarrow> (Inr NotFound, d)
     | Some a \<Rightarrow>
         if amendment_status a \<in> {''submitted'', ''bid_review''}
            \<and> (status \<noteq> ''bid_review'' \<or> amendment_requires_bid a)
         then (Inr (Applied \<lparr> rr_id = aid, rr_day_plan_id = i, rr_status = status,
                 rr_manager_note = req_manager_note r, rr_persisted = True \<rparr>),
               d\<lparr> amendments := update_where (\<lambda>x. amendment_pk x = aid)
                 (reviewed status (req_manager_note r)) (amendments d) \<rparr>)
         else (Inr Conflict, d))"
  using assms by (rule review_run)

definition sample_review :: "string \<Rightarrow> review_amendment_request" where
  "sample_review decision = \<lparr> req_decision = decision, req_manager_note = Some ''ok'' \<rparr>"

theorem amendment_review_outcome_witness:
  "\<exists>m. repo_review_amendment True ''plan_2'' ''amendment_offline_07'' (sample_review ''approve'') = Some m
     \<and> fst (run_call m amended_db) = Inr (Applied \<lparr> rr_id = ''amendment_offline_07'',
         rr_day_plan_id = ''plan_2'', rr_status = ''approved'', rr_manager_note = Some ''ok'',
         rr_persisted = True \<rparr>)
     \<and> map amendment_status (amendments (snd (run_call m amended_db))) = [''approved'']"
proof -
  obtain m where m: "repo_review_amendment True ''plan_2'' ''amendment_offline_07'' (sample_review ''approve'') = Some m"
    by (simp add: repo_review_amendment_def amendment_review_status_def sample_review_def)
  let ?row = "stored_amendment sample_env (local_amendment_response sample_env ''plan_2'' sample_amendment)"
  have "amendments amended_db = [?row]" by code_simp
  moreover have "amendment_pk ?row = ''amendment_offline_07''" and "amendment_plan_id ?row = ''plan_2''"
    and "amendment_status ?row = ''submitted''" by code_simp+
  moreover have "amendment_review_status (req_decision (sample_review ''approve'')) = Some ''approved''"
    and "req_manager_note (sample_review ''approve'') = Some ''ok''" by code_simp+
  ultimately show ?thesis
    using m amendment_review_outcome [OF _ _ m, of amended_db "''approved''"]
    by (simp add: reviewed_def)
qed

end
