(* ===== verification/Job_Reads.thy ===== *)
theory Job_Reads
  imports Idempotent_Writes
begin

text \<open>
  The reads of jobs: \<open>list_jobs\<close>, \<open>get_job\<close> and \<open>organization_id_for_job\<close> of
  \<open>backend/src/postgres_read.rs\<close>, \<open>JobRepository\<close> over them and the seed data it answers with when it
  has no pool (\<open>backend/src/db.rs\<close>), and the response structures of \<open>backend/src/lib.rs\<close>.
\<close>

record job_summary =
  js_id :: string
  js_organization_id :: string
  js_assigned_crew_id :: "string option"
  js_customer_name :: string
  js_property_address :: string
  js_status :: string
  js_scheduled_date :: string
  js_before_photos :: u32
  js_after_photos :: u32
  js_checklist_items :: u32
  js_completed_checklist_items :: u32

record checklist_item =
  ci_id :: string
  ci_label :: string
  ci_completed :: bool

record job_detail =
  jd_summary :: job_summary
  jd_checklist :: "checklist_item list"

datatype resource_ownership = OwnerLoaded "string option" | OwnerUnavailable

datatype 'a resource_read = ResourceLoaded 'a | ResourceNotFound | ResourceUnavailable

section \<open>Statements\<close>

definition job_summary_of :: "job_row \<Rightarrow> job_summary" where
  "job_summary_of j =
     \<lparr> js_id = job_pk j, js_organization_id = job_organization_id j,
       js_assigned_crew_id = job_assigned_crew_id j, js_customer_name = job_customer_name j,
       js_property_address = job_property_address j, js_status = job_status j,
       js_scheduled_date = job_scheduled_date j, js_before_photos = as_u32 (job_before_photos j),
       js_after_photos = as_u32 (job_after_photos j),
       js_checklist_items = as_u32 (job_checklist_items j),
       js_completed_checklist_items = as_u32 (job_completed_items j) \<rparr>"

definition job_before :: "job_row \<Rightarrow> job_row \<Rightarrow> bool" where
  "job_before a b \<longleftrightarrow> string_less (job_scheduled_date a) (job_scheduled_date b)
     \<or> (job_scheduled_date a = job_scheduled_date b \<and> \<not> string_less (job_pk b) (job_pk a))"

definition list_jobs :: "(db, job_summary list) db_call" where
  "list_jobs = db_select (\<lambda>d. map job_summary_of (order_by job_before (service_jobs d)))"

definition checklist_item_of :: "item_row \<Rightarrow> checklist_item" where
  "checklist_item_of t = \<lparr> ci_id = item_pk t, ci_label = item_label t, ci_completed = item_completed t \<rparr>"

definition checklist_of :: "db \<Rightarrow> string \<Rightarrow> checklist_item list" where
  "checklist_of d job = map checklist_item_of (order_by (\<lambda>a b. item_sort_order a \<le> item_sort_order b)
     (filter (\<lambda>t. item_job_id t = job) (checklist_items d)))"

text \<open>\<open>JobDetail\<close> repeats the fields of \<open>JobSummary\<close>: \<open>jd_summary\<close>.\<close>

definition get_job :: "string \<Rightarrow> (db, job_detail option) db_call" where
  "get_job i =
     db_bind (db_select (\<lambda>d. find_job d i)) (\<lambda>row. case row of
         None \<Rightarrow> db_return None
       | Some j \<Rightarrow> db_bind (db_select (\<lambda>d. checklist_of d i)) (\<lambda>items.
           db_return (Some \<lparr> jd_summary = job_summary_of j, jd_checklist = items \<rparr>)))"

definition organization_id_for_job :: "string \<Rightarrow> (db, string option) db_call" where
  "organization_id_for_job i = db_select (\<lambda>d. map_option job_organization_id (find_job d i))"

section \<open>Repository operations\<close>

definition seed_job_summaries :: "job_summary list" where
  "seed_job_summaries =
     [\<lparr> js_id = ''job_1001'', js_organization_id = ''org_demo_landscaping'',
        js_assigned_crew_id = Some ''crew_1001'', js_customer_name = ''Sample Customer'',
        js_property_address = ''123 Oak Street'', js_status = ''scheduled'',
        js_scheduled_date = ''2026-06-15'', js_before_photos = 0, js_after_photos = 0,
        js_checklist_items = 4, js_completed_checklist_items = 0 \<rparr>,
      \<lparr> js_id = ''job_1002'', js_organization_id = ''org_demo_landscaping'',
        js_assigned_crew_id = Some ''crew_1001'', js_customer_name = ''Demo Property Owner'',
        js_property_address = ''456 Maple Avenue'', js_status = ''in_progress'',
        js_scheduled_date = ''2026-06-15'', js_before_photos = 3, js_after_photos = 1,
        js_checklist_items = 4, js_completed_checklist_items = 2 \<rparr>]"

definition seed_organization_id_for_job :: "string \<Rightarrow> string option" where
  "seed_organization_id_for_job job =
     map_option js_organization_id (lookup_by (\<lambda>j. js_id j = job) seed_job_summaries)"

definition seed_job_detail :: "string \<Rightarrow> job_detail" where
  "seed_job_detail i =
     (let summary = (case lookup_by (\<lambda>j. js_id j = i) seed_job_summaries of
          Some j \<Rightarrow> j
        | None \<Rightarrow> \<lparr> js_id = i, js_organization_id = ''org_demo_landscaping'',
            js_assigned_crew_id = Some ''crew_1001'', js_customer_name = ''Sample Customer'',
            js_property_address = ''123 Oak Street'', js_status = ''scheduled'',
            js_scheduled_date = ''2026-06-15'', js_before_photos = 0, js_after_photos = 0,
            js_checklist_items = 4, js_completed_checklist_items = 0 \<rparr>)
      in \<lparr> jd_summary = summary, jd_checklist =
        [\<lparr> ci_id = ''before-photos'', ci_label = ''Capture before photos'',
           ci_completed = 0 < js_before_photos summary \<rparr>,
         \<lparr> ci_id = ''yard-service'', ci_label = ''Complete yard service'',
           ci_completed = js_status summary \<noteq> ''scheduled'' \<rparr>,
         \<lparr> ci_id = ''after-photos'', ci_label = ''Capture after photos'',
           ci_completed = 0 < js_after_photos summary \<rparr>,
         \<lparr> ci_id = ''completion-notes'', ci_label = ''Submit completion notes'',
           ci_completed = js_status summary = ''completed'' \<rparr>] \<rparr>)"

definition repo_list_jobs :: "bool \<Rightarrow> (db, job_summary list resource_read) db_call" where
  "repo_list_jobs pool =
     (if pool then db_catch list_jobs (\<lambda>_. db_return ResourceUnavailable) (\<lambda>js. db_return (ResourceLoaded js))
      else db_return (ResourceLoaded seed_job_summaries))"

definition repo_get_job :: "bool \<Rightarrow> string \<Rightarrow> (db, job_detail resource_read) db_call" where
  "repo_get_job pool i =
     (if pool then db_catch (get_job i) (\<lambda>_. db_return ResourceUnavailable)
        (\<lambda>res. db_return (case res of Some j \<Rightarrow> ResourceLoaded j | None \<Rightarrow> ResourceNotFound))
      else db_return (ResourceLoaded (seed_job_detail i)))"

definition repo_organization_id_for_job :: "bool \<Rightarrow> string \<Rightarrow> (db, resource_ownership) db_call" where
  "repo_organization_id_for_job pool i =
     (if pool then db_catch (organization_id_for_job i) (\<lambda>_. db_return OwnerUnavailable)
        (\<lambda>org. db_return (OwnerLoaded org))
      else db_return (OwnerLoaded (seed_organization_id_for_job i)))"

definition repo_list_job_add_ons :: "bool \<Rightarrow> string \<Rightarrow> (db, job_add_on list resource_read) db_call" where
  "repo_list_job_add_ons pool job =
     (if pool then db_catch (list_job_add_ons job) (\<lambda>_. db_return ResourceUnavailable)
        (\<lambda>as. db_return (ResourceLoaded as))
      else db_return (ResourceLoaded []))"

interpretation job_list: read_only_call list_jobs
  unfolding list_jobs_def by (rule read_only_select)

interpretation job_owner: read_only_call "organization_id_for_job i" for i
  unfolding organization_id_for_job_def by (rule read_only_select)

interpretation job_read: read_only_call "get_job i" for i
  unfolding get_job_def
  by (rule read_only_bind [OF read_only_select])
     (auto split: option.split intro!: read_only_bind read_only_select read_only_return)

end
