(* ===== verification/Membership_Gate.thy ===== *)
theory Membership_Gate
  imports Access_Control Schema
begin

text \<open>
  Who belongs to an organization: \<open>list_active_memberships\<close> and \<open>user_has_active_membership\<close> of
  \<open>backend/src/organizations.rs\<close>, and the organization lists of \<open>backend/src/main.rs\<close> over them.

  The repository is the one of a deployment: \<open>local_review_enabled\<close> is false (the code refuses local
  review in production), so that without a pool every answer is \<open>Unavailable\<close>.
\<close>

record organization_membership =
  om_id :: string
  om_organization_id :: string
  om_organization_name :: string
  om_organization_type :: string
  om_user_id :: string
  om_display_name :: string
  om_role :: access_role
  om_status :: string
  om_scope_type :: string
  om_scope_id :: "string option"

datatype 'a organization_collection = MembersLoaded "'a list" | MembersUnavailable

datatype active_membership_check = MembershipAllowed | MembershipDenied | MembershipUnavailable

definition organization_membership_from_row ::
    "membership_row \<Rightarrow> organization_row \<Rightarrow> organization_membership option" where
  "organization_membership_from_row m org =
     (case access_role_from_storage (membership_role m) of
        None \<Rightarrow> None
      | Some role \<Rightarrow> Some
         \<lparr> om_id = membership_pk m, om_organization_id = membership_organization_id m,
           om_organization_name = organization_display_name org, om_organization_type = organization_kind org,
           om_user_id = membership_user_id m,
           om_display_name = (case membership_display_name m of None \<Rightarrow> membership_user_id m | Some n \<Rightarrow> n),
           om_role = role, om_status = membership_status m, om_scope_type = membership_scope_type m,
           om_scope_id = membership_scope_id m \<rparr>)"

fun strings_before :: "string list \<Rightarrow> string list \<Rightarrow> bool" where
  "strings_before (x # xs) (y # ys) = (string_less x y \<or> (x = y \<and> strings_before xs ys))"
| "strings_before xs ys = True"

definition membership_before :: "membership_row \<times> organization_row \<Rightarrow> membership_row \<times> organization_row \<Rightarrow> bool" where
  "membership_before a b = strings_before
     [organization_display_name (snd a), membership_role (fst a), membership_scope_type (fst a)]
     [organization_display_name (snd b), membership_role (fst b), membership_scope_type (fst b)]"

definition active_membership_rows :: "string \<Rightarrow> db \<Rightarrow> (membership_row \<times> organization_row) list" where
  "active_membership_rows user d = order_by membership_before
     [(m, org). m \<leftarrow> memberships d, org \<leftarrow> organizations d,
        organization_pk org = membership_organization_id m, membership_user_id m = user,
        membership_status m = ''active'', organization_status org = ''active'']"

definition list_active_memberships :: "string \<Rightarrow> (db, organization_membership list) db_call" where
  "list_active_memberships user = db_select (\<lambda>d.
     List.map_filter (\<lambda>(m, org). organization_membership_from_row m org) (active_membership_rows user d))"

definition repo_list_active_memberships :: "bool \<Rightarrow> string \<Rightarrow>
    (db, organization_membership organization_collection) db_call" where
  "repo_list_active_memberships pool user =
     (if pool then db_catch (list_active_memberships user) (\<lambda>_. db_return MembersUnavailable)
        (\<lambda>ms. db_return (MembersLoaded ms))
      else db_return MembersUnavailable)"

definition user_has_active_membership :: "bool \<Rightarrow> string \<Rightarrow> string \<Rightarrow> (access_role \<Rightarrow> bool) \<Rightarrow>
    (db, active_membership_check) db_call" where
  "user_has_active_membership pool user organization required_role =
     db_bind (repo_list_active_memberships pool user) (\<lambda>res. db_return (case res of
         MembersLoaded ms \<Rightarrow>
           if list_ex (\<lambda>m. om_organization_id m = organization \<and> required_role (om_role m)) ms
           then MembershipAllowed else MembershipDenied
       | MembersUnavailable \<Rightarrow> MembershipUnavailable))"

definition first_occurrences :: "string list \<Rightarrow> string list" where
  "first_occurrences xs = rev (fold (\<lambda>x seen. if x \<in> set seen then seen else x # seen) xs [])"

definition principal_active_organization_ids_for_role :: "bool \<Rightarrow> string \<Rightarrow> (access_role \<Rightarrow> bool) \<Rightarrow>
    (db, string list option) db_call" where
  "principal_active_organization_ids_for_role pool user required_role =
     db_bind (repo_list_active_memberships pool user) (\<lambda>res. db_return (case res of
         MembersLoaded ms \<Rightarrow>
           Some (first_occurrences (map om_organization_id (filter (\<lambda>m. required_role (om_role m)) ms)))
       | MembersUnavailable \<Rightarrow> None))"

definition principal_active_organization_ids :: "bool \<Rightarrow> string \<Rightarrow> (db, string list option) db_call" where
  "principal_active_organization_ids pool user =
     principal_active_organization_ids_for_role pool user (\<lambda>_. True)"

section \<open>What membership means\<close>

text \<open>The specification: an active membership of an active organization with a role that qualifies.\<close>

definition belongs_to :: "db \<Rightarrow> string \<Rightarrow> string \<Rightarrow> (access_role \<Rightarrow> bool) \<Rightarrow> bool" where
  "belongs_to d user organization required_role \<longleftrightarrow>
     (\<exists>m \<in> set (memberships d). \<exists>org \<in> set (organizations d).
        membership_user_id m = user \<and> membership_status m = ''active''
        \<and> membership_organization_id m = organization \<and> organization_pk org = organization
        \<and> organization_status org = ''active''
        \<and> (\<exists>role. access_role_from_storage (membership_role m) = Some role \<and> required_role role))"

lemma membership_from_row_fields:
  "organization_membership_from_row m org = Some x \<Longrightarrow>
     om_organization_id x = membership_organization_id m
     \<and> access_role_from_storage (membership_role m) = Some (om_role x)"
  by (auto simp: organization_membership_from_row_def split: option.splits)

lemma membership_row_iff:
  "(m, org) \<in> set (active_membership_rows user d) \<longleftrightarrow>
     m \<in> set (memberships d) \<and> org \<in> set (organizations d) \<and> organization_pk org = membership_organization_id m
     \<and> membership_user_id m = user \<and> membership_status m = ''active'' \<and> organization_status org = ''active''"
  by (auto simp: active_membership_rows_def)

lemma member_iff:
  "list_ex (\<lambda>x. om_organization_id x = organization \<and> required_role (om_role x))
     (List.map_filter (\<lambda>(m, org). organization_membership_from_row m org) (active_membership_rows user d))
   \<longleftrightarrow> belongs_to d user organization required_role"
  (is "?L \<longleftrightarrow> ?R")
proof
  assume ?L
  then obtain m org x where "(m, org) \<in> set (active_membership_rows user d)"
    and "organization_membership_from_row m org = Some x"
    and "om_organization_id x = organization" and "required_role (om_role x)"
    by (auto simp: list_ex_iff map_filter_def)
  then show ?R
    using membership_from_row_fields [of m org x] unfolding belongs_to_def membership_row_iff by metis
next
  assume ?R
  then obtain m org role where r: "(m, org) \<in> set (active_membership_rows user d)"
    and "membership_organization_id m = organization"
    and role: "access_role_from_storage (membership_role m) = Some role" "required_role role"
    unfolding belongs_to_def membership_row_iff by metis
  moreover obtain x where x: "organization_membership_from_row m org = Some x"
    using role by (simp add: organization_membership_from_row_def)
  ultimately have "om_organization_id x = organization \<and> required_role (om_role x)"
    using membership_from_row_fields [OF x] by simp
  with r x show ?L by (force simp: list_ex_iff map_filter_def)
qed

lemma user_has_active_membership_answer:
  assumes "user_has_active_membership True user organization required_role (fs, d) = (Inr a, c')"
  shows "snd c' = d \<and> (a = MembershipAllowed \<longrightarrow> belongs_to d user organization required_role)
    \<and> (a = MembershipDenied \<longrightarrow> \<not> belongs_to d user organization required_role)"
  using assms
  by (auto simp: user_has_active_membership_def repo_list_active_memberships_def db_catch_def db_bind_def
      db_return_def list_active_memberships_def member_iff db_select_def db_stmt_def
      split: prod.splits sum.splits if_splits)

lemma user_has_active_membership_run [simp]:
  "user_has_active_membership True user organization required_role ([], d) =
     (Inr (if belongs_to d user organization required_role then MembershipAllowed else MembershipDenied), ([], d))"
  by (simp add: user_has_active_membership_def repo_list_active_memberships_def
      list_active_memberships_def member_iff)

interpretation membership_rows: read_only_call "list_active_memberships user" for user
  unfolding list_active_memberships_def by (rule read_only_select)

end
