(* ===== verification/Api_Gate.thy ===== *)
theory Api_Gate
  imports Membership_Gate
begin

text \<open>
  The authentication middleware of \<open>backend/src/auth.rs\<close>: which paths need a principal
  (\<open>is_protected_api_path\<close>, \<open>is_public_path\<close>), which principal may use which method on which path
  (\<open>is_authorized\<close>), and \<open>require_api_auth\<close>, which runs them before every handler.

  The verification of a Cognito token is third-party code: \<open>authenticate\<close> takes its outcome as an
  argument. A header value that is not visible ASCII (\<open>to_str\<close> fails) is \<open>None\<close>.
\<close>

datatype http_method = GET | POST | PUT | DELETE | OPTIONS | OtherMethod string

record auth_principal =
  principal_subject :: string
  principal_username :: string
  principal_verified_email :: "string option"
  principal_claim_roles :: "access_role list"
  principal_roles :: "access_role list"

definition has_verified_email :: "auth_principal \<Rightarrow> bool" where
  "has_verified_email user \<longleftrightarrow> principal_verified_email user \<noteq> None"

section \<open>Paths\<close>

definition is_protected_api_path :: "string \<Rightarrow> bool" where
  "is_protected_api_path path \<longleftrightarrow>
     path = ''/marketing-dashboard'' \<or> path = ''/marketing-leads'' \<or> starts_with ''/marketing-leads/'' path
     \<or> path = ''/marketing-events'' \<or> path = ''/me/access'' \<or> path = ''/customer-portal/visits''
     \<or> starts_with ''/customer-portal/visits/'' path \<or> path = ''/owner-workspace'' \<or> path = ''/owner-properties''
     \<or> starts_with ''/owner-properties/'' path \<or> path = ''/provider-invitations/opt-out''
     \<or> path = ''/provider-invitations/report'' \<or> path = ''/provider-invitations/verify-recipient''
     \<or> path = ''/provider-invitations/organization-options'' \<or> path = ''/provider-invitations/organization-claims''
     \<or> path = ''/provider-invitations/inbox'' \<or> path = ''/provider-invitations/progress''
     \<or> path = ''/provider-opportunity-responses'' \<or> path = ''/provider-disclosures/access''
     \<or> path = ''/provider-assessments'' \<or> starts_with ''/provider-assessments/'' path
     \<or> starts_with ''/provider-relationships/'' path \<or> starts_with ''/provider-service-releases/'' path
     \<or> path = ''/provider-customer-visit-threads'' \<or> starts_with ''/provider-customer-visit-threads/'' path
     \<or> starts_with ''/provider-invitation-organization-claims/'' path \<or> path = ''/provider-organization-claim-reviews''
     \<or> path = ''/provider-organization-claim-review-metrics'' \<or> starts_with ''/provider-organization-claim-reviews/'' path
     \<or> path = ''/operational-activity'' \<or> path = ''/operational-exceptions''
     \<or> starts_with ''/operational-exceptions/'' path \<or> path = ''/jobs'' \<or> starts_with ''/jobs/'' path
     \<or> starts_with ''/organizations/'' path \<or> starts_with ''/organization-invitations/'' path
     \<or> starts_with ''/accounts/'' path \<or> path = ''/customer-accounts'' \<or> starts_with ''/customer-accounts/'' path
     \<or> path = ''/completion-reports'' \<or> starts_with ''/completion-reports/'' path \<or> path = ''/notifications''
     \<or> starts_with ''/notifications/'' path \<or> path = ''/photo-processing-jobs''
     \<or> starts_with ''/photo-processing-jobs/'' path \<or> path = ''/photo-erasure-deletion-jobs''
     \<or> starts_with ''/photo-erasure-deletion-jobs/'' path \<or> path = ''/property-portfolios''
     \<or> starts_with ''/property-portfolios/'' path \<or> starts_with ''/properties/'' path \<or> path = ''/crews''
     \<or> starts_with ''/crews/'' path \<or> path = ''/organization-branches'' \<or> path = ''/service-territories''
     \<or> path = ''/day-plans'' \<or> starts_with ''/day-plans/'' path \<or> starts_with ''/shared-bids/'' path"

definition is_public_path :: "string \<Rightarrow> http_method \<Rightarrow> bool" where
  "is_public_path path method \<longleftrightarrow>
     path \<in> {''/health'', ''/health/live'', ''/health/ready'', ''/auth/config''}
     \<or> (method = POST \<and> path \<in> {''/marketing-leads'', ''/marketing-events''})
     \<or> (method = POST \<and> path = ''/provider-invitations/preview'')
     \<or> (method = GET \<and> starts_with ''/reports/'' path)
     \<or> (starts_with ''/shared-bids/'' path \<and> (method = GET \<or> method = POST))"

section \<open>Authorization\<close>

text \<open>The parts of \<open>is_authorized\<close>, in its order; each part takes the next one as its last case.\<close>

definition supported_owner_property_operation :: "http_method \<Rightarrow> string \<Rightarrow> bool" where
  "supported_owner_property_operation method suffix =
     (let segment_count = length (split_on CHR ''/'' suffix) in
     (segment_count = 1 \<and> method = GET)
     \<or> (segment_count = 2 \<and> ends_with ''/yard-brief'' suffix \<and> (method = GET \<or> method = PUT))
     \<or> (segment_count = 2 \<and> ends_with ''/intake-media'' suffix \<and> (method = GET \<or> method = POST))
     \<or> (segment_count = 3 \<and> contains_string ''/intake-media/'' suffix \<and> method = DELETE)
     \<or> (segment_count = 4 \<and> contains_string ''/intake-media/'' suffix \<and> ends_with ''/complete'' suffix \<and> method =
  POST)
     \<or> (segment_count = 2 \<and> ends_with ''/provider-invitations'' suffix \<and> (method = GET \<or> method = POST))
     \<or> (segment_count = 2 \<and> ends_with ''/provider-connection-progress'' suffix \<and> method = GET)
     \<or> (segment_count = 2 \<and> ends_with ''/provider-disclosure-receipts'' suffix \<and> method = GET)
     \<or> (segment_count = 2 \<and> ends_with ''/provider-assessments'' suffix \<and> method = GET)
     \<or> (segment_count = 4 \<and> contains_string ''/provider-assessments/'' suffix \<and> ends_with ''/window-decision'' suffix
  \<and> method = POST)
     \<or> (segment_count = 4 \<and> contains_string ''/provider-assessments/'' suffix \<and> ends_with ''/messages'' suffix \<and>
  (method = GET \<or> method = POST))
     \<or> (segment_count = 2 \<and> ends_with ''/initial-service-proposals'' suffix \<and> method = GET)
     \<or> (segment_count = 3 \<and> contains_string ''/initial-service-proposals/'' suffix \<and> method = GET)
     \<or> (segment_count = 4 \<and> contains_string ''/initial-service-proposals/'' suffix \<and> ends_with ''/decision'' suffix
  \<and> method = POST)
     \<or> (segment_count = 4 \<and> contains_string ''/initial-service-proposals/'' suffix \<and> ends_with ''/messages'' suffix
  \<and> (method = GET \<or> method = POST))
     \<or> (segment_count = 4 \<and> contains_string ''/initial-service-proposals/'' suffix \<and> ends_with ''/activation'' suffix
  \<and> (method = GET \<or> method = POST))
     \<or> (segment_count = 4 \<and> contains_string ''/provider-relationships/'' suffix \<and> ends_with ''/first-visit'' suffix
  \<and> method = GET)
     \<or> (segment_count = 5 \<and> contains_string ''/provider-relationships/'' suffix \<and> ends_with ''/first-visit/decision''
  suffix \<and> method = POST)
     \<or> (segment_count = 3 \<and> contains_string ''/provider-invitations/'' suffix \<and> method = GET)
     \<or> (segment_count = 4 \<and> contains_string ''/provider-invitations/'' suffix \<and> ends_with ''/disclosure-review''
  suffix \<and> method = GET)
     \<or> (segment_count = 4 \<and> contains_string ''/provider-invitations/'' suffix \<and> ends_with ''/disclosure-grants''
  suffix \<and> method = POST)
     \<or> (segment_count = 4 \<and> contains_string ''/provider-disclosure-grants/'' suffix \<and> ends_with ''/revoke'' suffix
  \<and> method = POST)
     \<or> (segment_count = 4 \<and> contains_string ''/provider-invitations/'' suffix \<and> ends_with ''/revoke'' suffix \<and>
  method = POST))"

definition authorized_staff :: "auth_principal \<Rightarrow> http_method \<Rightarrow> string \<Rightarrow> bool" where
  "authorized_staff user method path =
    (let roles = principal_roles user;
         can_admin_organization = list_ex can_manage_organization roles;
         can_view_route = list_ex can_view_crew_route roles;
         can_manage_routes = list_ex can_manage_schedule roles;
         can_review_reports = list_ex can_review_completion_report roles;
         can_deliver_reports = list_ex can_deliver_completion_report roles;
         can_submit_reports = list_ex can_submit_completion_report roles;
         can_manage_portfolios = list_ex can_manage_property_portfolios roles;
         can_manage_assignments = list_ex can_manage_crew_assignments roles;
         can_view_customer_portfolios = list_ex can_view_customer_property_portfolios roles
     in
     if roles = [] then False
     else if starts_with ''/organizations/'' path \<and> ends_with ''/invitations'' path
       then (method = GET \<or> method = POST) \<and> can_admin_organization
     else if starts_with ''/organizations/'' path \<and> contains_string ''/invitations/'' path
       then (method = DELETE \<or> (method = POST \<and> ends_with ''/reissue'' path)) \<and> can_admin_organization
     else if path = ''/organizations/bootstrap'' then method = POST \<and> can_admin_organization
     else if starts_with ''/organizations/'' path \<and> length (split_on CHR ''/'' path) = 3
       then (method = GET \<or> method = PUT) \<and> can_admin_organization
     else if starts_with ''/organizations/'' path \<and> ends_with ''/role'' path
       then method = PUT \<and> can_admin_organization
     else if starts_with ''/organizations/'' path \<and> ends_with ''/profile'' path
       then method = PUT \<and> can_admin_organization
     else if starts_with ''/organizations/'' path \<and> ends_with ''/status'' path
       then method = PUT \<and> can_admin_organization
     else if starts_with ''/organizations/'' path \<and> ends_with ''/memberships'' path
       then method = GET \<and> can_admin_organization
     else if starts_with ''/organizations/'' path \<and> ends_with ''/workspace-rollout-enrollments'' path
       then method = GET \<and> can_admin_organization
     else if starts_with ''/organizations/'' path \<and> ends_with ''/workspace-rollout'' path
       then method = PUT \<and> can_admin_organization
     else if starts_with ''/organizations/'' path \<and> ends_with ''/team-activity'' path
       then method = GET \<and> can_admin_organization
     else if starts_with ''/organizations/'' path \<and> ends_with ''/branches'' path
       then method = POST \<and> can_admin_organization
     else if starts_with ''/organizations/'' path \<and> ends_with ''/territories'' path
       then method = POST \<and> can_admin_organization
     else if path = ''/operational-activity'' then method = GET \<and> can_manage_routes
     else if path = ''/operational-exceptions'' then method \<in> {GET, POST} \<and> can_manage_routes
     else if starts_with ''/operational-exceptions/'' path then method = PUT \<and> can_manage_routes
     else if path = ''/completion-reports'' then method = GET \<and> can_review_reports
     else if path = ''/notifications'' then method = GET \<and> can_review_reports
     else if starts_with ''/notifications/'' path \<and> ends_with ''/retry'' path
       then method = POST \<and> can_review_reports
     else if starts_with ''/notifications/'' path \<and> ends_with ''/resolve'' path
       then method = POST \<and> can_review_reports
     else if path = ''/photo-processing-jobs'' then method = GET \<and> can_review_reports
     else if starts_with ''/photo-processing-jobs/'' path \<and> ends_with ''/retry'' path
       then method = POST \<and> can_review_reports
     else if starts_with ''/photo-processing-jobs/'' path \<and> ends_with ''/resolve'' path
       then method = POST \<and> can_review_reports
     else if path = ''/photo-erasure-deletion-jobs'' then method = GET \<and> can_review_reports
     else if starts_with ''/photo-erasure-deletion-jobs/'' path \<and> ends_with ''/retry'' path
       then method = POST \<and> can_review_reports
     else if starts_with ''/photo-erasure-deletion-jobs/'' path \<and> ends_with ''/resolve'' path
       then method = POST \<and> can_review_reports
     else if starts_with ''/completion-reports/'' path \<and> ends_with ''/review'' path
       then method = POST \<and> can_review_reports
     else if starts_with ''/completion-reports/'' path \<and> ends_with ''/request-changes'' path
       then method = POST \<and> can_review_reports
     else if starts_with ''/completion-reports/'' path \<and> ends_with ''/resubmit'' path
       then method = POST \<and> can_submit_reports
     else if starts_with ''/completion-reports/'' path \<and> ends_with ''/deliver'' path
       then method = POST \<and> can_deliver_reports
     else if starts_with ''/completion-reports/'' path \<and> ends_with ''/delivery-notifications'' path
       then method = POST \<and> can_deliver_reports
     else if starts_with ''/accounts/'' path \<and> ends_with ''/property-portfolios'' path
       then method = GET \<and> can_manage_portfolios
     else if path = ''/customer-accounts'' then (method = GET \<or> method = POST) \<and> can_manage_portfolios
     else if starts_with ''/customer-accounts/'' path
       then method \<in> {GET, POST, PUT, DELETE} \<and> can_manage_portfolios
     else if starts_with ''/accounts/'' path \<and> ends_with ''/customer-property-portfolio'' path
       then method = GET \<and> can_view_customer_portfolios
     else if starts_with ''/accounts/'' path \<and> ends_with ''/bids'' path
       then method = GET \<and> can_manage_portfolios
     else if starts_with ''/accounts/'' path \<and> ends_with ''/privacy-export'' path
       then method = GET \<and> can_review_reports
     else if starts_with ''/accounts/'' path \<and> ends_with ''/photo-erasure'' path
       then method = POST \<and> can_review_reports
     else if path = ''/property-portfolios'' then method = POST \<and> can_manage_portfolios
     else if starts_with ''/property-portfolios/'' path \<and> ends_with ''/properties'' path
       then method = POST \<and> can_manage_portfolios
     else if starts_with ''/properties/'' path \<and> ends_with ''/completion-reports'' path
       then method = GET \<and> can_view_customer_portfolios
     else if starts_with ''/properties/'' path \<and> ends_with ''/crew-assignments'' path
       then (method = GET \<or> method = POST) \<and> can_manage_assignments
     else if starts_with ''/properties/'' path \<and> ends_with ''/onboarding'' path
       then (method = GET \<and> can_view_customer_portfolios) \<or> (method = PUT \<and> can_manage_portfolios)
     else if starts_with ''/crews/'' path \<and> ends_with ''/property-assignments/active'' path
       then method = GET \<and> can_manage_assignments
     else if path = ''/crews'' then method = GET \<and> can_manage_assignments
     else if path = ''/organization-branches'' \<or> path = ''/service-territories''
       then method = GET \<and> can_manage_assignments
     else if starts_with ''/day-plans/'' path \<and> (ends_with ''/bids'' path \<or> ends_with ''/bid'' path)
       then can_manage_routes
     else if starts_with ''/day-plans/'' path \<and> ends_with ''/status'' path then can_view_route
     else if starts_with ''/day-plans/'' path \<and> ends_with ''/amendments'' path
       then can_view_route \<or> can_manage_routes
     else if path = ''/day-plans'' \<or> starts_with ''/day-plans/'' path
       then method = GET \<and> can_view_route \<or> can_manage_routes
     else can_view_route)"

definition authorized_provider :: "auth_principal \<Rightarrow> http_method \<Rightarrow> string \<Rightarrow> bool" where
  "authorized_provider user method path =
    (let can_mobilize_service =
       list_ex (\<lambda>r. r = OrganizationOwner \<or> r = Manager) (principal_roles user) in
     if path = ''/owner-workspace'' then has_verified_email user \<and> (method = GET \<or> method = PUT)
     else if path = ''/owner-properties'' then has_verified_email user \<and> (method = GET \<or> method = POST)
     else if path = ''/provider-invitations/opt-out'' then has_verified_email user \<and> method = POST
     else if path = ''/provider-invitations/report'' then has_verified_email user \<and> method = POST
     else if path = ''/provider-invitations/verify-recipient'' then has_verified_email user \<and> method = POST
     else if path \<in> {''/provider-invitations/organization-options'',
       ''/provider-invitations/organization-claims'', ''/provider-invitations/inbox'',
       ''/provider-invitations/progress'', ''/provider-opportunity-responses'', ''/provider-disclosures/access'',
       ''/provider-assessments''}
       then has_verified_email user \<and> method = POST
     else if starts_with ''/provider-assessments/'' path \<and> ends_with ''/transitions'' path
       then has_verified_email user \<and> method = POST
     else if starts_with ''/provider-assessments/'' path \<and> (ends_with ''/messages'' path \<or> ends_with
       ''/private-notes'' path \<or> ends_with ''/initial-service-proposals'' path \<or> ends_with
       ''/initial-service-proposal-responses'' path)
       then has_verified_email user \<and> method = POST
     else if starts_with ''/provider-relationships/'' path \<and> (ends_with ''/first-visit/status'' path \<or>
       ends_with ''/first-visit/proposal'' path)
       then has_verified_email user \<and> method = POST
     else if starts_with ''/provider-relationships/'' path \<and> ends_with ''/service-release'' path
       then can_mobilize_service \<and> (method = GET \<or> method = POST)
     else if starts_with ''/provider-service-releases/'' path \<and> ends_with ''/customer-status'' path
       then can_mobilize_service \<and> method = POST
     else if path = ''/provider-customer-visit-threads'' then can_mobilize_service \<and> method = GET
     else if starts_with ''/provider-customer-visit-threads/'' path
       then can_mobilize_service \<and> ((method = GET \<and> \<not> ends_with ''/responses'' path) \<or> (method =
         POST \<and> ends_with ''/responses'' path))
     else if starts_with ''/provider-invitation-organization-claims/'' path \<and> ends_with ''/bootstrap'' path
       then has_verified_email user \<and> method = POST
     else if starts_with ''/provider-invitation-organization-claims/'' path \<and> ends_with ''/appeals'' path
       then has_verified_email user \<and> method = POST
     else if starts_with ''/provider-invitation-organization-claims/'' path \<and> ends_with
       ''/response-capabilities'' path
       then has_verified_email user \<and> method = POST
     else if path = ''/provider-organization-claim-reviews''
       then SupportAdmin \<in> set (principal_roles user) \<and> method = GET
     else if path = ''/provider-organization-claim-review-metrics''
       then SupportAdmin \<in> set (principal_roles user) \<and> method = GET
     else if starts_with ''/provider-organization-claim-reviews/'' path \<and> ends_with ''/decisions'' path
       then SupportAdmin \<in> set (principal_roles user) \<and> method = POST
     else if starts_with ''/owner-properties/'' path
       then has_verified_email user \<and> supported_owner_property_operation method (trim_start_matches
         ''/owner-properties/'' path)
     else authorized_staff user method path)"

definition authorized_recommendations :: "auth_principal \<Rightarrow> http_method \<Rightarrow> string \<Rightarrow> bool option" where
  "authorized_recommendations user method path =
    (case strip_prefix ''/customer-portal/visits/'' path of
       None \<Rightarrow> None
     | Some suffix \<Rightarrow>
        (case split_on CHR ''/'' suffix of
           [_, s] \<Rightarrow> if s = ''recommendations'' then Some (has_verified_email user \<and> method = GET) else None
         | [_, s, _] \<Rightarrow> if s = ''recommendations''
             then Some (has_verified_email user \<and> (method = GET \<or> method = POST)) else None
         | _ \<Rightarrow> None))"

definition is_authorized :: "auth_principal \<Rightarrow> http_method \<Rightarrow> string \<Rightarrow> bool" where
  "is_authorized user method path =
    (
     if path = ''/marketing-dashboard'' then SupportAdmin \<in> set (principal_roles user) \<and> method = GET
     else if path = ''/marketing-leads'' \<or> starts_with ''/marketing-leads/'' path
       then SupportAdmin \<in> set (principal_roles user) \<and> (method = GET \<or> method = PUT)
     else if starts_with ''/organization-invitations/'' path \<and> ends_with ''/accept'' path then method = POST
     else if path = ''/me/access'' then method = GET
     else if path = ''/customer-portal/visits'' then has_verified_email user \<and> method = GET
     else if starts_with ''/customer-portal/visits/'' path \<and> ends_with ''/messages'' path
       then has_verified_email user \<and> (method = GET \<or> method = POST)
     else if starts_with ''/customer-portal/visits/'' path \<and> ends_with ''/proof'' path
       then has_verified_email user \<and> method = GET
     else (case authorized_recommendations user method path of Some answer \<Rightarrow> answer | None \<Rightarrow>
       authorized_provider user method path))"

section \<open>Principals\<close>

datatype auth_error = Configuration string | HttpError | JwtError | MissingBearerToken | MissingSigningKey
  | InvalidToken string

record access_token_claims =
  claim_sub :: string
  claim_username :: "string option"
  claim_email :: "string option"
  claim_email_verified :: bool
  claim_client_id :: string
  claim_token_use :: string
  claim_groups :: "string list"
  claim_iss :: string

definition merge_effective_roles :: "access_role list \<Rightarrow> organization_membership list \<Rightarrow> access_role list" where
  "merge_effective_roles claim_roles members =
     fold (\<lambda>m roles. if om_role m \<in> set roles then roles else roles @ [om_role m])
       (filter (\<lambda>m. om_status m = ''active'') members) claim_roles"

definition normalized_verified_email :: "string option \<Rightarrow> bool \<Rightarrow> string option" where
  "normalized_verified_email email verified =
     (case email of
        None \<Rightarrow> None
      | Some e \<Rightarrow>
          if verified \<and> trim e \<noteq> [] \<and> CHR ''@'' \<in> set (trim e) then Some (to_ascii_lowercase (trim e))
          else None)"

definition bearer_token :: "string option \<Rightarrow> auth_error + string" where
  "bearer_token authorization =
     (case authorization of
        None \<Rightarrow> Inl MissingBearerToken
      | Some v \<Rightarrow> (case strip_prefix ''Bearer '' v of
          None \<Rightarrow> Inl MissingBearerToken
        | Some token \<Rightarrow> if token = [] then Inl MissingBearerToken else Inr token))"

definition ensure_auth_mode_permitted :: "string \<Rightarrow> bool \<Rightarrow> auth_error + unit" where
  "ensure_auth_mode_permitted mode production =
     (if production \<and> mode \<in> {''disabled'', ''local_review''}
      then Inl (Configuration (''AUTH_MODE='' @ mode @ '' is not permitted in production'')) else Inr ())"

text \<open>
  The verifier of access tokens. \<open>jsonwebtoken\<close> and the key set it fetches are third-party code:
  \<open>token_header\<close> (algorithm and key id), \<open>signing_key\<close> and \<open>decode\<close> (signature, expiry and issuer).
\<close>

record 'k token_verifier =
  verifier_issuer :: string
  verifier_client_id :: string
  token_header :: "string \<Rightarrow> auth_error + (string \<times> string option)"
  signing_key :: "string \<Rightarrow> auth_error + 'k"
  decode :: "string \<Rightarrow> 'k \<Rightarrow> auth_error + access_token_claims"

definition principal_of_claims :: "access_token_claims \<Rightarrow> auth_principal" where
  "principal_of_claims claims =
     (let roles = List.map_filter from_cognito_group (claim_groups claims) in
      \<lparr> principal_subject = claim_sub claims,
        principal_username = (case claim_username claims of None \<Rightarrow> claim_sub claims | Some n \<Rightarrow> n),
        principal_verified_email =
          normalized_verified_email (claim_email claims) (claim_email_verified claims),
        principal_claim_roles = roles, principal_roles = roles \<rparr>)"

definition verify :: "'k token_verifier \<Rightarrow> string \<Rightarrow> auth_error + auth_principal" where
  "verify v token =
     (case token_header v token of
        Inl e \<Rightarrow> Inl e
      | Inr (alg, kid) \<Rightarrow>
          if alg \<noteq> ''RS256'' then Inl (InvalidToken ''access token must use RS256'')
          else (case kid of
            None \<Rightarrow> Inl (InvalidToken ''access token is missing a key id'')
          | Some key_id \<Rightarrow>
            (case signing_key v key_id of
               Inl e \<Rightarrow> Inl e
             | Inr key \<Rightarrow>
               (case decode v token key of
                  Inl e \<Rightarrow> Inl e
                | Inr claims \<Rightarrow>
                    if claim_token_use claims \<noteq> ''access''
                      then Inl (InvalidToken ''an access token is required'')
                    else if claim_client_id claims \<noteq> verifier_client_id v
                      then Inl (InvalidToken ''access token was issued for a different client'')
                    else if claim_iss claims \<noteq> verifier_issuer v
                      then Inl (InvalidToken ''access token issuer does not match'')
                    else Inr (principal_of_claims claims)))))"

text \<open>The local-review backend is left out; \<open>repository\<close> is whether the service has an organization
  repository, \<open>pool\<close> whether that one has a database.\<close>

datatype 'k auth_backend = AuthDisabled | Cognito "'k token_verifier"

definition local_developer :: auth_principal where
  "local_developer = \<lparr> principal_subject = ''local-development-user'',
     principal_username = ''Local Developer'', principal_verified_email = Some ''invited@example.com'',
     principal_claim_roles = [OrganizationOwner, SupportAdmin],
     principal_roles = [OrganizationOwner, SupportAdmin] \<rparr>"

definition backend_principal :: "'k auth_backend \<Rightarrow> string option \<Rightarrow> auth_error + auth_principal" where
  "backend_principal backend authorization =
     (case backend of
        AuthDisabled \<Rightarrow> Inr local_developer
      | Cognito v \<Rightarrow> (case bearer_token authorization of Inl e \<Rightarrow> Inl e | Inr token \<Rightarrow> verify v token))"

definition authenticate :: "'k auth_backend \<Rightarrow> bool \<Rightarrow> bool \<Rightarrow> string option \<Rightarrow>
    (db, auth_error + auth_principal) db_call" where
  "authenticate backend repository pool authorization =
     (case backend_principal backend authorization of
        Inl e \<Rightarrow> db_return (Inl e)
      | Inr p \<Rightarrow>
          if repository
          then db_bind (repo_list_active_memberships pool (principal_subject p)) (\<lambda>res. db_return (Inr
            (case res of
               MembersLoaded ms \<Rightarrow> p\<lparr> principal_roles := merge_effective_roles (principal_claim_roles p) ms \<rparr>
             | MembersUnavailable \<Rightarrow> p\<lparr> principal_roles := principal_claim_roles p \<rparr>)))
          else db_return (Inr p))"

text \<open>What the middleware decides: run the handler, with a user or without one, or answer.\<close>

datatype gate_decision = RunPublic | RunAs auth_principal | Refuse nat string

definition require_api_auth :: "'k auth_backend \<Rightarrow> bool \<Rightarrow> bool \<Rightarrow> http_method \<Rightarrow> string \<Rightarrow>
    string option \<Rightarrow> (db, gate_decision) db_call" where
  "require_api_auth backend repository pool method path authorization =
     (if method = OPTIONS then db_return RunPublic
      else if \<not> is_protected_api_path path \<or> is_public_path path method then db_return RunPublic
      else db_bind (authenticate backend repository pool authorization) (\<lambda>res. db_return (case res of
          Inl e \<Rightarrow> Refuse 401 ''authentication_required''
        | Inr p \<Rightarrow> if is_authorized p method path then RunAs p else Refuse 403 ''access_denied'')))"

end
