(* ===== verification/Route_Handlers.thy ===== *)
theory Route_Handlers
  imports Route_Amendments Job_Reads Api_Gate
begin

text \<open>
  The HTTP handlers of routes, jobs and checklists (\<open>backend/src/main.rs\<close>): the guards in the order of
  the code, the repository call, and the status, error code and message of every outcome.

  An answer is the status with the JSON body, or a problem (\<open>ErrorResponse\<close>). All repositories share
  one optional pool, \<open>pool\<close>. A header or an identifier in the path is given as the string it carries.
\<close>

datatype 'a http_response = Answer nat 'a | Problem nat string string

type_synonym problem = "nat \<times> string \<times> string"

fun http_status :: "'a http_response \<Rightarrow> nat" where
  "http_status (Answer s _) = s"
| "http_status (Problem s _ _) = s"

section \<open>Refusals\<close>

definition resource_not_found_response :: "string \<Rightarrow> string \<Rightarrow> problem" where
  "resource_not_found_response error message = (404, error, message)"

definition persisted_resource_unavailable_response :: "string \<Rightarrow> string \<Rightarrow> problem" where
  "persisted_resource_unavailable_response error message = (503, error, message)"

definition persisted_ownership_unavailable_response :: "string \<Rightarrow> problem" where
  "persisted_ownership_unavailable_response error = (503, error,
     ''Persisted resource ownership could not be verified. Access is denied until persistence recovers.'')"

definition refuse :: "problem \<Rightarrow> 'a http_response" where
  "refuse p = (case p of (status, error, message) \<Rightarrow> Problem status error message)"

text \<open>A check (\<open>ApiResult<()>\<close>): \<open>None\<close> lets the request through.\<close>

definition require_organization_membership :: "bool \<Rightarrow> auth_principal \<Rightarrow> string \<Rightarrow> (access_role \<Rightarrow> bool) \<Rightarrow>
    (db, problem option) db_call" where
  "require_organization_membership pool user organization required_role =
     db_bind (user_has_active_membership pool (principal_subject user) organization required_role)
       (\<lambda>res. db_return (case res of
          MembershipAllowed \<Rightarrow> None
        | MembershipDenied \<Rightarrow> Some (403, ''organization_access_denied'',
            ''Active organization membership is required for this resource.'')
        | MembershipUnavailable \<Rightarrow> Some (persisted_resource_unavailable_response
            ''organization_membership_verification_unavailable''
            ''Active organization membership could not be verified.'')))"

definition require_crew_organization_access :: "bool \<Rightarrow> auth_principal \<Rightarrow> string \<Rightarrow> (access_role \<Rightarrow> bool) \<Rightarrow>
    (db, problem option) db_call" where
  "require_crew_organization_access pool user crew required_role =
     db_bind (repo_organization_id_for_crew pool crew) (\<lambda>res. case res of
         Loaded (Some organization) \<Rightarrow> require_organization_membership pool user organization required_role
       | Loaded None \<Rightarrow> db_return (Some (resource_not_found_response ''crew_not_found'' ''Crew was not found.''))
       | ReadUnavailable \<Rightarrow> db_return (Some
           (persisted_ownership_unavailable_response ''crew_ownership_unavailable'')))"

definition require_day_plan_organization_access :: "bool \<Rightarrow> auth_principal \<Rightarrow> string \<Rightarrow>
    (access_role \<Rightarrow> bool) \<Rightarrow> (db, problem option) db_call" where
  "require_day_plan_organization_access pool user plan required_role =
     db_bind (repo_organization_id_for_day_plan pool plan) (\<lambda>res. case res of
         Loaded (Some organization) \<Rightarrow> require_organization_membership pool user organization required_role
       | Loaded None \<Rightarrow> db_return (Some
           (resource_not_found_response ''day_plan_not_found'' ''Day plan was not found.''))
       | ReadUnavailable \<Rightarrow> db_return (Some
           (persisted_ownership_unavailable_response ''day_plan_ownership_unavailable'')))"

definition require_job_organization_access :: "bool \<Rightarrow> auth_principal \<Rightarrow> string \<Rightarrow> (access_role \<Rightarrow> bool) \<Rightarrow>
    (db, problem option) db_call" where
  "require_job_organization_access pool user job required_role =
     db_bind (repo_organization_id_for_job pool job) (\<lambda>res. case res of
         OwnerLoaded (Some organization) \<Rightarrow>
           require_organization_membership pool user organization required_role
       | OwnerLoaded None \<Rightarrow> db_return (Some
           (resource_not_found_response ''job_not_found'' ''Job was not found.''))
       | OwnerUnavailable \<Rightarrow> db_return (Some
           (persisted_ownership_unavailable_response ''job_ownership_unavailable'')))"

definition checked :: "(db, problem option) db_call \<Rightarrow> (db, 'a http_response) db_call \<Rightarrow>
    (db, 'a http_response) db_call" where
  "checked check handler = db_bind check (\<lambda>res. case res of
       Some p \<Rightarrow> db_return (refuse p) | None \<Rightarrow> handler)"

text \<open>The four outcomes of a mutation, with the code and message of each refusal.\<close>

definition mutation_response :: "nat \<Rightarrow> string \<times> string \<Rightarrow> string \<times> string \<Rightarrow> string \<times> string \<Rightarrow>
    'a persisted_mutation \<Rightarrow> 'a http_response" where
  "mutation_response applied not_found conflict unavailable res =
     (case res of
        Applied a \<Rightarrow> Answer applied a
      | NotFound \<Rightarrow> Problem 404 (fst not_found) (snd not_found)
      | Conflict \<Rightarrow> Problem 409 (fst conflict) (snd conflict)
      | Unavailable \<Rightarrow> Problem 503 (fst unavailable) (snd unavailable))"

section \<open>Routes\<close>

definition handle_today :: "env \<Rightarrow> bool \<Rightarrow> auth_principal \<Rightarrow> string \<Rightarrow>
    (db, day_plan_summary http_response) db_call" where
  "handle_today env pool user crew = checked
     (require_crew_organization_access pool user crew can_view_crew_route)
     (db_map (\<lambda>res. case res of
         Found plan \<Rightarrow> Answer 200 plan
       | TodayNotFound \<Rightarrow> refuse (resource_not_found_response ''crew_day_plan_not_found''
           ''No published persisted route is available for this crew.'')
       | TodayUnavailable \<Rightarrow> Problem 503 ''crew_day_plan_unavailable''
           ''The persisted crew route could not be loaded.'')
      (today_for_crew env pool crew))"

definition handle_create_draft :: "env \<Rightarrow> bool \<Rightarrow> auth_principal \<Rightarrow> create_day_plan_request \<Rightarrow>
    (db, day_plan_response http_response) db_call" where
  "handle_create_draft env pool user request = checked
     (require_crew_organization_access pool user (trim (req_crew_id request)) can_manage_schedule)
     (db_map (mutation_response 201
        (''day_plan_draft_not_found'', ''The selected crew is no longer available.'')
        (''day_plan_draft_conflict'',
         ''A route draft could not be created for this crew and service date. Refresh scheduling and try again.'')
        (''day_plan_draft_unavailable'', ''The route draft could not be saved.''))
      (create_draft_day_plan_as env pool request (principal_subject user)))"

definition handle_publish :: "env \<Rightarrow> bool \<Rightarrow> auth_principal \<Rightarrow> string \<Rightarrow>
    (db, day_plan_response http_response) db_call" where
  "handle_publish env pool user plan = checked
     (require_day_plan_organization_access pool user plan can_manage_schedule)
     (db_map (mutation_response 200
        (''day_plan_publish_not_found'', ''The route draft is no longer available.'')
        (''day_plan_publish_conflict'',
         ''The route could not be published. Refresh the draft and confirm it has saved stops.'')
        (''day_plan_publish_unavailable'', ''The route could not be published.''))
      (publish_day_plan_as env pool plan (principal_subject user)))"

definition handle_create_amendment :: "env \<Rightarrow> bool \<Rightarrow> auth_principal \<Rightarrow> string \<Rightarrow> create_amendment_request \<Rightarrow>
    (db, amendment_response http_response) db_call" where
  "handle_create_amendment env pool user plan request =
     (case validate_amendment_request env request of
        Inl message \<Rightarrow> db_return (Problem 400 ''invalid_day_plan_amendment'' message)
      | Inr _ \<Rightarrow> checked (require_day_plan_organization_access pool user plan can_view_crew_route)
          (db_map (mutation_response 201
            (''day_plan_amendment_not_found'', ''The persisted route or stop is no longer available.'')
            (''day_plan_amendment_conflict'',
             ''The route request conflicts with the current persisted route. Refresh it before trying again.'')
            (''day_plan_amendment_unavailable'', ''The route request could not be saved.''))
           (repo_create_amendment env pool plan request)))"

definition handle_list_amendments :: "bool \<Rightarrow> auth_principal \<Rightarrow> string \<Rightarrow>
    (db, amendment_response list http_response) db_call" where
  "handle_list_amendments pool user plan = checked
     (require_day_plan_organization_access pool user plan can_view_crew_route)
     (db_map (\<lambda>res. case res of
         Loaded all \<Rightarrow> Answer 200 all
       | ReadUnavailable \<Rightarrow> Problem 503 ''day_plan_amendments_unavailable''
           ''The persisted route request queue could not be loaded.'')
      (repo_list_amendments pool plan))"

text \<open>The validation makes the repository's \<open>expect\<close> safe; \<open>500\<close> would be its panic.\<close>

definition handle_review_amendment :: "bool \<Rightarrow> auth_principal \<Rightarrow> string \<Rightarrow> string \<Rightarrow> review_amendment_request \<Rightarrow>
    (db, amendment_review_response http_response) db_call" where
  "handle_review_amendment pool user plan amendment request =
     (case validate_amendment_review request of
        Inl message \<Rightarrow> db_return (Problem 400 ''invalid_day_plan_amendment_review'' message)
      | Inr _ \<Rightarrow> checked (require_day_plan_organization_access pool user plan can_manage_schedule)
          (case repo_review_amendment pool plan amendment request of
             None \<Rightarrow> db_return (Problem 500 [] [])
           | Some m \<Rightarrow> db_map (mutation_response 200
               (''day_plan_amendment_review_not_found'', ''The route request is no longer available.'')
               (''day_plan_amendment_review_conflict'',
                ''The route request changed before this decision was saved. Refresh the review queue and try again.'')
               (''day_plan_amendment_review_unavailable'', ''The route request decision could not be saved.'')) m))"

definition handle_assign_stop :: "env \<Rightarrow> bool \<Rightarrow> auth_principal \<Rightarrow> string \<Rightarrow> assign_stop_request \<Rightarrow>
    (db, stop_response http_response) db_call" where
  "handle_assign_stop env pool user plan request = checked
     (require_day_plan_organization_access pool user plan can_manage_schedule)
     (db_map (mutation_response 201
        (''day_plan_stop_assignment_not_found'', ''The draft day plan or service job is no longer available.'')
        (''day_plan_stop_assignment_conflict'',
         ''The stop could not be added. Refresh the draft and confirm its capacity and job availability.'')
        (''day_plan_stop_assignment_unavailable'', ''The route stop could not be saved.''))
      (assign_stop_as env pool plan request (principal_subject user)))"

definition handle_remove_stop :: "env \<Rightarrow> bool \<Rightarrow> auth_principal \<Rightarrow> string \<Rightarrow> string \<Rightarrow>
    (db, removal_response http_response) db_call" where
  "handle_remove_stop env pool user plan stop = checked
     (require_day_plan_organization_access pool user plan can_manage_schedule)
     (db_map (mutation_response 200
        (''day_plan_stop_removal_not_found'', ''The draft route stop is no longer available.'')
        (''day_plan_stop_removal_conflict'',
         ''The route stop could not be removed from the current draft.'')
        (''day_plan_stop_removal_unavailable'', ''The route stop could not be removed.''))
      (remove_stop_as env pool plan stop (principal_subject user)))"

definition handle_reorder_stops :: "env \<Rightarrow> bool \<Rightarrow> auth_principal \<Rightarrow> string \<Rightarrow> string list \<Rightarrow>
    (db, reorder_response http_response) db_call" where
  "handle_reorder_stops env pool user plan stops = checked
     (require_day_plan_organization_access pool user plan can_manage_schedule)
     (db_map (mutation_response 200
        (''day_plan_stop_reorder_not_found'', ''The draft route or one of its stops is no longer available.'')
        (''day_plan_stop_reorder_conflict'',
         ''The route order changed before it could be saved. Refresh the draft and try again.'')
        (''day_plan_stop_reorder_unavailable'', ''The route order could not be saved.''))
      (reorder_stops_as env pool plan stops (principal_subject user)))"

record stop_progress_request =
  req_status :: string
  req_progress_mutation_id :: "string option"

definition not_a_uuid :: "env \<Rightarrow> string option \<Rightarrow> bool" where
  "not_a_uuid env mutation = (case mutation of None \<Rightarrow> False | Some i \<Rightarrow> parse_uuid env i = None)"

definition handle_stop_progress :: "env \<Rightarrow> bool \<Rightarrow> auth_principal \<Rightarrow> string \<Rightarrow> string \<Rightarrow> stop_progress_request \<Rightarrow>
    (db, stop_progress_response http_response) db_call" where
  "handle_stop_progress env pool user plan stop request =
     (if \<not> is_valid_stop_progress_status (req_status request)
      then db_return (Problem 400 ''invalid_stop_progress_status''
        (''Unsupported stop progress status: '' @ req_status request))
      else if not_a_uuid env (req_progress_mutation_id request)
      then db_return (Problem 400 ''invalid_client_mutation_id'' ''client_mutation_id must be a UUID'')
      else checked (require_day_plan_organization_access pool user plan can_view_crew_route)
        (db_map (\<lambda>res. case res of
            Persisted \<Rightarrow> Answer 200 (persisted_stop_progress_response plan stop (req_status request))
          | Replayed \<Rightarrow> Answer 200 (replayed_stop_progress_response plan stop (req_status request))
          | IdempotencyConflict \<Rightarrow> Problem 409 ''stop_progress_idempotency_conflict''
              ''The client mutation ID was already used for different stop progress.''
          | NoSuchRow \<Rightarrow> refuse (resource_not_found_response ''stop_progress_not_found''
              ''The persisted route stop is no longer available.'')
          | WriteUnavailable \<Rightarrow> Problem 503 ''stop_progress_unavailable''
              ''The route progress change could not be saved.''
          | LocalFallback \<Rightarrow> Answer 200 (local_stop_progress_response plan stop (req_status request)))
         (repo_update_stop_progress env pool plan stop (req_status request)
           (req_progress_mutation_id request) (principal_subject user))))"

section \<open>Jobs\<close>

record lifecycle_response =
  la_status :: string
  la_message :: string
  la_persisted :: bool
  la_replay :: bool

definition lifecycle_answer :: "nat \<Rightarrow> string \<Rightarrow> write_result \<Rightarrow> lifecycle_response http_response" where
  "lifecycle_answer status message res = Answer status
     \<lparr> la_status = ''accepted'', la_message = message,
       la_persisted = (res = Persisted \<or> res = Replayed), la_replay = (res = Replayed) \<rparr>"

definition lifecycle_reply :: "string \<Rightarrow> write_result \<Rightarrow> lifecycle_response http_response" where
  "lifecycle_reply message res =
     (if res = IdempotencyConflict then Problem 409 ''job_lifecycle_idempotency_conflict''
        ''The client mutation ID was already used for a different job action.''
      else if res = WriteUnavailable then refuse (persisted_resource_unavailable_response
        ''job_lifecycle_write_unavailable'' ''The persisted job lifecycle could not be updated.'')
      else if res = NoSuchRow then refuse (resource_not_found_response ''job_not_found''
        ''The requested job was not found.'')
      else lifecycle_answer 202 message res)"

definition invalid_mutation_header :: "'a http_response" where
  "invalid_mutation_header =
     Problem 400 ''invalid_client_mutation_id'' ''x-client-mutation-id must be a UUID''"

definition handle_start_job :: "env \<Rightarrow> bool \<Rightarrow> auth_principal \<Rightarrow> string \<Rightarrow> string option \<Rightarrow>
    (db, lifecycle_response http_response) db_call" where
  "handle_start_job env pool user job header = checked
     (require_job_organization_access pool user job can_view_crew_route)
     (if not_a_uuid env header then db_return invalid_mutation_header
      else db_map (lifecycle_reply (''Job '' @ job @ '' has been marked as started.''))
        (repo_start_job env pool job header (principal_subject user)))"

definition handle_complete_job :: "env \<Rightarrow> bool \<Rightarrow> auth_principal \<Rightarrow> string \<Rightarrow> string option \<Rightarrow>
    (db, lifecycle_response http_response) db_call" where
  "handle_complete_job env pool user job header = checked
     (require_job_organization_access pool user job can_view_crew_route)
     (if not_a_uuid env header then db_return invalid_mutation_header
      else db_map (lifecycle_reply (''Job '' @ job @ '' has been marked as complete.''))
        (repo_complete_job env pool job header (principal_subject user)))"

definition handle_checklist_item :: "env \<Rightarrow> bool \<Rightarrow> auth_principal \<Rightarrow> string \<Rightarrow> string \<Rightarrow> bool \<Rightarrow> string option \<Rightarrow>
    (db, lifecycle_response http_response) db_call" where
  "handle_checklist_item env pool user job item tick header = checked
     (require_job_organization_access pool user job can_view_crew_route)
     (if not_a_uuid env header then db_return invalid_mutation_header
      else db_map (\<lambda>res.
        if res = IdempotencyConflict then Problem 409 ''checklist_idempotency_conflict''
          ''The client mutation ID was already used for a different checklist change.''
        else if res = WriteUnavailable then refuse (persisted_resource_unavailable_response
          ''checklist_write_unavailable'' ''The persisted checklist item could not be updated.'')
        else if res = NoSuchRow then refuse (resource_not_found_response ''checklist_item_not_found''
          ''The requested checklist item was not found.'')
        else lifecycle_answer 200 (''Checklist item '' @ item @ '' was updated.'') res)
       (repo_update_checklist_item env pool job item tick header (principal_subject user)))"

definition handle_list_job_add_ons :: "bool \<Rightarrow> auth_principal \<Rightarrow> string \<Rightarrow>
    (db, job_add_on list http_response) db_call" where
  "handle_list_job_add_ons pool user job = checked
     (require_job_organization_access pool user job can_view_crew_route)
     (db_map (\<lambda>res. case res of
         ResourceLoaded as \<Rightarrow> Answer 200 as
       | ResourceNotFound \<Rightarrow> Answer 200 []
       | ResourceUnavailable \<Rightarrow> refuse (persisted_resource_unavailable_response ''job_add_ons_unavailable''
           ''The persisted job add-ons could not be loaded.''))
      (repo_list_job_add_ons pool job))"

definition handle_add_on_status :: "bool \<Rightarrow> auth_principal \<Rightarrow> string \<Rightarrow> string \<Rightarrow> string \<Rightarrow>
    (db, job_add_on http_response) db_call" where
  "handle_add_on_status pool user job add_on status = checked
     (require_job_organization_access pool user job can_view_crew_route)
     (db_map (\<lambda>res. case res of
         AddOnUpdated a \<Rightarrow> Answer 200 a
       | InvalidStatus \<Rightarrow> Problem 400 ''invalid_add_on_status''
           ''Add-on status must be scheduled, in_progress, completed, or cancelled.''
       | InvalidTransition \<Rightarrow> Problem 409 ''invalid_add_on_transition''
           ''The requested add-on status transition is not allowed.''
       | AddOnNotFound \<Rightarrow> Problem 404 ''job_add_on_not_found'' ''The requested job add-on was not found.''
       | AddOnUnavailable \<Rightarrow> Problem 503 ''job_add_on_persistence_unavailable''
           ''Job add-on status updates require database persistence.'')
      (repo_update_job_add_on_status pool job add_on status))"

definition handle_list_jobs :: "bool \<Rightarrow> auth_principal \<Rightarrow> (db, job_summary list http_response) db_call" where
  "handle_list_jobs pool user =
     db_bind (principal_active_organization_ids pool (principal_subject user)) (\<lambda>ids. case ids of
         None \<Rightarrow> db_return (refuse (persisted_resource_unavailable_response
           ''organization_memberships_unavailable'' ''Active organization memberships could not be loaded.''))
       | Some visible_ids \<Rightarrow>
           if visible_ids = [] then db_return (Answer 200 [])
           else db_map (\<lambda>res. case res of
               ResourceLoaded jobs \<Rightarrow>
                 Answer 200 (filter (\<lambda>j. js_organization_id j \<in> set visible_ids) jobs)
             | ResourceNotFound \<Rightarrow> Answer 200 []
             | ResourceUnavailable \<Rightarrow> refuse (persisted_resource_unavailable_response ''jobs_unavailable''
                 ''The persisted field schedule could not be loaded.''))
            (repo_list_jobs pool))"

definition handle_get_job :: "bool \<Rightarrow> auth_principal \<Rightarrow> string \<Rightarrow> (db, job_detail http_response) db_call" where
  "handle_get_job pool user job = checked
     (require_job_organization_access pool user job can_view_crew_route)
     (db_map (\<lambda>res. case res of
         ResourceLoaded j \<Rightarrow> Answer 200 j
       | ResourceNotFound \<Rightarrow> refuse (resource_not_found_response ''job_not_found'' ''Job was not found.'')
       | ResourceUnavailable \<Rightarrow> refuse (persisted_resource_unavailable_response ''job_unavailable''
           ''The persisted job detail could not be loaded.''))
      (repo_get_job pool job))"

end
