(* ===== verification/Api_Routes.thy ===== *)
theory Api_Routes
  imports Api_Gate
begin

text \<open>
  The routes of the service (\<open>app_with_runtime\<close> in \<open>backend/src/main.rs\<close>), in the order of the
  router: the methods a path pattern answers. The static pages of the frontend are left out.
\<close>

definition public_api_routes :: "(http_method list \<times> string) list" where
  "public_api_routes =
     [([GET], ''/health''),
      ([GET], ''/health/live''),
      ([GET], ''/auth/config''),
      ([GET, POST], ''/marketing-leads''),
      ([PUT], ''/marketing-leads/{lead_id}''),
      ([POST], ''/marketing-events''),
      ([GET], ''/marketing-dashboard''),
      ([GET], ''/me/access''),
      ([GET], ''/customer-portal/visits''),
      ([GET, POST], ''/customer-portal/visits/{customer_visit_reference}/messages''),
      ([GET], ''/customer-portal/visits/{customer_visit_reference}/proof''),
      ([GET], ''/customer-portal/visits/{customer_visit_reference}/recommendations''),
      ([GET, POST], ''/customer-portal/visits/{customer_visit_reference}/recommendations/{customer_recommendation_reference}'')]"

definition owner_routes :: "(http_method list \<times> string) list" where
  "owner_routes =
     [([GET, PUT], ''/owner-workspace''),
      ([GET, POST], ''/owner-properties''),
      ([GET], ''/owner-properties/{property_id}''),
      ([GET, PUT], ''/owner-properties/{property_id}/yard-brief''),
      ([GET, POST], ''/owner-properties/{property_id}/intake-media''),
      ([DELETE], ''/owner-properties/{property_id}/intake-media/{media_id}''),
      ([POST], ''/owner-properties/{property_id}/intake-media/{media_id}/complete''),
      ([GET, POST], ''/owner-properties/{property_id}/provider-invitations''),
      ([GET], ''/owner-properties/{property_id}/provider-connection-progress''),
      ([GET], ''/owner-properties/{property_id}/provider-disclosure-receipts''),
      ([GET], ''/owner-properties/{property_id}/provider-assessments''),
      ([POST], ''/owner-properties/{property_id}/provider-assessments/{assessment_id}/window-decision''),
      ([GET, POST], ''/owner-properties/{property_id}/provider-assessments/{assessment_id}/messages''),
      ([GET], ''/owner-properties/{property_id}/initial-service-proposals''),
      ([GET], ''/owner-properties/{property_id}/initial-service-proposals/{proposal_id}''),
      ([POST], ''/owner-properties/{property_id}/initial-service-proposals/{proposal_id}/decision''),
      ([GET, POST], ''/owner-properties/{property_id}/initial-service-proposals/{proposal_id}/messages''),
      ([GET, POST], ''/owner-properties/{property_id}/initial-service-proposals/{proposal_id}/activation''),
      ([GET], ''/owner-properties/{property_id}/provider-relationships/{activation_id}/first-visit''),
      ([POST], ''/owner-properties/{property_id}/provider-relationships/{activation_id}/first-visit/decision''),
      ([POST], ''/owner-properties/{property_id}/provider-disclosure-grants/{grant_id}/revoke''),
      ([GET], ''/owner-properties/{property_id}/provider-invitations/{invitation_id}''),
      ([GET], ''/owner-properties/{property_id}/provider-invitations/{invitation_id}/disclosure-review''),
      ([POST], ''/owner-properties/{property_id}/provider-invitations/{invitation_id}/disclosure-grants''),
      ([POST], ''/owner-properties/{property_id}/provider-invitations/{invitation_id}/revoke'')]"

definition provider_routes :: "(http_method list \<times> string) list" where
  "provider_routes =
     [([POST], ''/provider-invitations/opt-out''),
      ([POST], ''/provider-invitations/report''),
      ([POST], ''/provider-invitations/preview''),
      ([POST], ''/provider-invitations/verify-recipient''),
      ([POST], ''/provider-invitations/organization-options''),
      ([POST], ''/provider-invitations/organization-claims''),
      ([POST], ''/provider-invitations/inbox''),
      ([POST], ''/provider-invitations/progress''),
      ([POST], ''/provider-relationships/{activation_id}/first-visit/status''),
      ([POST], ''/provider-relationships/{activation_id}/first-visit/proposal''),
      ([GET, POST], ''/provider-relationships/{activation_id}/service-release''),
      ([POST], ''/provider-service-releases/{release_id}/customer-status''),
      ([GET], ''/provider-customer-visit-threads''),
      ([GET], ''/provider-customer-visit-threads/{customer_visit_reference}''),
      ([POST], ''/provider-customer-visit-threads/{customer_visit_reference}/responses''),
      ([POST], ''/provider-disclosures/access''),
      ([POST], ''/provider-assessments''),
      ([POST], ''/provider-assessments/{assessment_id}/transitions''),
      ([POST], ''/provider-assessments/{assessment_id}/window-proposal''),
      ([POST], ''/provider-assessments/{assessment_id}/messages''),
      ([POST], ''/provider-assessments/{assessment_id}/private-notes''),
      ([POST], ''/provider-assessments/{assessment_id}/initial-service-proposals''),
      ([POST], ''/provider-assessments/{assessment_id}/initial-service-proposal-responses''),
      ([POST], ''/provider-opportunity-responses''),
      ([POST], ''/provider-invitation-organization-claims/{claim_id}/bootstrap''),
      ([POST], ''/provider-invitation-organization-claims/{claim_id}/appeals''),
      ([POST], ''/provider-invitation-organization-claims/{claim_id}/response-capabilities''),
      ([GET], ''/provider-organization-claim-reviews''),
      ([GET], ''/provider-organization-claim-review-metrics''),
      ([POST], ''/provider-organization-claim-reviews/{claim_id}/decisions'')]"

definition customer_account_routes :: "(http_method list \<times> string) list" where
  "customer_account_routes =
     [([GET, POST], ''/customer-accounts''),
      ([GET], ''/customer-accounts/archived''),
      ([PUT, DELETE], ''/customer-accounts/{account_id}''),
      ([POST], ''/customer-accounts/{account_id}/reactivate''),
      ([PUT], ''/customer-accounts/{account_id}/relationship''),
      ([GET], ''/customer-accounts/{account_id}/onboarding-progress''),
      ([GET, POST], ''/customer-accounts/{account_id}/properties''),
      ([PUT], ''/customer-accounts/{account_id}/properties/{property_id}''),
      ([PUT], ''/customer-accounts/{account_id}/properties/{property_id}/identity''),
      ([GET], ''/customer-accounts/{account_id}/properties/{property_id}/activation-readiness''),
      ([POST], ''/organizations/bootstrap''),
      ([GET, PUT], ''/organizations/{organization_id}''),
      ([GET], ''/organizations/{organization_id}/setup-progress''),
      ([GET], ''/health/ready'')]"

definition operations_routes :: "(http_method list \<times> string) list" where
  "operations_routes =
     [([GET], ''/reports/{share_token}''),
      ([GET], ''/shared-bids/{share_token}''),
      ([POST], ''/shared-bids/{share_token}/decision''),
      ([GET], ''/completion-reports''),
      ([GET], ''/notifications''),
      ([GET, POST], ''/operational-exceptions''),
      ([PUT], ''/operational-exceptions/{id}''),
      ([GET], ''/photo-processing-jobs''),
      ([POST], ''/photo-processing-jobs/{id}/retry''),
      ([POST], ''/photo-processing-jobs/{id}/resolve''),
      ([GET], ''/photo-erasure-deletion-jobs''),
      ([POST], ''/photo-erasure-deletion-jobs/{id}/retry''),
      ([POST], ''/photo-erasure-deletion-jobs/{id}/resolve''),
      ([POST], ''/notifications/{id}/retry''),
      ([POST], ''/notifications/{id}/resolve'')]"

definition job_routes :: "(http_method list \<times> string) list" where
  "job_routes =
     [([GET], ''/jobs''),
      ([GET], ''/jobs/{id}''),
      ([PUT], ''/jobs/{id}/dispatch-assignment''),
      ([POST], ''/jobs/{id}/dispatch-customer-notification''),
      ([GET], ''/jobs/{id}/account'')]"

definition organization_routes :: "(http_method list \<times> string) list" where
  "organization_routes =
     [([GET, POST], ''/organizations/{organization_id}/invitations''),
      ([POST], ''/organization-invitations/{token}/accept''),
      ([DELETE], ''/organizations/{organization_id}/invitations/{invitation_id}''),
      ([POST], ''/organizations/{organization_id}/invitations/{invitation_id}/reissue''),
      ([PUT], ''/organizations/{organization_id}/memberships/{membership_id}/role''),
      ([PUT], ''/organizations/{organization_id}/memberships/{membership_id}/profile''),
      ([PUT], ''/organizations/{organization_id}/memberships/{membership_id}/status''),
      ([GET], ''/organizations/{organization_id}/memberships''),
      ([GET], ''/organizations/{organization_id}/workspace-rollout-enrollments''),
      ([PUT], ''/organizations/{organization_id}/memberships/{membership_id}/workspace-rollout''),
      ([GET], ''/organizations/{organization_id}/team-activity''),
      ([GET], ''/operational-activity'')]"

definition account_routes :: "(http_method list \<times> string) list" where
  "account_routes =
     [([GET], ''/accounts/{account_id}/property-portfolios''),
      ([GET], ''/accounts/{account_id}/customer-property-portfolio''),
      ([GET], ''/accounts/{account_id}/bids''),
      ([GET], ''/accounts/{account_id}/privacy-export''),
      ([POST], ''/accounts/{account_id}/photo-erasure''),
      ([POST], ''/property-portfolios''),
      ([POST], ''/property-portfolios/{portfolio_id}/properties''),
      ([GET], ''/properties/{property_id}/completion-reports''),
      ([GET, POST], ''/properties/{property_id}/crew-assignments''),
      ([GET, PUT], ''/properties/{property_id}/onboarding'')]"

definition crew_routes :: "(http_method list \<times> string) list" where
  "crew_routes =
     [([GET], ''/crews''),
      ([GET], ''/organization-branches''),
      ([GET], ''/service-territories''),
      ([POST], ''/organizations/{organization_id}/branches''),
      ([PUT], ''/organizations/{organization_id}/branches/{branch_id}''),
      ([POST], ''/organizations/{organization_id}/territories''),
      ([PUT], ''/organizations/{organization_id}/territories/{territory_id}''),
      ([GET, POST], ''/organizations/{organization_id}/crews''),
      ([PUT], ''/organizations/{organization_id}/crews/{crew_id}''),
      ([GET], ''/crews/{crew_id}/property-assignments/active'')]"

definition report_routes :: "(http_method list \<times> string) list" where
  "report_routes =
     [([GET], ''/jobs/{id}/report''),
      ([POST], ''/completion-reports/{report_id}/review''),
      ([POST], ''/completion-reports/{report_id}/request-changes''),
      ([POST], ''/completion-reports/{report_id}/resubmit''),
      ([POST], ''/completion-reports/{report_id}/deliver''),
      ([POST], ''/completion-reports/{report_id}/delivery-notifications''),
      ([GET], ''/jobs/{id}/add-ons''),
      ([PUT], ''/jobs/{id}/add-ons/{add_on_id}/status''),
      ([POST], ''/jobs/{id}/start''),
      ([POST], ''/jobs/{id}/complete''),
      ([PUT], ''/jobs/{id}/checklist/{item_id}''),
      ([GET], ''/jobs/{id}/photos''),
      ([POST], ''/jobs/{id}/photos/presign''),
      ([POST], ''/jobs/{id}/photos/complete'')]"

definition day_plan_routes :: "(http_method list \<times> string) list" where
  "day_plan_routes =
     [([GET], ''/crews/{crew_id}/day-plan/today''),
      ([POST], ''/day-plans''),
      ([POST], ''/day-plans/{day_plan_id}/publish''),
      ([GET, POST], ''/day-plans/{day_plan_id}/amendments''),
      ([PUT], ''/day-plans/{day_plan_id}/amendments/{amendment_id}/review''),
      ([POST], ''/day-plans/{day_plan_id}/amendments/{amendment_id}/bid''),
      ([GET], ''/day-plans/{day_plan_id}/bids''),
      ([POST], ''/day-plans/{day_plan_id}/bids/{bid_id}/send''),
      ([POST], ''/day-plans/{day_plan_id}/bids/{bid_id}/revise''),
      ([POST], ''/day-plans/{day_plan_id}/bids/{bid_id}/revoke''),
      ([POST], ''/day-plans/{day_plan_id}/bids/{bid_id}/convert''),
      ([POST], ''/day-plans/{day_plan_id}/stops''),
      ([PUT], ''/day-plans/{day_plan_id}/stops/order''),
      ([DELETE], ''/day-plans/{day_plan_id}/stops/{stop_id}''),
      ([POST], ''/day-plans/{day_plan_id}/stops/{stop_id}/status'')]"

definition api_routes :: "(http_method list \<times> string) list" where
  "api_routes = public_api_routes @ owner_routes @ provider_routes @ customer_account_routes @ operations_routes @ job_routes @ organization_routes @ account_routes @ crew_routes @ report_routes @ day_plan_routes"

section \<open>Instances of a pattern\<close>

text \<open>A segment in braces stands for any non-empty segment.\<close>

definition is_parameter :: "string \<Rightarrow> bool" where
  "is_parameter segment = (case segment of [] \<Rightarrow> False | c # _ \<Rightarrow> c = CHR ''{'')"

definition instance_of :: "string \<Rightarrow> string \<Rightarrow> bool" where
  "instance_of pattern path \<longleftrightarrow>
     list_all2 (\<lambda>p s. if is_parameter p then s \<noteq> [] else p = s)
       (split_on CHR ''/'' pattern) (split_on CHR ''/'' path)"

definition static_segments :: "string \<Rightarrow> string list" where
  "static_segments pattern = takeWhile (\<lambda>p. \<not> is_parameter p) (split_on CHR ''/'' pattern)"

definition is_static :: "string \<Rightarrow> bool" where
  "is_static pattern \<longleftrightarrow> list_all (\<lambda>p. \<not> is_parameter p) (split_on CHR ''/'' pattern)"

definition static_prefix :: "string \<Rightarrow> string" where
  "static_prefix pattern = concat (map (\<lambda>s. s @ ''/'') (static_segments pattern))"

lemma join_with_append:
  "ys \<noteq> [] \<Longrightarrow> join_with c (xs @ ys) = concat (map (\<lambda>s. s @ [c]) xs) @ join_with c ys"
proof (induction xs)
  case Nil
  then show ?case by simp
next
  case (Cons x xs)
  then have "xs @ ys \<noteq> []" by simp
  then obtain z zs where "xs @ ys = z # zs" by (cases "xs @ ys") auto
  with Cons show ?case by simp
qed

lemma instance_segments:
  assumes "list_all2 (\<lambda>p s. if is_parameter p then s \<noteq> [] else p = s) ps ss"
  shows "\<exists>rest. ss = takeWhile (\<lambda>p. \<not> is_parameter p) ps @ rest
    \<and> (rest = [] \<longleftrightarrow> list_all (\<lambda>p. \<not> is_parameter p) ps)"
  using assms
proof (induction ps ss rule: list_all2_induct)
  case Nil
  then show ?case by simp
next
  case (Cons p ps s ss)
  then show ?case by (cases "is_parameter p") auto
qed

lemma instance_static: "instance_of pattern path \<Longrightarrow> is_static pattern \<Longrightarrow> path = pattern"
proof -
  assume "instance_of pattern path" and "is_static pattern"
  then have "split_on CHR ''/'' path = split_on CHR ''/'' pattern"
    using instance_segments [of "split_on CHR ''/'' pattern" "split_on CHR ''/'' path"]
    by (auto simp: instance_of_def is_static_def takeWhile_eq_all_conv list_all_iff)
  then show ?thesis by (metis join_split)
qed

lemma instance_prefix:
  assumes "instance_of pattern path" and "\<not> is_static pattern"
  shows "starts_with (static_prefix pattern) path"
proof -
  obtain rest where "split_on CHR ''/'' path = static_segments pattern @ rest" and "rest \<noteq> []"
    using assms instance_segments [of "split_on CHR ''/'' pattern" "split_on CHR ''/'' path"]
    by (auto simp: instance_of_def is_static_def static_segments_def)
  then have "path = static_prefix pattern @ join_with CHR ''/'' rest"
    unfolding static_prefix_def by (metis join_split join_with_append)
  then show ?thesis by (metis starts_with_append)
qed

end
