(* ===== verification/Api_Facts.thy ===== *)
theory Api_Facts
  imports Api_Routes
begin

text \<open>
  What the middleware guarantees: every route of the router is either guarded or one of
  \<open>unauthenticated_operations\<close>; what a principal without a role may do; more roles never take a
  permission away; and what the gate asks of the route-planning paths.
\<close>

section \<open>Paths and prefixes\<close>

lemma starts_with_extend [simp]: "starts_with q pre \<Longrightarrow> starts_with q (pre @ t)"
  by (auto simp: starts_with_iff)

lemma starts_with_both: "starts_with q (pre @ t) \<Longrightarrow> starts_with q pre \<or> starts_with pre q"
proof (induction q pre arbitrary: t rule: starts_with.induct)
  case (2 c p)
  then show ?case by simp
qed auto

lemma protected_below:
  assumes "is_protected_api_path pre" and "last pre = CHR ''/''"
  shows "is_protected_api_path (pre @ t)"
  using assms unfolding is_protected_api_path_def by (elim disjE) simp_all

lemma public_below:
  assumes "is_public_path pre m" and "last pre = CHR ''/''"
  shows "is_public_path (pre @ t) m"
  using assms unfolding is_public_path_def by (elim disjE conjE insertE emptyE) simp_all

text \<open>A necessary condition for a path below a prefix to be public.\<close>

definition could_be_public :: "string \<Rightarrow> http_method \<Rightarrow> bool" where
  "could_be_public pre m \<longleftrightarrow>
     list_ex (starts_with pre) [''/health'', ''/health/live'', ''/health/ready'', ''/auth/config'']
     \<or> (m = POST \<and> list_ex (starts_with pre)
          [''/marketing-leads'', ''/marketing-events'', ''/provider-invitations/preview''])
     \<or> (m = GET \<and> (starts_with ''/reports/'' pre \<or> starts_with pre ''/reports/''))
     \<or> ((m = GET \<or> m = POST) \<and> (starts_with ''/shared-bids/'' pre \<or> starts_with pre ''/shared-bids/''))"

lemma public_below_only: "is_public_path (pre @ t) m \<Longrightarrow> could_be_public pre m"
proof -
  have literal: "starts_with pre q" if "pre @ t = q" for q using that by auto
  show "is_public_path (pre @ t) m \<Longrightarrow> could_be_public pre m"
    unfolding is_public_path_def could_be_public_def
    by (elim disjE conjE insertE emptyE) (auto dest: literal starts_with_both)
qed

definition unauthenticated_operations :: "(http_method \<times> string) list" where
  "unauthenticated_operations =
     [(GET, ''/health''), (GET, ''/health/live''), (GET, ''/health/ready''), (GET, ''/auth/config''),
      (POST, ''/marketing-leads''), (POST, ''/marketing-events''), (POST, ''/provider-invitations/preview''),
      (GET, ''/reports/{share_token}''), (GET, ''/shared-bids/{share_token}''),
      (POST, ''/shared-bids/{share_token}/decision'')]"

definition open_by_design :: "http_method \<Rightarrow> string \<Rightarrow> bool" where
  "open_by_design m pattern \<longleftrightarrow>
     (if is_static pattern then is_public_path pattern m
      else is_public_path (static_prefix pattern) m \<and> last (static_prefix pattern) = CHR ''/'')"

definition guarded :: "http_method \<Rightarrow> string \<Rightarrow> bool" where
  "guarded m pattern \<longleftrightarrow>
     (if is_static pattern then is_protected_api_path pattern \<and> \<not> is_public_path pattern m
      else is_protected_api_path (static_prefix pattern) \<and> last (static_prefix pattern) = CHR ''/''
        \<and> \<not> could_be_public (static_prefix pattern) m)"

lemma open_by_design:
  assumes "open_by_design m pattern" and "instance_of pattern path"
  shows "is_public_path path m"
  using assms instance_static [OF assms(2)] instance_prefix [OF assms(2)] public_below
  by (auto simp: open_by_design_def starts_with_iff split: if_splits)

lemma guarded:
  assumes "guarded m pattern" and "instance_of pattern path"
  shows "is_protected_api_path path \<and> \<not> is_public_path path m"
  using assms instance_static [OF assms(2)] instance_prefix [OF assms(2)] protected_below public_below_only
  by (auto simp: guarded_def starts_with_iff split: if_splits)

definition classified :: "(http_method list \<times> string) \<Rightarrow> bool" where
  "classified r \<longleftrightarrow> list_all (\<lambda>m. if (m, snd r) \<in> set unauthenticated_operations
     then open_by_design m (snd r) else guarded m (snd r)) (fst r)"

lemma public_classified: "list_all classified public_api_routes" by code_simp
lemma owner_classified: "list_all classified owner_routes" by code_simp
lemma provider_classified: "list_all classified provider_routes" by code_simp
lemma customer_account_classified: "list_all classified customer_account_routes" by code_simp
lemma operations_classified: "list_all classified operations_routes" by code_simp
lemma job_classified: "list_all classified job_routes" by code_simp
lemma organization_classified: "list_all classified organization_routes" by code_simp
lemma account_classified: "list_all classified account_routes" by code_simp
lemma crew_classified: "list_all classified crew_routes" by code_simp
lemma report_classified: "list_all classified report_routes" by code_simp
lemma day_plan_classified: "list_all classified day_plan_routes" by code_simp

lemma all_classified: "list_all classified api_routes"
  unfolding api_routes_def
  by (simp only: list_all_append public_classified owner_classified provider_classified
      customer_account_classified operations_classified job_classified organization_classified
      account_classified crew_classified report_classified day_plan_classified simp_thms)

lemma route_unauthenticated_iff:
  assumes "(ms, pattern) \<in> set api_routes" and "m \<in> set ms" and "instance_of pattern path"
  shows "(\<not> is_protected_api_path path \<or> is_public_path path m)
    \<longleftrightarrow> (m, pattern) \<in> set unauthenticated_operations"
proof -
  have "classified (ms, pattern)" using all_classified assms(1) by (auto simp: list_all_iff)
  with assms(2) have "if (m, pattern) \<in> set unauthenticated_operations
     then open_by_design m pattern else guarded m pattern"
    by (simp only: classified_def list_all_iff fst_conv snd_conv) blast
  then show ?thesis
    using open_by_design [OF _ assms(3)] guarded [OF _ assms(3)] by (auto split: if_splits)
qed

section \<open>Principals without roles\<close>

lemma staff_needs_role: "principal_roles user = [] \<Longrightarrow> \<not> authorized_staff user m path"
  by (simp add: authorized_staff_def)

lemma provider_needs_role_or_email:
  assumes "principal_roles user = []" and "principal_verified_email user = None"
  shows "\<not> authorized_provider user m path"
  using staff_needs_role [OF assms(1)] assms by (simp add: authorized_provider_def has_verified_email_def)

lemma recommendations_need_email:
  assumes "principal_verified_email user = None" and "authorized_recommendations user m path = Some b"
  shows "\<not> b"
  using assms by (auto simp: authorized_recommendations_def has_verified_email_def split: option.splits list.splits if_splits)

lemma without_role_or_email:
  assumes "principal_roles user = []" and "principal_verified_email user = None"
  shows "is_authorized user m path \<longleftrightarrow>
     (starts_with ''/organization-invitations/'' path \<and> ends_with ''/accept'' path \<and> m = POST)
     \<or> (path = ''/me/access'' \<and> m = GET)"
proof -
  have "(case authorized_recommendations user m path of Some answer \<Rightarrow> answer
      | None \<Rightarrow> authorized_provider user m path) = False"
    using provider_needs_role_or_email [OF assms]
    by (cases "authorized_recommendations user m path") (auto dest: recommendations_need_email [OF assms(2)])
  moreover have "\<not> starts_with ''/marketing-leads/'' path" and "path \<noteq> ''/marketing-leads''"
    and "path \<noteq> ''/marketing-dashboard''" and "path \<noteq> ''/me/access''"
    if "starts_with ''/organization-invitations/'' path"
    using that by (auto simp: starts_with_iff)
  ultimately show ?thesis
    using assms by (auto simp: is_authorized_def has_verified_email_def)
qed

section \<open>More roles\<close>

definition no_less_trusted :: "auth_principal \<Rightarrow> auth_principal \<Rightarrow> bool" where
  "no_less_trusted p q \<longleftrightarrow> set (principal_roles p) \<subseteq> set (principal_roles q)
     \<and> (has_verified_email p \<longrightarrow> has_verified_email q)"

lemma more_roles: "set xs \<subseteq> set ys \<Longrightarrow> list_ex P xs \<Longrightarrow> list_ex P ys"
  by (auto simp: list_ex_iff)

lemma if_grows: "(A \<longrightarrow> A') \<Longrightarrow> (B \<longrightarrow> B') \<Longrightarrow> (if c then A else B) \<longrightarrow> (if c then A' else B')"
  by simp

lemma and_grows: "(A \<longrightarrow> A') \<Longrightarrow> (B \<longrightarrow> B') \<Longrightarrow> A \<and> B \<longrightarrow> A' \<and> B'"
  by blast

lemma or_grows: "(A \<longrightarrow> A') \<Longrightarrow> (B \<longrightarrow> B') \<Longrightarrow> A \<or> B \<longrightarrow> A' \<or> B'"
  by blast

lemma stays: "A \<longrightarrow> A"
  by simp

lemma staff_monotone:
  assumes "set (principal_roles p) \<subseteq> set (principal_roles q)"
  shows "authorized_staff p m path \<longrightarrow> authorized_staff q m path"
proof -
  note grow = more_roles [OF assms, THEN impI]
  have chain: "(if principal_roles p = [] then False else A) \<longrightarrow> (if principal_roles q = [] then False else B)"
    if "A \<longrightarrow> B" for A B
    using assms that by auto
  show ?thesis
    unfolding authorized_staff_def Let_def
    by (rule chain) (intro if_grows and_grows or_grows stays grow impI more_roles [OF assms]; assumption)
qed


lemma trusted_roles: "no_less_trusted p q \<Longrightarrow> set (principal_roles p) \<subseteq> set (principal_roles q)"
  by (simp add: no_less_trusted_def)

lemma provider_monotone:
  assumes "no_less_trusted p q"
  shows "authorized_provider p m path \<longrightarrow> authorized_provider q m path"
proof -
  have email: "has_verified_email p \<longrightarrow> has_verified_email q"
    and support: "SupportAdmin \<in> set (principal_roles p) \<longrightarrow> SupportAdmin \<in> set (principal_roles q)"
    using assms by (auto simp: no_less_trusted_def)
  note grow = more_roles [OF trusted_roles [OF assms]]
  show ?thesis
    unfolding authorized_provider_def Let_def
    by (intro if_grows and_grows or_grows email support stays staff_monotone [OF trusted_roles [OF assms]] impI grow;
        assumption)
qed

lemma recommendations_monotone:
  assumes "no_less_trusted p q"
  shows "authorized_recommendations p m path = None \<longleftrightarrow> authorized_recommendations q m path = None"
    and "authorized_recommendations p m path = Some True \<longrightarrow> authorized_recommendations q m path = Some True"
  using assms
  by (auto simp: authorized_recommendations_def no_less_trusted_def split: option.splits list.splits)

lemma authorized_monotone:
  assumes "no_less_trusted p q"
  shows "is_authorized p m path \<longrightarrow> is_authorized q m path"
proof -
  have email: "has_verified_email p \<longrightarrow> has_verified_email q"
    and support: "SupportAdmin \<in> set (principal_roles p) \<longrightarrow> SupportAdmin \<in> set (principal_roles q)"
    using assms by (auto simp: no_less_trusted_def)
  have last: "(case authorized_recommendations p m path of Some answer \<Rightarrow> answer
        | None \<Rightarrow> authorized_provider p m path)
      \<longrightarrow> (case authorized_recommendations q m path of Some answer \<Rightarrow> answer
        | None \<Rightarrow> authorized_provider q m path)"
    using recommendations_monotone [OF assms, of m path] provider_monotone [OF assms, of m path]
    by (cases "authorized_recommendations p m path"; cases "authorized_recommendations q m path") auto
  show ?thesis
    unfolding is_authorized_def
    by (intro if_grows and_grows or_grows email support stays last)
qed

section \<open>Route planning\<close>

lemma day_plans_reach_staff:
  assumes "starts_with ''/day-plans/'' path"
  shows "is_authorized user m path = authorized_staff user m path"
proof -
  obtain t where "path = ''/day-plans/'' @ t" using assms by (auto simp: starts_with_iff)
  then show ?thesis
    by (simp add: is_authorized_def authorized_recommendations_def authorized_provider_def)
qed

lemma day_plans_staff:
  assumes "starts_with ''/day-plans/'' path"
  shows "authorized_staff user m path \<longleftrightarrow>
    (if ends_with ''/bids'' path \<or> ends_with ''/bid'' path then list_ex can_manage_schedule (principal_roles user)
     else if ends_with ''/status'' path \<or> ends_with ''/amendments'' path \<or> m = GET
       then list_ex can_view_crew_route (principal_roles user)
     else list_ex can_manage_schedule (principal_roles user))"
proof -
  obtain t where path: "path = ''/day-plans/'' @ t" using assms by (auto simp: starts_with_iff)
  have order: "list_ex can_manage_schedule (principal_roles user) \<Longrightarrow> list_ex can_view_crew_route (principal_roles user)"
    by (auto simp: list_ex_iff intro: schedule_implies_route)
  show ?thesis
    unfolding authorized_staff_def Let_def
    using order by (simp add: path split: if_split) blast
qed


end
