(* ===== verification/Route_System.thy ===== *)
theory Route_System
  imports Route_Handlers Amendment_Facts Idempotent_Facts Api_Facts
begin

text \<open>
  The service as a whole, for the routes, jobs and checklists: a request passes the middleware
  (\<open>require_api_auth\<close>), then its handler. \<open>service_step\<close> is one request, served by any principal, with
  any outages, against any clock and any row order; \<open>reachable\<close> are the databases a run of requests
  and of changes by the other parts of the service leads to.
\<close>

section \<open>Requests\<close>

datatype route_request =
    GetToday string
  | CreateDraft create_day_plan_request
  | PublishPlan string
  | CreateAmendment string create_amendment_request
  | ListAmendments string
  | ReviewAmendment string string review_amendment_request
  | AssignStop string assign_stop_request
  | RemoveStop string string
  | ReorderStops string "string list"
  | ReportProgress string string stop_progress_request
  | StartJob string "string option"
  | CompleteJob string "string option"
  | TickItem string string bool "string option"
  | ListAddOns string
  | SetAddOn string string string
  | GetJob string
  | ListJobs

fun request_method :: "route_request \<Rightarrow> http_method" where
  "request_method (GetToday _) = GET"
| "request_method (CreateDraft _) = POST"
| "request_method (PublishPlan _) = POST"
| "request_method (CreateAmendment _ _) = POST"
| "request_method (ListAmendments _) = GET"
| "request_method (ReviewAmendment _ _ _) = PUT"
| "request_method (AssignStop _ _) = POST"
| "request_method (RemoveStop _ _) = DELETE"
| "request_method (ReorderStops _ _) = PUT"
| "request_method (ReportProgress _ _ _) = POST"
| "request_method (StartJob _ _) = POST"
| "request_method (CompleteJob _ _) = POST"
| "request_method (TickItem _ _ _ _) = PUT"
| "request_method (ListAddOns _) = GET"
| "request_method (SetAddOn _ _ _) = PUT"
| "request_method (GetJob _) = GET"
| "request_method ListJobs = GET"

fun request_path :: "route_request \<Rightarrow> string" where
  "request_path (GetToday crew) = ''/crews/'' @ crew @ ''/day-plan/today''"
| "request_path (CreateDraft _) = ''/day-plans''"
| "request_path (PublishPlan i) = ''/day-plans/'' @ i @ ''/publish''"
| "request_path (CreateAmendment i _) = ''/day-plans/'' @ i @ ''/amendments''"
| "request_path (ListAmendments i) = ''/day-plans/'' @ i @ ''/amendments''"
| "request_path (ReviewAmendment i a _) = ''/day-plans/'' @ i @ ''/amendments/'' @ a @ ''/review''"
| "request_path (AssignStop i _) = ''/day-plans/'' @ i @ ''/stops''"
| "request_path (RemoveStop i s) = ''/day-plans/'' @ i @ ''/stops/'' @ s"
| "request_path (ReorderStops i _) = ''/day-plans/'' @ i @ ''/stops/order''"
| "request_path (ReportProgress i s _) = ''/day-plans/'' @ i @ ''/stops/'' @ s @ ''/status''"
| "request_path (StartJob j _) = ''/jobs/'' @ j @ ''/start''"
| "request_path (CompleteJob j _) = ''/jobs/'' @ j @ ''/complete''"
| "request_path (TickItem j t _ _) = ''/jobs/'' @ j @ ''/checklist/'' @ t"
| "request_path (ListAddOns j) = ''/jobs/'' @ j @ ''/add-ons''"
| "request_path (SetAddOn j a _) = ''/jobs/'' @ j @ ''/add-ons/'' @ a @ ''/status''"
| "request_path (GetJob j) = ''/jobs/'' @ j"
| "request_path ListJobs = ''/jobs''"

fun handle :: "env \<Rightarrow> bool \<Rightarrow> auth_principal \<Rightarrow> route_request \<Rightarrow> (db, nat) db_call" where
  "handle env pool user (GetToday crew) = db_map http_status (handle_today env pool user crew)"
| "handle env pool user (CreateDraft r) = db_map http_status (handle_create_draft env pool user r)"
| "handle env pool user (PublishPlan i) = db_map http_status (handle_publish env pool user i)"
| "handle env pool user (CreateAmendment i r) = db_map http_status (handle_create_amendment env pool user i r)"
| "handle env pool user (ListAmendments i) = db_map http_status (handle_list_amendments pool user i)"
| "handle env pool user (ReviewAmendment i a r) = db_map http_status (handle_review_amendment pool user i a r)"
| "handle env pool user (AssignStop i r) = db_map http_status (handle_assign_stop env pool user i r)"
| "handle env pool user (RemoveStop i s) = db_map http_status (handle_remove_stop env pool user i s)"
| "handle env pool user (ReorderStops i ss) = db_map http_status (handle_reorder_stops env pool user i ss)"
| "handle env pool user (ReportProgress i s r) = db_map http_status (handle_stop_progress env pool user i s r)"
| "handle env pool user (StartJob j h) = db_map http_status (handle_start_job env pool user j h)"
| "handle env pool user (CompleteJob j h) = db_map http_status (handle_complete_job env pool user j h)"
| "handle env pool user (TickItem j t b h) = db_map http_status (handle_checklist_item env pool user j t b h)"
| "handle env pool user (ListAddOns j) = db_map http_status (handle_list_job_add_ons pool user j)"
| "handle env pool user (SetAddOn j a s) = db_map http_status (handle_add_on_status pool user j a s)"
| "handle env pool user (GetJob j) = db_map http_status (handle_get_job pool user j)"
| "handle env pool user ListJobs = db_map http_status (handle_list_jobs pool user)"

text \<open>A handler without a principal cannot extract it: \<open>500\<close>.\<close>

definition serve :: "env \<Rightarrow> 'k auth_backend \<Rightarrow> bool \<Rightarrow> string option \<Rightarrow> route_request \<Rightarrow> (db, nat) db_call" where
  "serve env backend pool authorization r =
     db_bind (require_api_auth backend True pool (request_method r) (request_path r) authorization)
       (\<lambda>decision. case decision of
          RunAs user \<Rightarrow> handle env pool user r
        | Refuse status _ \<Rightarrow> db_return status
        | RunPublic \<Rightarrow> db_return 500)"

section \<open>Runs\<close>

text \<open>Nothing happens to the plans and stops, and nothing they refer to is lost.\<close>

definition elsewhere :: "db \<Rightarrow> db \<Rightarrow> bool" where
  "elsewhere d d' \<longleftrightarrow> day_plans d' = day_plans d \<and> day_plan_stops d' = day_plan_stops d
     \<and> crew_pk ` set (crews d) \<subseteq> crew_pk ` set (crews d')
     \<and> job_pk ` set (service_jobs d) \<subseteq> job_pk ` set (service_jobs d')"

text \<open>
  A change by another part of the service. The only other writer of plans and stops is the conversion of
  a project bid (\<open>convert_to_job_add_ons\<close>), which adds minutes of service to a stop.
\<close>

definition longer_service :: "stop_row \<Rightarrow> stop_row \<Rightarrow> bool" where
  "longer_service s t \<longleftrightarrow> stop_pk t = stop_pk s \<and> stop_plan_id t = stop_plan_id s
     \<and> stop_job_id t = stop_job_id s \<and> stop_order t = stop_order s \<and> stop_status t = stop_status s
     \<and> stop_drive_minutes t = stop_drive_minutes s \<and> stop_service_minutes s \<le> stop_service_minutes t"

definition background_change :: "db \<Rightarrow> db \<Rightarrow> bool" where
  "background_change d d' \<longleftrightarrow> day_plans d' = day_plans d
     \<and> list_all2 longer_service (day_plan_stops d) (day_plan_stops d')
     \<and> crew_pk ` set (crews d) \<subseteq> crew_pk ` set (crews d')
     \<and> job_pk ` set (service_jobs d) \<subseteq> job_pk ` set (service_jobs d')"

inductive service_step :: "'k auth_backend \<Rightarrow> db \<Rightarrow> db \<Rightarrow> bool" for backend where
  request: "scan_ok env \<Longrightarrow> serve env backend pool authorization r (fs, d) = (res, (fs', d'))
    \<Longrightarrow> service_step backend d d'"
| background: "background_change d d' \<Longrightarrow> service_step backend d d'"

inductive reachable :: "'k auth_backend \<Rightarrow> db \<Rightarrow> db \<Rightarrow> bool" for backend d0 where
  start: "reachable backend d0 d0"
| step: "reachable backend d0 d \<Longrightarrow> service_step backend d d' \<Longrightarrow> reachable backend d0 d'"

inductive_cases service_stepE: "service_step backend d d'"

end
