(* ===== verification/Access_Checks.thy ===== *)
theory Access_Checks
  imports Route_System
begin

text \<open>
  Every request is answered: \<open>answering\<close> composes the calls that catch their errors, and gives the
  statuses of \<open>serve\<close>. What the guards of the handlers establish: the interface \<open>access_check\<close>, with the
  three guards of \<open>backend/src/main.rs\<close> as its interpretations.
\<close>

section \<open>Calls that always answer\<close>

named_theorems answering_rules \<open>composition of \<open>answering\<close>\<close>

definition answering :: "('a \<Rightarrow> bool) \<Rightarrow> ('d, 'a) db_call \<Rightarrow> bool" where
  "answering P m \<longleftrightarrow> (\<forall>c. \<exists>a c'. m c = (Inr a, c') \<and> P a)"

lemma answeringD:
  assumes "answering P m"
  obtains a c' where "m c = (Inr a, c')" and "P a"
  using assms unfolding answering_def by blast

lemma answeringD': "answering P m \<Longrightarrow> m c = (Inr a, c') \<Longrightarrow> P a"
  by (metis answeringD prod.inject sum.inject(2))

lemma answering_return [answering_rules]: "P a \<Longrightarrow> answering P (db_return a)"
  by (simp add: answering_def)

lemma answering_bind:
  assumes "answering Q m" and "\<And>a. Q a \<Longrightarrow> answering P (k a)"
  shows "answering P (db_bind m k)"
  unfolding answering_def
proof
  fix c
  obtain a c1 where "m c = (Inr a, c1)" and "Q a" using assms(1) by (rule answeringD)
  moreover obtain b c2 where "k a c1 = (Inr b, c2)" and "P b"
    using assms(2) [OF \<open>Q a\<close>] by (rule answeringD)
  ultimately show "\<exists>a c'. db_bind m k c = (Inr a, c') \<and> P a" by simp
qed

lemma answering_map: "answering (\<lambda>a. P (f a)) m \<Longrightarrow> answering P (db_map f m)"
  unfolding db_map_def by (erule answering_bind) (rule answering_return)

lemma answering_catch [answering_rules]:
  assumes "\<And>e. answering P (h e)" and "\<And>a. answering P (k a)"
  shows "answering P (db_catch m h k)"
  unfolding answering_def
proof
  fix c
  show "\<exists>a c'. db_catch m h k c = (Inr a, c') \<and> P a"
    using assms by (cases "m c"; cases "fst (m c)") (auto simp: answering_def)
qed

lemma answering_if [answering_rules]:
  "(b \<Longrightarrow> answering P m) \<Longrightarrow> (\<not> b \<Longrightarrow> answering P n) \<Longrightarrow> answering P (if b then m else n)"
  by simp

lemma answering_option [answering_rules]:
  "(x = None \<Longrightarrow> answering P m) \<Longrightarrow> (\<And>a. x = Some a \<Longrightarrow> answering P (n a))
    \<Longrightarrow> answering P (case x of None \<Rightarrow> m | Some a \<Rightarrow> n a)"
  by (cases x) simp_all

abbreviation total :: "('d, 'a) db_call \<Rightarrow> bool" where
  "total \<equiv> answering (\<lambda>_. True)"

lemma total_answer [answering_rules]: "total (answer write present)"
  unfolding answer_def refusal_def by (intro answering_rules TrueI)

lemmas repository_operations = repo_organization_id_for_crew_def repo_organization_id_for_day_plan_def
  repo_organization_id_for_job_def repo_list_active_memberships_def today_for_crew_def
  repo_create_amendment_def repo_list_amendments_def repo_update_stop_progress_def or_unavailable_def
  repo_start_job_def repo_complete_job_def repo_update_checklist_item_def repo_list_job_add_ons_def
  repo_update_job_add_on_status_def repo_get_job_def repo_list_jobs_def
  create_draft_day_plan_as_def publish_day_plan_as_def assign_stop_as_def remove_stop_as_def
  reorder_stops_as_def refusal_def Let_def

lemma repository_total:
  "total (repo_organization_id_for_crew pool crew)" "total (repo_organization_id_for_day_plan pool i)"
  "total (repo_organization_id_for_job pool j)" "total (repo_list_active_memberships pool user)"
  "total (today_for_crew env pool crew)" "total (repo_create_amendment env pool i cr)"
  "total (repo_list_amendments pool i)" "total (repo_update_stop_progress env pool i s st mm actor)"
  "total (repo_start_job env pool j mm actor)" "total (repo_complete_job env pool j mm actor)"
  "total (repo_update_checklist_item env pool j t b mm actor)" "total (repo_list_job_add_ons pool j)"
  "total (repo_update_job_add_on_status pool j ao st)" "total (repo_get_job pool j)"
  "total (repo_list_jobs pool)" "total (create_draft_day_plan_as env pool dr actor)"
  "total (publish_day_plan_as env pool i actor)" "total (assign_stop_as env pool i ar actor)"
  "total (remove_stop_as env pool i s actor)" "total (reorder_stops_as env pool i ss actor)"
  unfolding repository_operations by (intro answering_rules TrueI)+

lemma review_total: "repo_review_amendment pool i aid r = Some m \<Longrightarrow> total m"
  by (auto simp: repo_review_amendment_def intro!: answering_rules)

text \<open>The statuses these routes answer with.\<close>

definition answered_statuses :: "nat set" where
  "answered_statuses = {200, 201, 202, 400, 401, 403, 404, 409, 503}"

lemma answered_statuses_simps [simp]:
  "200 \<in> answered_statuses" "201 \<in> answered_statuses" "202 \<in> answered_statuses"
  "400 \<in> answered_statuses" "401 \<in> answered_statuses" "403 \<in> answered_statuses"
  "404 \<in> answered_statuses" "409 \<in> answered_statuses" "503 \<in> answered_statuses"
  by (simp_all add: answered_statuses_def)

definition proper_refusal :: "problem option \<Rightarrow> bool" where
  "proper_refusal p \<longleftrightarrow> (case p of None \<Rightarrow> True | Some q \<Rightarrow> 400 \<le> fst q \<and> fst q \<in> answered_statuses)"

lemma proper_refusal_simps [simp]:
  "proper_refusal None" "proper_refusal (Some q) \<longleftrightarrow> 400 \<le> fst q \<and> fst q \<in> answered_statuses"
  by (simp_all add: proper_refusal_def)

abbreviation well_answered :: "'a http_response \<Rightarrow> bool" where
  "well_answered a \<equiv> http_status a \<in> answered_statuses"

lemma http_status_refuse [simp]: "http_status (refuse p) = fst p"
  by (simp add: refuse_def split: prod.split)

lemma mutation_status [simp]:
  "http_status (mutation_response n a b c res) = (case res of Applied _ \<Rightarrow> n | NotFound \<Rightarrow> 404
     | Conflict \<Rightarrow> 409 | Unavailable \<Rightarrow> 503)"
  by (simp add: mutation_response_def split: persisted_mutation.split)

lemmas refusal_responses = resource_not_found_response_def persisted_resource_unavailable_response_def
  persisted_ownership_unavailable_response_def

lemma answering_checked:
  assumes "answering proper_refusal check" and "answering well_answered handler"
  shows "answering well_answered (checked check handler)"
  unfolding checked_def
  by (rule answering_bind [OF assms(1)])
     (auto intro!: answering_return assms(2) split: option.split)

lemma membership_total: "total (user_has_active_membership pool user org role)"
  unfolding user_has_active_membership_def
  by (rule answering_bind [OF repository_total(4)]) (intro answering_rules TrueI)

lemma answering_membership: "answering proper_refusal (require_organization_membership pool user org role)"
  unfolding require_organization_membership_def
  by (rule answering_bind [OF membership_total])
     (auto intro!: answering_return simp: refusal_responses split: active_membership_check.splits)

lemma answering_access:
  "answering proper_refusal (require_crew_organization_access pool user crew role)"
  "answering proper_refusal (require_day_plan_organization_access pool user i role)"
  "answering proper_refusal (require_job_organization_access pool user j role)"
  unfolding require_crew_organization_access_def require_day_plan_organization_access_def
    require_job_organization_access_def
  by (auto intro!: answering_bind [OF repository_total(1)] answering_bind [OF repository_total(2)]
       answering_bind [OF repository_total(3)] answering_return answering_membership
       simp: refusal_responses split: option.split persisted_read.split resource_ownership.split)

lemma answering_total: "total m \<Longrightarrow> (\<And>a. P a) \<Longrightarrow> answering P m"
  by (auto simp: answering_def)

lemma review_validated: "validate_amendment_review r = Inr u \<Longrightarrow> repo_review_amendment pool i aid r \<noteq> None"
  by (auto simp: validate_amendment_review_def repo_review_amendment_def split: if_splits)

lemma write_replies:
  "well_answered (lifecycle_reply message res)" "well_answered (lifecycle_answer 200 message res)"
  by (simp_all add: lifecycle_reply_def lifecycle_answer_def refusal_responses)

lemma organization_ids_total: "total (principal_active_organization_ids pool user)"
  unfolding principal_active_organization_ids_def principal_active_organization_ids_for_role_def
  by (rule answering_bind [OF repository_total(4)]) (intro answering_rules TrueI)

lemma list_jobs_answers: "answering well_answered (handle_list_jobs pool user)"
  unfolding handle_list_jobs_def
  by (rule answering_bind [OF organization_ids_total])
     (auto intro!: answering_map answering_return repository_total [THEN answering_total]
       simp: refusal_responses split: option.split resource_read.split)

lemma handle_answers:
  "answering (\<lambda>s. s \<in> answered_statuses) (handle env pool user r)"
proof (cases r)
  case (ReviewAmendment i aid rr)
  show ?thesis
    unfolding ReviewAmendment handle.simps handle_review_amendment_def
    by (auto intro!: answering_map answering_return answering_checked answering_access
        answering_total [OF review_total] dest: review_validated split: sum.split option.split persisted_mutation.split)
next
  case ListJobs
  show ?thesis unfolding ListJobs handle.simps by (rule answering_map) (rule list_jobs_answers)
qed (auto simp: handle_today_def handle_create_draft_def handle_publish_def handle_create_amendment_def
  handle_list_amendments_def handle_assign_stop_def handle_remove_stop_def handle_reorder_stops_def
  handle_stop_progress_def handle_start_job_def handle_complete_job_def handle_checklist_item_def
  handle_list_job_add_ons_def handle_add_on_status_def handle_get_job_def refusal_responses write_replies
  invalid_mutation_header_def
  intro!: answering_map answering_return answering_checked answering_access repository_total [THEN answering_total]
    answering_if
  split: sum.split option.split persisted_mutation.split today_result.split persisted_read.split write_result.split
    resource_read.split add_on_update.split)

section \<open>The gate in front of the handlers\<close>

lemma guarded_paths:
  "is_protected_api_path (''/day-plans/'' @ t) \<and> \<not> is_public_path (''/day-plans/'' @ t) m"
  "is_protected_api_path (''/jobs/'' @ t) \<and> \<not> is_public_path (''/jobs/'' @ t) m"
  "is_protected_api_path (''/crews/'' @ t) \<and> \<not> is_public_path (''/crews/'' @ t) m"
  "is_protected_api_path ''/day-plans'' \<and> \<not> is_public_path ''/day-plans'' m"
  "is_protected_api_path ''/jobs'' \<and> \<not> is_public_path ''/jobs'' m"
  by (simp_all add: is_protected_api_path_def is_public_path_def)

lemma request_guarded:
  "is_protected_api_path (request_path r)" "\<not> is_public_path (request_path r) m"
  by (cases r; simp only: request_path.simps guarded_paths simp_thms)+

lemma gate_answers: "answering (\<lambda>d. case d of RunPublic \<Rightarrow> False | RunAs _ \<Rightarrow> True | Refuse s _ \<Rightarrow> s \<in> {401, 403})
    (require_api_auth backend repository pool (request_method r) (request_path r) authorization)"
proof -
  have "total (authenticate backend repository pool authorization)"
    unfolding authenticate_def
    by (auto intro!: answering_return answering_bind [OF repository_total(4)] split: sum.split)
  moreover have "request_method r \<noteq> OPTIONS" by (cases r) simp_all
  ultimately show ?thesis
    by (auto simp: require_api_auth_def request_guarded
        intro!: answering_bind answering_return split: sum.split)
qed

lemma serve_answers: "answering (\<lambda>s. s \<in> answered_statuses) (serve env backend pool authorization r)"
  unfolding serve_def
  by (rule answering_bind [OF gate_answers])
     (auto intro!: answering_return handle_answers split: gate_decision.splits)

section \<open>What an access check establishes\<close>

text \<open>
  A check in front of a handler: it never writes, refuses with an error status, and a request it lets
  through has \<open>granted\<close> on the database it then runs on.
\<close>

locale access_check = read_only_call check for check :: "(db, problem option) db_call" +
  fixes granted :: "db \<Rightarrow> bool"
  assumes passes: "check (fs, d) = (Inr None, c') \<Longrightarrow> granted d"
    and refuses: "check (fs, d) = (Inr (Some p), c') \<Longrightarrow> 400 \<le> fst p"
begin

lemma checked_cases:
  assumes "checked check handler (fs, d) = (res, (fs', d'))"
  obtains (stopped) "d' = d" and "\<And>a. res = Inr a \<Longrightarrow> 400 \<le> http_status a"
  | (through) fs1 where "granted d" and "handler (fs1, d) = (res, (fs', d'))"
proof -
  obtain r1 fs1 d1 where m: "check (fs, d) = (r1, (fs1, d1))" by (metis prod.collapse)
  then have d1: "d1 = d" by (rule state_unchanged)
  show thesis
  proof (cases r1)
    case (Inl e)
    with m d1 assms show thesis by (intro stopped) (simp_all add: checked_def)
  next
    case (Inr po)
    show thesis
    proof (cases po)
      case None
      with m Inr d1 assms show thesis by (intro through [OF passes]) (simp_all add: checked_def)
    next
      case (Some p)
      with m Inr d1 assms refuses show thesis
        by (intro stopped) (auto simp: checked_def db_return_def)
    qed
  qed
qed

lemma effect_granted:
  assumes "checked check handler (fs, d) = (res, (fs', d'))"
    and "d' \<noteq> d \<or> (\<exists>a. res = Inr a \<and> http_status a < 400)"
  shows "granted d"
  using assms(1)
proof (cases rule: checked_cases)
  case stopped
  then show ?thesis using assms(2) by fastforce
qed

end

lemma read_only_catch:
  assumes "read_only_call m" and "\<And>e. read_only_call (h e)" and "\<And>a. read_only_call (k a)"
  shows "read_only_call (db_catch m h k)"
proof
  fix fs d r fs' d'
  assume eq: "db_catch m h k (fs, d) = (r, (fs', d'))"
  obtain r1 fs1 d1 where m: "m (fs, d) = (r1, (fs1, d1))" by (metis prod.collapse)
  with assms(1) have "d1 = d" by (auto simp: read_only_call_def)
  with eq m assms(2,3) show "d' = d" by (cases r1) (auto simp: read_only_call_def)
qed

lemmas read_only_rules = read_only_bind read_only_catch read_only_return

lemma membership_read_only: "read_only_call (require_organization_membership pool user organization role)"
  unfolding require_organization_membership_def user_has_active_membership_def repo_list_active_memberships_def
  by (cases pool; simp only: if_True if_False;
      intro read_only_rules membership_rows.read_only_call_axioms)

lemma membership_passes:
  assumes "require_organization_membership pool user organization role (fs, d) = (Inr None, c')"
  shows "pool \<and> belongs_to d (principal_subject user) organization role"
proof (cases pool)
  case True
  with assms show ?thesis
    unfolding require_organization_membership_def
    by (auto simp: db_return_def elim!: db_bind_InrE dest: user_has_active_membership_answer
        split: active_membership_check.splits)
next
  case False
  with assms show ?thesis
    by (simp add: require_organization_membership_def user_has_active_membership_def
        repo_list_active_memberships_def)
qed

lemma refusal_status:
  assumes "answering proper_refusal check" and "check (fs, d) = (Inr (Some p), c')"
  shows "400 \<le> fst p"
  using answeringD' [OF assms] by simp

definition crew_organization :: "db \<Rightarrow> string \<Rightarrow> string option" where
  "crew_organization d crew = map_option crew_organization_id (find_crew d crew)"

definition job_organization :: "db \<Rightarrow> string \<Rightarrow> string option" where
  "job_organization d job = map_option job_organization_id (find_job d job)"

definition granted_by :: "(db \<Rightarrow> string option) \<Rightarrow> string \<Rightarrow> (access_role \<Rightarrow> bool) \<Rightarrow> db \<Rightarrow> bool" where
  "granted_by owner subject role d \<longleftrightarrow>
     (\<exists>organization. owner d = Some organization \<and> belongs_to d subject organization role)"

lemma owner_found:
  "repo_organization_id_for_crew True crew (fs, d) = (Inr (Loaded (Some org)), c') \<Longrightarrow>
     crew_organization d crew = Some org \<and> snd c' = d"
  "repo_organization_id_for_day_plan True i (fs, d) = (Inr (Loaded (Some org)), c') \<Longrightarrow>
     day_plan_organization d i = Some org \<and> snd c' = d"
  "repo_organization_id_for_job True j (fs, d) = (Inr (OwnerLoaded (Some org)), c') \<Longrightarrow>
     job_organization d j = Some org \<and> snd c' = d"
  by (auto simp: repo_organization_id_for_crew_def repo_organization_id_for_day_plan_def
      repo_organization_id_for_job_def organization_id_for_crew_def organization_id_for_day_plan_def
      organization_id_for_job_def crew_organization_def job_organization_def db_catch_def db_return_def
      db_select_def db_stmt_def split: prod.splits sum.splits if_splits)

lemma owner_read_only:
  "read_only_call (repo_organization_id_for_crew pool crew)"
  "read_only_call (repo_organization_id_for_day_plan pool i)"
  "read_only_call (repo_organization_id_for_job pool j)"
  unfolding repo_organization_id_for_crew_def repo_organization_id_for_day_plan_def
    repo_organization_id_for_job_def
  by (auto intro!: read_only_rules crew_owner.read_only_call_axioms plan_owner.read_only_call_axioms
      job_owner.read_only_call_axioms)

lemma passed_ownership:
  assumes "require_organization_membership pool user org role (fs1, d) = (Inr None, c')"
    and "pool \<Longrightarrow> owner d = Some org"
  shows "granted_by owner (principal_subject user) role d"
  using membership_passes [OF assms(1)] assms(2) by (auto simp: granted_by_def)

interpretation crew_access: access_check "require_crew_organization_access pool user crew role"
    "granted_by (\<lambda>d. crew_organization d crew) (principal_subject user) role" for pool user crew role
proof (intro access_check.intro access_check_axioms.intro)
  show "read_only_call (require_crew_organization_access pool user crew role)"
    unfolding require_crew_organization_access_def
    by (auto intro!: read_only_rules owner_read_only membership_read_only split: persisted_read.split option.split)
  fix fs d c'
  assume "require_crew_organization_access pool user crew role (fs, d) = (Inr None, c')"
  then obtain org fs1 d1 where o: "repo_organization_id_for_crew pool crew (fs, d) = (Inr (Loaded (Some org)), (fs1, d1))"
    and m: "require_organization_membership pool user org role (fs1, d1) = (Inr None, c')"
    unfolding require_crew_organization_access_def
    by (elim db_bind_InrE) (auto simp: db_return_def split: persisted_read.splits option.splits)
  have d1: "d1 = d" using owner_read_only(1) o by (auto simp: read_only_call_def)
  show "granted_by (\<lambda>d. crew_organization d crew) (principal_subject user) role d"
    by (rule passed_ownership [OF m [unfolded d1]]) (use o owner_found(1) in \<open>cases pool; fastforce\<close>)
qed (rule refusal_status [OF answering_access(1)])

interpretation plan_access: access_check "require_day_plan_organization_access pool user i role"
    "granted_by (\<lambda>d. day_plan_organization d i) (principal_subject user) role" for pool user i role
proof (intro access_check.intro access_check_axioms.intro)
  show "read_only_call (require_day_plan_organization_access pool user i role)"
    unfolding require_day_plan_organization_access_def
    by (auto intro!: read_only_rules owner_read_only membership_read_only split: persisted_read.split option.split)
  fix fs d c'
  assume "require_day_plan_organization_access pool user i role (fs, d) = (Inr None, c')"
  then obtain org fs1 d1 where o: "repo_organization_id_for_day_plan pool i (fs, d) = (Inr (Loaded (Some org)), (fs1, d1))"
    and m: "require_organization_membership pool user org role (fs1, d1) = (Inr None, c')"
    unfolding require_day_plan_organization_access_def
    by (elim db_bind_InrE) (auto simp: db_return_def split: persisted_read.splits option.splits)
  have d1: "d1 = d" using owner_read_only(2) o by (auto simp: read_only_call_def)
  show "granted_by (\<lambda>d. day_plan_organization d i) (principal_subject user) role d"
    by (rule passed_ownership [OF m [unfolded d1]]) (use o owner_found(2) in \<open>cases pool; fastforce\<close>)
qed (rule refusal_status [OF answering_access(2)])

interpretation job_access: access_check "require_job_organization_access pool user j role"
    "granted_by (\<lambda>d. job_organization d j) (principal_subject user) role" for pool user j role
proof (intro access_check.intro access_check_axioms.intro)
  show "read_only_call (require_job_organization_access pool user j role)"
    unfolding require_job_organization_access_def
    by (auto intro!: read_only_rules owner_read_only membership_read_only split: resource_ownership.split option.split)
  fix fs d c'
  assume "require_job_organization_access pool user j role (fs, d) = (Inr None, c')"
  then obtain org fs1 d1 where o: "repo_organization_id_for_job pool j (fs, d) = (Inr (OwnerLoaded (Some org)), (fs1, d1))"
    and m: "require_organization_membership pool user org role (fs1, d1) = (Inr None, c')"
    unfolding require_job_organization_access_def
    by (elim db_bind_InrE) (auto simp: db_return_def split: resource_ownership.splits option.splits)
  have d1: "d1 = d" using owner_read_only(3) o by (auto simp: read_only_call_def)
  show "granted_by (\<lambda>d. job_organization d j) (principal_subject user) role d"
    by (rule passed_ownership [OF m [unfolded d1]]) (use o owner_found(3) in \<open>cases pool; fastforce\<close>)
qed (rule refusal_status [OF answering_access(3)])

end
