(* ===== verification/Route_Frame.thy ===== *)
theory Route_Frame
  imports Access_Checks
begin

text \<open>
  What a request leaves alone: \<open>elsewhere\<close> (no plan and no stop changes) for jobs, checklists, add-ons
  and amendments; \<open>confined i\<close> (only the plan \<open>i\<close>, and the invariants \<open>route_ok\<close> and \<open>frozen\<close> are
  kept) for route planning and progress; and from these every handler and \<open>serve\<close>.
\<close>

section \<open>What an operation leaves alone\<close>

lemma elsewhere_refl [simp]: "reflp elsewhere"
  by (simp add: reflp_def elsewhere_def)

lemma elsewhere_trans [simp]: "transp elsewhere"
  unfolding transp_def elsewhere_def by (metis subset_trans)

text \<open>Nothing but the plan \<open>i\<close> and its stops.\<close>

definition confined :: "string \<Rightarrow> db \<Rightarrow> db \<Rightarrow> bool" where
  "confined i d d' \<longleftrightarrow> route_keeps d d' \<and> (route_ok d \<longrightarrow> (\<forall>j. j \<noteq> i \<longrightarrow>
     find_plan d' j = find_plan d j \<and> stops_of d' j = stops_of d j))"

lemma confined_keeps: "confined i d d' \<Longrightarrow> route_keeps d d'"
  by (simp add: confined_def)

lemma confined_refl [simp]: "reflp (confined i)"
  by (simp add: reflp_def confined_def route_keeps_def)

lemma confined_trans [simp]: "transp (confined i)"
  unfolding transp_def confined_def
  by (metis route_keeps_def route_keeps_trans transpD)

lemma elsewhere_confined:
  assumes "elsewhere d d'"
  shows "confined i d d'"
  using assms
  by (auto simp: confined_def elsewhere_def route_keeps_def route_defs frozen_def list_all_iff plan_ok_def
      stop_ok_def stops_of_def find_plan_def)

lemma keeps_weaken: "keeps R m \<Longrightarrow> (\<And>d d'. R d d' \<Longrightarrow> S d d') \<Longrightarrow> keeps S m"
  by (auto simp: keeps_def)

section \<open>Jobs, checklists, add-ons and amendments\<close>

lemma elsewhere_tables:
  assumes "day_plans d' = day_plans d" and "day_plan_stops d' = day_plan_stops d" and "crews d' = crews d"
    and "map job_pk (service_jobs d') = map job_pk (service_jobs d)"
  shows "elsewhere d d'"
  using assms by (auto simp: elsewhere_def dest: arg_cong [where f = set])

lemma job_statements_elsewhere:
  "claim_job env i action cm actor d = Inr (b, d') \<Longrightarrow> elsewhere d d'"
  "find_job_mutation env cm d = Inr (m, d') \<Longrightarrow> elsewhere d d'"
  "tick_items hit d = Inr (n, d') \<Longrightarrow> elsewhere d d'"
  "claim_item env i t bt cm actor d = Inr (b, d') \<Longrightarrow> elsewhere d d'"
  "find_item_mutation env cm d = Inr (im, d') \<Longrightarrow> elsewhere d d'"
  "set_item i t bt d = Inr (n, d') \<Longrightarrow> elsewhere d d'"
  "recount_items env i d = Inr (n, d') \<Longrightarrow> elsewhere d d'"
  "set_add_on_status i ao st d = Inr (n, d') \<Longrightarrow> elsewhere d d'"
  by (auto intro!: elsewhere_tables simp: claim_job_def find_job_mutation_def tick_items_def claim_item_def
      find_item_mutation_def set_item_def recount_items_def set_job_def set_add_on_status_def Let_def update_where_def
      split: option.splits if_splits)

lemma set_job_keeps:
  "keeps elsewhere (db_stmt (set_job i (started_job env)))" "keeps elsewhere (db_stmt (set_job i (completed_job env)))"
  by (auto intro!: keeps_stmt elsewhere_tables simp: set_job_def update_where_def started_job_def completed_job_def)

lemma keeps_job_statements:
  "keeps elsewhere (db_stmt (claim_job env i action cm actor))" "keeps elsewhere (db_stmt (find_job_mutation env cm))"
  "keeps elsewhere (db_stmt (tick_items hit))" "keeps elsewhere (db_stmt (claim_item env i t bt cm actor))"
  "keeps elsewhere (db_stmt (find_item_mutation env cm))" "keeps elsewhere (db_stmt (set_item i t bt))"
  "keeps elsewhere (db_stmt (recount_items env i))" "keeps elsewhere (db_stmt (set_add_on_status i ao st))"
  by (auto intro!: keeps_stmt dest: job_statements_elsewhere)

lemmas elsewhere_rules = set_job_keeps keeps_job_statements elsewhere_refl elsewhere_trans keeps_rules

lemma job_operations_elsewhere:
  "keeps elsewhere (repo_start_job env pool i mm actor)" "keeps elsewhere (repo_complete_job env pool i mm actor)"
  "keeps elsewhere (repo_update_checklist_item env pool i t bt mm actor)"
  "keeps elsewhere (repo_update_job_add_on_status pool i ao st)"
  unfolding repo_start_job_def repo_complete_job_def repo_update_checklist_item_def or_unavailable_def
    start_job_def complete_job_def lifecycle_transaction_def claim_job_lifecycle_mutation_def
    update_checklist_item_def repo_update_job_add_on_status_def get_job_add_on_def
    update_job_add_on_status_def with_claim_def Let_def
  by (intro elsewhere_rules)+

lemma amendment_statements_elsewhere:
  "insert_amendment env a d = Inr (n, d') \<Longrightarrow> elsewhere d d'"
  "review_statement i aid st note d = Inr (r, d') \<Longrightarrow> elsewhere d d'"
  by (auto elim: insert_amendment_Inr review_statement_Inr intro!: elsewhere_tables)

lemma amendment_operations_elsewhere:
  "keeps elsewhere (repo_create_amendment env pool i r)"
  "repo_review_amendment pool i aid rr = Some m \<Longrightarrow> keeps elsewhere m"
  unfolding repo_create_amendment_def create_amendment_def list_amendments_def Let_def
    repo_review_amendment_def review_amendment_def
  by (auto intro!: keeps_rules dest: amendment_statements_elsewhere)

section \<open>Progress\<close>

lemma set_stop_status_confined:
  assumes "set_stop_status env i sid status d = Inr (n, d')"
  shows "confined i d d'"
proof (cases "n = 0 \<or> \<not> route_ok d")
  case True
  with assms show ?thesis
    by (auto simp: set_stop_status_def Let_def confined_def route_keeps_def split: if_splits)
next
  case False
  then have ok: "route_ok d" by simp
  let ?f = "\<lambda>s. s\<lparr> stop_status := status, stop_updated_at := now_at env \<rparr>"
  let ?hit = "\<lambda>s. stop_plan_id s = i \<and> stop_pk s = sid"
  have d': "d' = d\<lparr> day_plan_stops := update_where ?hit ?f (day_plan_stops d) \<rparr>"
    and st: "status \<in> {''pending'', ''in_progress'', ''finished''}"
    using assms False by (auto simp: set_stop_status_def Let_def split: if_splits)
  have of: "stops_of d' j = update_where ?hit ?f (stops_of d j)" for j
    by (auto simp: d' stops_of_def update_where_def filter_map comp_def intro!: map_cong filter_cong)
  have parts: "map stop_plan_part (stops_of d' j) = map stop_plan_part (stops_of d j)" for j
    unfolding of by (intro map_update_where) (simp add: stop_plan_part_def)
  have keys: "map stop_pk (day_plan_stops d') = map stop_pk (day_plan_stops d)"
    "map (\<lambda>s. (stop_pk s, stop_plan_id s, stop_order s, stop_job_id s)) (day_plan_stops d')
      = map (\<lambda>s. (stop_pk s, stop_plan_id s, stop_order s, stop_job_id s)) (day_plan_stops d)"
    unfolding d' by (auto intro!: map_update_where)
  have load: "workload (stops_of d' j) = workload (stops_of d j)"
    "stops_of d' j = [] \<longleftrightarrow> stops_of d j = []" for j
    unfolding of by (simp_all add: workload_def map_update_where flip: length_0_conv)
  have "route_ok d'"
    using ok keys(1) clash_free_keys [OF keys(2)] load st
    by (auto simp: route_defs list_all_iff d' plan_ok_def stop_ok_def set_update_where)
  moreover have "frozen d d'" using parts by (simp add: frozen_def d')
  moreover have "stops_of d' j = stops_of d j" if "j \<noteq> i" for j
    unfolding of using that by (intro update_where_none) (auto simp: stops_of_def)
  ultimately show ?thesis by (auto simp: confined_def route_keeps_def d' find_plan_def)
qed

lemma claim_stop_elsewhere: "claim_stop env i sid st cm actor d = Inr (b, d') \<Longrightarrow> elsewhere d d'"
  by (auto intro!: elsewhere_tables simp: claim_stop_def split: option.splits if_splits)

lemma find_stop_elsewhere: "find_stop_mutation env cm d = Inr (m, d') \<Longrightarrow> elsewhere d d'"
  by (auto intro!: elsewhere_tables simp: find_stop_mutation_def split: option.splits)

lemma progress_confined: "keeps (confined i) (repo_update_stop_progress env pool i sid st mm actor)"
  unfolding repo_update_stop_progress_def or_unavailable_def update_stop_progress_def with_claim_def
  by (intro keeps_rules confined_refl confined_trans)
     (auto intro: elsewhere_confined set_stop_status_confined dest: claim_stop_elsewhere find_stop_elsewhere)

section \<open>Route planning\<close>

lemma confinedI:
  assumes "route_keeps d d'" and "\<And>j. route_ok d \<Longrightarrow> j \<noteq> i \<Longrightarrow>
    find_plan d' j = find_plan d j \<and> stops_of d' j = stops_of d j"
  shows "confined i d d'"
  using assms by (simp add: confined_def)

lemma find_plan_update_other:
  assumes "plan_pk row = i" and "j \<noteq> i"
  shows "find_plan (d\<lparr> day_plans := update_where (\<lambda>q. plan_pk q = i) (\<lambda>_. row) (day_plans d) \<rparr>) j = find_plan d j"
proof -
  have "lookup_by (\<lambda>p. plan_pk p = j) (update_where (\<lambda>q. plan_pk q = i) (\<lambda>_. row) ps)
      = lookup_by (\<lambda>p. plan_pk p = j) ps" for ps
    using assms by (induction ps) (auto simp: lookup_by_def)
  then show ?thesis by (simp add: find_plan_def)
qed

lemma find_plan_append_other: "plan_pk row \<noteq> j \<Longrightarrow>
    find_plan (d\<lparr> day_plans := day_plans d @ [row] \<rparr>) j = find_plan d j"
  by (simp add: find_plan_def lookup_append split: option.split)

lemma upsert_confined:
  assumes "upsert_draft env i crew date d = Inr (r, d')"
  shows "confined i d d'"
proof (rule confinedI [OF upsert_draft_keeps [OF assms]])
  fix j assume j: "j \<noteq> i"
  show "find_plan d' j = find_plan d j \<and> stops_of d' j = stops_of d j"
  proof (cases r)
    case None
    then show ?thesis using assms by (auto simp: upsert_draft_def Let_def split: option.splits if_splits)
  next
    case (Some row)
    have pk: "plan_pk row = i"
      and "d' = d\<lparr> day_plans := day_plans d @ [row] \<rparr>
        \<or> d' = d\<lparr> day_plans := update_where (\<lambda>q. plan_pk q = i) (\<lambda>_. row) (day_plans d) \<rparr>"
      using assms Some by (auto simp: upsert_draft_def Let_def split: option.splits if_splits)
    then show ?thesis
      using j find_plan_update_other [OF pk j] find_plan_append_other [of row j d] by (auto simp: stops_of_def)
  qed
qed

lemma publish_confined:
  assumes "publish_statement env i d = Inr (r, d')"
  shows "confined i d d'"
proof (rule confinedI [OF publish_keeps [OF assms]])
  fix j assume j: "j \<noteq> i"
  show "find_plan d' j = find_plan d j \<and> stops_of d' j = stops_of d j"
  proof (cases r)
    case None
    then show ?thesis using assms by (auto simp: publish_statement_def Let_def split: option.splits if_splits)
  next
    case (Some row)
    have pk: "plan_pk row = i"
      and d': "d' = d\<lparr> day_plans := update_where (\<lambda>q. plan_pk q = i) (\<lambda>_. row) (day_plans d) \<rparr>"
      using assms Some
      by (auto simp: publish_statement_def Let_def split: option.splits if_splits dest: lookup_by_Some)
    show ?thesis using find_plan_update_other [OF pk j] by (simp add: d' stops_of_def)
  qed
qed

lemma assign_confined:
  assumes "assign_statement env i sid r d = Inr (res, d')"
  shows "confined i d d'"
proof (rule confinedI [OF assign_keeps [OF assms]])
  fix j assume ok: "route_ok d" and j: "j \<noteq> i"
  from assms show "find_plan d' j = find_plan d j \<and> stops_of d' j = stops_of d j"
  proof (cases rule: assign_statement_cases)
    case (revised p old)
    have "stop_plan_id s = i" if "s \<in> set (day_plan_stops d)" "stop_pk s = stop_pk old" for s
      using stop_unique [OF route_okD(2) [OF ok] that(1) _ that(2)] revised(4) by (auto simp: stops_of_def)
    then have "stops_of d' j = stops_of d j"
      unfolding revised(7) using j revised(4)
      by (simp add: stops_of_def revised_stop_def) (rule filter_update_where_other, auto)
    then show ?thesis by (simp add: revised(7) find_plan_def)
  next
    case (inserted p row)
    then show ?thesis using j by (simp add: find_plan_def stops_of_def new_stop_def)
  qed simp
qed

lemma delete_stop_confined:
  assumes "delete_stop_statement i sid d = Inr (n, d')"
  shows "confined i d d'"
proof (rule confinedI [OF delete_stop_keeps [OF assms]])
  fix j assume j: "j \<noteq> i"
  let ?hit = "\<lambda>s. stop_plan_id s = i \<and> stop_pk s = sid \<and> is_draft d i"
  have "d' = d \<or> day_plans d' = day_plans d \<and> day_plan_stops d' = delete_where ?hit (day_plan_stops d)"
    using assms by (simp add: delete_stop_statement_def Let_def split: if_splits) auto
  moreover have "filter (\<lambda>s. stop_plan_id s = j) (delete_where ?hit rows) = filter (\<lambda>s. stop_plan_id s = j) rows" for rows
    using j by (auto simp: delete_where_def intro!: filter_cong)
  ultimately show "find_plan d' j = find_plan d j \<and> stops_of d' j = stops_of d j"
    by (auto simp: find_plan_def stops_of_def)
qed

lemma order_update_confined:
  assumes ok: "route_ok d" and draft: "is_draft d i" and scan: "scan_ok env"
    and up: "update_each stop_pk stop_clash f (scan_stops env (filter Q (stops_of d i))) (day_plan_stops d) = Inr rows"
    and f: "\<And>s. stop_pk (f s) = stop_pk s \<and> stop_plan_id (f s) = stop_plan_id s
      \<and> stop_job_id (f s) = stop_job_id s \<and> stop_status (f s) = stop_status s"
  shows "confined i d (d\<lparr> day_plan_stops := rows \<rparr>)"
proof (rule confinedI)
  note eff = order_update [OF ok draft scan refl up f]
  show "route_keeps d (d\<lparr> day_plan_stops := rows \<rparr>)" by (rule eff(2))
  fix j assume "j \<noteq> i"
  then show "find_plan (d\<lparr> day_plan_stops := rows \<rparr>) j = find_plan d j
      \<and> stops_of (d\<lparr> day_plan_stops := rows \<rparr>) j = stops_of d j"
    unfolding eff(1) using f by (auto simp: find_plan_def stops_of_def intro!: filter_update_where_other)
qed

lemma unordered_confined: "\<not> route_ok d \<Longrightarrow> confined i d d'"
  by (simp add: confined_def route_keeps_def)

lemma renumber_confined:
  assumes "renumber_statement env i d = Inr (n, d')" and "is_draft d i" and "scan_ok env"
  shows "confined i d d'"
  using assms order_update_confined [where Q = "\<lambda>_. True", OF _ assms(2,3)] unordered_confined
  by (cases "route_ok d") (auto simp: renumber_statement_def Let_def split: sum.splits)

lemma shift_confined:
  assumes "shift_statement env i d = Inr (n, d')" and "is_draft d i" and "scan_ok env"
  shows "confined i d d'"
  using assms order_update_confined [where Q = "\<lambda>_. True", OF _ assms(2,3)] unordered_confined
  by (cases "route_ok d") (auto simp: shift_statement_def Let_def split: sum.splits if_splits)

lemma apply_order_confined:
  assumes "apply_order_statement env i sids d = Inr (n, d')" and "is_draft d i" and "scan_ok env"
  shows "confined i d d'"
  using assms order_update_confined [OF _ assms(2,3)] unordered_confined
  by (cases "route_ok d") (auto simp: apply_order_statement_def Let_def split: sum.splits)

text \<open>The transactions.\<close>

lemma audit_confined [keeps_rules]: "keeps (confined i) (insert_route_audit_event env j actor k s jb n)"
  unfolding insert_route_audit_event_def
  by (intro keeps_rules confined_refl)
     (auto split: option.splits dest!: append_audit_Inr intro!: elsewhere_confined elsewhere_tables)

lemma audit_Inr_confined:
  "insert_route_audit_event env j actor k s jb n (fs, d) = (Inr u, (fs', d')) \<Longrightarrow> confined i d d'"
  by (rule keepsD [OF audit_confined])

lemma create_draft_confined [keeps_rules]: "keeps (confined i) (create_draft_day_plan env i crew date actor)"
  unfolding create_draft_day_plan_def
  by (intro keeps_rules confined_refl confined_trans) (rule upsert_confined)

lemma publish_day_plan_confined [keeps_rules]: "keeps (confined i) (publish_day_plan env i actor)"
  unfolding publish_day_plan_def
  by (intro keeps_rules confined_refl confined_trans) (rule publish_confined)

lemma assign_stop_confined [keeps_rules]: "keeps (confined i) (assign_stop env i sid r actor)"
  unfolding assign_stop_def
  by (intro keeps_rules confined_refl confined_trans) (rule assign_confined)

lemma confined_chain: "confined i d d1 \<Longrightarrow> confined i d1 d2 \<Longrightarrow> confined i d d2"
  by (metis confined_trans transpD)

lemma remove_stop_confined [keeps_rules]:
  assumes "scan_ok env"
  shows "keeps (confined i) (remove_stop env i sid actor)"
  unfolding remove_stop_def
proof (rule keeps_transaction_commit [OF confined_refl], goal_cases)
  case (1 fs d b fs1 d1)
  then show ?case
  proof (cases rule: remove_commit)
    case (none n)
    then show ?thesis by (intro delete_stop_confined)
  next
    case (removed d2 m d3 fs2 fs3 u)
    have "is_draft d2 i" using delete_stop_draft [OF removed(1)] by simp
    from delete_stop_confined [OF removed(1)] renumber_confined [OF removed(2) this assms]
      audit_Inr_confined [OF removed(3)]
    show ?thesis by (metis confined_chain)
  qed
qed

lemma reorder_stops_confined [keeps_rules]:
  assumes "scan_ok env"
  shows "keeps (confined i) (reorder_stops env i sids actor)"
  unfolding reorder_stops_def
proof (intro keeps_if keeps_return confined_refl)
  assume "sids \<noteq> []"
  show "keeps (confined i) (db_transaction (reorder_body env i sids actor))"
  proof (rule keeps_transaction_commit [OF confined_refl])
    fix fs d b fs1 d1
    assume "reorder_body env i sids actor (fs, d) = (Inr (Commit b), (fs1, d1))"
    from this \<open>sids \<noteq> []\<close> show "confined i d d1"
    proof (cases rule: reorder_commit)
      case count
      then show ?thesis by (simp add: reflpD)
    next
      case (reordered d2 d3 m n fs2 fs3 u)
      have draft2: "is_draft d2 i"
        using reordered(1) shift_same_plans [OF reordered(3)] by (simp add: is_draft_def)
      have "confined i d3 d1"
        using reordered(6) by (auto intro: audit_Inr_confined simp: reflpD split: if_splits)
      with shift_confined [OF reordered(3,1) assms] apply_order_confined [OF reordered(4) draft2 assms]
      show ?thesis by (metis confined_chain)
    qed
  qed
qed

lemma route_operations_confined:
  "keeps (confined i) (publish_day_plan_as env pool i actor)"
  "keeps (confined i) (assign_stop_as env pool i ar actor)"
  "scan_ok env \<Longrightarrow> keeps (confined i) (remove_stop_as env pool i s actor)"
  "scan_ok env \<Longrightarrow> keeps (confined i) (reorder_stops_as env pool i ss actor)"
  unfolding publish_day_plan_as_def assign_stop_as_def remove_stop_as_def reorder_stops_as_def
    answer_def refusal_def Let_def
  by (intro keeps_rules confined_refl confined_trans | assumption)+

lemma create_operation_confined:
  "keeps (confined (draft_day_plan_id (trim (req_crew_id r)) (trim (req_service_date r))))
     (create_draft_day_plan_as env pool r actor)"
  unfolding create_draft_day_plan_as_def answer_def refusal_def Let_def
  by (cases pool; simp only: normalize_create_day_plan_request_def simp_thms if_True if_False
      create_day_plan_request.simps; intro keeps_rules confined_refl confined_trans)

end
