(* ===== verification/System_Facts.thy ===== *)
theory System_Facts
  imports Route_Frame
begin

text \<open>
  The handlers and \<open>serve\<close>: what each request leaves alone (\<open>serve_leaves_alone\<close>), and that a request
  which changes something or is answered with success ran for a member of the organization that owns
  what it names, with the role the operation asks for (\<open>serve_granted\<close>).
\<close>

section \<open>Handlers\<close>

lemma read_only_keeps: "read_only_call m \<Longrightarrow> reflp R \<Longrightarrow> keeps R m"
  unfolding keeps_def read_only_call_def by (metis reflpD)

context access_check
begin

lemma keeps_checked: "reflp R \<Longrightarrow> transp R \<Longrightarrow> keeps R handler \<Longrightarrow> keeps R (checked check handler)"
  unfolding checked_def
  by (intro keeps_bind read_only_keeps [OF read_only_call_axioms])
     (auto intro: keeps_return split: option.split)

lemma answered_granted:
  assumes "db_map http_status (checked check handler) (fs, d) = (res, (fs', d'))"
    and "d' \<noteq> d \<or> (\<exists>s. res = Inr s \<and> s < 400)"
  shows "granted d"
proof -
  obtain r1 where m: "checked check handler (fs, d) = (r1, (fs', d'))"
    and res: "\<And>s. res = Inr s \<Longrightarrow> \<exists>a. r1 = Inr a \<and> s = http_status a"
    using assms(1) by (auto simp: db_map_def db_bind_def db_return_def split: prod.splits sum.splits)
  from assms(2) res show ?thesis by (intro effect_granted [OF m]) blast
qed

end

text \<open>The plan a request may change.\<close>

fun request_plan :: "route_request \<Rightarrow> string option" where
  "request_plan (CreateDraft r) = Some (draft_day_plan_id (trim (req_crew_id r)) (trim (req_service_date r)))"
| "request_plan (PublishPlan i) = Some i"
| "request_plan (AssignStop i _) = Some i"
| "request_plan (RemoveStop i _) = Some i"
| "request_plan (ReorderStops i _) = Some i"
| "request_plan (ReportProgress i _ _) = Some i"
| "request_plan _ = None"

definition leaves_alone :: "route_request \<Rightarrow> db \<Rightarrow> db \<Rightarrow> bool" where
  "leaves_alone r d d' \<longleftrightarrow> (case request_plan r of Some i \<Rightarrow> confined i d d' | None \<Rightarrow> elsewhere d d')"

lemma leaves_alone_refl [simp]: "reflp (leaves_alone r)"
  by (cases "request_plan r") (simp_all add: leaves_alone_def [abs_def])

lemma leaves_alone_trans [simp]: "transp (leaves_alone r)"
  by (cases "request_plan r") (simp_all add: leaves_alone_def [abs_def])

lemma leaves_alone_keeps: "leaves_alone r d d' \<Longrightarrow> route_keeps d d'"
  by (cases "request_plan r")
     (auto simp: leaves_alone_def intro: confined_keeps elsewhere_confined [THEN confined_keeps])

lemmas handler_defs = handle_today_def handle_create_draft_def handle_publish_def handle_create_amendment_def
  handle_list_amendments_def handle_review_amendment_def handle_assign_stop_def handle_remove_stop_def
  handle_reorder_stops_def handle_stop_progress_def handle_start_job_def handle_complete_job_def
  handle_checklist_item_def handle_list_job_add_ons_def handle_add_on_status_def handle_get_job_def

lemma read_only_stmt: "(\<And>d a d'. f d = Inr (a, d') \<Longrightarrow> d' = d) \<Longrightarrow> read_only_call (db_stmt f)"
  by (auto simp: read_only_call_def db_stmt_def split: if_splits sum.splits)

lemma today_read_only: "read_only_call (db_stmt (today_statement env crew))"
  by (rule read_only_stmt) (auto simp: today_statement_def Let_def split: option.splits if_splits)

lemma read_only_if: "read_only_call m \<Longrightarrow> read_only_call n \<Longrightarrow> read_only_call (if b then m else n)"
  by simp

lemma read_operations:
  "read_only_call (today_for_crew env pool crew)" "read_only_call (repo_list_amendments pool i)"
  "read_only_call (repo_list_job_add_ons pool j)" "read_only_call (repo_get_job pool j)"
  "read_only_call (repo_list_jobs pool)" "read_only_call (repo_list_active_memberships pool user)"
  unfolding today_for_crew_def repo_list_amendments_def repo_list_job_add_ons_def repo_get_job_def
    repo_list_jobs_def repo_list_active_memberships_def list_amendments_def list_job_add_ons_def
  by (intro read_only_if read_only_rules today_read_only read_only_select job_read.read_only_call_axioms
      job_list.read_only_call_axioms membership_rows.read_only_call_axioms)+

lemma list_jobs_read_only: "read_only_call (handle_list_jobs pool user)"
  unfolding handle_list_jobs_def principal_active_organization_ids_def
    principal_active_organization_ids_for_role_def db_map_def
  by (auto intro!: read_only_rules read_operations split: option.split)

lemmas frame_rules = keeps_map crew_access.keeps_checked plan_access.keeps_checked job_access.keeps_checked
  keeps_return keeps_if

lemma handle_leaves_alone:
  assumes "scan_ok env"
  shows "keeps (leaves_alone r) (handle env pool user r)"
proof (cases r)
  case (ReviewAmendment i aid rr)
  then show ?thesis
    by (auto simp: handle_review_amendment_def leaves_alone_def [abs_def] intro!: frame_rules
        amendment_operations_elsewhere(2) split: sum.split option.split)
next
  case ListJobs
  then show ?thesis
    by (simp add: leaves_alone_def [abs_def] keeps_map read_only_keeps [OF list_jobs_read_only])
qed (auto simp: handler_defs leaves_alone_def [abs_def] intro!: frame_rules read_only_keeps [OF read_operations(1)]
    read_only_keeps [OF read_operations(2)] read_only_keeps [OF read_operations(3)] read_only_keeps [OF read_operations(4)]
    job_operations_elsewhere amendment_operations_elsewhere(1) progress_confined create_operation_confined
    route_operations_confined assms split: sum.split)

lemma authenticate_read_only: "read_only_call (authenticate backend repository pool authorization)"
  unfolding authenticate_def
  by (auto intro!: read_only_rules read_operations split: sum.split)

lemma gate_read_only: "read_only_call (require_api_auth backend repository pool m path authorization)"
  unfolding require_api_auth_def
  by (auto intro!: read_only_rules authenticate_read_only)

lemma serve_leaves_alone:
  assumes "scan_ok env"
  shows "keeps (leaves_alone r) (serve env backend pool authorization r)"
  unfolding serve_def
  by (intro keeps_bind leaves_alone_trans read_only_keeps [OF gate_read_only] leaves_alone_refl)
     (auto intro: handle_leaves_alone [OF assms] keeps_return split: gate_decision.split)

section \<open>Who a request ran for\<close>

text \<open>The organization that owns what a request names, and the role the request asks for in it.\<close>

fun request_owner :: "route_request \<Rightarrow> db \<Rightarrow> string option" where
  "request_owner (GetToday crew) = (\<lambda>d. crew_organization d crew)"
| "request_owner (CreateDraft r) = (\<lambda>d. crew_organization d (trim (req_crew_id r)))"
| "request_owner (PublishPlan i) = (\<lambda>d. day_plan_organization d i)"
| "request_owner (CreateAmendment i _) = (\<lambda>d. day_plan_organization d i)"
| "request_owner (ListAmendments i) = (\<lambda>d. day_plan_organization d i)"
| "request_owner (ReviewAmendment i _ _) = (\<lambda>d. day_plan_organization d i)"
| "request_owner (AssignStop i _) = (\<lambda>d. day_plan_organization d i)"
| "request_owner (RemoveStop i _) = (\<lambda>d. day_plan_organization d i)"
| "request_owner (ReorderStops i _) = (\<lambda>d. day_plan_organization d i)"
| "request_owner (ReportProgress i _ _) = (\<lambda>d. day_plan_organization d i)"
| "request_owner (StartJob j _) = (\<lambda>d. job_organization d j)"
| "request_owner (CompleteJob j _) = (\<lambda>d. job_organization d j)"
| "request_owner (TickItem j _ _ _) = (\<lambda>d. job_organization d j)"
| "request_owner (ListAddOns j) = (\<lambda>d. job_organization d j)"
| "request_owner (SetAddOn j _ _) = (\<lambda>d. job_organization d j)"
| "request_owner (GetJob j) = (\<lambda>d. job_organization d j)"
| "request_owner ListJobs = (\<lambda>d. None)"

fun request_role :: "route_request \<Rightarrow> access_role \<Rightarrow> bool" where
  "request_role (CreateDraft _) = can_manage_schedule"
| "request_role (PublishPlan _) = can_manage_schedule"
| "request_role (ReviewAmendment _ _ _) = can_manage_schedule"
| "request_role (AssignStop _ _) = can_manage_schedule"
| "request_role (RemoveStop _ _) = can_manage_schedule"
| "request_role (ReorderStops _ _) = can_manage_schedule"
| "request_role _ = can_view_crew_route"

lemma handle_granted:
  assumes run: "handle env pool user r (fs, d) = (res, (fs', d'))"
    and effect: "d' \<noteq> d \<or> (\<exists>s. res = Inr s \<and> s < 400)" and "r \<noteq> ListJobs"
  shows "granted_by (request_owner r) (principal_subject user) (request_role r) d"
  using assms
  by (cases r)
     (auto simp: handler_defs db_map_def [of _ "db_return _"] invalid_mutation_header_def
       dest!: crew_access.answered_granted plan_access.answered_granted job_access.answered_granted
       split: sum.splits if_splits)

lemma gate_runs:
  assumes "require_api_auth backend True pool m path authorization (fs, d) = (Inr (RunAs user), c')"
  shows "\<exists>p. backend_principal backend authorization = Inr p \<and> principal_subject user = principal_subject p
    \<and> is_authorized user m path"
  using assms
  by (auto simp: require_api_auth_def authenticate_def db_return_def elim!: db_bind_InrE
      split: if_splits sum.splits organization_collection.splits)

lemma serve_cases:
  assumes "serve env backend pool authorization r (fs, d) = (res, (fs', d'))"
  obtains (refused) s where "d' = d" and "res = Inr s" and "400 \<le> s"
    | (ran) p user fs1 where "backend_principal backend authorization = Inr p"
        and "principal_subject user = principal_subject p"
        and "is_authorized user (request_method r) (request_path r)"
        and "handle env pool user r (fs1, d) = (res, (fs', d'))"
proof -
  obtain g c1 where g: "require_api_auth backend True pool (request_method r) (request_path r) authorization (fs, d)
      = (Inr g, c1)" and proper: "case g of RunPublic \<Rightarrow> False | RunAs _ \<Rightarrow> True | Refuse s _ \<Rightarrow> s \<in> {401, 403}"
    using gate_answers by (rule answeringD)
  obtain fs1 d1 where c1: "c1 = (fs1, d1)" by (metis prod.collapse)
  have d1: "d1 = d" by (rule read_only_call.state_unchanged [OF gate_read_only g [unfolded c1]])
  show thesis
  proof (cases g)
    case (RunAs user)
    with g assms c1 d1 have "handle env pool user r (fs1, d) = (res, (fs', d'))" by (simp add: serve_def)
    with gate_runs [OF g [unfolded RunAs]] show thesis using ran by blast
  next
    case (Refuse s e)
    with g assms c1 d1 proper show thesis by (intro refused [of s]) (auto simp: serve_def db_return_def)
  next
    case RunPublic
    with proper show thesis by simp
  qed
qed

lemma serve_granted:
  assumes run: "serve env backend pool authorization r (fs, d) = (res, (fs', d'))"
    and effect: "d' \<noteq> d \<or> (\<exists>s. res = Inr s \<and> s < 400)" and "r \<noteq> ListJobs"
  shows "\<exists>p. backend_principal backend authorization = Inr p
    \<and> granted_by (request_owner r) (principal_subject p) (request_role r) d"
  using run
proof (cases rule: serve_cases)
  case (refused s)
  then show ?thesis using effect by auto
next
  case (ran p user fs1)
  from handle_granted [OF ran(4) effect assms(3)] ran(1,2) show ?thesis by auto
qed

section \<open>Runs of the service\<close>

text \<open>What a run keeps of a plan that is no longer a draft: its row, and of its stops all but progress and
  the minutes of service.\<close>

definition stop_skeleton :: "stop_row \<Rightarrow> string \<times> string \<times> int \<times> int" where
  "stop_skeleton s = (stop_pk s, stop_job_id s, stop_order s, stop_drive_minutes s)"

definition settled :: "db \<Rightarrow> db \<Rightarrow> bool" where
  "settled d d' \<longleftrightarrow> (\<forall>p \<in> set (day_plans d). plan_status p \<noteq> ''draft'' \<longrightarrow>
     p \<in> set (day_plans d')
     \<and> map stop_skeleton (stops_of d' (plan_pk p)) = map stop_skeleton (stops_of d (plan_pk p)))"

definition run_keeps :: "db \<Rightarrow> db \<Rightarrow> bool" where
  "run_keeps d d' \<longleftrightarrow> (route_ok d \<longrightarrow> route_ok d' \<and> settled d d')"

lemma run_keeps_refl: "run_keeps d d"
  by (simp add: run_keeps_def settled_def)

lemma run_keeps_trans: "run_keeps d d1 \<Longrightarrow> run_keeps d1 d2 \<Longrightarrow> run_keeps d d2"
  unfolding run_keeps_def settled_def by metis

lemma skeleton_part: "stop_skeleton = (\<lambda>(i, j, n, dm, sm). (i, j, n, dm)) \<circ> stop_plan_part"
  by (auto simp: stop_skeleton_def stop_plan_part_def)

lemma skeleton_of_parts:
  "map stop_plan_part xs = map stop_plan_part ys \<Longrightarrow> map stop_skeleton xs = map stop_skeleton ys"
  unfolding skeleton_part map_map [symmetric] by simp

lemma route_keeps_run: "route_keeps d d' \<Longrightarrow> run_keeps d d'"
  by (auto simp: route_keeps_def run_keeps_def frozen_def settled_def intro: skeleton_of_parts)

lemma longer_service_fields:
  assumes "longer_service s t"
  shows "stop_pk t = stop_pk s" "stop_plan_id t = stop_plan_id s" "stop_job_id t = stop_job_id s"
    "stop_order t = stop_order s" "stop_status t = stop_status s" "stop_skeleton t = stop_skeleton s"
    "stop_drive_minutes t = stop_drive_minutes s" "stop_service_minutes s \<le> stop_service_minutes t"
  using assms by (simp_all add: longer_service_def stop_skeleton_def)

lemma longer_map:
  assumes "list_all2 longer_service ss ts" and "\<And>s t. longer_service s t \<Longrightarrow> f t = f s"
  shows "map f ts = map f ss"
  using assms by (induction rule: list_all2_induct) auto

lemma longer_filter:
  "list_all2 longer_service ss ts \<Longrightarrow>
     list_all2 longer_service (filter (\<lambda>s. stop_plan_id s = i) ss) (filter (\<lambda>s. stop_plan_id s = i) ts)"
  by (induction rule: list_all2_induct) (auto dest: longer_service_fields)

lemma longer_workload: "list_all2 longer_service ss ts \<Longrightarrow> workload ss \<le> workload ts"
  by (induction rule: list_all2_induct) (simp_all add: workload_def longer_service_def)

lemma list_all2_source: "list_all2 P xs ys \<Longrightarrow> y \<in> set ys \<Longrightarrow> \<exists>x \<in> set xs. P x y"
  by (induction rule: list_all2_induct) auto

lemma background_keeps:
  assumes "background_change d d'"
  shows "run_keeps d d'"
proof (cases "route_ok d")
  case False
  then show ?thesis by (simp add: run_keeps_def)
next
  case ok: True
  have plans: "day_plans d' = day_plans d"
    and stops: "list_all2 longer_service (day_plan_stops d) (day_plan_stops d')"
    and crews: "crew_pk ` set (crews d) \<subseteq> crew_pk ` set (crews d')"
    and jobs: "job_pk ` set (service_jobs d) \<subseteq> job_pk ` set (service_jobs d')"
    using assms by (simp_all add: background_change_def)
  have per_plan: "list_all2 longer_service (stops_of d i) (stops_of d' i)" for i
    unfolding stops_of_def by (rule longer_filter [OF stops])
  have keys: "map stop_pk (day_plan_stops d') = map stop_pk (day_plan_stops d)"
    "map (\<lambda>s. (stop_pk s, stop_plan_id s, stop_order s, stop_job_id s)) (day_plan_stops d')
      = map (\<lambda>s. (stop_pk s, stop_plan_id s, stop_order s, stop_job_id s)) (day_plan_stops d)"
    by (rule longer_map [OF stops]; simp add: longer_service_fields)+
  have "stop_ok d' t" if t: "t \<in> set (day_plan_stops d')" for t
  proof -
    obtain s where "s \<in> set (day_plan_stops d)" and "longer_service s t"
      using list_all2_source [OF stops t] by blast
    with route_okD(4) [OF ok] jobs show ?thesis
      by (auto simp: stop_ok_def plans longer_service_fields)
  qed
  then have "stops_ok d'"
    using ok keys(1) clash_free_keys [OF keys(2)] by (simp add: route_defs list_all_iff)
  moreover have "plans_ok d'"
    using ok crews by (auto simp: route_defs plans list_all_iff plan_ok_def)
  moreover have "published_ok d'"
    unfolding published_ok_def plans list_all_iff
  proof (intro ballI impI)
    fix p assume "p \<in> set (day_plans d)" and "plan_status p \<noteq> ''draft''"
    then have "stops_of d (plan_pk p) \<noteq> []" and "0 < workload (stops_of d (plan_pk p))"
      using ok by (auto simp: route_defs list_all_iff)
    with longer_workload [OF per_plan, of "plan_pk p"] list_all2_lengthD [OF per_plan, of "plan_pk p"]
    show "stops_of d' (plan_pk p) \<noteq> [] \<and> 0 < workload (stops_of d' (plan_pk p))" by auto
  qed
  moreover have "settled d d'"
    using longer_map [OF per_plan longer_service_fields(6)] by (simp add: settled_def plans)
  ultimately show ?thesis by (simp add: run_keeps_def route_ok_def)
qed

lemma service_step_keeps:
  assumes "service_step backend d d'"
  shows "run_keeps d d'"
  using assms
proof (rule service_stepE)
  fix env pool authorization r fs res fs'
  assume "scan_ok env" and run: "serve env backend pool authorization r (fs, d) = (res, (fs', d'))"
  from keepsD [OF serve_leaves_alone [OF this(1)] run] show ?thesis
    by (rule leaves_alone_keeps [THEN route_keeps_run])
qed (rule background_keeps)

lemma reachable_keeps: "reachable backend d0 d \<Longrightarrow> run_keeps d0 d"
  by (induction rule: reachable.induct) (auto intro: service_step_keeps run_keeps_refl run_keeps_trans)

text \<open>A plan a request changed is the one it names, and it belongs to the request's organization.\<close>

definition plan_changed :: "db \<Rightarrow> db \<Rightarrow> string \<Rightarrow> bool" where
  "plan_changed d d' k \<longleftrightarrow> find_plan d' k \<noteq> find_plan d k \<or> stops_of d' k \<noteq> stops_of d k"

text \<open>The identifier of a requested draft is not taken by a plan of another crew.\<close>

definition draft_name_free :: "db \<Rightarrow> route_request \<Rightarrow> bool" where
  "draft_name_free d r \<longleftrightarrow> (case r of
     CreateDraft q \<Rightarrow> (case find_plan d (draft_day_plan_id (trim (req_crew_id q)) (trim (req_service_date q))) of
         None \<Rightarrow> True | Some p \<Rightarrow> plan_crew_id p = trim (req_crew_id q))
   | _ \<Rightarrow> True)"

lemma changed_plan_named:
  assumes "leaves_alone r d d'" and "route_ok d" and "plan_changed d d' k"
  shows "request_plan r = Some k"
proof (cases "request_plan r")
  case None
  with assms show ?thesis
    by (simp add: leaves_alone_def plan_changed_def elsewhere_def find_plan_def stops_of_def)
next
  case (Some i)
  have "i = k"
  proof (rule ccontr)
    assume "i \<noteq> k"
    with assms(1,2) Some have "find_plan d' k = find_plan d k \<and> stops_of d' k = stops_of d k"
      by (simp add: leaves_alone_def confined_def)
    with assms(3) show False by (simp add: plan_changed_def)
  qed
  with Some show ?thesis by simp
qed

lemma named_plan_owner:
  assumes "request_plan r = Some k" and "find_plan d k = Some p" and "draft_name_free d r"
  shows "request_owner r d = day_plan_organization d k"
  using assms
  by (cases r) (auto simp: draft_name_free_def day_plan_organization_def crew_organization_def)

lemma changed_plan_granted:
  assumes run: "serve env backend pool authorization r (fs, d) = (res, (fs', d'))"
    and "scan_ok env" and ok: "route_ok d" and plan: "find_plan d k = Some p" and free: "draft_name_free d r"
    and ch: "plan_changed d d' k"
  shows "\<exists>user organization. backend_principal backend authorization = Inr user
    \<and> day_plan_organization d k = Some organization
    \<and> belongs_to d (principal_subject user) organization (request_role r)"
proof -
  have named: "request_plan r = Some k"
    using changed_plan_named [OF keepsD [OF serve_leaves_alone [OF \<open>scan_ok env\<close>] run] ok ch] .
  have "d' \<noteq> d" using ch by (auto simp: plan_changed_def)
  moreover have "r \<noteq> ListJobs" using named by auto
  ultimately show ?thesis
    using serve_granted [OF run] named_plan_owner [OF named plan free] by (auto simp: granted_by_def)
qed

end
