(* ===== verification/System_Claims.thy ===== *)
theory System_Claims
  imports System_Facts Route_Claims
begin

text \<open>The properties of the service as a whole, each applied at the sample database.\<close>

text \<open>A verifier whose tokens are the names of their subjects, signed with one key.\<close>

definition sample_verifier :: "nat token_verifier" where
  "sample_verifier = \<lparr> verifier_issuer = ''issuer'', verifier_client_id = ''client'',
     token_header = (\<lambda>_. Inr (''RS256'', Some ''kid'')), signing_key = (\<lambda>_. Inr 1),
     decode = (\<lambda>token _. Inr \<lparr> claim_sub = token, claim_username = None, claim_email = None,
       claim_email_verified = False, claim_client_id = ''client'', claim_token_use = ''access'',
       claim_groups = [], claim_iss = ''issuer'' \<rparr>) \<rparr>"

text \<open>C29: Every request of the route, job and checklist interface is answered, whatever outages occur on
  the way, and with one of nine statuses: success, a refusal, or \<open>503\<close>; never with a panic or \<open>500\<close>.\<close>

theorem request_answered:
  "\<exists>status c'. serve env backend pool authorization r c = (Inr status, c')
     \<and> status \<in> {200, 201, 202, 400, 401, 403, 404, 409, 503}"
  using serve_answers unfolding answered_statuses_def by (rule answeringD) blast

text \<open>C1: A request that changed anything, or was answered with success, was made by a caller whose token
  was accepted and who is an active member, with a role the operation asks for, of the active
  organization that owns the crew, route or job the request names.\<close>

theorem request_authorized:
  assumes "serve env backend pool authorization r (fs, d) = (res, (fs', d'))"
    and "d' \<noteq> d \<or> (\<exists>s. res = Inr s \<and> s < 400)" and "r \<noteq> ListJobs"
  shows "\<exists>user organization. backend_principal backend authorization = Inr user
    \<and> request_owner r d = Some organization
    \<and> belongs_to d (principal_subject user) organization (request_role r)"
  using serve_granted [OF assms] by (auto simp: granted_by_def)

theorem request_authorized_witness:
  "fst (serve sample_env (Cognito sample_verifier) True (Some ''Bearer boss'') (PublishPlan ''plan_1'') ([], sample_db))
     = Inr 200
   \<and> belongs_to sample_db ''boss'' ''org_1'' can_manage_schedule"
proof -
  let ?run = "serve sample_env (Cognito sample_verifier) True (Some ''Bearer boss'') (PublishPlan ''plan_1'') ([], sample_db)"
  have r: "fst ?run = Inr 200" by code_simp
  then have run: "?run = (Inr 200, (fst (snd ?run), snd (snd ?run)))" by (rule answered_run)
  from request_authorized [OF run] have "\<exists>user organization.
      backend_principal (Cognito sample_verifier) (Some ''Bearer boss'') = Inr user
      \<and> day_plan_organization sample_db ''plan_1'' = Some organization
      \<and> belongs_to sample_db (principal_subject user) organization can_manage_schedule"
    by simp
  moreover have "map_sum id principal_subject (backend_principal (Cognito sample_verifier) (Some ''Bearer boss''))
      = Inr ''boss''" by code_simp
  moreover have "day_plan_organization sample_db ''plan_1'' = Some ''org_1''" by code_simp
  ultimately show ?thesis using r by auto
qed



text \<open>C4: In every database that a run of requests, by any callers and with any outages, and of changes
  by the rest of the service leads to: keys are unique, every route has a crew, every stop a route and
  a job, no two stops of a route share a position or a job, and every route that is not a draft has
  stops and work to do.\<close>

theorem route_invariant:
  assumes "reachable backend d0 d" and "route_ok d0"
  shows "route_ok d"
  using reachable_keeps [OF assms(1)] assms(2) by (simp add: run_keeps_def)

definition sample_published :: db where
  "sample_published = snd (snd (serve sample_env (Cognito sample_verifier) True (Some ''Bearer boss'')
     (PublishPlan ''plan_1'') ([], sample_db)))"

lemma sample_published_reached: "reachable (Cognito sample_verifier) sample_db sample_published"
proof -
  let ?run = "serve sample_env (Cognito sample_verifier) True (Some ''Bearer boss'') (PublishPlan ''plan_1'') ([], sample_db)"
  have "?run = (fst ?run, (fst (snd ?run), sample_published))" by (simp add: sample_published_def)
  from reachable.start service_step.request [OF sample_scan this] show ?thesis by (rule reachable.step)
qed

theorem route_invariant_witness:
  "route_ok sample_published \<and> map plan_status (day_plans sample_published) = [''published'', ''published'']"
proof -
  have "map plan_status (day_plans sample_published) = [''published'', ''published'']" by code_simp
  with route_invariant [OF sample_published_reached sample_route_ok] show ?thesis by simp
qed

text \<open>C2: A route that has been published is never changed again by any run of the service: its row stays,
  and its stops keep their identity, job, order and driving time; only progress, and the service time
  that the conversion of a bid adds, can change.\<close>

theorem published_route_settled:
  assumes "reachable backend d0 d" and "route_ok d0"
    and "p \<in> set (day_plans d0)" and "plan_status p \<noteq> ''draft''"
  shows "p \<in> set (day_plans d) \<and>
    map (\<lambda>s. (stop_pk s, stop_job_id s, stop_order s, stop_drive_minutes s)) (stops_of d (plan_pk p)) =
    map (\<lambda>s. (stop_pk s, stop_job_id s, stop_order s, stop_drive_minutes s)) (stops_of d0 (plan_pk p))"
  using reachable_keeps [OF assms(1)] assms(2-4)
  unfolding run_keeps_def settled_def stop_skeleton_def by blast

theorem published_route_settled_witness:
  "sample_plan ''plan_2'' ''published'' 19 \<in> set (day_plans sample_published)
   \<and> map stop_pk (stops_of sample_published ''plan_2'') = [''s3'']"
proof -
  let ?p = "sample_plan ''plan_2'' ''published'' 19"
  have "?p \<in> set (day_plans sample_db)" by (simp add: sample_db_def)
  moreover have "plan_status ?p \<noteq> ''draft''" and pk: "plan_pk ?p = ''plan_2''" by (simp_all add: sample_plan_def)
  ultimately have s: "?p \<in> set (day_plans sample_published) \<and>
    map (\<lambda>s. (stop_pk s, stop_job_id s, stop_order s, stop_drive_minutes s)) (stops_of sample_published ''plan_2'') =
    map (\<lambda>s. (stop_pk s, stop_job_id s, stop_order s, stop_drive_minutes s)) (stops_of sample_db ''plan_2'')"
    using published_route_settled [OF sample_published_reached sample_route_ok, of ?p] by simp
  have "map stop_pk (stops_of sample_published ''plan_2'') = map stop_pk (stops_of sample_db ''plan_2'')"
    using arg_cong [OF conjunct2 [OF s], of "map fst"] by (simp add: comp_def)
  moreover have "map stop_pk (stops_of sample_db ''plan_2'') = [''s3'']" by code_simp
  ultimately show ?thesis using s by simp
qed

end
