(* ===== verification/Principal_Facts.thy ===== *)
theory Principal_Facts
  imports Api_Gate
begin

text \<open>
  Where a principal comes from: the token that was verified, and the roles of its claims and of the
  subject's active memberships.
\<close>

lemma merged_roles:
  "set (merge_effective_roles roles ms) = set roles \<union> om_role ` {m \<in> set ms. om_status m = ''active''}"
proof -
  have "set (fold (\<lambda>m roles. if om_role m \<in> set roles then roles else roles @ [om_role m]) ms roles)
      = set roles \<union> om_role ` set ms" for ms
    by (induction ms arbitrary: roles) auto
  then show ?thesis unfolding merge_effective_roles_def set_filter [symmetric] by blast
qed

lemma loaded_memberships:
  assumes "repo_list_active_memberships pool user (fs, d) = (Inr (MembersLoaded ms), c')" and "m \<in> set ms"
  shows "belongs_to d user (om_organization_id m) (\<lambda>r. r = om_role m)"
proof -
  have "ms = List.map_filter (\<lambda>(m, org). organization_membership_from_row m org) (active_membership_rows user d)"
    using assms(1)
    by (auto simp: repo_list_active_memberships_def list_active_memberships_def db_return_def
        elim!: db_catch_cases db_select_InrE' split: if_splits)
  with assms(2) member_iff [of "om_organization_id m" "\<lambda>r. r = om_role m" user d] show ?thesis
    by (auto simp: list_ex_iff)
qed

lemma authenticated_roles:
  assumes "authenticate backend repository pool authorization (fs, d) = (Inr (Inr user), c')"
    and "backend_principal backend authorization = Inr p"
    and "principal_roles p = principal_claim_roles p"
    and "role \<in> set (principal_roles user)"
  shows "role \<in> set (principal_claim_roles p)
    \<or> (\<exists>organization. belongs_to d (principal_subject p) organization (\<lambda>r. r = role))"
proof (cases repository)
  case False
  with assms show ?thesis by (auto simp: authenticate_def db_return_def)
next
  case True
  with assms(1,2) obtain res c1 where
    res: "repo_list_active_memberships pool (principal_subject p) (fs, d) = (Inr res, c1)"
    and user: "user = (case res of
        MembersLoaded ms \<Rightarrow> p\<lparr> principal_roles := merge_effective_roles (principal_claim_roles p) ms \<rparr>
      | MembersUnavailable \<Rightarrow> p\<lparr> principal_roles := principal_claim_roles p \<rparr>)"
    by (auto simp: authenticate_def db_return_def elim!: db_bind_InrE)
  show ?thesis
  proof (cases res)
    case (MembersLoaded ms)
    with user assms(4) have "role \<in> set (principal_claim_roles p) \<or> (\<exists>m \<in> set ms. role = om_role m)"
      by (auto simp: merged_roles)
    then show ?thesis using loaded_memberships [OF res [unfolded MembersLoaded]] by blast
  next
    case MembersUnavailable
    with user assms(4) show ?thesis by simp
  qed
qed

lemma set_map_filter: "set (List.map_filter f xs) = {y. \<exists>x \<in> set xs. f x = Some y}"
  by (force simp: map_filter_def)

lemma verify_Inr:
  assumes "verify v token = Inr p"
  obtains key_id key claims where "token_header v token = Inr (''RS256'', Some key_id)"
    and "signing_key v key_id = Inr key" and "decode v token key = Inr claims"
    and "claim_token_use claims = ''access''" and "claim_client_id claims = verifier_client_id v"
    and "claim_iss claims = verifier_issuer v" and "p = principal_of_claims claims"
  using assms by (auto simp: verify_def split: sum.splits prod.splits option.splits if_splits)

lemma strip_prefix_Some: "strip_prefix p s = Some t \<Longrightarrow> s = p @ t"
  by (induction p s rule: strip_prefix.induct) (auto split: if_splits)

lemma bearer_token_Inr:
  "bearer_token authorization = Inr token \<Longrightarrow> authorization = Some (''Bearer '' @ token) \<and> token \<noteq> []"
  by (auto simp: bearer_token_def dest!: strip_prefix_Some split: option.splits if_splits)

end
