(* ===== verification/Api_Claims.thy ===== *)
theory Api_Claims
  imports Api_Facts Principal_Facts System_Claims
begin




text \<open>C33: A handler behind the gate runs only for a bearer token of the configured issuer and client that
  was signed with a key of the provider by RS256 and is an access token; it runs as the subject of the
  token, with no role but those of the token's groups and of the subject's active memberships; and
  only if such a principal is allowed the method on the path.\<close>

theorem runs_for_verified_token:
  assumes "require_api_auth (Cognito v) repository pool m path authorization (fs, d) = (Inr (RunAs user), c')"
  shows "\<exists>token key_id key claims. authorization = Some (''Bearer '' @ token)
    \<and> token_header v token = Inr (''RS256'', Some key_id) \<and> signing_key v key_id = Inr key
    \<and> decode v token key = Inr claims \<and> claim_token_use claims = ''access''
    \<and> claim_client_id claims = verifier_client_id v \<and> claim_iss claims = verifier_issuer v
    \<and> principal_subject user = claim_sub claims
    \<and> (\<forall>role \<in> set (principal_roles user).
         (\<exists>g \<in> set (claim_groups claims). from_cognito_group g = Some role)
         \<or> (\<exists>organization. belongs_to d (claim_sub claims) organization (\<lambda>r. r = role)))
    \<and> is_authorized user m path"
proof -
  obtain c1 where auth: "authenticate (Cognito v) repository pool authorization (fs, d) = (Inr (Inr user), c1)"
    and allowed: "is_authorized user m path"
    using assms by (auto simp: require_api_auth_def db_return_def elim!: db_bind_InrE split: if_splits sum.splits)
  obtain p where p: "backend_principal (Cognito v) authorization = Inr p"
    and same: "principal_subject user = principal_subject p"
    using auth by (auto simp: authenticate_def db_return_def elim!: db_bind_InrE
        split: sum.splits if_splits organization_collection.splits)
  from p obtain token where token: "bearer_token authorization = Inr token" and v: "verify v token = Inr p"
    by (auto simp: backend_principal_def split: sum.splits)
  from v obtain key_id key claims where c: "token_header v token = Inr (''RS256'', Some key_id)"
    "signing_key v key_id = Inr key" "decode v token key = Inr claims" "claim_token_use claims = ''access''"
    "claim_client_id claims = verifier_client_id v" "claim_iss claims = verifier_issuer v"
    and pc: "p = principal_of_claims claims"
    by (rule verify_Inr)
  have "principal_roles p = principal_claim_roles p" and sub: "principal_subject p = claim_sub claims"
    and roles: "set (principal_claim_roles p) = {r. \<exists>g \<in> set (claim_groups claims). from_cognito_group g = Some r}"
    by (simp_all add: pc principal_of_claims_def Let_def set_map_filter)
  note from_roles = authenticated_roles [OF auth p this(1)]
  show ?thesis
    using c allowed same sub roles from_roles bearer_token_Inr [OF token] by (auto intro!: exI [of _ token])
qed

definition sample_principal :: "string \<Rightarrow> access_role list \<Rightarrow> string option \<Rightarrow> auth_principal" where
  "sample_principal name roles email = \<lparr> principal_subject = name, principal_username = name,
     principal_verified_email = email, principal_claim_roles = [], principal_roles = roles \<rparr>"

theorem runs_for_verified_token_witness:
  "\<exists>token organization. Some ''Bearer ann'' = Some (''Bearer '' @ token)
     \<and> belongs_to sample_db token organization (\<lambda>r. r = CrewMember)"
proof -
  let ?run = "require_api_auth (Cognito sample_verifier) True True GET ''/jobs'' (Some ''Bearer ann'') ([], sample_db)"
  have r: "fst ?run = Inr (RunAs (sample_principal ''ann'' [CrewMember] None))" by code_simp
  have "?run = (Inr (RunAs (sample_principal ''ann'' [CrewMember] None)), snd ?run)"
    using r by (metis prod.collapse)
  from runs_for_verified_token [OF this] obtain token claims where
    "Some ''Bearer ann'' = Some (''Bearer '' @ token)" and "decode sample_verifier token 1 = Inr claims"
    and role: "(\<exists>g \<in> set (claim_groups claims). from_cognito_group g = Some CrewMember)
         \<or> (\<exists>organization. belongs_to sample_db (claim_sub claims) organization (\<lambda>r. r = CrewMember))"
    by (auto simp: sample_principal_def sample_verifier_def)
  then show ?thesis by (auto simp: sample_verifier_def)
qed

text \<open>A principal with neither a role nor a verified email may do exactly two things behind the gate:
  accept an invitation, and ask for its own access.\<close>

theorem gate_without_role:
  assumes "principal_roles user = []" and "principal_verified_email user = None"
  shows "is_authorized user m path \<longleftrightarrow>
     (starts_with ''/organization-invitations/'' path \<and> ends_with ''/accept'' path \<and> m = POST)
     \<or> (path = ''/me/access'' \<and> m = GET)"
  using assms by (rule without_role_or_email)

theorem gate_without_role_witness:
  "is_authorized (sample_principal ''new'' [] None) POST ''/organization-invitations/t/accept''
   \<and> \<not> is_authorized (sample_principal ''new'' [] None) GET ''/organizations/org_1/memberships''"
proof -
  have p: "principal_roles (sample_principal ''new'' [] None) = []"
    "principal_verified_email (sample_principal ''new'' [] None) = None"
    by (simp_all add: sample_principal_def)
  show ?thesis unfolding gate_without_role [OF p] by code_simp
qed

text \<open>The gate is monotone: what a principal may do, every principal with at least its roles, and a
  verified email if it has one, may do too; gaining a membership never takes a permission away.\<close>

theorem gate_monotone:
  assumes "set (principal_roles p) \<subseteq> set (principal_roles q)"
    and "has_verified_email p \<longrightarrow> has_verified_email q"
    and "is_authorized p m path"
  shows "is_authorized q m path"
  using authorized_monotone [of p q m path] assms by (simp add: no_less_trusted_def)

theorem gate_monotone_witness:
  "is_authorized (sample_principal ''ann'' [CrewLead, Manager] None) GET ''/day-plans/plan_1/amendments''"
proof (rule gate_monotone [of "sample_principal ''ann'' [CrewLead] None"])
  show "is_authorized (sample_principal ''ann'' [CrewLead] None) GET ''/day-plans/plan_1/amendments''"
    by code_simp
qed (simp_all add: sample_principal_def has_verified_email_def)

text \<open>What the gate asks of a principal below \<open>/day-plans/\<close>: scheduling for bids; a field role for
  progress reports, for amendment requests and for reading; scheduling for everything else.\<close>

theorem day_plans_gate:
  "is_authorized user m (''/day-plans/'' @ rest) \<longleftrightarrow>
    (if ends_with ''/bids'' (''/day-plans/'' @ rest) \<or> ends_with ''/bid'' (''/day-plans/'' @ rest)
       then list_ex can_manage_schedule (principal_roles user)
     else if ends_with ''/status'' (''/day-plans/'' @ rest) \<or> ends_with ''/amendments'' (''/day-plans/'' @ rest) \<or> m = GET
       then list_ex can_view_crew_route (principal_roles user)
     else list_ex can_manage_schedule (principal_roles user))"
  using day_plans_reach_staff [of "''/day-plans/'' @ rest" user m] day_plans_staff [of "''/day-plans/'' @ rest" user m]
  by simp

text \<open>The gate has no case for the window proposal of a provider's assessment: it asks for a field role
  there, where every other operation on an assessment asks for the provider's verified email, so a
  verified provider without a role is refused.\<close>

theorem window_proposal_gate:
  "is_authorized user POST (''/provider-assessments/'' @ a @ ''/window-proposal'')
     = list_ex can_view_crew_route (principal_roles user)
   \<and> is_authorized user POST (''/provider-assessments/'' @ a @ ''/messages'') = has_verified_email user
   \<and> is_authorized user POST (''/provider-assessments/'' @ a @ ''/transitions'') = has_verified_email user"
  by (simp add: is_authorized_def authorized_recommendations_def authorized_provider_def authorized_staff_def
      Let_def ends_with_def)

text \<open>The job list is filtered by membership alone: a crew member of one organization who is only a
  customer of another is shown the other's jobs, each of which is refused when asked for by itself.\<close>

definition customer_db :: db where
  "customer_db = sample_db\<lparr>
     organizations := [sample_organization, sample_organization\<lparr> organization_pk := ''org_2'' \<rparr>],
     memberships := [sample_member ''eve'' ''property_owner'',
       (sample_member ''eve'' ''crew_member'')\<lparr> membership_pk := ''m2'', membership_organization_id := ''org_2'' \<rparr>] \<rparr>"

theorem job_list_ignores_role:
  "map_sum id (\<lambda>a. case a of Answer s js \<Rightarrow> (s, map js_id js) | Problem s _ _ \<Rightarrow> (s, []))
       (result_of (handle_list_jobs True (sample_principal ''eve'' [PropertyOwner, CrewMember] None)) customer_db)
     = Inr (200, [''job_1'', ''job_2'', ''job_3''])
   \<and> map_sum id http_status
       (result_of (handle_get_job True (sample_principal ''eve'' [PropertyOwner, CrewMember] None) ''job_1'') customer_db)
     = Inr 403
   \<and> \<not> belongs_to customer_db ''eve'' ''org_1'' can_view_crew_route"
  by code_simp

end
