(* ===== verification/Completion_Reports.thy ===== *)
theory Completion_Reports
  imports Job_Reads "HOL-Library.Monad_Syntax"
begin

text \<open>
  Completion reports as data: \<open>backend/src/completion_reports.rs\<close> without the database. How a report is
  computed from a job, its photos and add-ons and its route stop, what blocks it, its life cycle, the
  snapshot that is taken at delivery, its JSON form, and the projection of it a customer sees.
\<close>

section \<open>Data\<close>

record account_summary =
  acc_job_id :: string
  acc_account_id :: string
  acc_customer_name :: string
  acc_billing_model :: string
  acc_payment_status :: string
  acc_service_approval_status :: string
  acc_contracted_services :: u32
  acc_completed_services :: u32
  acc_billing_notes :: string

record photo_evidence =
  pe_id :: string
  pe_job_id :: string
  pe_photo_type :: string
  pe_file_name :: string
  pe_content_type :: string
  pe_object_key :: string
  pe_status :: string
  pe_upload_mode :: string
  pe_display_url :: string
  pe_thumbnail_url :: "string option"
  pe_file_size :: "int option"
  pe_width :: "int option"
  pe_height :: "int option"
  pe_metadata_source :: "string option"

record route_stop_context =
  rs_day_plan_id :: string
  rs_crew_id :: string
  rs_service_date :: string
  rs_stop_id :: string
  rs_stop_order :: u32
  rs_stop_status :: string

record snapshot_evidence =
  ev_before :: u32
  ev_after :: u32
  ev_issue :: u32
  ev_total_photos :: u32
  ev_completed_add_ons :: u32

record snapshot_metadata =
  meta_version :: u32
  meta_report_id :: string
  meta_job_id :: string
  meta_captured_at :: u64
  meta_evidence :: snapshot_evidence

record completion_report =
  cr_report_id :: string
  cr_job_id :: string
  cr_status :: string
  cr_persisted :: bool
  cr_ready :: bool
  cr_blockers :: "string list"
  cr_progress :: u32
  cr_before :: u32
  cr_after :: u32
  cr_issue :: u32
  cr_pending_add_ons :: u32
  cr_route_stop :: "route_stop_context option"
  cr_share_url :: "string option"
  cr_job :: job_detail
  cr_account :: account_summary
  cr_photos :: "photo_evidence list"
  cr_completed_add_ons :: "job_add_on list"
  cr_metadata :: "snapshot_metadata option"

record report_persistence =
  rp_persisted :: bool
  rp_status :: "string option"
  rp_ready :: "bool option"
  rp_progress :: "u32 option"
  rp_before :: "u32 option"
  rp_after :: "u32 option"
  rp_issue :: "u32 option"
  rp_share_token :: "string option"

record customer_photo =
  cp_photo_type :: string
  cp_file_name :: string
  cp_image_url :: string

record customer_recommendation =
  re_service_name :: string
  re_service_description :: "string option"
  re_quantity :: u32

record customer_report =
  cu_status :: string
  cu_progress :: u32
  cu_before :: u32
  cu_after :: u32
  cu_issue :: u32
  cu_customer_name :: string
  cu_property_address :: string
  cu_scheduled_date :: string
  cu_checklist :: "(string \<times> bool) list"
  cu_photos :: "customer_photo list"
  cu_recommendations :: "customer_recommendation list"
  cu_captured_at :: "u64 option"

section \<open>Statuses\<close>

definition lifecycle_statuses :: "string list" where
  "lifecycle_statuses = [''draft'', ''submitted'', ''in_review'', ''changes_requested'', ''delivered'']"

definition is_valid_completion_report_lifecycle_status :: "string \<Rightarrow> bool" where
  "is_valid_completion_report_lifecycle_status status \<longleftrightarrow> status \<in> set lifecycle_statuses"

definition completion_report_is_active_manager_queue_status :: "string \<Rightarrow> bool" where
  "completion_report_is_active_manager_queue_status status \<longleftrightarrow>
     status \<in> {''draft'', ''submitted'', ''in_review'', ''changes_requested''}"

definition completion_report_lifecycle_transition_is_allowed :: "string option \<Rightarrow> string \<Rightarrow> bool" where
  "completion_report_lifecycle_transition_is_allowed from_status to_status \<longleftrightarrow>
     (from_status, to_status) \<in> {(None, ''draft''), (None, ''submitted''), (Some ''draft'', ''submitted''),
       (Some ''submitted'', ''in_review''), (Some ''in_review'', ''changes_requested''),
       (Some ''in_review'', ''delivered''), (Some ''changes_requested'', ''submitted'')}"

definition completion_report_is_ready_for_delivery :: "string \<Rightarrow> bool \<Rightarrow> u32 \<Rightarrow> bool" where
  "completion_report_is_ready_for_delivery status reviewed_at_present failed_quality_check_count \<longleftrightarrow>
     status = ''in_review'' \<and> reviewed_at_present \<and> failed_quality_check_count = 0"

definition completion_report_delivery_action_is_available :: "string \<Rightarrow> bool \<Rightarrow> u32 \<Rightarrow> bool" where
  "completion_report_delivery_action_is_available status reviewed_at_present failed_quality_check_count \<longleftrightarrow>
     completion_report_is_ready_for_delivery status reviewed_at_present failed_quality_check_count
     \<and> completion_report_lifecycle_transition_is_allowed (Some status) ''delivered''"

definition completion_report_is_visible_to_customer :: "string \<Rightarrow> bool \<Rightarrow> bool" where
  "completion_report_is_visible_to_customer status delivered_at_present \<longleftrightarrow>
     status = ''delivered'' \<and> delivered_at_present"

definition completion_report_share_link_is_available :: "string \<Rightarrow> bool \<Rightarrow> bool \<Rightarrow> bool" where
  "completion_report_share_link_is_available status delivered_at_present share_token_present \<longleftrightarrow>
     completion_report_is_visible_to_customer status delivered_at_present \<and> share_token_present"

definition completion_report_manager_queue_label :: "string \<Rightarrow> string option" where
  "completion_report_manager_queue_label status = map_of
     [(''draft'', ''Draft''), (''submitted'', ''Ready for review''), (''in_review'', ''In review''),
      (''changes_requested'', ''Changes requested''), (''delivered'', ''Delivered'')] status"

definition completion_report_manager_queue_priority :: "string \<Rightarrow> nat option" where
  "completion_report_manager_queue_priority status = map_of
     [(''changes_requested'', 0), (''submitted'', 1), (''in_review'', 2), (''draft'', 3), (''delivered'', 4)] status"

definition completion_report_start_review_action_is_available :: "string \<Rightarrow> bool" where
  "completion_report_start_review_action_is_available status \<longleftrightarrow> status = ''submitted''"

definition completion_report_request_changes_action_is_available :: "string \<Rightarrow> bool" where
  "completion_report_request_changes_action_is_available status \<longleftrightarrow> status = ''in_review''"

definition completion_report_resubmit_action_is_available :: "string \<Rightarrow> bool" where
  "completion_report_resubmit_action_is_available status \<longleftrightarrow> status = ''changes_requested''"

section \<open>Progress\<close>

text \<open>
  \<open>((completed as f64 / items as f64) * 100.0).round() as u32\<close>. The counts are below \<open>2\<^sup>3\<^sup>2\<close>, so they are
  exact as doubles and neither operation under- or overflows. A positive double is \<open>m / 2\<^sup>k\<close>, given as
  \<open>(m, k)\<close>; the quotient and the product are rounded to 53 bits, to nearest, ties to even; \<open>round\<close> goes
  to the nearest integer, ties away from zero; \<open>as u32\<close> saturates.
\<close>

fun bit_length :: "nat \<Rightarrow> nat" where
  "bit_length n = (if n = 0 then 0 else Suc (bit_length (n div 2)))"

declare bit_length.simps [simp del]

definition div_half_even :: "nat \<Rightarrow> nat \<Rightarrow> nat" where
  "div_half_even a b =
     (let q = a div b; r = a mod b in
      if 2 * r < b \<or> (2 * r = b \<and> even q) then q else q + 1)"

definition f64_scale :: "nat \<Rightarrow> nat \<Rightarrow> nat" where
  "f64_scale a b =
     (let k = 53 + bit_length b - bit_length a in
      if a * 2 ^ k < 2 ^ 53 * b then k else k - 1)"

definition f64_divide :: "nat \<Rightarrow> nat \<Rightarrow> nat \<times> nat" where
  "f64_divide a b =
     (if a = 0 then (0, 0) else (div_half_even (a * 2 ^ f64_scale a b) b, f64_scale a b))"

definition f64_times_100 :: "nat \<times> nat \<Rightarrow> nat \<times> nat" where
  "f64_times_100 x =
     (case x of (m, k) \<Rightarrow>
        let j = bit_length (100 * m) - 53 in (div_half_even (100 * m) (2 ^ j) * 2 ^ j, k))"

definition f64_round :: "nat \<times> nat \<Rightarrow> nat" where
  "f64_round x = (case x of (m, k) \<Rightarrow> (2 * m + 2 ^ k) div (2 * 2 ^ k))"

definition percent_complete :: "nat \<Rightarrow> nat \<Rightarrow> nat" where
  "percent_complete a b = f64_round (f64_times_100 (f64_divide a b))"

definition completion_progress :: "job_detail \<Rightarrow> u32" where
  "completion_progress job =
     (let completed = js_completed_checklist_items (jd_summary job); items = js_checklist_items (jd_summary job) in
      if items = 0 then 0
      else word_of_int (min (int (percent_complete (unat completed) (unat items))) (2 ^ 32 - 1)))"

section \<open>Building a report\<close>

definition count_photo_type :: "photo_evidence list \<Rightarrow> string \<Rightarrow> u32" where
  "count_photo_type photos t = word_of_nat (length (filter (\<lambda>p. pe_photo_type p = t) photos))"

definition completion_report_readiness_blockers :: "u32 \<Rightarrow> u32 \<Rightarrow> u32 \<Rightarrow> u32 \<Rightarrow> route_stop_context option \<Rightarrow>
    string list" where
  "completion_report_readiness_blockers progress befores afters pending stop =
     (if progress < 100 then [''checklist''] else [])
     @ (if befores = 0 then [''before_photos''] else [])
     @ (if afters = 0 then [''after_photos''] else [])
     @ (if 0 < pending then [''add_ons''] else [])
     @ (case stop of None \<Rightarrow> [] | Some s \<Rightarrow> if rs_stop_status s \<noteq> ''finished'' then [''route_stop''] else [])"

definition blockers_of :: "completion_report \<Rightarrow> string list" where
  "blockers_of r = completion_report_readiness_blockers (cr_progress r) (cr_before r) (cr_after r)
     (cr_pending_add_ons r) (cr_route_stop r)"

definition completion_report_id :: "string \<Rightarrow> string" where
  "completion_report_id job_id = ''report_'' @ job_id"

definition shared_report_url :: "string \<Rightarrow> string" where
  "shared_report_url token = ''/report-view/'' @ token"

definition build_completion_report :: "job_detail \<Rightarrow> account_summary \<Rightarrow> photo_evidence list \<Rightarrow>
    job_add_on list \<Rightarrow> completion_report" where
  "build_completion_report job account photos adds =
     (let progress = completion_progress job;
          befores = max (js_before_photos (jd_summary job)) (count_photo_type photos ''before'');
          afters = max (js_after_photos (jd_summary job)) (count_photo_type photos ''after'');
          pending = word_of_nat (length (filter (\<lambda>a. jao_status a \<noteq> ''completed'') adds));
          blockers = completion_report_readiness_blockers progress befores afters pending None;
          job_id = js_id (jd_summary job)
      in \<lparr> cr_report_id = completion_report_id job_id, cr_job_id = job_id,
           cr_status = (if blockers = [] then ''submitted'' else ''draft''), cr_persisted = False,
           cr_ready = (blockers = []), cr_blockers = blockers, cr_progress = progress,
           cr_before = befores, cr_after = afters, cr_issue = count_photo_type photos ''issue'',
           cr_pending_add_ons = pending, cr_route_stop = None, cr_share_url = None,
           cr_job = job, cr_account = account, cr_photos = photos,
           cr_completed_add_ons = filter (\<lambda>a. jao_status a = ''completed'') adds, cr_metadata = None \<rparr>)"

definition attach_completion_report_route_stop :: "completion_report \<Rightarrow> route_stop_context \<Rightarrow>
    completion_report" where
  "attach_completion_report_route_stop report stop =
     (let r = report\<lparr> cr_route_stop := Some stop \<rparr>; blockers = blockers_of r in
      r\<lparr> cr_blockers := blockers, cr_ready := (blockers = []),
         cr_status := (if blockers \<noteq> [] \<and> cr_status r = ''submitted'' then ''draft'' else cr_status r) \<rparr>)"

definition with_default :: "'a option \<Rightarrow> 'a \<Rightarrow> 'a" where
  "with_default x a = (case x of None \<Rightarrow> a | Some b \<Rightarrow> b)"

definition apply_completion_report_persistence :: "completion_report \<Rightarrow> report_persistence \<Rightarrow>
    completion_report" where
  "apply_completion_report_persistence report p =
     (let r = report\<lparr> cr_persisted := rp_persisted p,
            cr_status := with_default (rp_status p) (cr_status report),
            cr_ready := with_default (rp_ready p) (cr_ready report),
            cr_progress := with_default (rp_progress p) (cr_progress report),
            cr_before := with_default (rp_before p) (cr_before report),
            cr_after := with_default (rp_after p) (cr_after report),
            cr_issue := with_default (rp_issue p) (cr_issue report) \<rparr>
      in r\<lparr> cr_blockers := blockers_of r,
            cr_share_url := (if cr_status r = ''delivered'' then map_option shared_report_url (rp_share_token p)
              else None) \<rparr>)"

section \<open>The delivered snapshot\<close>

definition COMPLETION_REPORT_SNAPSHOT_VERSION :: u32 where
  "COMPLETION_REPORT_SNAPSHOT_VERSION = 1"

definition snapshot_evidence_of :: "completion_report \<Rightarrow> snapshot_evidence" where
  "snapshot_evidence_of r =
     \<lparr> ev_before = cr_before r, ev_after = cr_after r, ev_issue = cr_issue r,
       ev_total_photos = word_of_nat (length (cr_photos r)),
       ev_completed_add_ons = word_of_nat (length (cr_completed_add_ons r)) \<rparr>"

definition attach_delivered_snapshot_metadata :: "u64 \<Rightarrow> completion_report \<Rightarrow> completion_report" where
  "attach_delivered_snapshot_metadata captured_at r =
     r\<lparr> cr_metadata := Some \<lparr> meta_version = COMPLETION_REPORT_SNAPSHOT_VERSION,
          meta_report_id = cr_report_id r, meta_job_id = cr_job_id r, meta_captured_at = captured_at,
          meta_evidence = snapshot_evidence_of r \<rparr> \<rparr>"

definition prepare_delivered_completion_report_snapshot :: "u64 \<Rightarrow> completion_report \<Rightarrow> completion_report" where
  "prepare_delivered_completion_report_snapshot captured_at r =
     (attach_delivered_snapshot_metadata captured_at r)\<lparr> cr_status := ''delivered'', cr_share_url := None \<rparr>"

definition is_valid_delivered_completion_report_snapshot :: "string \<Rightarrow> string \<Rightarrow> completion_report \<Rightarrow> bool" where
  "is_valid_delivered_completion_report_snapshot report_id job_id r =
     (case cr_metadata r of
        None \<Rightarrow> False
      | Some m \<Rightarrow>
          cr_report_id r = report_id \<and> cr_job_id r = job_id \<and> cr_status r = ''delivered'' \<and> cr_persisted r
          \<and> cr_ready r \<and> cr_progress r = 100 \<and> 0 < cr_before r \<and> 0 < cr_after r
          \<and> meta_version m = COMPLETION_REPORT_SNAPSHOT_VERSION \<and> meta_report_id m = report_id
          \<and> meta_job_id m = job_id \<and> meta_evidence m = snapshot_evidence_of r)"

section \<open>JSON\<close>

text \<open>\<open>serde_json::to_string\<close> of the report, stored as \<open>JSONB\<close>: fields that are \<open>None\<close> and skipped are absent.\<close>

definition json_u32 :: "u32 \<Rightarrow> json" where
  "json_u32 w = JNum (unat w)"

definition json_int :: "int \<Rightarrow> json" where
  "json_int i = (if i < 0 then JInt i else JNum (nat i))"

definition json_option :: "('a \<Rightarrow> json) \<Rightarrow> 'a option \<Rightarrow> json" where
  "json_option f x = (case x of None \<Rightarrow> JNull | Some a \<Rightarrow> f a)"

definition checklist_item_json :: "checklist_item \<Rightarrow> json" where
  "checklist_item_json t = JObj [(''id'', JStr (ci_id t)), (''label'', JStr (ci_label t)),
     (''completed'', JBool (ci_completed t))]"

definition job_detail_json :: "job_detail \<Rightarrow> json" where
  "job_detail_json j = (let s = jd_summary j in JObj
     [(''id'', JStr (js_id s)), (''organization_id'', JStr (js_organization_id s)),
      (''assigned_crew_id'', json_option JStr (js_assigned_crew_id s)),
      (''customer_name'', JStr (js_customer_name s)), (''property_address'', JStr (js_property_address s)),
      (''status'', JStr (js_status s)), (''scheduled_date'', JStr (js_scheduled_date s)),
      (''before_photos'', json_u32 (js_before_photos s)), (''after_photos'', json_u32 (js_after_photos s)),
      (''checklist_items'', json_u32 (js_checklist_items s)),
      (''completed_checklist_items'', json_u32 (js_completed_checklist_items s)),
      (''checklist'', JArr (map checklist_item_json (jd_checklist j)))])"

definition account_json :: "account_summary \<Rightarrow> json" where
  "account_json a = JObj
     [(''job_id'', JStr (acc_job_id a)), (''account_id'', JStr (acc_account_id a)),
      (''customer_name'', JStr (acc_customer_name a)), (''billing_model'', JStr (acc_billing_model a)),
      (''payment_status'', JStr (acc_payment_status a)),
      (''service_approval_status'', JStr (acc_service_approval_status a)),
      (''contracted_services_per_period'', json_u32 (acc_contracted_services a)),
      (''completed_services_this_period'', json_u32 (acc_completed_services a)),
      (''billing_notes'', JStr (acc_billing_notes a))]"

definition photo_json :: "photo_evidence \<Rightarrow> json" where
  "photo_json p = JObj
     [(''id'', JStr (pe_id p)), (''job_id'', JStr (pe_job_id p)), (''photo_type'', JStr (pe_photo_type p)),
      (''file_name'', JStr (pe_file_name p)), (''content_type'', JStr (pe_content_type p)),
      (''object_key'', JStr (pe_object_key p)), (''status'', JStr (pe_status p)),
      (''upload_mode'', JStr (pe_upload_mode p)), (''display_url'', JStr (pe_display_url p)),
      (''thumbnail_url'', json_option JStr (pe_thumbnail_url p)),
      (''file_size_bytes'', json_option json_int (pe_file_size p)),
      (''image_width_px'', json_option json_int (pe_width p)),
      (''image_height_px'', json_option json_int (pe_height p)),
      (''metadata_source'', json_option JStr (pe_metadata_source p))]"

definition add_on_json :: "job_add_on \<Rightarrow> json" where
  "add_on_json a = JObj
     [(''id'', JStr (jao_id a)), (''job_id'', JStr (jao_job_id a)), (''service_name'', JStr (jao_service_name a)),
      (''service_description'', json_option JStr (jao_service_description a)),
      (''quantity'', json_u32 (jao_quantity a)), (''unit_price_cents'', json_u32 (jao_unit_price_cents a)),
      (''note'', json_option JStr (jao_note a)), (''status'', JStr (jao_status a))]"

definition route_stop_json :: "route_stop_context \<Rightarrow> json" where
  "route_stop_json s = JObj
     [(''day_plan_id'', JStr (rs_day_plan_id s)), (''crew_id'', JStr (rs_crew_id s)),
      (''service_date'', JStr (rs_service_date s)), (''stop_id'', JStr (rs_stop_id s)),
      (''stop_order'', json_u32 (rs_stop_order s)), (''stop_status'', JStr (rs_stop_status s))]"

definition evidence_json :: "snapshot_evidence \<Rightarrow> json" where
  "evidence_json e = JObj
     [(''before_photos'', json_u32 (ev_before e)), (''after_photos'', json_u32 (ev_after e)),
      (''issue_photos'', json_u32 (ev_issue e)), (''total_photo_evidence'', json_u32 (ev_total_photos e)),
      (''completed_add_ons'', json_u32 (ev_completed_add_ons e))]"

definition metadata_json :: "snapshot_metadata \<Rightarrow> json" where
  "metadata_json m = JObj
     [(''snapshot_version'', json_u32 (meta_version m)), (''report_id'', JStr (meta_report_id m)),
      (''job_id'', JStr (meta_job_id m)), (''captured_at_epoch_seconds'', JNum (unat (meta_captured_at m))),
      (''evidence'', evidence_json (meta_evidence m))]"

definition unless_none :: "string \<Rightarrow> ('a \<Rightarrow> json) \<Rightarrow> 'a option \<Rightarrow> (string \<times> json) list" where
  "unless_none k f x = (case x of None \<Rightarrow> [] | Some a \<Rightarrow> [(k, f a)])"

definition report_json :: "completion_report \<Rightarrow> json" where
  "report_json r = JObj (
     [(''report_id'', JStr (cr_report_id r)), (''job_id'', JStr (cr_job_id r)),
      (''report_status'', JStr (cr_status r)), (''persisted'', JBool (cr_persisted r)),
      (''ready_for_customer'', JBool (cr_ready r)), (''readiness_blockers'', JArr (map JStr (cr_blockers r))),
      (''checklist_progress'', json_u32 (cr_progress r)), (''before_photos'', json_u32 (cr_before r)),
      (''after_photos'', json_u32 (cr_after r)), (''issue_photos'', json_u32 (cr_issue r)),
      (''pending_add_ons'', json_u32 (cr_pending_add_ons r))]
     @ unless_none ''route_stop'' route_stop_json (cr_route_stop r)
     @ [(''share_url'', json_option JStr (cr_share_url r)), (''job'', job_detail_json (cr_job r)),
        (''account'', account_json (cr_account r)), (''photo_evidence'', JArr (map photo_json (cr_photos r))),
        (''completed_add_ons'', JArr (map add_on_json (cr_completed_add_ons r)))]
     @ unless_none ''snapshot_metadata'' metadata_json (cr_metadata r))"

text \<open>\<open>Value::get\<close>, \<open>as_str\<close>, \<open>as_bool\<close>, \<open>as_u64\<close>, \<open>as_array\<close>, \<open>as_object\<close>.\<close>

fun json_get :: "string \<Rightarrow> json \<Rightarrow> json option" where
  "json_get k (JObj kvs) = map_of kvs k"
| "json_get k _ = None"

fun as_str :: "json \<Rightarrow> string option" where
  "as_str (JStr s) = Some s"
| "as_str _ = None"

fun as_bool :: "json \<Rightarrow> bool option" where
  "as_bool (JBool b) = Some b"
| "as_bool _ = None"

fun as_u64 :: "json \<Rightarrow> nat option" where
  "as_u64 (JNum n) = (if int n < 2 ^ 64 then Some n else None)"
| "as_u64 _ = None"

fun as_array :: "json \<Rightarrow> json list option" where
  "as_array (JArr xs) = Some xs"
| "as_array _ = None"

fun is_object :: "json \<Rightarrow> bool" where
  "is_object (JObj _) = True"
| "is_object _ = False"

definition str_field :: "string \<Rightarrow> json \<Rightarrow> string option" where
  "str_field k j = Option.bind (json_get k j) as_str"

definition bool_field :: "string \<Rightarrow> json \<Rightarrow> bool option" where
  "bool_field k j = Option.bind (json_get k j) as_bool"

definition u64_field :: "string \<Rightarrow> json \<Rightarrow> nat option" where
  "u64_field k j = Option.bind (json_get k j) as_u64"

definition u32_field :: "string \<Rightarrow> json \<Rightarrow> u32 option" where
  "u32_field k j = Option.bind (u64_field k j) (\<lambda>n. if int n < 2 ^ 32 then Some (word_of_nat n) else None)"

definition array_field :: "string \<Rightarrow> json \<Rightarrow> json list option" where
  "array_field k j = Option.bind (json_get k j) as_array"

section \<open>What the customer sees\<close>

definition customer_completion_report_response :: "completion_report \<Rightarrow> customer_report" where
  "customer_completion_report_response r =
     \<lparr> cu_status = cr_status r, cu_progress = cr_progress r, cu_before = cr_before r, cu_after = cr_after r,
       cu_issue = cr_issue r, cu_customer_name = js_customer_name (jd_summary (cr_job r)),
       cu_property_address = js_property_address (jd_summary (cr_job r)),
       cu_scheduled_date = js_scheduled_date (jd_summary (cr_job r)),
       cu_checklist = map (\<lambda>t. (ci_label t, ci_completed t)) (jd_checklist (cr_job r)),
       cu_photos = map (\<lambda>p. \<lparr> cp_photo_type = pe_photo_type p, cp_file_name = pe_file_name p,
         cp_image_url = with_default (pe_thumbnail_url p) (pe_display_url p) \<rparr>) (cr_photos r),
       cu_recommendations = map (\<lambda>a. \<lparr> re_service_name = jao_service_name a,
         re_service_description = jao_service_description a, re_quantity = jao_quantity a \<rparr>)
         (cr_completed_add_ons r),
       cu_captured_at = map_option meta_captured_at (cr_metadata r) \<rparr>"

definition customer_checklist_item :: "json \<Rightarrow> (string \<times> bool) option" where
  "customer_checklist_item t = do {
     label \<leftarrow> str_field ''label'' t;
     completed \<leftarrow> bool_field ''completed'' t;
     Some (label, completed) }"

definition customer_photo_of :: "json \<Rightarrow> customer_photo option" where
  "customer_photo_of p = do {
     image_url \<leftarrow> (case str_field ''thumbnail_url'' p of Some u \<Rightarrow> Some u | None \<Rightarrow> str_field ''display_url'' p);
     photo_type \<leftarrow> str_field ''photo_type'' p;
     file_name \<leftarrow> str_field ''file_name'' p;
     Some \<lparr> cp_photo_type = photo_type, cp_file_name = file_name, cp_image_url = image_url \<rparr> }"

definition customer_recommendation_of :: "json \<Rightarrow> customer_recommendation option" where
  "customer_recommendation_of a = do {
     service_name \<leftarrow> str_field ''service_name'' a;
     quantity \<leftarrow> u32_field ''quantity'' a;
     Some \<lparr> re_service_name = service_name, re_service_description = str_field ''service_description'' a,
       re_quantity = quantity \<rparr> }"

definition evidence_matches :: "json \<Rightarrow> u32 \<Rightarrow> u32 \<Rightarrow> u32 \<Rightarrow> nat \<Rightarrow> nat \<Rightarrow> bool option" where
  "evidence_matches evidence befores afters issue photos completed = do {
     b \<leftarrow> u32_field ''before_photos'' evidence;
     a \<leftarrow> u32_field ''after_photos'' evidence;
     i \<leftarrow> u32_field ''issue_photos'' evidence;
     t \<leftarrow> u64_field ''total_photo_evidence'' evidence;
     c \<leftarrow> u64_field ''completed_add_ons'' evidence;
     Some (b = befores \<and> a = afters \<and> i = issue \<and> t = photos \<and> c = completed) }"

text \<open>Every \<open>?\<close> and every failed check ends in \<open>None\<close>, so their order does not matter.\<close>

definition customer_completion_report_snapshot_response :: "json \<Rightarrow> customer_report option" where
  "customer_completion_report_snapshot_response snapshot = do {
     report_id \<leftarrow> str_field ''report_id'' snapshot;
     job_id \<leftarrow> str_field ''job_id'' snapshot;
     status \<leftarrow> str_field ''report_status'' snapshot;
     progress \<leftarrow> u32_field ''checklist_progress'' snapshot;
     befores \<leftarrow> u32_field ''before_photos'' snapshot;
     afters \<leftarrow> u32_field ''after_photos'' snapshot;
     issue \<leftarrow> u32_field ''issue_photos'' snapshot;
     metadata \<leftarrow> json_get ''snapshot_metadata'' snapshot;
     persisted \<leftarrow> bool_field ''persisted'' snapshot;
     ready \<leftarrow> bool_field ''ready_for_customer'' snapshot;
     version \<leftarrow> u64_field ''snapshot_version'' metadata;
     metadata_report \<leftarrow> str_field ''report_id'' metadata;
     metadata_job \<leftarrow> str_field ''job_id'' metadata;
     if is_blank report_id \<or> is_blank job_id \<or> status \<noteq> ''delivered'' \<or> \<not> persisted \<or> \<not> ready \<or> progress \<noteq> 100
       \<or> befores = 0 \<or> afters = 0 \<or> version \<noteq> unat COMPLETION_REPORT_SNAPSHOT_VERSION
       \<or> metadata_report \<noteq> report_id \<or> metadata_job \<noteq> job_id
     then None
     else do {
       job \<leftarrow> json_get ''job'' snapshot;
       items \<leftarrow> array_field ''checklist'' job;
       checklist \<leftarrow> those (map customer_checklist_item items);
       photo_values \<leftarrow> array_field ''photo_evidence'' snapshot;
       photos \<leftarrow> those (map customer_photo_of photo_values);
       add_on_values \<leftarrow> array_field ''completed_add_ons'' snapshot;
       recommendations \<leftarrow> those (map customer_recommendation_of add_on_values);
       evidence \<leftarrow> json_get ''evidence'' metadata;
       same \<leftarrow> evidence_matches evidence befores afters issue (length photos) (length recommendations);
       customer_name \<leftarrow> str_field ''customer_name'' job;
       property_address \<leftarrow> str_field ''property_address'' job;
       scheduled_date \<leftarrow> str_field ''scheduled_date'' job;
       if \<not> is_object job \<or> \<not> same then None
       else Some \<lparr> cu_status = status, cu_progress = progress, cu_before = befores, cu_after = afters,
         cu_issue = issue, cu_customer_name = customer_name, cu_property_address = property_address,
         cu_scheduled_date = scheduled_date, cu_checklist = checklist, cu_photos = photos,
         cu_recommendations = recommendations,
         cu_captured_at = map_option word_of_nat (u64_field ''captured_at_epoch_seconds'' metadata) \<rparr> } }"

end
