(* ===== verification/Report_Store.thy ===== *)
theory Report_Store
  imports Route_Plans Completion_Reports
begin

text \<open>
  Completion reports in the database: \<open>backend/src/postgres_completion_reports.rs\<close>, what a report is built
  from (\<open>list_job_photos\<close> of \<open>postgres_read.rs\<close>, \<open>account_summary_for_job\<close> of \<open>accounts.rs\<close>), and the
  repository operations over them (\<open>db.rs\<close>, \<open>accounts.rs\<close>). The constraints are those of
  \<open>migrations/0006\<close>, \<open>202607130001\<close> and the trigger of \<open>202608310001\<close>.
\<close>

section \<open>Constraints\<close>

text \<open>\<open>jsonb_set\<close> with \<open>create_if_missing\<close>: only the last key of the path is created.\<close>

fun json_set :: "string list \<Rightarrow> json \<Rightarrow> json \<Rightarrow> json" where
  "json_set (k # ks) v (JObj kvs) = JObj
     (if map_of kvs k = None then (if ks = [] then kvs @ [(k, v)] else kvs)
      else map (\<lambda>(l, x). (l, if l \<noteq> k then x else if ks = [] then v else json_set ks v x)) kvs)"
| "json_set _ _ j = j"

definition privacy_redaction :: "json \<Rightarrow> json" where
  "privacy_redaction snapshot = fold (\<lambda>(path, v). json_set path v)
     [([''photo_evidence''], JArr []), ([''before_photos''], JNum 0), ([''after_photos''], JNum 0),
      ([''issue_photos''], JNum 0), ([''snapshot_metadata'', ''evidence'', ''total_photo_evidence''], JNum 0),
      ([''snapshot_metadata'', ''evidence'', ''before_photos''], JNum 0),
      ([''snapshot_metadata'', ''evidence'', ''after_photos''], JNum 0),
      ([''snapshot_metadata'', ''evidence'', ''issue_photos''], JNum 0)] snapshot"

definition report_check :: "report_row \<Rightarrow> bool" where
  "report_check r \<longleftrightarrow> report_row_status r \<in> set lifecycle_statuses
     \<and> 0 \<le> report_row_progress r \<and> report_row_progress r \<le> 100"

definition publication_complete :: "report_row \<Rightarrow> bool" where
  "publication_complete r \<longleftrightarrow> (report_row_status r = ''delivered'' \<longrightarrow>
     report_row_snapshot r \<noteq> None \<and> report_row_snapshot_at r \<noteq> None \<and> report_row_delivered_at r \<noteq> None
     \<and> report_row_share_token r \<noteq> None)"

definition snapshot_immutable :: "report_row \<Rightarrow> report_row \<Rightarrow> bool" where
  "snapshot_immutable old new \<longleftrightarrow> (report_row_status old = ''delivered'' \<longrightarrow>
     report_row_snapshot_at new = report_row_snapshot_at old
     \<and> (report_row_snapshot new = report_row_snapshot old
        \<or> report_row_snapshot new = map_option privacy_redaction (report_row_snapshot old)))"

definition report_clash :: "report_row \<Rightarrow> report_row \<Rightarrow> bool" where
  "report_clash a b \<longleftrightarrow> report_row_id a = report_row_id b \<or> report_row_job_id a = report_row_job_id b
     \<or> (report_row_share_token a \<noteq> None \<and> report_row_share_token a = report_row_share_token b)"

text \<open>\<open>put_report\<close>: the new version of a row in an \<open>UPDATE\<close>.\<close>

definition put_report :: "report_row \<Rightarrow> report_row \<Rightarrow> db \<Rightarrow> sqlx_error + db" where
  "put_report old new d =
     (if report_check new \<and> publication_complete new \<and> snapshot_immutable old new
        \<and> \<not> exists_row (\<lambda>r. report_row_id r \<noteq> report_row_id old \<and> report_clash new r) (reports d)
      then Inr (d\<lparr> reports := update_where (\<lambda>r. report_row_id r = report_row_id old) (\<lambda>_. new) (reports d) \<rparr>)
      else Inl ConstraintViolation)"

definition find_report :: "db \<Rightarrow> string \<Rightarrow> report_row option" where
  "find_report d i = lookup_by (\<lambda>r. report_row_id r = i) (reports d)"

definition set_report :: "string \<Rightarrow> (report_row \<Rightarrow> report_row) \<Rightarrow> (db, unit) statement" where
  "set_report i f d = (case find_report d i of
       None \<Rightarrow> Inr ((), d)
     | Some old \<Rightarrow> map_sum id (Pair ()) (put_report old (f old) d))"

definition history_ok :: "db \<Rightarrow> history_row \<Rightarrow> bool" where
  "history_ok d h \<longleftrightarrow> find_report d (history_report_id h) \<noteq> None
     \<and> history_from_status h \<noteq> Some (history_to_status h)
     \<and> (case history_from_status h of None \<Rightarrow> True | Some s \<Rightarrow> s \<in> set lifecycle_statuses)
     \<and> history_to_status h \<in> set lifecycle_statuses"

definition append_history :: "history_row \<Rightarrow> (db, unit) statement" where
  "append_history h d =
     (case insert_row (history_ok d) (\<lambda>a b. history_pk a = history_pk b) h (report_history d) of
        Inl e \<Rightarrow> Inl e | Inr rows \<Rightarrow> Inr ((), d\<lparr> report_history := rows \<rparr>))"

section \<open>Refreshing a report\<close>

definition completion_report_share_token_should_be_proposed :: "string \<Rightarrow> bool" where
  "completion_report_share_token_should_be_proposed status \<longleftrightarrow> status = ''delivered''"

definition completion_report_share_token_should_be_returned :: "string \<Rightarrow> bool \<Rightarrow> bool" where
  "completion_report_share_token_should_be_returned status delivered_at_present \<longleftrightarrow>
     status = ''delivered'' \<and> delivered_at_present"

definition proposed_share_token :: "env \<Rightarrow> string \<Rightarrow> string" where
  "proposed_share_token env i = ''share_'' @ i @ ''_'' @ nat_text (now_nanos env)"

definition status_history_id :: "env \<Rightarrow> string \<Rightarrow> string" where
  "status_history_id env i = ''report_status_'' @ i @ ''_'' @ nat_text (now_nanos env)"

definition access_audit_id :: "env \<Rightarrow> string \<Rightarrow> string \<Rightarrow> string" where
  "access_audit_id env target kind = ''audit_'' @ kind @ ''_'' @ target @ ''_'' @ nat_text (now_nanos env)"

definition proposed_row :: "env \<Rightarrow> completion_report \<Rightarrow> report_row" where
  "proposed_row env r =
     \<lparr> report_row_id = cr_report_id r, report_row_job_id = cr_job_id r, report_row_status = cr_status r,
       report_row_ready = cr_ready r, report_row_progress = as_i32 (cr_progress r),
       report_row_before = as_i32 (cr_before r), report_row_after = as_i32 (cr_after r),
       report_row_issue = as_i32 (cr_issue r),
       report_row_share_token = (if completion_report_share_token_should_be_proposed (cr_status r)
         then Some (proposed_share_token env (cr_report_id r)) else None),
       report_row_submitted_at = (if cr_status r = ''submitted'' then Some (now_at env) else None),
       report_row_reviewed_by = None, report_row_reviewed_at = None, report_row_delivered_by = None,
       report_row_delivered_at = None, report_row_sent_at = None, report_row_snapshot = None,
       report_row_snapshot_at = None, report_row_generated_at = now_at env \<rparr>"

definition coalesce :: "'a option \<Rightarrow> 'a option \<Rightarrow> 'a option" where
  "coalesce a b = (case a of None \<Rightarrow> b | Some _ \<Rightarrow> a)"

definition locked_statuses :: "string list" where
  "locked_statuses = [''submitted'', ''in_review'', ''changes_requested'', ''delivered'']"

definition refreshed_row :: "report_row \<Rightarrow> report_row \<Rightarrow> report_row" where
  "refreshed_row old new =
     (let locked = report_row_status old \<in> set locked_statuses;
          merged = (if locked then old else old\<lparr> report_row_status := report_row_status new,
            report_row_ready := report_row_ready new, report_row_progress := report_row_progress new,
            report_row_before := report_row_before new, report_row_after := report_row_after new,
            report_row_issue := report_row_issue new \<rparr>)
      in merged\<lparr> report_row_share_token := coalesce (report_row_share_token old) (report_row_share_token new),
           report_row_submitted_at := coalesce (report_row_submitted_at old) (report_row_submitted_at new),
           report_row_generated_at := report_row_generated_at new \<rparr>)"

text \<open>
  \<open>INSERT .. ON CONFLICT (job_id) DO UPDATE\<close>: the trigger and the \<open>CHECK\<close>s see the proposed row first.
\<close>

definition upsert_report :: "report_row \<Rightarrow> (db, report_row) statement" where
  "upsert_report row d =
     (if \<not> report_check row \<or> \<not> publication_complete row then Inl ConstraintViolation
      else case lookup_by (\<lambda>r. report_row_job_id r = report_row_job_id row) (reports d) of
          Some old \<Rightarrow> map_sum id (Pair (refreshed_row old row)) (put_report old (refreshed_row old row) d)
        | None \<Rightarrow> map_sum id (\<lambda>rows. (row, d\<lparr> reports := rows \<rparr>))
            (insert_row (\<lambda>r. find_job d (report_row_job_id r) \<noteq> None) report_clash row (reports d)))"

definition column_u32 :: "int \<Rightarrow> u32" where
  "column_u32 i = as_u32 (max i 0)"

definition persistence_of :: "report_row \<Rightarrow> report_persistence" where
  "persistence_of row =
     \<lparr> rp_persisted = True, rp_status = Some (report_row_status row), rp_ready = Some (report_row_ready row),
       rp_progress = Some (column_u32 (report_row_progress row)),
       rp_before = Some (column_u32 (report_row_before row)), rp_after = Some (column_u32 (report_row_after row)),
       rp_issue = Some (column_u32 (report_row_issue row)),
       rp_share_token = (if completion_report_share_token_should_be_returned (report_row_status row)
         (report_row_delivered_at row \<noteq> None) then report_row_share_token row else None) \<rparr>"

definition persist_completion_report :: "env \<Rightarrow> completion_report \<Rightarrow> (db, report_persistence) db_call" where
  "persist_completion_report env r = db_map persistence_of (db_stmt (upsert_report (proposed_row env r)))"

section \<open>The life cycle\<close>

record action_response =
  ac_report_id :: string
  ac_job_id :: string
  ac_status :: string
  ac_persisted :: bool
  ac_share_url :: "string option"

datatype report_action = ReportUpdated action_response | ReportInvalidTransition | ReportNotFound
  | ReportUnavailable

datatype delivery_candidate = CandidateReady string | CandidateInvalidTransition | CandidateNotFound
  | CandidateUnavailable

text \<open>The row of the report joined with its job.\<close>

definition report_with_job :: "string \<Rightarrow> db \<Rightarrow> (report_row \<times> job_row) option" where
  "report_with_job i d = (case find_report d i of
       None \<Rightarrow> None
     | Some r \<Rightarrow> map_option (Pair r) (find_job d (report_row_job_id r)))"

definition insert_status_history :: "env \<Rightarrow> string \<Rightarrow> string \<Rightarrow> string \<Rightarrow> string \<Rightarrow> string option \<Rightarrow>
    (db, unit) db_call" where
  "insert_status_history env i from_status to_status actor reason = db_stmt (append_history
     \<lparr> history_pk = status_history_id env i, history_report_id = i, history_from_status = Some from_status,
       history_to_status = to_status, history_changed_by = actor, history_reason = reason,
       history_changed_at = now_at env \<rparr>)"

definition insert_report_audit_event :: "env \<Rightarrow> string \<Rightarrow> string \<Rightarrow> string \<Rightarrow> string \<Rightarrow> (db, unit) db_call" where
  "insert_report_audit_event env i organization actor kind = db_stmt (append_audit
     \<lparr> audit_pk = access_audit_id env i kind, audit_actor = actor, audit_organization_id = organization,
       audit_kind = kind, audit_target = i, audit_at = now_at env, audit_metadata = [] \<rparr>)"

definition action_answer :: "string \<Rightarrow> job_row \<Rightarrow> string \<Rightarrow> string option \<Rightarrow> report_action" where
  "action_answer i job status url = ReportUpdated
     \<lparr> ac_report_id = i, ac_job_id = job_pk job, ac_status = status, ac_persisted = True, ac_share_url = url \<rparr>"

definition in_review_row :: "env \<Rightarrow> string \<Rightarrow> report_row \<Rightarrow> report_row" where
  "in_review_row env reviewer r = r\<lparr> report_row_status := ''in_review'', report_row_reviewed_by := Some reviewer,
     report_row_reviewed_at := Some (now_at env) \<rparr>"

definition start_completion_report_review :: "env \<Rightarrow> string \<Rightarrow> string \<Rightarrow> (db, report_action) db_call" where
  "start_completion_report_review env i reviewer = db_transaction
     (db_bind (db_select (report_with_job i)) (\<lambda>current. case current of
         None \<Rightarrow> db_return (Dropped ReportNotFound)
       | Some (r, job) \<Rightarrow>
           if report_row_status r \<noteq> ''submitted'' then db_return (Dropped ReportInvalidTransition)
           else db_bind (db_stmt (set_report i (in_review_row env reviewer))) (\<lambda>_.
             db_bind (insert_status_history env i ''submitted'' ''in_review'' reviewer None) (\<lambda>_.
             db_bind (insert_report_audit_event env i (job_organization_id job) reviewer ''report_review_started'') (\<lambda>_.
             db_return (Commit (action_answer i job ''in_review'' None)))))))"

definition changes_requested_row :: "report_row \<Rightarrow> report_row" where
  "changes_requested_row r = r\<lparr> report_row_status := ''changes_requested'' \<rparr>"

definition request_completion_report_changes :: "env \<Rightarrow> string \<Rightarrow> string \<Rightarrow> string option \<Rightarrow>
    (db, report_action) db_call" where
  "request_completion_report_changes env i reviewer reason = db_transaction
     (db_bind (db_select (report_with_job i)) (\<lambda>current. case current of
         None \<Rightarrow> db_return (Dropped ReportNotFound)
       | Some (r, job) \<Rightarrow>
           if report_row_status r \<noteq> ''in_review'' then db_return (Dropped ReportInvalidTransition)
           else db_bind (db_stmt (set_report i changes_requested_row)) (\<lambda>_.
             db_bind (insert_status_history env i ''in_review'' ''changes_requested'' reviewer reason) (\<lambda>_.
             db_bind (insert_report_audit_event env i (job_organization_id job) reviewer ''report_changes_requested'') (\<lambda>_.
             db_return (Commit (action_answer i job ''changes_requested'' None)))))))"

text \<open>What resubmission and delivery ask of the columns.\<close>

definition evidence_complete :: "report_row \<Rightarrow> bool" where
  "evidence_complete r \<longleftrightarrow> report_row_ready r \<and> report_row_progress r = 100 \<and> 0 < report_row_before r
     \<and> 0 < report_row_after r"

definition resubmitted_row :: "env \<Rightarrow> report_row \<Rightarrow> report_row" where
  "resubmitted_row env r = r\<lparr> report_row_status := ''submitted'', report_row_submitted_at := Some (now_at env),
     report_row_reviewed_by := None, report_row_reviewed_at := None \<rparr>"

definition resubmit_completion_report :: "env \<Rightarrow> string \<Rightarrow> string \<Rightarrow> (db, report_action) db_call" where
  "resubmit_completion_report env i submitter = db_transaction
     (db_bind (db_select (report_with_job i)) (\<lambda>current. case current of
         None \<Rightarrow> db_return (Dropped ReportNotFound)
       | Some (r, job) \<Rightarrow>
           if report_row_status r \<noteq> ''changes_requested'' \<or> \<not> evidence_complete r
           then db_return (Dropped ReportInvalidTransition)
           else db_bind (db_stmt (set_report i (resubmitted_row env))) (\<lambda>_.
             db_bind (insert_status_history env i ''changes_requested'' ''submitted'' submitter None) (\<lambda>_.
             db_bind (insert_report_audit_event env i (job_organization_id job) submitter ''report_resubmitted'') (\<lambda>_.
             db_return (Commit (action_answer i job ''submitted'' None)))))))"

definition completion_report_delivery_candidate :: "string \<Rightarrow> (db, delivery_candidate) db_call" where
  "completion_report_delivery_candidate i = db_select (\<lambda>d. case find_report d i of
       None \<Rightarrow> CandidateNotFound
     | Some r \<Rightarrow>
         if report_row_status r = ''in_review'' \<and> report_row_reviewed_at r \<noteq> None \<and> evidence_complete r
         then CandidateReady (report_row_job_id r) else CandidateInvalidTransition)"

definition delivered_row :: "env \<Rightarrow> string \<Rightarrow> string \<Rightarrow> json \<Rightarrow> report_row \<Rightarrow> report_row" where
  "delivered_row env token actor snapshot r = r\<lparr> report_row_status := ''delivered'',
     report_row_share_token := Some token, report_row_delivered_by := Some actor,
     report_row_snapshot := Some snapshot, report_row_snapshot_at := Some (now_at env),
     report_row_delivered_at := Some (now_at env),
     report_row_sent_at := coalesce (report_row_sent_at r) (Some (now_at env)) \<rparr>"

definition snapshot_fits :: "string \<Rightarrow> report_row \<Rightarrow> completion_report \<Rightarrow> bool" where
  "snapshot_fits i r snapshot \<longleftrightarrow>
     is_valid_delivered_completion_report_snapshot i (report_row_job_id r) snapshot
     \<and> cr_progress snapshot = as_u32 (report_row_progress r) \<and> cr_before snapshot = as_u32 (report_row_before r)
     \<and> cr_after snapshot = as_u32 (report_row_after r)"

definition deliver_completion_report :: "env \<Rightarrow> string \<Rightarrow> string \<Rightarrow> completion_report \<Rightarrow>
    (db, report_action) db_call" where
  "deliver_completion_report env i actor snapshot = db_transaction
     (db_bind (db_select (report_with_job i)) (\<lambda>current. case current of
         None \<Rightarrow> db_return (Dropped ReportNotFound)
       | Some (r, job) \<Rightarrow>
           if report_row_status r \<noteq> ''in_review'' \<or> report_row_reviewed_at r = None \<or> \<not> evidence_complete r
           then db_return (Dropped ReportInvalidTransition)
           else if \<not> snapshot_fits i r snapshot then db_return (Dropped ReportInvalidTransition)
           else let token = with_default (report_row_share_token r) (proposed_share_token env i) in
             db_bind (db_stmt (set_report i (delivered_row env token actor (report_json snapshot)))) (\<lambda>_.
             db_bind (insert_status_history env i ''in_review'' ''delivered'' actor None) (\<lambda>_.
             db_bind (insert_report_audit_event env i (job_organization_id job) actor ''report_delivered'') (\<lambda>_.
             db_return (Commit (action_answer i job ''delivered'' (Some (shared_report_url token)))))))))"

definition delivered_snapshot_for_share_token :: "string \<Rightarrow> (db, json option) db_call" where
  "delivered_snapshot_for_share_token token = db_select (\<lambda>d. Option.bind
     (lookup_by (\<lambda>r. report_row_share_token r = Some token \<and> report_row_status r = ''delivered''
        \<and> report_row_delivered_at r \<noteq> None \<and> report_row_snapshot r \<noteq> None) (reports d))
     report_row_snapshot)"

section \<open>What a report is built from\<close>

text \<open>
  The photo store: local, or S3, where a URL is signed by third-party code (\<open>presigned_url\<close>, with the
  clock, the credentials and the expiry folded in).
\<close>

datatype photo_storage = LocalStorage | S3Storage "string \<Rightarrow> string"

definition normalized_upload_mode :: "string \<Rightarrow> string" where
  "normalized_upload_mode mode = (if mode = ''s3-presigned'' then ''s3-presigned'' else ''local-placeholder'')"

definition display_url :: "photo_storage \<Rightarrow> string \<Rightarrow> string \<Rightarrow> string" where
  "display_url storage mode key = (case storage of
       S3Storage presigned_url \<Rightarrow> if mode = ''s3-presigned'' then presigned_url key else ''local://'' @ key
     | LocalStorage \<Rightarrow> ''local://'' @ key)"

definition thumbnail_url :: "photo_storage \<Rightarrow> string \<Rightarrow> string option \<Rightarrow> string option" where
  "thumbnail_url storage mode key = map_option (display_url storage mode) key"

definition photo_evidence_of :: "photo_storage \<Rightarrow> photo_row \<Rightarrow> photo_evidence" where
  "photo_evidence_of storage p =
     (let mode = normalized_upload_mode (photo_upload_mode p) in
      \<lparr> pe_id = photo_pk p, pe_job_id = photo_job_id p, pe_photo_type = photo_type p,
        pe_file_name = photo_file_name p, pe_content_type = photo_content_type p,
        pe_object_key = photo_object_key p, pe_status = photo_status p, pe_upload_mode = mode,
        pe_display_url = display_url storage mode (photo_object_key p),
        pe_thumbnail_url = thumbnail_url storage mode (photo_thumbnail_key p),
        pe_file_size = photo_file_size p, pe_width = photo_width p, pe_height = photo_height p,
        pe_metadata_source = photo_metadata_source p \<rparr>)"

definition newest_photo_first :: "photo_row \<Rightarrow> photo_row \<Rightarrow> bool" where
  "newest_photo_first a b \<longleftrightarrow> photo_created_at b < photo_created_at a
     \<or> (photo_created_at a = photo_created_at b \<and> \<not> string_less (photo_pk a) (photo_pk b))"

definition list_job_photos :: "photo_storage \<Rightarrow> string \<Rightarrow> (db, photo_evidence list) db_call" where
  "list_job_photos storage job = db_select (\<lambda>d. map (photo_evidence_of storage) (order_by newest_photo_first
     (filter (\<lambda>p. photo_job_id p = job \<and> photo_status p \<in> {''uploaded'', ''processed''}) (job_photos d))))"

definition account_summary_of :: "job_row \<Rightarrow> account_row \<Rightarrow> account_summary" where
  "account_summary_of job a =
     \<lparr> acc_job_id = job_pk job, acc_account_id = account_pk a, acc_customer_name = account_customer_name a,
       acc_billing_model = account_billing_model a, acc_payment_status = account_payment_status a,
       acc_service_approval_status = account_service_approval_status a,
       acc_contracted_services = as_u32 (account_contracted_services a),
       acc_completed_services = as_u32 (account_completed_services a),
       acc_billing_notes = with_default (account_billing_notes a) [] \<rparr>"

definition account_summary_for_job :: "string \<Rightarrow> (db, account_summary option) db_call" where
  "account_summary_for_job i = db_select (\<lambda>d. case find_job d i of
       None \<Rightarrow> None
     | Some job \<Rightarrow> Option.bind (job_customer_account_id job) (\<lambda>k.
         map_option (account_summary_of job) (lookup_by (\<lambda>a. account_pk a = k) (customer_accounts d))))"

definition seed_summary :: "string \<Rightarrow> account_summary" where
  "seed_summary job =
     (if job = ''job_1002'' then
        \<lparr> acc_job_id = job, acc_account_id = ''acct_1002'', acc_customer_name = ''Demo Property Owner'',
          acc_billing_model = ''monthly_plan'', acc_payment_status = ''paid'',
          acc_service_approval_status = ''approved'', acc_contracted_services = 4, acc_completed_services = 2,
          acc_billing_notes = [] \<rparr>
      else
        \<lparr> acc_job_id = job, acc_account_id = ''acct_1001'', acc_customer_name = ''Sample Customer'',
          acc_billing_model = ''per_job'', acc_payment_status = ''pending'',
          acc_service_approval_status = ''approved'', acc_contracted_services = 1, acc_completed_services = 0,
          acc_billing_notes = [] \<rparr>)"

definition organization_id_for_completion_report :: "string \<Rightarrow> (db, string option) db_call" where
  "organization_id_for_completion_report i = db_select (\<lambda>d.
     map_option (\<lambda>(r, job). job_organization_id job) (report_with_job i d))"

section \<open>Repository operations\<close>

definition default_persistence :: report_persistence where
  "default_persistence = \<lparr> rp_persisted = False, rp_status = None, rp_ready = None, rp_progress = None,
     rp_before = None, rp_after = None, rp_issue = None, rp_share_token = None \<rparr>"

definition read_or_unavailable :: "bool \<Rightarrow> (db, 'a) db_call \<Rightarrow> 'a \<Rightarrow> (db, 'a resource_read) db_call" where
  "read_or_unavailable pool m local =
     (if pool then db_catch m (\<lambda>_. db_return ResourceUnavailable) (\<lambda>a. db_return (ResourceLoaded a))
      else db_return (ResourceLoaded local))"

definition repo_list_photo_evidence :: "photo_storage \<Rightarrow> bool \<Rightarrow> string \<Rightarrow>
    (db, photo_evidence list resource_read) db_call" where
  "repo_list_photo_evidence storage pool job = read_or_unavailable pool (list_job_photos storage job) []"

definition repo_persist_completion_report :: "env \<Rightarrow> bool \<Rightarrow> completion_report \<Rightarrow>
    (db, report_persistence resource_read) db_call" where
  "repo_persist_completion_report env pool r =
     read_or_unavailable pool (persist_completion_report env r) default_persistence"

definition found_or_unavailable :: "(db, 'a option) db_call \<Rightarrow> (db, 'a resource_read) db_call" where
  "found_or_unavailable m = db_catch m (\<lambda>_. db_return ResourceUnavailable)
     (\<lambda>res. db_return (case res of Some a \<Rightarrow> ResourceLoaded a | None \<Rightarrow> ResourceNotFound))"

definition repo_get_account_for_job :: "bool \<Rightarrow> string \<Rightarrow> (db, account_summary resource_read) db_call" where
  "repo_get_account_for_job pool job =
     (if pool then found_or_unavailable (account_summary_for_job job)
      else db_return (ResourceLoaded (seed_summary job)))"

definition repo_delivered_snapshot_for_report_share_token :: "bool \<Rightarrow> string \<Rightarrow> (db, json resource_read) db_call" where
  "repo_delivered_snapshot_for_report_share_token pool token =
     (if pool then found_or_unavailable (delivered_snapshot_for_share_token token)
      else db_return ResourceNotFound)"

definition repo_organization_id_for_completion_report :: "bool \<Rightarrow> string \<Rightarrow> (db, resource_ownership) db_call" where
  "repo_organization_id_for_completion_report pool i =
     (if pool then db_catch (organization_id_for_completion_report i) (\<lambda>_. db_return OwnerUnavailable)
        (\<lambda>org. db_return (OwnerLoaded org))
      else db_return (OwnerLoaded (Option.bind (strip_prefix ''report_'' i) seed_organization_id_for_job)))"

definition action_or_unavailable :: "bool \<Rightarrow> (db, report_action) db_call \<Rightarrow> (db, report_action) db_call" where
  "action_or_unavailable pool m =
     (if pool then db_catch m (\<lambda>_. db_return ReportUnavailable) db_return else db_return ReportUnavailable)"

definition repo_start_completion_report_review :: "env \<Rightarrow> bool \<Rightarrow> string \<Rightarrow> string \<Rightarrow> (db, report_action) db_call" where
  "repo_start_completion_report_review env pool i reviewer =
     action_or_unavailable pool (start_completion_report_review env i reviewer)"

definition repo_request_completion_report_changes :: "env \<Rightarrow> bool \<Rightarrow> string \<Rightarrow> string \<Rightarrow> string option \<Rightarrow>
    (db, report_action) db_call" where
  "repo_request_completion_report_changes env pool i reviewer reason =
     action_or_unavailable pool (request_completion_report_changes env i reviewer reason)"

definition repo_resubmit_completion_report :: "env \<Rightarrow> bool \<Rightarrow> string \<Rightarrow> string \<Rightarrow> (db, report_action) db_call" where
  "repo_resubmit_completion_report env pool i submitter =
     action_or_unavailable pool (resubmit_completion_report env i submitter)"

definition repo_deliver_completion_report :: "env \<Rightarrow> bool \<Rightarrow> string \<Rightarrow> string \<Rightarrow> completion_report \<Rightarrow>
    (db, report_action) db_call" where
  "repo_deliver_completion_report env pool i actor snapshot =
     action_or_unavailable pool (deliver_completion_report env i actor snapshot)"

definition repo_completion_report_delivery_candidate :: "bool \<Rightarrow> string \<Rightarrow> (db, delivery_candidate) db_call" where
  "repo_completion_report_delivery_candidate pool i =
     (if pool then db_catch (completion_report_delivery_candidate i) (\<lambda>_. db_return CandidateUnavailable) db_return
      else db_return CandidateUnavailable)"

end
