(* ===== verification/Report_Handlers.thy ===== *)
theory Report_Handlers
  imports Route_Handlers Report_Store
begin

text \<open>
  The HTTP handlers of completion reports (\<open>backend/src/main.rs\<close>): building and refreshing a report, the
  manager queue with its filters, the life-cycle operations, and the shared report of the customer.
\<close>

section \<open>Building and refreshing\<close>

definition require_completion_report_organization_access :: "bool \<Rightarrow> auth_principal \<Rightarrow> string \<Rightarrow>
    (access_role \<Rightarrow> bool) \<Rightarrow> (db, problem option) db_call" where
  "require_completion_report_organization_access pool user i required_role =
     db_bind (repo_organization_id_for_completion_report pool i) (\<lambda>res. case res of
         OwnerLoaded (Some organization) \<Rightarrow>
           require_organization_membership pool user organization required_role
       | OwnerLoaded None \<Rightarrow> db_return (Some (resource_not_found_response ''completion_report_not_found''
           ''The requested completion report was not found.''))
       | OwnerUnavailable \<Rightarrow> db_return (Some
           (persisted_ownership_unavailable_response ''completion_report_ownership_unavailable'')))"

text \<open>\<open>?\<close> on an \<open>ApiResult\<close>.\<close>

definition api_bind :: "(db, problem + 'a) db_call \<Rightarrow> ('a \<Rightarrow> (db, problem + 'b) db_call) \<Rightarrow> (db, problem + 'b) db_call" where
  "api_bind m k = db_bind m (\<lambda>res. case res of Inl p \<Rightarrow> db_return (Inl p) | Inr a \<Rightarrow> k a)"

definition route_stop_of :: "day_plan_summary \<Rightarrow> string \<Rightarrow> route_stop_context option" where
  "route_stop_of plan job = map_option (\<lambda>s.
     \<lparr> rs_day_plan_id = sum_id plan, rs_crew_id = sum_crew_id plan, rs_service_date = sum_service_date plan,
       rs_stop_id = ds_id s, rs_stop_order = ds_stop_order s, rs_stop_status = ds_stop_status s \<rparr>)
     (lookup_by (\<lambda>s. ds_job_id s = job) (sum_stops plan))"

definition with_route_stop :: "env \<Rightarrow> bool \<Rightarrow> string \<Rightarrow> completion_report \<Rightarrow>
    (db, problem + completion_report) db_call" where
  "with_route_stop env pool job report =
     (case js_assigned_crew_id (jd_summary (cr_job report)) of
        None \<Rightarrow> db_return (Inr report)
      | Some crew \<Rightarrow> db_map (\<lambda>res. case res of
            Found plan \<Rightarrow> Inr (case route_stop_of plan job of
                None \<Rightarrow> report
              | Some stop \<Rightarrow> attach_completion_report_route_stop report stop)
          | TodayNotFound \<Rightarrow> Inr report
          | TodayUnavailable \<Rightarrow> Inl (persisted_resource_unavailable_response ''completion_report_route_unavailable''
              ''The persisted route context required for this completion report could not be loaded.''))
          (today_for_crew env pool crew))"

definition job_of_report :: "bool \<Rightarrow> string \<Rightarrow> (db, problem + job_detail) db_call" where
  "job_of_report pool job = db_map (\<lambda>res. case res of
       ResourceLoaded j \<Rightarrow> Inr j
     | ResourceNotFound \<Rightarrow> Inl (resource_not_found_response ''job_not_found'' ''Job was not found.'')
     | ResourceUnavailable \<Rightarrow> Inl (persisted_resource_unavailable_response ''job_unavailable''
         ''The persisted job detail could not be loaded.''))
     (repo_get_job pool job)"

definition account_of_report :: "bool \<Rightarrow> string \<Rightarrow> (db, problem + account_summary) db_call" where
  "account_of_report pool job = db_map (\<lambda>res. case res of
       ResourceLoaded a \<Rightarrow> Inr a
     | ResourceNotFound \<Rightarrow> Inl (resource_not_found_response ''job_account_not_found''
         ''Customer account context was not found for this job.'')
     | ResourceUnavailable \<Rightarrow> Inl (persisted_resource_unavailable_response ''job_account_unavailable''
         ''The persisted customer account context could not be loaded.''))
     (repo_get_account_for_job pool job)"

definition photos_of_report :: "photo_storage \<Rightarrow> bool \<Rightarrow> string \<Rightarrow> (db, problem + photo_evidence list) db_call" where
  "photos_of_report storage pool job = db_map (\<lambda>res. case res of
       ResourceLoaded ps \<Rightarrow> Inr ps
     | ResourceNotFound \<Rightarrow> Inr []
     | ResourceUnavailable \<Rightarrow> Inl (persisted_resource_unavailable_response ''photo_evidence_unavailable''
         ''The persisted photo evidence could not be loaded.''))
     (repo_list_photo_evidence storage pool job)"

definition add_ons_of_report :: "bool \<Rightarrow> string \<Rightarrow> (db, problem + job_add_on list) db_call" where
  "add_ons_of_report pool job = db_map (\<lambda>res. case res of
       ResourceLoaded as \<Rightarrow> Inr as
     | ResourceNotFound \<Rightarrow> Inr []
     | ResourceUnavailable \<Rightarrow> Inl (persisted_resource_unavailable_response ''job_add_ons_unavailable''
         ''The persisted job add-ons could not be loaded.''))
     (repo_list_job_add_ons pool job)"

text \<open>The persistence is never \<open>NotFound\<close> (\<open>unreachable!\<close>); \<open>500\<close> would be the panic.\<close>

definition persist_report :: "env \<Rightarrow> bool \<Rightarrow> completion_report \<Rightarrow> (db, problem + completion_report) db_call" where
  "persist_report env pool report = db_map (\<lambda>res. case res of
       ResourceLoaded p \<Rightarrow> Inr (apply_completion_report_persistence report p)
     | ResourceUnavailable \<Rightarrow> Inl (persisted_resource_unavailable_response
         ''completion_report_persistence_unavailable''
         ''The completion report could not be saved to persisted storage.'')
     | ResourceNotFound \<Rightarrow> Inl (500, [], []))
     (repo_persist_completion_report env pool report)"

definition build_and_persist_completion_report :: "env \<Rightarrow> photo_storage \<Rightarrow> bool \<Rightarrow> string \<Rightarrow>
    (db, problem + completion_report) db_call" where
  "build_and_persist_completion_report env storage pool job =
     api_bind (job_of_report pool job) (\<lambda>j.
     api_bind (account_of_report pool job) (\<lambda>a.
     api_bind (photos_of_report storage pool job) (\<lambda>ps.
     api_bind (add_ons_of_report pool job) (\<lambda>as.
     api_bind (with_route_stop env pool job (build_completion_report j a ps as))
       (persist_report env pool)))))"

definition api_answer :: "nat \<Rightarrow> problem + 'a \<Rightarrow> 'a http_response" where
  "api_answer status res = (case res of Inl p \<Rightarrow> refuse p | Inr a \<Rightarrow> Answer status a)"

definition handle_get_completion_report :: "env \<Rightarrow> photo_storage \<Rightarrow> bool \<Rightarrow> auth_principal \<Rightarrow> string \<Rightarrow>
    (db, completion_report http_response) db_call" where
  "handle_get_completion_report env storage pool user job = checked
     (require_job_organization_access pool user job can_view_crew_route)
     (db_map (api_answer 200) (build_and_persist_completion_report env storage pool job))"

section \<open>The manager queue\<close>

record report_query =
  rq_status :: "string option"
  rq_readiness :: "string option"
  rq_readiness_blocker :: "string option"
  rq_organization_id :: "string option"
  rq_crew_id :: "string option"
  rq_customer :: "string option"
  rq_property :: "string option"
  rq_scheduled_from :: "string option"
  rq_scheduled_to :: "string option"

text \<open>A check (\<open>Result<(), String>\<close>): the message, or \<open>None\<close>; the first failure answers.\<close>

fun first_error :: "string option list \<Rightarrow> string option" where
  "first_error [] = None"
| "first_error (Some e # es) = Some e"
| "first_error (None # es) = first_error es"

definition one_of :: "string option \<Rightarrow> string list \<Rightarrow> string \<Rightarrow> string option" where
  "one_of value allowed message =
     (case value of None \<Rightarrow> None | Some v \<Rightarrow> if v \<in> set allowed then None else Some message)"

definition validate_completion_report_text_filter :: "string option \<Rightarrow> string \<Rightarrow> string option" where
  "validate_completion_report_text_filter value name = (case value of
       None \<Rightarrow> None
     | Some v \<Rightarrow>
         if trim v = [] then Some (name @ '' cannot be blank when provided'')
         else if 120 < length (trim v) then Some (name @ '' cannot exceed 120 characters'')
         else None)"

text \<open>Ten bytes of this shape are ten characters.\<close>

definition is_date_shaped :: "string \<Rightarrow> bool" where
  "is_date_shaped v \<longleftrightarrow> length v = 10
     \<and> list_all (\<lambda>k. if k = 4 \<or> k = 7 then v ! k = CHR ''-'' else is_ascii_digit (v ! k)) [0..<10]"

definition validate_completion_report_date_filter :: "string option \<Rightarrow> string \<Rightarrow> string option" where
  "validate_completion_report_date_filter value name = (case value of
       None \<Rightarrow> None
     | Some v \<Rightarrow> if is_date_shaped v then None else Some (name @ '' must use YYYY-MM-DD format''))"

definition validate_completion_report_list_query :: "report_query \<Rightarrow> string option" where
  "validate_completion_report_list_query q = first_error
     [one_of (rq_status q) (''all'' # ''active'' # lifecycle_statuses)
        ''status must be all, active, draft, submitted, in_review, changes_requested, or delivered'',
      one_of (rq_readiness q) [''all'', ''ready'', ''blocked'', ''local_only'']
        ''readiness must be all, ready, blocked, or local_only'',
      one_of (rq_readiness_blocker q) [''all'', ''any'', ''checklist'', ''before_photos'', ''after_photos'',
          ''add_ons'', ''route_stop'']
        ''readiness_blocker must be all, any, checklist, before_photos, after_photos, add_ons, or route_stop'',
      validate_completion_report_text_filter (rq_crew_id q) ''crew_id'',
      validate_completion_report_text_filter (rq_organization_id q) ''organization_id'',
      validate_completion_report_text_filter (rq_customer q) ''customer'',
      validate_completion_report_text_filter (rq_property q) ''property'',
      validate_completion_report_date_filter (rq_scheduled_from q) ''scheduled_from'',
      validate_completion_report_date_filter (rq_scheduled_to q) ''scheduled_to'',
      (case (rq_scheduled_from q, rq_scheduled_to q) of
         (Some a, Some b) \<Rightarrow>
           if string_less b a then Some ''scheduled_from cannot be after scheduled_to'' else None
       | _ \<Rightarrow> None)]"

text \<open>\<open>str::to_lowercase\<close> on the characters below U+0100.\<close>

definition lower_char :: "char \<Rightarrow> char" where
  "lower_char c = (let n = of_char c :: nat in
     if (65 \<le> n \<and> n \<le> 90) \<or> (192 \<le> n \<and> n \<le> 222 \<and> n \<noteq> 215) then char_of (n + 32) else c)"

definition to_lowercase :: "string \<Rightarrow> string" where
  "to_lowercase s = map lower_char s"

definition normalized_exact_filter :: "string option \<Rightarrow> string option" where
  "normalized_exact_filter value = Option.bind value (\<lambda>v. if trim v = [] then None else Some (trim v))"

definition normalized_text_filter :: "string option \<Rightarrow> string option" where
  "normalized_text_filter value = map_option to_lowercase (normalized_exact_filter value)"

definition if_given :: "'a option \<Rightarrow> ('a \<Rightarrow> bool) \<Rightarrow> bool" where
  "if_given x P = (case x of None \<Rightarrow> True | Some a \<Rightarrow> P a)"

definition completion_report_matches_readiness_blocker_filter :: "completion_report \<Rightarrow> report_query \<Rightarrow> bool" where
  "completion_report_matches_readiness_blocker_filter r q =
     (let f = with_default (rq_readiness_blocker q) ''all'' in
      if f = ''any'' then \<not> cr_ready r
      else if f = ''checklist'' then cr_progress r < 100
      else if f = ''before_photos'' then cr_before r = 0
      else if f = ''after_photos'' then cr_after r = 0
      else if f = ''add_ons'' then ''add_ons'' \<in> set (cr_blockers r)
      else if f = ''route_stop'' then ''route_stop'' \<in> set (cr_blockers r)
      else True)"

definition completion_report_matches_operational_filters :: "completion_report \<Rightarrow> report_query \<Rightarrow> bool" where
  "completion_report_matches_operational_filters r q =
     (let job = jd_summary (cr_job r) in
      if_given (normalized_exact_filter (rq_organization_id q)) (\<lambda>o'. js_organization_id job = o')
      \<and> if_given (normalized_text_filter (rq_customer q)) (\<lambda>c. contains_string c (to_lowercase (js_customer_name job)))
      \<and> if_given (normalized_text_filter (rq_property q)) (\<lambda>p. contains_string p (to_lowercase (js_property_address job)))
      \<and> if_given (normalized_exact_filter (rq_crew_id q)) (\<lambda>c. js_assigned_crew_id job = Some c)
      \<and> completion_report_matches_readiness_blocker_filter r q
      \<and> if_given (rq_scheduled_from q) (\<lambda>d. \<not> string_less (js_scheduled_date job) d)
      \<and> if_given (rq_scheduled_to q) (\<lambda>d. \<not> string_less d (js_scheduled_date job)))"

definition completion_report_matches_list_query :: "completion_report \<Rightarrow> report_query \<Rightarrow> bool" where
  "completion_report_matches_list_query r q =
     (let status = with_default (rq_status q) ''all''; readiness = with_default (rq_readiness q) ''all'' in
      (if status = ''all'' then True
       else if status = ''active'' then completion_report_is_active_manager_queue_status (cr_status r)
       else cr_status r = status)
      \<and> (if readiness = ''ready'' then cr_ready r
         else if readiness = ''blocked'' then \<not> cr_ready r
         else if readiness = ''local_only'' then \<not> cr_persisted r
         else True)
      \<and> completion_report_matches_operational_filters r q)"

text \<open>The loop over the jobs: the first report that cannot be built ends it.\<close>

fun build_reports :: "env \<Rightarrow> photo_storage \<Rightarrow> bool \<Rightarrow> report_query \<Rightarrow> job_summary list \<Rightarrow>
    (db, problem + completion_report list) db_call" where
  "build_reports env storage pool q [] = db_return (Inr [])"
| "build_reports env storage pool q (j # js) =
     api_bind (build_and_persist_completion_report env storage pool (js_id j)) (\<lambda>r.
     api_bind (build_reports env storage pool q js) (\<lambda>rs.
     db_return (Inr (if completion_report_matches_list_query r q then r # rs else rs))))"

definition reports_of_jobs :: "env \<Rightarrow> photo_storage \<Rightarrow> bool \<Rightarrow> report_query \<Rightarrow> string list \<Rightarrow>
    job_summary list resource_read \<Rightarrow> (db, completion_report list http_response) db_call" where
  "reports_of_jobs env storage pool q visible_ids res = (case res of
       ResourceUnavailable \<Rightarrow> db_return (refuse (persisted_resource_unavailable_response
         ''completion_report_jobs_unavailable''
         ''The persisted jobs for completion review could not be loaded.''))
     | ResourceNotFound \<Rightarrow> db_return (Answer 200 [])
     | ResourceLoaded jobs \<Rightarrow> db_map (api_answer 200) (build_reports env storage pool q
         (filter (\<lambda>j. js_organization_id j \<in> set visible_ids) jobs)))"

definition reports_of_organizations :: "env \<Rightarrow> photo_storage \<Rightarrow> bool \<Rightarrow> report_query \<Rightarrow> string list option \<Rightarrow>
    (db, completion_report list http_response) db_call" where
  "reports_of_organizations env storage pool q ids = (case ids of
       None \<Rightarrow> db_return (refuse (persisted_resource_unavailable_response
         ''organization_memberships_unavailable'' ''Active organization memberships could not be loaded.''))
     | Some visible_ids \<Rightarrow>
         if visible_ids = [] then db_return (Answer 200 [])
         else db_bind (repo_list_jobs pool) (reports_of_jobs env storage pool q visible_ids))"

definition handle_list_completion_reports :: "env \<Rightarrow> photo_storage \<Rightarrow> bool \<Rightarrow> auth_principal \<Rightarrow> report_query \<Rightarrow>
    (db, completion_report list http_response) db_call" where
  "handle_list_completion_reports env storage pool user q =
     (case validate_completion_report_list_query q of
        Some message \<Rightarrow> db_return (Problem 400 ''invalid_completion_report_filter'' message)
      | None \<Rightarrow> db_bind (principal_active_organization_ids pool (principal_subject user))
          (reports_of_organizations env storage pool q))"

section \<open>The life cycle\<close>

definition action_reply :: "string \<Rightarrow> string \<Rightarrow> report_action \<Rightarrow> action_response http_response" where
  "action_reply conflict unavailable res = (case res of
       ReportUpdated a \<Rightarrow> Answer 200 a
     | ReportInvalidTransition \<Rightarrow> Problem 409 ''invalid_completion_report_transition'' conflict
     | ReportNotFound \<Rightarrow> Problem 404 ''completion_report_not_found'' ''The requested completion report was not found.''
     | ReportUnavailable \<Rightarrow> Problem 503 ''completion_report_persistence_unavailable'' unavailable)"

definition handle_start_review :: "env \<Rightarrow> bool \<Rightarrow> auth_principal \<Rightarrow> string \<Rightarrow>
    (db, action_response http_response) db_call" where
  "handle_start_review env pool user i = checked
     (require_completion_report_organization_access pool user i can_review_completion_report)
     (db_map (action_reply ''Only submitted completion reports can enter manager review.''
        ''Starting manager review requires database persistence.'')
      (repo_start_completion_report_review env pool i (principal_subject user)))"

definition normalize_completion_report_change_reason :: "string option \<Rightarrow> unit + string option" where
  "normalize_completion_report_change_reason reason = (case reason of
       None \<Rightarrow> Inr None
     | Some r \<Rightarrow>
         if trim r = [] then Inr None
         else if 1000 < length (trim r) then Inl ()
         else Inr (Some (trim r)))"

definition handle_request_changes :: "env \<Rightarrow> bool \<Rightarrow> auth_principal \<Rightarrow> string \<Rightarrow> string option \<Rightarrow>
    (db, action_response http_response) db_call" where
  "handle_request_changes env pool user i given =
     (case normalize_completion_report_change_reason given of
        Inl _ \<Rightarrow> db_return (Problem 400 ''invalid_completion_report_change_reason''
          ''Change request reason must be 1000 characters or fewer.'')
      | Inr reason \<Rightarrow> checked
          (require_completion_report_organization_access pool user i can_review_completion_report)
          (db_map (action_reply ''Only in-review completion reports can have changes requested.''
             ''Requesting changes requires database persistence.'')
           (repo_request_completion_report_changes env pool i (principal_subject user) reason)))"

definition handle_resubmit :: "env \<Rightarrow> bool \<Rightarrow> auth_principal \<Rightarrow> string \<Rightarrow>
    (db, action_response http_response) db_call" where
  "handle_resubmit env pool user i = checked
     (require_completion_report_organization_access pool user i can_submit_completion_report)
     (db_map (action_reply ''Only ready change-requested completion reports can be resubmitted.''
        ''Resubmitting a completion report requires database persistence.'')
      (repo_resubmit_completion_report env pool i (principal_subject user)))"

definition captured_at :: "env \<Rightarrow> u64" where
  "captured_at env = word_of_int (int (now_nanos env) div 10 ^ 9)"

definition deliver_candidate :: "env \<Rightarrow> photo_storage \<Rightarrow> bool \<Rightarrow> auth_principal \<Rightarrow> string \<Rightarrow> string \<Rightarrow>
    (db, action_response http_response) db_call" where
  "deliver_candidate env storage pool user i job =
     db_bind (build_and_persist_completion_report env storage pool job) (\<lambda>res. case res of
         Inl p \<Rightarrow> db_return (refuse p)
       | Inr report \<Rightarrow> db_map (action_reply ''Only ready in-review completion reports can be delivered.''
           ''Delivering a completion report requires database persistence.'')
           (repo_deliver_completion_report env pool i (principal_subject user)
             (prepare_delivered_completion_report_snapshot (captured_at env) report)))"

definition handle_deliver :: "env \<Rightarrow> photo_storage \<Rightarrow> bool \<Rightarrow> auth_principal \<Rightarrow> string \<Rightarrow>
    (db, action_response http_response) db_call" where
  "handle_deliver env storage pool user i = checked
     (require_completion_report_organization_access pool user i can_deliver_completion_report)
     (db_bind (repo_completion_report_delivery_candidate pool i) (\<lambda>res. case res of
         CandidateReady job \<Rightarrow> deliver_candidate env storage pool user i job
       | CandidateInvalidTransition \<Rightarrow> db_return (Problem 409 ''invalid_completion_report_transition''
           ''Only ready in-review completion reports can be delivered.'')
       | CandidateNotFound \<Rightarrow> db_return (refuse (resource_not_found_response ''completion_report_not_found''
           ''The requested completion report was not found.''))
       | CandidateUnavailable \<Rightarrow> db_return (refuse (persisted_resource_unavailable_response
           ''completion_report_persistence_unavailable''
           ''Delivering a completion report requires database persistence.''))))"

section \<open>The shared report\<close>

definition handle_shared_report :: "bool \<Rightarrow> string \<Rightarrow> (db, customer_report http_response) db_call" where
  "handle_shared_report pool token = db_map (\<lambda>res. case res of
       ResourceLoaded snapshot \<Rightarrow>
         (case customer_completion_report_snapshot_response snapshot of
            Some report \<Rightarrow> Answer 200 report
          | None \<Rightarrow> refuse (persisted_resource_unavailable_response ''shared_report_snapshot_invalid''
              ''The persisted shared report snapshot could not be safely projected.''))
     | ResourceUnavailable \<Rightarrow> refuse (persisted_resource_unavailable_response ''shared_report_unavailable''
         ''The persisted shared report could not be loaded.'')
     | ResourceNotFound \<Rightarrow> Problem 404 ''shared_report_not_found'' ''Shared report link was not found.'')
     (repo_delivered_snapshot_for_report_share_token pool token)"

end
