(* ===== verification/Photo_Privacy.thy ===== *)
theory Photo_Privacy
  imports Report_Handlers
begin

text \<open>
  The erasure of a customer's photo evidence (\<open>backend/src/postgres_privacy.rs\<close> and its operations in
  \<open>db.rs\<close>, \<open>main.rs\<close>): photos and delivered snapshots are redacted and the deletion of the stored objects
  is queued, in one transaction.
\<close>

section \<open>Erasure\<close>

record erasure_summary =
  es_account_id :: string
  es_erased_photos :: nat
  es_affected_jobs :: nat
  es_redacted_reports :: nat
  es_deleted_keys :: int
  es_failed_keys :: nat
  es_pending_keys :: "string list"

datatype erasure_result = Erased erasure_summary | ErasureNotFound | ErasureUnavailable

text \<open>The jobs of the account in these organizations.\<close>

definition account_jobs :: "string \<Rightarrow> string list \<Rightarrow> db \<Rightarrow> job_row list" where
  "account_jobs account orgs d = filter (\<lambda>j. job_customer_account_id j = Some account
     \<and> job_organization_id j \<in> set orgs) (service_jobs d)"

definition sorted_distinct :: "string list \<Rightarrow> string list" where
  "sorted_distinct xs = remdups_adj (order_by (\<lambda>a b. \<not> string_less b a) xs)"

text \<open>\<open>customer_privacy_account\<close>, of which the erasure reads the organizations.\<close>

definition account_organizations :: "string \<Rightarrow> string list \<Rightarrow> db \<Rightarrow> string list option" where
  "account_organizations account orgs d =
     (if \<not> exists_row (\<lambda>a. account_pk a = account) (customer_accounts d) \<or> account_jobs account orgs d = [] then None
      else Some (sorted_distinct (map job_organization_id (account_jobs account orgs d))))"

definition erasable :: "string list \<Rightarrow> photo_row \<Rightarrow> bool" where
  "erasable jobs p \<longleftrightarrow> photo_job_id p \<in> set jobs \<and> photo_erased_at p = None \<and> photo_status p \<noteq> ''erased''"

definition erased_photo :: "env \<Rightarrow> string \<Rightarrow> string \<Rightarrow> photo_row \<Rightarrow> photo_row" where
  "erased_photo env actor reason p = p\<lparr> photo_status := ''erased'', photo_file_name := ''erased-photo-evidence'',
     photo_content_type := ''application/octet-stream'', photo_object_key := ''erased/'' @ photo_pk p,
     photo_thumbnail_key := None, photo_file_size := None, photo_width := None, photo_height := None,
     photo_metadata_source := Some ''erased'', photo_metadata_captured_at := Some (now_at env),
     photo_rejected_reason := None, photo_rejected_at := None, photo_erased_at := Some (now_at env),
     photo_erased_by := Some actor, photo_erasure_reason := Some reason,
     photo_erased_object_key := Some (photo_object_key p), photo_erased_thumbnail_key := photo_thumbnail_key p \<rparr>"

text \<open>The statement answers the photos as they were.\<close>

definition erase_photos :: "env \<Rightarrow> string \<Rightarrow> string list \<Rightarrow> string \<Rightarrow> string \<Rightarrow> (db, photo_row list) statement" where
  "erase_photos env account orgs actor reason d =
     (let jobs = map job_pk (account_jobs account orgs d) in
      Inr (filter (erasable jobs) (job_photos d),
        d\<lparr> job_photos := update_where (erasable jobs) (erased_photo env actor reason) (job_photos d) \<rparr>))"

definition redacted_row :: "report_row \<Rightarrow> report_row" where
  "redacted_row r = r\<lparr> report_row_snapshot := map_option privacy_redaction (report_row_snapshot r) \<rparr>"

fun redact_each :: "report_row list \<Rightarrow> db \<Rightarrow> sqlx_error + db" where
  "redact_each [] d = Inr d"
| "redact_each (r # rs) d = (case put_report r (redacted_row r) d of
       Inl e \<Rightarrow> Inl e | Inr d' \<Rightarrow> redact_each rs d')"

definition redact_reports :: "string \<Rightarrow> string list \<Rightarrow> (db, nat) statement" where
  "redact_reports account orgs d =
     (let jobs = map job_pk (account_jobs account orgs d);
          targets = filter (\<lambda>r. report_row_job_id r \<in> set jobs \<and> report_row_snapshot r \<noteq> None) (reports d)
      in map_sum id (Pair (length targets)) (redact_each targets d))"

definition queued_deletion :: "env \<Rightarrow> nat \<Rightarrow> string \<Rightarrow> string \<Rightarrow> string \<Rightarrow> deletion_row" where
  "queued_deletion env k account organization key =
     \<lparr> deletion_pk = ''photo_erasure_deletion_'' @ fresh_uuid env k, deletion_account_id = account,
       deletion_organization_id = organization, deletion_object_key = key, deletion_status = ''queued'',
       deletion_attempt_count = 0, deletion_available_at = now_at env, deletion_last_attempt_at = None,
       deletion_completed_at = None, deletion_resolved_at = None, deletion_last_error = None,
       deletion_resolution_note = None, deletion_created_at = now_at env, deletion_updated_at = now_at env \<rparr>"

definition requeued_deletion :: "env \<Rightarrow> deletion_row \<Rightarrow> deletion_row" where
  "requeued_deletion env x =
     (let completed = deletion_status x = ''completed'' in
      x\<lparr> deletion_status := (if completed then ''completed'' else ''queued''),
         deletion_available_at := now_at env,
         deletion_last_error := (if completed then deletion_last_error x else None),
         deletion_updated_at := now_at env \<rparr>)"

text \<open>\<open>ON CONFLICT (organization_id, object_key) DO UPDATE\<close>.\<close>

definition queue_deletion :: "env \<Rightarrow> nat \<Rightarrow> string \<Rightarrow> string \<Rightarrow> string \<Rightarrow> (db, unit) statement" where
  "queue_deletion env k account organization key d =
     (let same = (\<lambda>x. deletion_organization_id x = organization \<and> deletion_object_key x = key) in
      if exists_row same (deletion_jobs d)
      then Inr ((), d\<lparr> deletion_jobs := update_where same (requeued_deletion env) (deletion_jobs d) \<rparr>)
      else map_sum id (\<lambda>rows. ((), d\<lparr> deletion_jobs := rows \<rparr>))
        (insert_row (\<lambda>_. True) (\<lambda>a b. deletion_pk a = deletion_pk b)
          (queued_deletion env k account organization key) (deletion_jobs d)))"

fun queue_deletions :: "env \<Rightarrow> nat \<Rightarrow> string \<Rightarrow> string \<Rightarrow> string list \<Rightarrow> (db, nat) db_call" where
  "queue_deletions env k account organization [] = db_return k"
| "queue_deletions env k account organization (key # keys) =
     db_bind (db_stmt (queue_deletion env k account organization key)) (\<lambda>_.
       queue_deletions env (k + 1) account organization keys)"

definition privacy_audit_row :: "env \<Rightarrow> nat \<Rightarrow> string \<Rightarrow> string \<Rightarrow> string \<Rightarrow> string \<Rightarrow> audit_row" where
  "privacy_audit_row env k actor organization kind target =
     \<lparr> audit_pk = ''audit_'' @ kind @ ''_'' @ fresh_uuid env k, audit_actor = actor,
       audit_organization_id = organization, audit_kind = kind, audit_target = target,
       audit_at = now_at env, audit_metadata = [] \<rparr>"

fun audit_erasure :: "env \<Rightarrow> nat \<Rightarrow> string \<Rightarrow> string \<Rightarrow> string list \<Rightarrow> (db, unit) db_call" where
  "audit_erasure env k actor account [] = db_return ()"
| "audit_erasure env k actor account (organization # orgs) =
     db_bind (db_stmt (append_audit
        (privacy_audit_row env k actor organization ''customer_photo_evidence_erased'' account))) (\<lambda>_.
       audit_erasure env (k + 1) actor account orgs)"

definition original_keys :: "photo_row list \<Rightarrow> string list" where
  "original_keys photos = sorted_distinct (concat (map (\<lambda>p.
     photo_object_key p # (case photo_thumbnail_key p of None \<Rightarrow> [] | Some t \<Rightarrow> [t])) photos))"

definition erase_customer_photo_evidence :: "env \<Rightarrow> string \<Rightarrow> string list \<Rightarrow> string \<Rightarrow> string \<Rightarrow>
    (db, erasure_result) db_call" where
  "erase_customer_photo_evidence env account orgs actor reason =
     (if orgs = [] then db_return ErasureNotFound
      else db_bind (db_select (account_organizations account orgs)) (\<lambda>found. case found of
         None \<Rightarrow> db_return ErasureNotFound
       | Some owners \<Rightarrow> db_transaction
           (db_bind (db_stmt (erase_photos env account orgs actor reason)) (\<lambda>photos.
            db_bind (db_stmt (redact_reports account orgs)) (\<lambda>redacted.
            let keys = original_keys photos in
            case owners of
              [] \<Rightarrow> db_return (Rollback ErasureNotFound)
            | owner # _ \<Rightarrow>
                db_bind (queue_deletions env 0 account owner keys) (\<lambda>k.
                db_bind (audit_erasure env k actor account owners) (\<lambda>_.
                db_return (Commit (Erased
                  \<lparr> es_account_id = account, es_erased_photos = length photos,
                    es_affected_jobs = card (set (map photo_job_id photos)), es_redacted_reports = redacted,
                    es_deleted_keys = 0, es_failed_keys = length keys, es_pending_keys = keys \<rparr>)))))))))"

text \<open>
  The deletion of stored objects: none to delete locally; with S3 third-party code, \<open>delete\<close>, which answers
  the count and the keys that failed, or fails.
\<close>

type_synonym object_deletion = "string list \<Rightarrow> (int \<times> string list) option"

definition delete_objects :: "photo_storage \<Rightarrow> object_deletion \<Rightarrow> string list \<Rightarrow> int \<times> string list" where
  "delete_objects storage delete keys =
     (if keys = [] then (0, [])
      else case storage of
          LocalStorage \<Rightarrow> (int (length keys), [])
        | S3Storage _ \<Rightarrow> with_default (delete keys) (0, keys))"

definition repo_erase_customer_photo_evidence :: "env \<Rightarrow> photo_storage \<Rightarrow> object_deletion \<Rightarrow> bool \<Rightarrow> string \<Rightarrow>
    string list \<Rightarrow> string \<Rightarrow> string \<Rightarrow> (db, erasure_result) db_call" where
  "repo_erase_customer_photo_evidence env storage delete pool account orgs actor reason =
     (if \<not> pool then db_return ErasureUnavailable
      else db_catch (erase_customer_photo_evidence env account orgs actor reason)
        (\<lambda>_. db_return ErasureUnavailable)
        (\<lambda>res. db_return (case res of
            Erased s \<Rightarrow> (case delete_objects storage delete (es_pending_keys s) of (deleted, failed) \<Rightarrow>
              Erased (s\<lparr> es_deleted_keys := deleted, es_failed_keys := length failed, es_pending_keys := failed \<rparr>))
          | other \<Rightarrow> other)))"

definition normalize_customer_photo_erasure_reason :: "string \<Rightarrow> unit + string" where
  "normalize_customer_photo_erasure_reason reason =
     (if trim reason = [] \<or> 1000 < length (trim reason) then Inl () else Inr (trim reason))"

definition erase_for_organizations :: "env \<Rightarrow> photo_storage \<Rightarrow> object_deletion \<Rightarrow> bool \<Rightarrow> auth_principal \<Rightarrow> string \<Rightarrow>
    string \<Rightarrow> string list option \<Rightarrow> (db, erasure_summary http_response) db_call" where
  "erase_for_organizations env storage delete pool user account reason ids = (case ids of
       None \<Rightarrow> db_return (refuse (persisted_resource_unavailable_response
         ''organization_memberships_unavailable'' ''Active organization memberships could not be loaded.''))
     | Some orgs \<Rightarrow> db_map (\<lambda>res. case res of
           Erased s \<Rightarrow> Answer 200 s
         | ErasureNotFound \<Rightarrow> refuse (resource_not_found_response ''customer_account_not_found''
             ''The requested customer account was not found.'')
         | ErasureUnavailable \<Rightarrow> Problem 503 ''customer_photo_erasure_unavailable''
             ''Customer photo erasure requires database persistence.'')
         (repo_erase_customer_photo_evidence env storage delete pool account orgs (principal_subject user) reason))"

definition handle_erase_photos :: "env \<Rightarrow> photo_storage \<Rightarrow> object_deletion \<Rightarrow> bool \<Rightarrow> auth_principal \<Rightarrow> string \<Rightarrow>
    string \<Rightarrow> (db, erasure_summary http_response) db_call" where
  "handle_erase_photos env storage delete pool user account given =
     (case normalize_customer_photo_erasure_reason given of
        Inl _ \<Rightarrow> db_return (Problem 400 ''invalid_customer_photo_erasure_reason''
          ''reason is required and must be no more than 1000 characters.'')
      | Inr reason \<Rightarrow> db_bind
          (principal_active_organization_ids_for_role pool (principal_subject user) can_review_completion_report)
          (erase_for_organizations env storage delete pool user account reason))"

end
