(* ===== verification/Redaction_Facts.thy ===== *)
theory Redaction_Facts
  imports Report_Store
begin

text \<open>
  The redaction of a delivered snapshot (\<open>jsonb_set\<close> on eight paths): it is idempotent, and a redacted
  snapshot is no longer projected to the customer.
\<close>

lemma map_of_map_value: "map_of (map (\<lambda>(l, x). (l, f l x)) kvs) k = map_option (f k) (map_of kvs k)"
  by (induction kvs) auto

lemma is_object_set [simp]: "is_object (json_set ks v j) = is_object j"
  by (cases "(ks, v, j)" rule: json_set.cases) simp_all

lemma json_get_set:
  "is_object j \<Longrightarrow> json_get k (json_set (l # ls) v j) =
     (if k \<noteq> l then json_get k j
      else if json_get k j = None then (if ls = [] then Some v else None)
      else map_option (\<lambda>x. if ls = [] then v else json_set ls v x) (json_get k j))"
  by (cases j) (auto simp: map_of_map_value map_add_def split: option.splits)


lemma map_same: "map f xs = xs \<longleftrightarrow> (\<forall>x \<in> set xs. f x = x)"
  by (induction xs) auto

lemma json_set_fixed:
  "json_set (k # ks) v (JObj kvs) = JObj kvs \<longleftrightarrow> (map_of kvs k = None \<longrightarrow> ks \<noteq> [])
     \<and> (\<forall>x. (k, x) \<in> set kvs \<longrightarrow> (if ks = [] then v else json_set ks v x) = x)"
proof (cases "map_of kvs k")
  case None
  then have "(k, x) \<notin> set kvs" for x by (force simp: map_of_eq_None_iff)
  with None show ?thesis by auto
next
  case (Some y)
  then show ?thesis by (auto simp: map_same)
qed

declare json_set.simps(1) [simp del]

lemma json_set_cases: "json_set (k # ks) v (JObj kvs) = JObj
     (if map_of kvs k = None then (if ks = [] then kvs @ [(k, v)] else kvs)
      else map (\<lambda>(l, x). (l, if l \<noteq> k then x else if ks = [] then v else json_set ks v x)) kvs)"
  by (rule json_set.simps)

lemma json_set_again: "json_set ks v (json_set ks v j) = json_set ks v j"
proof (induction ks arbitrary: j)
  case (Cons k ks)
  show ?case
  proof (cases j)
    case (JObj kvs)
    have none: "map_of kvs k = None \<Longrightarrow> (k, x) \<notin> set kvs" for x by (auto simp: map_of_eq_None_iff image_iff)
    show ?thesis unfolding JObj json_set_cases [of k ks v kvs]
      by (rule json_set_fixed [THEN iffD2]) (auto simp: none map_of_map_value Cons.IH split: if_splits)
  qed simp_all
qed simp

fun apart :: "string list \<Rightarrow> string list \<Rightarrow> bool" where
  "apart (k # ks) (l # ls) = (k \<noteq> l \<or> apart ks ls)"
| "apart _ _ = False"

lemma json_set_apart:
  "json_set ks v j = j \<Longrightarrow> apart ks ls \<Longrightarrow> json_set ks v (json_set ls w j) = json_set ls w j"
proof (induction ks ls arbitrary: j rule: apart.induct)
  case (1 k ks l ls)
  show ?case
  proof (cases j)
    case (JObj kvs)
    have fixed: "map_of kvs k = None \<longrightarrow> ks \<noteq> []"
      "(k, x) \<in> set kvs \<Longrightarrow> (if ks = [] then v else json_set ks v x) = x" for x
      using "1.prems"(1) unfolding JObj json_set_fixed by auto
    have none: "map_of kvs m = None \<Longrightarrow> (m, x) \<notin> set kvs" for x m by (auto simp: map_of_eq_None_iff image_iff)
    have ih: "json_set ks v (json_set ls w x) = json_set ls w x" if "(k, x) \<in> set kvs" "k = l" for x
    proof -
      have ap: "apart ks ls" using "1.prems"(2) that(2) by simp
      then have "ks \<noteq> []" by auto
      then show ?thesis using fixed(2) [OF that(1)] "1.IH" [of x] ap that(2) by simp
    qed
    have ap: "k = l \<Longrightarrow> ks \<noteq> [] \<and> ls \<noteq> []" using "1.prems"(2) by auto
    show ?thesis unfolding JObj json_set_cases [of l ls w kvs]
      by (rule json_set_fixed [THEN iffD2])
         (use fixed ih ap in \<open>auto simp: none map_of_map_value split: if_splits\<close>)
  qed simp_all
qed simp_all


section \<open>The redaction\<close>

definition set_paths :: "(string list \<times> json) list \<Rightarrow> json \<Rightarrow> json" where
  "set_paths ps = fold (\<lambda>(path, v). json_set path v) ps"

lemma set_paths_Cons [simp]: "set_paths ((p, v) # ps) j = set_paths ps (json_set p v j)"
  by (simp add: set_paths_def)

lemma set_paths_keeps:
  "json_set p v j = j \<Longrightarrow> \<forall>q \<in> set ps. apart p (fst q) \<Longrightarrow> json_set p v (set_paths ps j) = set_paths ps j"
  by (induction ps arbitrary: j) (auto simp: json_set_apart set_paths_def)

lemma set_paths_fixed:
  "sorted_wrt (\<lambda>a b. apart (fst a) (fst b)) ps \<Longrightarrow> \<forall>(p, v) \<in> set ps. json_set p v (set_paths ps j) = set_paths ps j"
proof (induction ps arbitrary: j)
  case (Cons q ps)
  obtain p v where q: "q = (p, v)" by force
  have "json_set p v (set_paths ps (json_set p v j)) = set_paths ps (json_set p v j)"
    using Cons.prems by (intro set_paths_keeps json_set_again) (auto simp: q)
  with Cons q show ?case by auto
qed simp

lemma set_paths_id: "\<forall>(p, v) \<in> set ps. json_set p v j = j \<Longrightarrow> set_paths ps j = j"
  by (induction ps) (auto simp: set_paths_def)

lemma privacy_redaction_idem [simp]: "privacy_redaction (privacy_redaction s) = privacy_redaction s"
proof -
  define ps where "ps = [([''photo_evidence''], JArr []), ([''before_photos''], JNum 0), ([''after_photos''], JNum 0),
      ([''issue_photos''], JNum 0), ([''snapshot_metadata'', ''evidence'', ''total_photo_evidence''], JNum 0),
      ([''snapshot_metadata'', ''evidence'', ''before_photos''], JNum 0),
      ([''snapshot_metadata'', ''evidence'', ''after_photos''], JNum 0),
      ([''snapshot_metadata'', ''evidence'', ''issue_photos''], JNum 0)]"
  have "privacy_redaction = set_paths ps" by (rule ext) (simp add: privacy_redaction_def set_paths_def ps_def)
  moreover have "sorted_wrt (\<lambda>a b. apart (fst a) (fst b)) ps" by (simp add: ps_def)
  ultimately show ?thesis using set_paths_fixed set_paths_id by metis
qed

lemma map_option_redaction_idem [simp]:
  "map_option privacy_redaction (map_option privacy_redaction s) = map_option privacy_redaction s"
  by (cases s) simp_all

definition redactable :: "json option \<Rightarrow> json option \<Rightarrow> bool" where
  "redactable s t \<longleftrightarrow> t = s \<or> t = map_option privacy_redaction s"

lemma redactable_trans: "redactable s t \<Longrightarrow> redactable t u \<Longrightarrow> redactable s u"
  by (auto simp: redactable_def)

text \<open>The projection refuses a redacted snapshot: its photo counts are 0.\<close>

lemma redacted_counts:
  "is_object s \<Longrightarrow> json_get ''before_photos'' (privacy_redaction s) = Some (JNum 0)"
  by (simp add: privacy_redaction_def json_get_set)

lemma redacted_not_projected: "customer_completion_report_snapshot_response (privacy_redaction s) = None"
proof (cases "is_object s")
  case True
  have "u32_field ''before_photos'' (privacy_redaction s) = Some 0"
    using redacted_counts [OF True] by (simp add: u32_field_def u64_field_def)
  then show ?thesis
    by (simp add: customer_completion_report_snapshot_response_def Option.bind_eq_None_conv)
next
  case False
  then have "json_get k (privacy_redaction s) = None" for k
    by (cases "privacy_redaction s") (auto simp: privacy_redaction_def dest: arg_cong [where f = is_object])
  then show ?thesis by (simp add: customer_completion_report_snapshot_response_def str_field_def)
qed


end
