(* ===== verification/Report_Facts.thy ===== *)
theory Report_Facts
  imports Photo_Privacy Redaction_Facts
begin

text \<open>
  What every operation on completion reports keeps: the invariant \<open>reports_ok\<close> of the tables, the abstract
  life cycle \<open>lifecycle_step\<close> that the stored statuses follow, and \<open>settled_report\<close>, which says how much of a
  delivered report can still change. \<open>report_keeps\<close> is the three of them, \<open>report_rules\<close> its composition.
\<close>

section \<open>The invariant\<close>

fun status_chain :: "string \<Rightarrow> history_row list \<Rightarrow> string \<Rightarrow> bool" where
  "status_chain s [] t = (s = t)"
| "status_chain s (h # hs) t = (history_from_status h = Some s
     \<and> completion_report_lifecycle_transition_is_allowed (Some s) (history_to_status h)
     \<and> status_chain (history_to_status h) hs t)"

definition history_of :: "db \<Rightarrow> string \<Rightarrow> history_row list" where
  "history_of d i = filter (\<lambda>h. history_report_id h = i) (report_history d)"

definition report_row_ok :: "report_row \<Rightarrow> bool" where
  "report_row_ok r \<longleftrightarrow> report_check r \<and> publication_complete r
     \<and> report_row_id r = completion_report_id (report_row_job_id r)
     \<and> (report_row_status r \<noteq> ''draft'' \<longrightarrow> report_row_ready r \<and> report_row_progress r = 100
          \<and> report_row_before r \<noteq> 0 \<and> report_row_after r \<noteq> 0 \<and> report_row_submitted_at r \<noteq> None)
     \<and> (report_row_status r \<in> {''in_review'', ''changes_requested'', ''delivered''} \<longrightarrow>
          report_row_reviewed_by r \<noteq> None \<and> report_row_reviewed_at r \<noteq> None)
     \<and> (if report_row_status r = ''delivered'' then evidence_complete r \<and> report_row_delivered_by r \<noteq> None
        else report_row_share_token r = None \<and> report_row_snapshot r = None \<and> report_row_delivered_at r = None)"

definition history_follows :: "db \<Rightarrow> report_row \<Rightarrow> bool" where
  "history_follows d r \<longleftrightarrow> (if report_row_status r = ''draft'' then history_of d (report_row_id r) = []
     else status_chain ''submitted'' (history_of d (report_row_id r)) (report_row_status r))"

definition reports_ok :: "db \<Rightarrow> bool" where
  "reports_ok d \<longleftrightarrow> distinct (map report_row_id (reports d))
     \<and> (\<forall>r \<in> set (reports d). report_row_ok r \<and> history_follows d r)
     \<and> (\<forall>r \<in> set (reports d). \<forall>s \<in> set (reports d). report_row_id r \<noteq> report_row_id s \<longrightarrow> \<not> report_clash r s)
     \<and> (\<forall>h \<in> set (report_history d). find_report d (history_report_id h) \<noteq> None)"

section \<open>The abstract life cycle\<close>

definition report_statuses :: "db \<Rightarrow> string \<Rightarrow> string option" where
  "report_statuses d i = map_option report_row_status (find_report d i)"

inductive lifecycle_step :: "(string \<Rightarrow> string option) \<Rightarrow> (string \<Rightarrow> string option) \<Rightarrow> bool" where
  moved: "completion_report_lifecycle_transition_is_allowed (s i) t \<Longrightarrow> lifecycle_step s (s(i \<mapsto> t))"

abbreviation lifecycle_run :: "(string \<Rightarrow> string option) \<Rightarrow> (string \<Rightarrow> string option) \<Rightarrow> bool" where
  "lifecycle_run \<equiv> lifecycle_step\<^sup>*\<^sup>*"

section \<open>What stays of a delivered report\<close>

definition settled_row :: "report_row \<Rightarrow> report_row \<Rightarrow> bool" where
  "settled_row r q \<longleftrightarrow> report_row_id q = report_row_id r \<and> report_row_job_id q = report_row_job_id r
     \<and> (report_row_status r = ''delivered'' \<longrightarrow> report_row_status q = ''delivered''
        \<and> report_row_share_token q = report_row_share_token r
        \<and> report_row_delivered_by q = report_row_delivered_by r
        \<and> report_row_delivered_at q = report_row_delivered_at r
        \<and> report_row_snapshot_at q = report_row_snapshot_at r
        \<and> redactable (report_row_snapshot r) (report_row_snapshot q))"

definition settled_reports :: "db \<Rightarrow> db \<Rightarrow> bool" where
  "settled_reports d d' \<longleftrightarrow> (\<forall>r \<in> set (reports d). \<exists>q \<in> set (reports d'). settled_row r q)"

definition report_keeps :: "db \<Rightarrow> db \<Rightarrow> bool" where
  "report_keeps d d' \<longleftrightarrow> (reports_ok d \<longrightarrow> reports_ok d' \<and> settled_reports d d'
     \<and> lifecycle_run (report_statuses d) (report_statuses d'))"


lemma settled_row_refl [simp]: "settled_row r r"
  by (simp add: settled_row_def redactable_def)

lemma settled_row_trans: "settled_row r q \<Longrightarrow> settled_row q p \<Longrightarrow> settled_row r p"
  by (simp add: settled_row_def) (blast intro: redactable_trans)

lemma settled_reports_refl [simp]: "settled_reports d d"
  unfolding settled_reports_def using settled_row_refl by blast

lemma settled_reports_trans: "settled_reports d e \<Longrightarrow> settled_reports e f \<Longrightarrow> settled_reports d f"
  unfolding settled_reports_def using settled_row_trans by meson

lemma report_keeps_refl [simp]: "reflp report_keeps"
  by (simp add: reflp_def report_keeps_def)

lemma report_keeps_trans [simp]: "transp report_keeps"
  unfolding transp_def report_keeps_def using settled_reports_trans by (meson rtranclp_trans)

lemma report_keepsI:
  "(reports_ok d \<Longrightarrow> reports_ok d' \<and> settled_reports d d' \<and> lifecycle_run (report_statuses d) (report_statuses d'))
    \<Longrightarrow> report_keeps d d'"
  by (simp add: report_keeps_def)

text \<open>Everything that leaves the two tables alone.\<close>

lemma same_reports:
  assumes "reports d' = reports d" and "report_history d' = report_history d"
  shows "report_keeps d d'"
proof (rule report_keepsI)
  assume ok: "reports_ok d"
  have find: "find_report d' = find_report d" using assms(1) by (simp add: find_report_def fun_eq_iff)
  then have "report_statuses d' = report_statuses d" by (simp add: report_statuses_def fun_eq_iff)
  moreover have "settled_reports d d'" using assms(1) settled_row_refl unfolding settled_reports_def by metis
  moreover have "history_of d' = history_of d" using assms(2) by (simp add: history_of_def fun_eq_iff)
  then have "reports_ok d'" using ok find assms by (simp add: reports_ok_def history_follows_def)
  ultimately show "reports_ok d' \<and> settled_reports d d' \<and> lifecycle_run (report_statuses d) (report_statuses d')"
    by simp
qed

section \<open>A new version of one report\<close>

lemma put_report_Inr:
  "put_report old new d = Inr d' \<longleftrightarrow> report_check new \<and> publication_complete new \<and> snapshot_immutable old new
     \<and> (\<forall>r \<in> set (reports d). report_row_id r \<noteq> report_row_id old \<longrightarrow> \<not> report_clash new r)
     \<and> d' = d\<lparr> reports := update_where (\<lambda>r. report_row_id r = report_row_id old) (\<lambda>_. new) (reports d) \<rparr>"
  by (auto simp: put_report_def)

lemma report_clash_sym: "report_clash a b \<Longrightarrow> report_clash b a"
  unfolding report_clash_def by metis

lemma find_report_Some: "find_report d i = Some r \<Longrightarrow> r \<in> set (reports d) \<and> report_row_id r = i"
  by (auto simp: find_report_def dest: lookup_by_Some)

lemma find_report_found:
  "reports_ok d \<Longrightarrow> r \<in> set (reports d) \<Longrightarrow> find_report d (report_row_id r) = Some r"
  unfolding find_report_def by (rule lookup_by_unique [where key = report_row_id]) (auto simp: reports_ok_def)

lemma lookup_update:
  "report_row_id q = i \<Longrightarrow> lookup_by (\<lambda>r. report_row_id r = j) (update_where (\<lambda>r. report_row_id r = i) (\<lambda>_. q) rows)
     = (if j = i then map_option (\<lambda>_. q) (lookup_by (\<lambda>r. report_row_id r = i) rows)
        else lookup_by (\<lambda>r. report_row_id r = j) rows)"
  by (induction rows) auto

lemma new_version:
  assumes ok: "reports_ok d" and r: "r \<in> set (reports d)" and put: "put_report r q d = Inr d1"
    and tables: "reports d' = reports d1" "report_history d' = report_history d @ hs"
    and hs: "\<forall>h \<in> set hs. history_report_id h = report_row_id r"
    and q: "report_row_ok q" "settled_row r q"
    and follows: "history_follows d' q"
    and moves: "report_row_status q = report_row_status r
      \<or> completion_report_lifecycle_transition_is_allowed (Some (report_row_status r)) (report_row_status q)"
  shows "reports_ok d' \<and> settled_reports d d' \<and> lifecycle_run (report_statuses d) (report_statuses d')"
proof (intro conjI)
  let ?i = "report_row_id r"
  have qi: "report_row_id q = ?i" using q(2) by (simp add: settled_row_def)
  have rows: "reports d' = update_where (\<lambda>x. report_row_id x = ?i) (\<lambda>_. q) (reports d)"
    and free: "\<forall>x \<in> set (reports d). report_row_id x \<noteq> ?i \<longrightarrow> \<not> report_clash q x"
    using put tables(1) by (auto simp: put_report_Inr)
  have find: "find_report d' j = (if j = ?i then Some q else find_report d j)" for j
    using find_report_found [OF ok r] unfolding find_report_def rows
    by (simp add: lookup_update [OF qi])
  have hist: "history_of d' j = history_of d j" if "j \<noteq> ?i" for j
    using that hs tables(2) by (auto simp: history_of_def filter_empty_conv)
  have old: "x \<in> set (reports d') \<longleftrightarrow> x = q \<or> (x \<in> set (reports d) \<and> report_row_id x \<noteq> ?i)" for x
    using r unfolding rows set_update_where by auto
  show "reports_ok d'"
    unfolding reports_ok_def
  proof (intro conjI ballI impI)
    have "map report_row_id (reports d') = map report_row_id (reports d)"
      unfolding rows by (rule map_update_where) (simp add: qi)
    then show "distinct (map report_row_id (reports d'))" using ok by (simp add: reports_ok_def)
    show "report_row_ok x" if "x \<in> set (reports d')" for x
      using that q(1) ok by (auto simp: old reports_ok_def)
    show "history_follows d' x" if "x \<in> set (reports d')" for x
      using that follows ok hist by (auto simp: old reports_ok_def history_follows_def)
    show "\<not> report_clash x y" if "x \<in> set (reports d')" "y \<in> set (reports d')" "report_row_id x \<noteq> report_row_id y" for x y
      using that free ok report_clash_sym [of x q] by (auto simp: old reports_ok_def qi)
    show "find_report d' (history_report_id h) \<noteq> None" if "h \<in> set (report_history d')" for h
      using that hs ok by (auto simp: find tables(2) reports_ok_def)
  qed
  show "settled_reports d d'"
    unfolding settled_reports_def
  proof
    fix x
    assume x: "x \<in> set (reports d)"
    show "\<exists>y \<in> set (reports d'). settled_row x y"
    proof (cases "report_row_id x = ?i")
      case True
      then have "x = r" using x r ok find_report_found by (metis option.inject)
      then show ?thesis using q(2) old by blast
    next
      case False
      then show ?thesis using x old settled_row_refl by blast
    qed
  qed
  have "report_statuses d' = (report_statuses d)(?i \<mapsto> report_row_status q)"
    by (auto simp: report_statuses_def find)
  moreover have "report_statuses d ?i = Some (report_row_status r)"
    using find_report_found [OF ok r] by (simp add: report_statuses_def)
  ultimately show "lifecycle_run (report_statuses d) (report_statuses d')"
    using moves lifecycle_step.moved [of "report_statuses d" ?i "report_row_status q"]
    by (auto simp: map_upd_triv)
qed

end
