(* ===== verification/Report_Operations.thy ===== *)
theory Report_Operations
  imports Report_Facts System_Facts
begin

text \<open>Every operation on completion reports and on photo evidence satisfies \<open>report_keeps\<close>.\<close>

section \<open>Life-cycle transactions\<close>

lemma status_chain_append:
  "status_chain a (hs @ gs) c \<longleftrightarrow> (\<exists>b. status_chain a hs b \<and> status_chain b gs c)"
  by (induction hs arbitrary: a) auto

text \<open>The common part of the four operations: the row, its history entry, the audit event.\<close>

definition advance :: "env \<Rightarrow> string \<Rightarrow> (report_row \<Rightarrow> report_row) \<Rightarrow> string \<Rightarrow> string \<Rightarrow> string \<Rightarrow>
    string option \<Rightarrow> string \<Rightarrow> string \<Rightarrow> 'a \<Rightarrow> (db, 'a) db_call" where
  "advance env i f s t actor reason organization kind a =
     db_bind (db_stmt (set_report i f)) (\<lambda>_.
     db_bind (insert_status_history env i s t actor reason) (\<lambda>_.
     db_bind (insert_report_audit_event env i organization actor kind) (\<lambda>_. db_return a)))"

lemma set_report_Inr:
  assumes "set_report i f d = Inr (u, d')" and "find_report d i = Some r"
  shows "put_report r (f r) d = Inr d'"
  using assms by (cases "put_report r (f r) d") (auto simp: set_report_def)

lemma append_history_Inr:
  "append_history h d = Inr (u, d') \<Longrightarrow> d' = d\<lparr> report_history := report_history d @ [h] \<rparr>"
  by (auto simp: append_history_def insert_row_Inr split: sum.splits)

lemma append_audit_reports: "append_audit a d = Inr (u, d') \<Longrightarrow> reports d' = reports d \<and> report_history d' = report_history d"
  by (auto simp: append_audit_def split: sum.splits)

lemma advance_result:
  assumes "advance env i f s t actor reason organization kind a (fs, d) = (Inr b, (fs', d'))"
    and r: "find_report d i = Some r"
  obtains d1 h where "put_report r (f r) d = Inr d1" and "reports d' = reports d1"
    and "report_history d' = report_history d @ [h]"
    and "history_report_id h = i" "history_from_status h = Some s" "history_to_status h = t" and "b = a"
proof -
  from assms(1) obtain u1 u2 u3 fs1 d1 fs2 d2 where
      set: "db_stmt (set_report i f) (fs, d) = (Inr u1, (fs1, d1))"
    and hist: "insert_status_history env i s t actor reason (fs1, d1) = (Inr u2, (fs2, d2))"
    and audit: "db_bind (insert_report_audit_event env i organization actor kind) (\<lambda>_. db_return a) (fs2, d2)
      = (Inr b, (fs', d'))"
    unfolding advance_def by (elim db_bind_InrE) (auto simp: split_paired_all)
  from set have put: "put_report r (f r) d = Inr d1"
    by (elim db_stmt_InrE) (rule set_report_Inr [OF _ r])
  from hist obtain h where h: "d2 = d1\<lparr> report_history := report_history d1 @ [h] \<rparr>"
    and fields: "history_report_id h = i" "history_from_status h = Some s" "history_to_status h = t"
    unfolding insert_status_history_def by (elim db_stmt_InrE) (drule append_history_Inr, fastforce)
  from audit have last: "b = a" "reports d' = reports d2" "report_history d' = report_history d2"
    unfolding insert_report_audit_event_def
    by (auto elim!: db_bind_InrE db_stmt_InrE' simp: db_return_def dest!: append_audit_reports)
  have "report_history d1 = report_history d" using put by (simp add: put_report_Inr)
  then show thesis using that put h fields last by simp
qed

lemma advance_keeps:
  assumes run: "advance env i f s t actor reason organization kind a (fs, d) = (Inr b, (fs', d'))"
    and r: "find_report d i = Some r" "report_row_status r = s"
    and allowed: "completion_report_lifecycle_transition_is_allowed (Some s) t" "s \<noteq> ''draft''"
    and row: "reports_ok d \<Longrightarrow> report_row_ok r \<Longrightarrow> report_row_ok (f r)"
    and same: "report_row_id (f r) = report_row_id r" "report_row_job_id (f r) = report_row_job_id r"
      "report_row_status (f r) = t"
  shows "report_keeps d d'"
proof (rule report_keepsI)
  assume ok: "reports_ok d"
  obtain d1 h where put: "put_report r (f r) d = Inr d1" and tables: "reports d' = reports d1"
      "report_history d' = report_history d @ [h]"
    and h: "history_report_id h = i" "history_from_status h = Some s" "history_to_status h = t"
    using advance_result [OF run r(1)] by metis
  have ri: "r \<in> set (reports d)" "report_row_id r = i" using r(1) by (auto dest: find_report_Some)
  have nd: "s \<noteq> ''delivered''" "t \<noteq> ''draft''"
    using allowed by (auto simp: completion_report_lifecycle_transition_is_allowed_def)
  have "status_chain ''submitted'' (history_of d i) s"
    using ok ri r(2) allowed(2) by (auto simp: reports_ok_def history_follows_def)
  then have "status_chain ''submitted'' (history_of d' i) t"
    using h allowed(1) by (auto simp: history_of_def tables(2) status_chain_append)
  then have follows: "history_follows d' (f r)" using nd same ri by (simp add: history_follows_def)
  show "reports_ok d' \<and> settled_reports d d' \<and> lifecycle_run (report_statuses d) (report_statuses d')"
    by (rule new_version [OF ok ri(1) put tables])
       (use h ri nd same r(2) row ok follows allowed(1) in \<open>auto simp: settled_row_def reports_ok_def\<close>)
qed

lemma report_with_job_Some:
  "report_with_job i d = Some (r, job) \<Longrightarrow> find_report d i = Some r \<and> find_job d (report_row_job_id r) = Some job"
  by (auto simp: report_with_job_def split: option.splits)

text \<open>The shape of the four transactions.\<close>

lemma keeps_report_transaction:
  assumes "\<And>r job fs d b fs' d'. find_report d i = Some r \<Longrightarrow> k r job (fs, d) = (Inr (Commit b), (fs', d')) \<Longrightarrow> report_keeps d d'"
  shows "keeps report_keeps (db_transaction (db_bind (db_select (report_with_job i)) (\<lambda>current. case current of
     None \<Rightarrow> db_return (Dropped x) | Some (r, job) \<Rightarrow> k r job)))"
proof (rule keeps_transaction_commit)
  fix fs d a fs1 d1
  assume "db_bind (db_select (report_with_job i)) (\<lambda>current. case current of
     None \<Rightarrow> db_return (Dropped x) | Some (r, job) \<Rightarrow> k r job) (fs, d) = (Inr (Commit a), (fs1, d1))"
  then show "report_keeps d d1"
    using assms
    by (elim db_bind_InrE db_select_InrE') (auto simp: db_return_def dest: report_with_job_Some split: option.splits)
qed simp

lemma submitted_row_facts:
  "report_row_ok r \<Longrightarrow> report_row_status r \<noteq> ''draft'' \<Longrightarrow> report_row_status r \<noteq> ''delivered'' \<Longrightarrow>
     report_row_ready r \<and> report_row_progress r = 100 \<and> report_row_before r \<noteq> 0 \<and> report_row_after r \<noteq> 0
     \<and> report_row_submitted_at r \<noteq> None \<and> report_row_share_token r = None \<and> report_row_snapshot r = None
     \<and> report_row_delivered_at r = None \<and> report_row_id r = completion_report_id (report_row_job_id r)"
  by (simp add: report_row_ok_def)

lemma allowed_moves:
  "completion_report_lifecycle_transition_is_allowed (Some ''submitted'') ''in_review''"
  "completion_report_lifecycle_transition_is_allowed (Some ''in_review'') ''changes_requested''"
  "completion_report_lifecycle_transition_is_allowed (Some ''in_review'') ''delivered''"
  "completion_report_lifecycle_transition_is_allowed (Some ''changes_requested'') ''submitted''"
  by (simp_all add: completion_report_lifecycle_transition_is_allowed_def)

lemmas row_ok_defs = report_row_ok_def report_check_def publication_complete_def lifecycle_statuses_def
  in_review_row_def changes_requested_row_def resubmitted_row_def delivered_row_def

lemma guarded_advance_keeps:
  assumes "(if g then db_return (Dropped y) else
     db_bind (db_stmt (set_report i f)) (\<lambda>_.
     db_bind (insert_status_history env i s t actor reason) (\<lambda>_.
     db_bind (insert_report_audit_event env i organization actor kind) (\<lambda>_. db_return a)))) (fs, d)
     = (Inr (Commit b), (fs', d'))"
    and "find_report d i = Some r" and "completion_report_lifecycle_transition_is_allowed (Some s) t" "s \<noteq> ''draft''"
    and "\<not> g \<Longrightarrow> report_row_status r = s" and "\<not> g \<Longrightarrow> report_row_ok r \<Longrightarrow> report_row_ok (f r)"
    and "report_row_id (f r) = report_row_id r" "report_row_job_id (f r) = report_row_job_id r"
      "report_row_status (f r) = t"
  shows "report_keeps d d'"
proof -
  have "\<not> g" using assms(1) by (auto simp: db_return_def split: if_splits)
  with assms(1) have "advance env i f s t actor reason organization kind a (fs, d) = (Inr (Commit b), (fs', d'))"
    by (simp add: advance_def)
  then show ?thesis by (rule advance_keeps) (use assms \<open>\<not> g\<close> in auto)
qed

lemma start_review_keeps: "keeps report_keeps (start_completion_report_review env i reviewer)"
  unfolding start_completion_report_review_def
  by (rule keeps_report_transaction, erule (1) guarded_advance_keeps) (auto simp: row_ok_defs allowed_moves)

lemma request_changes_keeps: "keeps report_keeps (request_completion_report_changes env i reviewer reason)"
  unfolding request_completion_report_changes_def
  by (rule keeps_report_transaction, erule (1) guarded_advance_keeps) (auto simp: row_ok_defs allowed_moves)

lemma resubmit_keeps: "keeps report_keeps (resubmit_completion_report env i submitter)"
  unfolding resubmit_completion_report_def
  by (rule keeps_report_transaction, erule (1) guarded_advance_keeps) (auto simp: row_ok_defs allowed_moves)

lemma two_guards: "(if g then x else if h then x else y) = (if g \<or> h then x else y)"
  by simp

lemma deliver_keeps: "keeps report_keeps (deliver_completion_report env i actor snapshot)"
  unfolding deliver_completion_report_def Let_def two_guards
  by (rule keeps_report_transaction, erule (1) guarded_advance_keeps)
     (auto simp: row_ok_defs evidence_complete_def allowed_moves)

section \<open>Refreshing\<close>

definition refreshes :: "completion_report \<Rightarrow> bool" where
  "refreshes r \<longleftrightarrow> cr_report_id r = completion_report_id (cr_job_id r)
     \<and> cr_status r = (if cr_ready r then ''submitted'' else ''draft'')
     \<and> (cr_ready r \<longrightarrow> 100 \<le> cr_progress r \<and> cr_before r \<noteq> 0 \<and> cr_after r \<noteq> 0)"

lemma as_i32_eq_0 [simp]: "as_i32 w = 0 \<longleftrightarrow> w = 0"
  by (metis as_u32_as_i32 as_i32_def sint_0)

lemma as_i32_at_least:
  assumes "100 \<le> w" and "0 \<le> as_i32 w"
  shows "100 \<le> as_i32 w"
proof -
  have "uint w = take_bit 32 (as_i32 w)" by (simp add: as_i32_def uint_sint)
  also have "\<dots> = as_i32 w"
    using assms(2) as_i32_range [of w] by (intro take_bit_int_eq_self) (simp_all add: int4_range_def)
  finally have "as_i32 w = uint w" by simp
  then show ?thesis using assms(1) by (simp add: word_le_def)
qed

lemma proposed_row_ok:
  assumes "refreshes r" and "report_check (proposed_row env r)"
  shows "report_row_ok (proposed_row env r)"
proof -
  have "cr_ready r \<Longrightarrow> as_i32 (cr_progress r) = 100"
    using assms as_i32_at_least [of "cr_progress r"]
    by (auto simp: refreshes_def report_check_def proposed_row_def)
  then show ?thesis
    using assms by (auto simp: report_row_ok_def refreshes_def proposed_row_def publication_complete_def
        completion_report_share_token_should_be_proposed_def)
qed

lemma refreshed_row_ok:
  assumes "report_row_ok old" and "report_row_ok (proposed_row env r)"
    and "report_row_job_id old = cr_job_id r" and "refreshes r"
  shows "report_row_ok (refreshed_row old (proposed_row env r))"
proof (cases "report_row_status old = ''draft''")
  case True
  with assms show ?thesis
    by (auto simp: report_row_ok_def refreshed_row_def Let_def locked_statuses_def report_check_def
        publication_complete_def coalesce_def proposed_row_def refreshes_def
        completion_report_share_token_should_be_proposed_def split: option.split)
next
  case False
  have "report_row_status old \<in> set locked_statuses"
    using False assms(1) by (auto simp: report_row_ok_def report_check_def lifecycle_statuses_def locked_statuses_def)
  with False assms(1,4) show ?thesis
    by (auto simp: report_row_ok_def refreshed_row_def Let_def report_check_def refreshes_def
        publication_complete_def coalesce_def proposed_row_def evidence_complete_def
        completion_report_share_token_should_be_proposed_def split: option.splits if_splits)
qed

lemma lookup_by_append:
  "lookup_by P (xs @ ys) = (case lookup_by P xs of None \<Rightarrow> lookup_by P ys | Some r \<Rightarrow> Some r)"
  by (induction xs) auto

lemma new_report:
  assumes ok: "reports_ok d" and rows: "reports d' = reports d @ [r]" and hist: "report_history d' = report_history d"
    and free: "\<forall>x \<in> set (reports d). \<not> report_clash r x" and r: "report_row_ok r"
    and status: "report_row_status r = ''draft'' \<or> report_row_status r = ''submitted''"
  shows "reports_ok d' \<and> settled_reports d d' \<and> lifecycle_run (report_statuses d) (report_statuses d')"
proof (intro conjI)
  let ?i = "report_row_id r"
  have fresh: "x \<in> set (reports d) \<Longrightarrow> report_row_id x \<noteq> ?i" for x using free by (auto simp: report_clash_def)
  have none: "find_report d ?i = None" using fresh by (auto simp: find_report_def table_simps)
  have find: "find_report d' j = (if j = ?i then Some r else find_report d j)" for j
    using none by (auto simp: find_report_def rows lookup_by_append split: option.splits)
  have hists: "history_of d' = history_of d" by (simp add: history_of_def hist fun_eq_iff)
  have empty: "history_of d ?i = []"
    using ok none by (auto simp: history_of_def filter_empty_conv reports_ok_def)
  show "reports_ok d'"
    unfolding reports_ok_def
  proof (intro conjI ballI impI)
    have "?i \<notin> report_row_id ` set (reports d)" using fresh by (metis imageE)
    then show "distinct (map report_row_id (reports d'))" using ok by (simp add: rows reports_ok_def)
    show "report_row_ok x" if "x \<in> set (reports d')" for x using that r ok by (auto simp: rows reports_ok_def)
    show "history_follows d' x" if "x \<in> set (reports d')" for x
      using that ok empty status by (auto simp: rows reports_ok_def history_follows_def hists)
    show "\<not> report_clash x y" if "x \<in> set (reports d')" "y \<in> set (reports d')" "report_row_id x \<noteq> report_row_id y" for x y
      using that free ok report_clash_sym [of x r] by (auto simp: rows reports_ok_def)
    show "find_report d' (history_report_id h) \<noteq> None" if "h \<in> set (report_history d')" for h
      using that ok by (auto simp: find hist reports_ok_def)
  qed
  show "settled_reports d d'" using settled_row_refl unfolding settled_reports_def rows by fastforce
  have "report_statuses d' = (report_statuses d)(?i \<mapsto> report_row_status r)"
    by (auto simp: report_statuses_def find)
  moreover have "completion_report_lifecycle_transition_is_allowed (report_statuses d ?i) (report_row_status r)"
    using status none by (auto simp: report_statuses_def completion_report_lifecycle_transition_is_allowed_def)
  ultimately show "lifecycle_run (report_statuses d) (report_statuses d')"
    by (simp add: lifecycle_step.moved r_into_rtranclp)
qed

lemma upsert_keeps:
  assumes "upsert_report (proposed_row env r) d = Inr (row, d')" and "refreshes r"
  shows "report_keeps d d'"
proof (rule report_keepsI)
  assume ok: "reports_ok d"
  let ?new = "proposed_row env r"
  have check: "report_check ?new" using assms(1) by (auto simp: upsert_report_def split: if_splits)
  then have new: "report_row_ok ?new" by (rule proposed_row_ok [OF assms(2)])
  have status: "report_row_status ?new = ''draft'' \<or> report_row_status ?new = ''submitted''"
    using assms(2) by (auto simp: refreshes_def proposed_row_def)
  show "reports_ok d' \<and> settled_reports d d' \<and> lifecycle_run (report_statuses d) (report_statuses d')"
  proof (cases "lookup_by (\<lambda>x. report_row_job_id x = report_row_job_id ?new) (reports d)")
    case None
    then have ins: "insert_row (\<lambda>x. find_job d (report_row_job_id x) \<noteq> None) report_clash ?new (reports d) = Inr (reports d')"
      and hist: "report_history d' = report_history d"
      using assms(1) by (auto simp: upsert_report_def split: if_splits)
        (cases "insert_row (\<lambda>x. find_job d (report_row_job_id x) \<noteq> None) report_clash ?new (reports d)"; auto)+
    from ins have rows: "reports d' = reports d @ [?new]" and free: "\<forall>x \<in> set (reports d). \<not> report_clash ?new x"
      by (auto simp: insert_row_Inr)
    show ?thesis by (rule new_report [OF ok rows hist free new status])
  next
    case (Some old)
    then have old: "old \<in> set (reports d)" "report_row_job_id old = report_row_job_id ?new"
      by (auto dest: lookup_by_Some)
    let ?q = "refreshed_row old ?new"
    have put: "put_report old ?q d = Inr d'"
      using assms(1) Some by (cases "put_report old ?q d") (auto simp: upsert_report_def split: if_splits)
    have old_ok: "report_row_ok old" "history_follows d old" using ok old by (auto simp: reports_ok_def)
    have q: "report_row_ok ?q"
      using refreshed_row_ok [OF old_ok(1) new _ assms(2)] old(2) by (simp add: proposed_row_def)
    have moved: "report_row_status ?q = (if report_row_status old = ''draft'' then report_row_status ?new else report_row_status old)"
      using old_ok(1) by (auto simp: refreshed_row_def Let_def locked_statuses_def report_row_ok_def report_check_def
          lifecycle_statuses_def)
    show ?thesis
    proof (rule new_version [OF ok old(1) put])
      show "report_history d' = report_history d @ []" using put by (simp add: put_report_Inr)
      then have hists: "history_of d' = history_of d" by (simp add: history_of_def fun_eq_iff)
      have ids: "report_row_id ?q = report_row_id old" "report_row_job_id ?q = report_row_job_id old"
        by (simp_all add: refreshed_row_def Let_def)
      show "settled_row old ?q"
        using old_ok(1) ids unfolding settled_row_def
        by (auto simp: refreshed_row_def Let_def locked_statuses_def coalesce_def redactable_def report_row_ok_def
            publication_complete_def split: option.split)
      show "history_follows d' ?q"
        using old_ok(2) status ids(1) by (auto simp: history_follows_def hists moved)
      show "report_row_status ?q = report_row_status old
        \<or> completion_report_lifecycle_transition_is_allowed (Some (report_row_status old)) (report_row_status ?q)"
        using status by (auto simp: moved completion_report_lifecycle_transition_is_allowed_def)
    qed (use q in simp_all)
  qed
qed

section \<open>Building\<close>

lemma no_blockers:
  "blockers_of r = [] \<Longrightarrow> 100 \<le> cr_progress r \<and> cr_before r \<noteq> 0 \<and> cr_after r \<noteq> 0"
  by (auto simp: blockers_of_def completion_report_readiness_blockers_def not_less split: if_splits)

lemma build_refreshes: "refreshes (build_completion_report j a ps as)"
  by (auto simp: refreshes_def build_completion_report_def Let_def completion_report_readiness_blockers_def not_less
      split: if_splits)

lemma blockers_grow:
  "cr_route_stop r = None \<Longrightarrow> blockers_of (r\<lparr> cr_route_stop := Some s \<rparr>) = [] \<Longrightarrow> blockers_of r = []"
  by (simp add: blockers_of_def completion_report_readiness_blockers_def)

lemma attach_refreshes:
  assumes "refreshes r" and "cr_ready r = (blockers_of r = [])" and "cr_route_stop r = None"
  shows "refreshes (attach_completion_report_route_stop r s)"
  using assms blockers_grow [OF assms(3), of s] no_blockers [of r]
  by (auto simp: refreshes_def attach_completion_report_route_stop_def Let_def)

lemma build_ready:
  "cr_ready (build_completion_report j a ps as) = (blockers_of (build_completion_report j a ps as) = [])"
  "cr_route_stop (build_completion_report j a ps as) = None"
  by (simp_all add: build_completion_report_def blockers_of_def Let_def)

lemma persist_keeps: "refreshes r \<Longrightarrow> keeps report_keeps (persist_completion_report env r)"
  unfolding persist_completion_report_def
  by (intro keeps_rules report_keeps_refl report_keeps_trans) (auto intro: upsert_keeps)

text \<open>
  The reads in front: they never write, and a built report refreshes its row. \<open>keeps_bind_answer\<close> composes
  a call with what it establishes of its answer.
\<close>

lemma keeps_bind_answer:
  assumes "transp R" and "keeps R m" and "\<And>c a c'. m c = (Inr a, c') \<Longrightarrow> Q a" and "\<And>a. Q a \<Longrightarrow> keeps R (k a)"
  shows "keeps R (db_bind m k)"
proof (rule keepsI)
  fix fs d r fs' d'
  assume eq: "db_bind m k (fs, d) = (r, (fs', d'))"
  obtain r1 fs1 d1 where m: "m (fs, d) = (r1, (fs1, d1))" by (metis prod.collapse)
  with assms(2) have one: "R d d1" by (rule keepsD)
  show "R d d'"
  proof (cases r1)
    case (Inl e)
    with m eq one show ?thesis by simp
  next
    case (Inr a)
    with m eq have "k a (fs1, d1) = (r, (fs', d'))" by simp
    moreover have "keeps R (k a)" using assms(3,4) m Inr by blast
    ultimately have "R d1 d'" by (rule keepsD [rotated])
    with one show ?thesis using assms(1) by (blast dest: transpD)
  qed
qed

lemma report_keeps_same: "report_keeps d d"
  using report_keeps_refl by (rule reflpD)

lemmas reads_keep_reports = read_only_keeps [OF _ report_keeps_refl]

lemmas report_rules = report_keeps_refl report_keeps_trans keeps_rules

lemma today_keeps: "keeps report_keeps (today_for_crew env pool crew)"
  by (rule reads_keep_reports [OF read_operations(1)])

lemma repo_report_reads:
  "keeps report_keeps (repo_get_job pool j)" "keeps report_keeps (repo_get_account_for_job pool j)"
  "keeps report_keeps (repo_list_photo_evidence storage pool j)" "keeps report_keeps (repo_list_job_add_ons pool j)"
  "keeps report_keeps (repo_list_jobs pool)"
  "keeps report_keeps (repo_organization_id_for_completion_report pool i)"
  "keeps report_keeps (repo_organization_id_for_job pool j)"
  "keeps report_keeps (repo_delivered_snapshot_for_report_share_token pool t)"
  "keeps report_keeps (repo_completion_report_delivery_candidate pool i)"
  "keeps report_keeps (repo_list_active_memberships pool user)"
  unfolding repo_get_job_def get_job_def repo_get_account_for_job_def found_or_unavailable_def
    account_summary_for_job_def repo_list_photo_evidence_def read_or_unavailable_def list_job_photos_def
    repo_list_job_add_ons_def list_job_add_ons_def repo_list_jobs_def list_jobs_def
    repo_organization_id_for_completion_report_def organization_id_for_completion_report_def
    repo_organization_id_for_job_def organization_id_for_job_def repo_delivered_snapshot_for_report_share_token_def
    delivered_snapshot_for_share_token_def repo_completion_report_delivery_candidate_def
    completion_report_delivery_candidate_def repo_list_active_memberships_def list_active_memberships_def
  by (intro report_rules)+

section \<open>Requests\<close>

lemma answer_of_map: "db_map f m c = (Inr b, c') \<Longrightarrow> \<exists>a. m c = (Inr a, c') \<and> b = f a"
  by (auto simp: db_map_def db_return_def elim!: db_bind_InrE)

lemma api_bind_keeps:
  assumes "reflp R" and "transp R"
    and "keeps R m" and "\<And>c a c'. m c = (Inr (Inr a), c') \<Longrightarrow> Q a" and "\<And>a. Q a \<Longrightarrow> keeps R (k a)"
  shows "keeps R (api_bind m k)"
  unfolding api_bind_def
  by (rule keeps_bind_answer [where Q = "\<lambda>res. \<forall>a. res = Inr a \<longrightarrow> Q a"])
     (use assms in \<open>auto intro: keeps_rules split: sum.split\<close>)

lemmas keeps_api_bind = api_bind_keeps [OF report_keeps_refl report_keeps_trans]

lemma route_stop_refreshes:
  assumes "with_route_stop env pool job (build_completion_report j a ps as) c = (Inr (Inr r), c')"
  shows "refreshes r"
proof (cases "js_assigned_crew_id (jd_summary (cr_job (build_completion_report j a ps as)))")
  case None
  with assms show ?thesis using build_refreshes [of j a ps as] by (auto simp: with_route_stop_def)
next
  case (Some crew)
  let ?r = "build_completion_report j a ps as"
  from assms Some obtain res where
    "Inr r = (case res of
            Found plan \<Rightarrow> Inr (case route_stop_of plan job of None \<Rightarrow> ?r
              | Some stop \<Rightarrow> attach_completion_report_route_stop ?r stop)
          | TodayNotFound \<Rightarrow> Inr ?r
          | TodayUnavailable \<Rightarrow> Inl (persisted_resource_unavailable_response ''completion_report_route_unavailable''
              ''The persisted route context required for this completion report could not be loaded.''))"
    by (auto simp: with_route_stop_def dest!: answer_of_map)
  then show ?thesis
    using build_refreshes attach_refreshes [OF build_refreshes build_ready]
    by (auto split: today_result.splits option.splits)
qed

lemma build_keeps: "keeps report_keeps (build_and_persist_completion_report env storage pool job)"
proof -
  have route: "keeps report_keeps (with_route_stop env pool job r)" for r
    unfolding with_route_stop_def by (intro report_rules today_keeps)
  have persist: "keeps report_keeps (persist_report env pool r)" if "refreshes r" for r
    using persist_keeps [OF that] unfolding persist_report_def repo_persist_completion_report_def read_or_unavailable_def
    by (intro report_rules)
  have reads: "keeps report_keeps (job_of_report pool job)" "keeps report_keeps (account_of_report pool job)"
    "keeps report_keeps (photos_of_report storage pool job)" "keeps report_keeps (add_ons_of_report pool job)"
    unfolding job_of_report_def account_of_report_def photos_of_report_def add_ons_of_report_def
    by (intro report_rules repo_report_reads)+
  show ?thesis
    unfolding build_and_persist_completion_report_def
    by (intro keeps_api_bind [where Q = "\<lambda>_. True"] keeps_api_bind [where Q = refreshes] reads TrueI route persist)
       (rule route_stop_refreshes)
qed

lemma build_all_keeps: "keeps report_keeps (build_reports env storage pool q js)"
proof (induction js)
  case Nil
  show ?case unfolding build_reports.simps by (intro report_rules)
next
  case (Cons j js)
  show ?case unfolding build_reports.simps
    by (intro report_rules keeps_api_bind [where Q = "\<lambda>_. True"] build_keeps Cons.IH TrueI)
qed

section \<open>Erasure\<close>

lemma redacted_row_ok: "report_row_ok r \<Longrightarrow> report_row_ok (redacted_row r)"
  by (auto simp: report_row_ok_def report_check_def publication_complete_def evidence_complete_def redacted_row_def)

lemma redact_each_keeps:
  "redact_each rs d = Inr d' \<Longrightarrow> distinct (map report_row_id rs) \<Longrightarrow> set rs \<subseteq> set (reports d) \<Longrightarrow> report_keeps d d'"
proof (induction rs arbitrary: d)
  case (Cons r rs)
  then obtain d1 where put: "put_report r (redacted_row r) d = Inr d1" and rest: "redact_each rs d1 = Inr d'"
    by (auto split: sum.splits)
  have same: "report_row_id (redacted_row r) = report_row_id r" "report_row_status (redacted_row r) = report_row_status r"
    by (simp_all add: redacted_row_def)
  have one: "report_keeps d d1"
  proof (rule report_keepsI)
    assume ok: "reports_ok d"
    have r: "r \<in> set (reports d)" using Cons.prems by simp
    have hist: "report_history d1 = report_history d @ []" using put by (simp add: put_report_Inr)
    then have "history_of d1 = history_of d" by (simp add: history_of_def fun_eq_iff)
    then have "history_follows d1 (redacted_row r)" using ok r by (auto simp: reports_ok_def history_follows_def same)
    moreover have "report_row_ok (redacted_row r)" using ok r redacted_row_ok by (auto simp: reports_ok_def)
    moreover have "settled_row r (redacted_row r)" by (simp add: settled_row_def redacted_row_def redactable_def)
    ultimately show "reports_ok d1 \<and> settled_reports d d1 \<and> lifecycle_run (report_statuses d) (report_statuses d1)"
      by (intro new_version [OF ok r put _ hist]) (simp_all add: same)
  qed
  have "set rs \<subseteq> set (reports d1)"
  proof
    fix x
    assume x: "x \<in> set rs"
    with Cons.prems(2) have "report_row_id x \<noteq> report_row_id r" by (force simp: image_iff)
    with x Cons.prems(3) put show "x \<in> set (reports d1)"
      by (auto simp: put_report_Inr set_update_where intro!: image_eqI [where x = x])
  qed
  with Cons.IH [OF rest] Cons.prems(2) have "report_keeps d1 d'" by simp
  with one show ?case using report_keeps_trans by (blast dest: transpD)
qed (simp add: report_keeps_same)

lemma redact_reports_keeps: "redact_reports account orgs d = Inr (n, d') \<Longrightarrow> report_keeps d d'"
proof (rule report_keepsI)
  assume red: "redact_reports account orgs d = Inr (n, d')" and ok: "reports_ok d"
  obtain rs where rs: "redact_each rs d = Inr d'" "distinct (map report_row_id rs)" "set rs \<subseteq> set (reports d)"
    using red ok by (auto simp: redact_reports_def Let_def map_sum_def reports_ok_def distinct_map_filter split: sum.splits)
  from redact_each_keeps [OF this] ok
  show "reports_ok d' \<and> settled_reports d d' \<and> lifecycle_run (report_statuses d) (report_statuses d')"
    by (simp add: report_keeps_def)
qed

lemma erasure_statements:
  "erase_photos env account orgs actor reason d = Inr (ps, d') \<Longrightarrow> report_keeps d d'"
  "queue_deletion env k account organization key d = Inr (u, d') \<Longrightarrow> report_keeps d d'"
  "append_audit au d = Inr (v, d') \<Longrightarrow> report_keeps d d'"
  by (auto simp: erase_photos_def queue_deletion_def Let_def map_sum_def dest: append_audit_reports
      intro!: same_reports split: if_splits sum.splits)

lemma queue_keeps: "keeps report_keeps (queue_deletions env k account organization keys)"
  by (induction keys arbitrary: k) (auto intro!: report_rules dest: erasure_statements)

lemma audit_erasure_keeps: "keeps report_keeps (audit_erasure env k actor account orgs)"
  by (induction orgs arbitrary: k) (auto intro!: report_rules dest: erasure_statements)

lemma erase_keeps: "keeps report_keeps (erase_customer_photo_evidence env account orgs actor reason)"
  unfolding erase_customer_photo_evidence_def Let_def
  by (auto intro!: report_rules queue_keeps audit_erasure_keeps dest: erasure_statements redact_reports_keeps
      split: option.split list.split)

end
