(* ===== verification/Report_System.thy ===== *)
theory Report_System
  imports Report_Operations
begin

text \<open>
  Completion reports and photo evidence behind the middleware: \<open>serve_report\<close> is one request, \<open>report_step\<close>
  a request or a change by another part of the service, and \<open>reports_reach\<close> relates the databases of a run.
  Every step satisfies \<open>report_keeps\<close>, and what a request changed, its caller was granted.
\<close>

section \<open>Requests\<close>

datatype report_request =
    GetReport string
  | ListReports report_query
  | StartReview string
  | RequestChanges string "string option"
  | Resubmit string
  | Deliver string
  | SharedReport string
  | ErasePhotos string string

fun report_method :: "report_request \<Rightarrow> http_method" where
  "report_method (GetReport _) = GET"
| "report_method (ListReports _) = GET"
| "report_method (SharedReport _) = GET"
| "report_method _ = POST"

fun report_path :: "report_request \<Rightarrow> string" where
  "report_path (GetReport j) = ''/jobs/'' @ j @ ''/report''"
| "report_path (ListReports _) = ''/completion-reports''"
| "report_path (StartReview i) = ''/completion-reports/'' @ i @ ''/review''"
| "report_path (RequestChanges i _) = ''/completion-reports/'' @ i @ ''/request-changes''"
| "report_path (Resubmit i) = ''/completion-reports/'' @ i @ ''/resubmit''"
| "report_path (Deliver i) = ''/completion-reports/'' @ i @ ''/deliver''"
| "report_path (SharedReport t) = ''/reports/'' @ t"
| "report_path (ErasePhotos a _) = ''/accounts/'' @ a @ ''/photo-erasure''"

text \<open>The parts of the deployment that are not code of the service: the object store and its deletions.\<close>

record evidence_backend =
  eb_storage :: photo_storage
  eb_delete :: object_deletion

fun handle_report :: "env \<Rightarrow> evidence_backend \<Rightarrow> bool \<Rightarrow> auth_principal \<Rightarrow> report_request \<Rightarrow> (db, nat) db_call" where
  "handle_report env eb pool user (GetReport j) =
     db_map http_status (handle_get_completion_report env (eb_storage eb) pool user j)"
| "handle_report env eb pool user (ListReports q) =
     db_map http_status (handle_list_completion_reports env (eb_storage eb) pool user q)"
| "handle_report env eb pool user (StartReview i) = db_map http_status (handle_start_review env pool user i)"
| "handle_report env eb pool user (RequestChanges i reason) =
     db_map http_status (handle_request_changes env pool user i reason)"
| "handle_report env eb pool user (Resubmit i) = db_map http_status (handle_resubmit env pool user i)"
| "handle_report env eb pool user (Deliver i) =
     db_map http_status (handle_deliver env (eb_storage eb) pool user i)"
| "handle_report env eb pool user (SharedReport t) = db_map http_status (handle_shared_report pool t)"
| "handle_report env eb pool user (ErasePhotos a reason) =
     db_map http_status (handle_erase_photos env (eb_storage eb) (eb_delete eb) pool user a reason)"

text \<open>The shared report is the one handler that needs no principal; any other without one answers \<open>500\<close>.\<close>

fun handle_public_report :: "bool \<Rightarrow> report_request \<Rightarrow> (db, nat) db_call" where
  "handle_public_report pool (SharedReport t) = db_map http_status (handle_shared_report pool t)"
| "handle_public_report pool _ = db_return 500"

definition serve_report :: "env \<Rightarrow> evidence_backend \<Rightarrow> 'k auth_backend \<Rightarrow> bool \<Rightarrow> string option \<Rightarrow> report_request \<Rightarrow>
    (db, nat) db_call" where
  "serve_report env eb backend pool authorization r =
     db_bind (require_api_auth backend True pool (report_method r) (report_path r) authorization)
       (\<lambda>decision. case decision of
          RunAs user \<Rightarrow> handle_report env eb pool user r
        | Refuse status _ \<Rightarrow> db_return status
        | RunPublic \<Rightarrow> handle_public_report pool r)"

section \<open>Runs\<close>

inductive report_step :: "'k auth_backend \<Rightarrow> db \<Rightarrow> db \<Rightarrow> bool" for backend where
  request: "serve_report env eb backend pool authorization r (fs, d) = (res, (fs', d'))
    \<Longrightarrow> report_step backend d d'"
| elsewhere: "reports d' = reports d \<Longrightarrow> report_history d' = report_history d \<Longrightarrow> report_step backend d d'"

inductive reports_reach :: "'k auth_backend \<Rightarrow> db \<Rightarrow> db \<Rightarrow> bool" for backend d0 where
  start: "reports_reach backend d0 d0"
| step: "reports_reach backend d0 d \<Longrightarrow> report_step backend d d' \<Longrightarrow> reports_reach backend d0 d'"

inductive_cases report_stepE: "report_step backend d d'"

section \<open>What a request keeps\<close>

definition report_organization :: "db \<Rightarrow> string \<Rightarrow> string option" where
  "report_organization d i = map_option (\<lambda>(r, job). job_organization_id job) (report_with_job i d)"

lemma report_owner_found:
  "repo_organization_id_for_completion_report True i (fs, d) = (Inr (OwnerLoaded (Some org)), c') \<Longrightarrow>
     report_organization d i = Some org"
  by (auto simp: repo_organization_id_for_completion_report_def organization_id_for_completion_report_def
      report_organization_def db_catch_def db_return_def db_select_def db_stmt_def split: prod.splits sum.splits if_splits)

lemma report_owner_read_only: "read_only_call (repo_organization_id_for_completion_report pool i)"
  unfolding repo_organization_id_for_completion_report_def organization_id_for_completion_report_def
  by (auto intro!: read_only_rules read_only_select)

lemma report_owner_total: "total (repo_organization_id_for_completion_report pool i)"
  unfolding repo_organization_id_for_completion_report_def by (intro answering_rules TrueI)

lemma answering_report_access:
  "answering proper_refusal (require_completion_report_organization_access pool user i role)"
  unfolding require_completion_report_organization_access_def
  by (auto intro!: answering_bind [OF report_owner_total] answering_return answering_membership
      simp: refusal_responses split: option.split resource_ownership.split)

interpretation report_access: access_check "require_completion_report_organization_access pool user i role"
    "granted_by (\<lambda>d. report_organization d i) (principal_subject user) role" for pool user i role
proof (intro access_check.intro access_check_axioms.intro)
  show "read_only_call (require_completion_report_organization_access pool user i role)"
    unfolding require_completion_report_organization_access_def
    by (auto intro!: read_only_rules report_owner_read_only membership_read_only split: resource_ownership.split option.split)
  fix fs d c'
  assume "require_completion_report_organization_access pool user i role (fs, d) = (Inr None, c')"
  then obtain org fs1 d1 where o: "repo_organization_id_for_completion_report pool i (fs, d) = (Inr (OwnerLoaded (Some org)), (fs1, d1))"
    and m: "require_organization_membership pool user org role (fs1, d1) = (Inr None, c')"
    unfolding require_completion_report_organization_access_def
    by (elim db_bind_InrE) (auto simp: db_return_def split: resource_ownership.splits option.splits)
  have d1: "d1 = d" using report_owner_read_only o by (auto simp: read_only_call_def)
  show "granted_by (\<lambda>d. report_organization d i) (principal_subject user) role d"
    by (rule passed_ownership [OF m [unfolded d1]]) (use o report_owner_found in \<open>cases pool; fastforce\<close>)
qed (rule refusal_status [OF answering_report_access])

end
