(* ===== verification/Report_Service.thy ===== *)
theory Report_Service
  imports Report_System
begin

text \<open>
  The handlers of completion reports and \<open>serve_report\<close>: every one satisfies \<open>report_keeps\<close>, and a request
  that changed something or succeeded ran for a member of the organization that owns what it names.
\<close>

section \<open>What a request keeps\<close>

lemmas report_action_defs = repo_start_completion_report_review_def repo_request_completion_report_changes_def
  repo_resubmit_completion_report_def repo_deliver_completion_report_def action_or_unavailable_def

lemma repo_actions_keep:
  "keeps report_keeps (repo_start_completion_report_review env pool i reviewer)"
  "keeps report_keeps (repo_request_completion_report_changes env pool i reviewer reason)"
  "keeps report_keeps (repo_resubmit_completion_report env pool i actor)"
  unfolding report_action_defs
  by (intro report_rules start_review_keeps request_changes_keeps resubmit_keeps)+

lemma gate_keeps: "keeps report_keeps (require_api_auth backend repository pool m path authorization)"
  by (rule reads_keep_reports [OF gate_read_only])

lemma organizations_keep:
  "keeps report_keeps (principal_active_organization_ids pool subject)"
  "keeps report_keeps (principal_active_organization_ids_for_role pool subject role)"
  unfolding principal_active_organization_ids_def principal_active_organization_ids_for_role_def
  by (intro report_rules repo_report_reads)+

lemma deliver_candidate_keeps: "keeps report_keeps (deliver_candidate env storage pool user i job)"
  unfolding deliver_candidate_def repo_deliver_completion_report_def action_or_unavailable_def
  by (intro report_rules build_keeps) (auto intro!: report_rules deliver_keeps split: sum.split)

lemma shared_keeps: "keeps report_keeps (handle_shared_report pool t)"
  unfolding handle_shared_report_def by (intro report_rules repo_report_reads)

lemma erase_photos_keeps: "keeps report_keeps (repo_erase_customer_photo_evidence env storage delete pool account orgs actor reason)"
  unfolding repo_erase_customer_photo_evidence_def
  by (intro report_rules erase_keeps)

lemmas report_checks = report_access.keeps_checked [OF report_keeps_refl report_keeps_trans]
  job_access.keeps_checked [OF report_keeps_refl report_keeps_trans]

lemmas report_handler_defs = handle_get_completion_report_def handle_list_completion_reports_def
  reports_of_organizations_def reports_of_jobs_def erase_for_organizations_def
  handle_start_review_def handle_request_changes_def handle_resubmit_def handle_deliver_def handle_erase_photos_def

lemma handle_report_keeps: "keeps report_keeps (handle_report env eb pool user r)"
  by (cases r)
     (auto simp: report_handler_defs intro!: keeps_map report_checks report_rules repo_actions_keep
       build_keeps build_all_keeps organizations_keep repo_report_reads deliver_candidate_keeps shared_keeps
       erase_photos_keeps split: option.split sum.split resource_read.split delivery_candidate.split)

lemma serve_report_keeps: "keeps report_keeps (serve_report env eb backend pool authorization r)"
  unfolding serve_report_def
  by (cases r)
     (auto intro!: report_rules gate_keeps handle_report_keeps shared_keeps simp del: handle_report.simps
       split: gate_decision.split)

lemma report_step_keeps: "report_step backend d d' \<Longrightarrow> report_keeps d d'"
  by (erule report_stepE) (auto dest: keepsD [OF serve_report_keeps] intro: same_reports)

lemma reports_reach_keeps: "reports_reach backend d0 d \<Longrightarrow> report_keeps d0 d"
proof (induction rule: reports_reach.induct)
  case start
  show ?case by (rule report_keeps_same)
next
  case (step d d')
  then show ?case using report_step_keeps report_keeps_trans by (blast dest: transpD)
qed

end
