(* ===== verification/Report_Frame.thy ===== *)
theory Report_Frame
  imports Report_Service
begin

text \<open>
  Which completion reports a request can touch: \<open>untouched Q\<close> relates databases whose rows with \<open>Q\<close> are the
  same ones. A request's caller belongs to the organization of the job of every report it changed
  (\<open>changed_report_granted\<close>).
\<close>

section \<open>Rows left alone\<close>

definition untouched :: "(report_row \<Rightarrow> bool) \<Rightarrow> db \<Rightarrow> db \<Rightarrow> bool" where
  "untouched Q d d' \<longleftrightarrow> service_jobs d' = service_jobs d \<and> (distinct (map report_row_id (reports d)) \<longrightarrow>
     distinct (map report_row_id (reports d')) \<and> filter Q (reports d') = filter Q (reports d))"

lemma untouched_refl [simp]: "reflp (untouched Q)"
  by (simp add: reflp_def untouched_def)

lemma untouched_trans [simp]: "transp (untouched Q)"
  by (auto simp: transp_def untouched_def)

lemma untouched_other: "service_jobs d' = service_jobs d \<Longrightarrow> reports d' = reports d \<Longrightarrow> untouched Q d d'"
  by (simp add: untouched_def)

lemmas untouched_rules = untouched_refl untouched_trans keeps_rules
lemmas reads_untouched = read_only_keeps [OF _ untouched_refl]

lemma filter_update:
  "(\<And>r. r \<in> set rows \<Longrightarrow> hit r \<Longrightarrow> \<not> Q r \<and> \<not> Q (f r)) \<Longrightarrow> filter Q (update_where hit f rows) = filter Q rows"
  by (induction rows) auto

lemma put_untouched:
  assumes "put_report old new d = Inr d'" and "old \<in> set (reports d)" and "report_row_id new = report_row_id old"
    and "\<not> Q old" and "\<not> Q new"
  shows "untouched Q d d'"
proof -
  have rows: "reports d' = update_where (\<lambda>r. report_row_id r = report_row_id old) (\<lambda>_. new) (reports d)"
    and jobs: "service_jobs d' = service_jobs d"
    using assms(1) by (simp_all add: put_report_Inr)
  have "map report_row_id (reports d') = map report_row_id (reports d)"
    unfolding rows by (rule map_update_where) (simp add: assms(3))
  moreover have "filter Q (reports d') = filter Q (reports d)" if "distinct (map report_row_id (reports d))"
    unfolding rows
  proof (rule filter_update)
    fix r assume "r \<in> set (reports d)" "report_row_id r = report_row_id old"
    then have "r = old" using that assms(2) by (simp add: distinct_map inj_on_def)
    with assms(4,5) show "\<not> Q r \<and> \<not> Q new" by simp
  qed
  ultimately show ?thesis by (simp add: untouched_def jobs)
qed

lemma set_report_untouched:
  assumes "set_report i f d = Inr (u, d')" and "\<And>r. report_row_id (f r) = report_row_id r"
    and "\<And>r. report_row_id r = i \<Longrightarrow> \<not> Q r"
  shows "untouched Q d d'"
proof (cases "find_report d i")
  case None
  with assms(1) show ?thesis by (auto simp: set_report_def intro: untouched_other)
next
  case (Some r)
  then have "r \<in> set (reports d)" "report_row_id r = i" by (auto dest: find_report_Some)
  with put_untouched [OF set_report_Inr [OF assms(1) Some], of Q] assms(2,3) show ?thesis by simp
qed

lemma upsert_untouched:
  assumes "upsert_report row d = Inr (q, d')" and "\<And>r. report_row_job_id r = report_row_job_id row \<Longrightarrow> \<not> Q r"
  shows "untouched Q d d'"
proof (cases "lookup_by (\<lambda>x. report_row_job_id x = report_row_job_id row) (reports d)")
  case None
  then have "insert_row (\<lambda>x. find_job d (report_row_job_id x) \<noteq> None) report_clash row (reports d) = Inr (reports d')"
    and jobs: "service_jobs d' = service_jobs d"
    using assms(1) by (auto simp: upsert_report_def split: if_splits)
      (cases "insert_row (\<lambda>x. find_job d (report_row_job_id x) \<noteq> None) report_clash row (reports d)"; auto)+
  then have rows: "reports d' = reports d @ [row]" and free: "\<forall>x \<in> set (reports d). \<not> report_clash row x"
    by (auto simp: insert_row_Inr)
  from free have "report_row_id row \<notin> report_row_id ` set (reports d)" by (auto simp: report_clash_def)
  with assms(2) show ?thesis by (simp add: untouched_def rows jobs)
next
  case (Some old)
  then have old: "old \<in> set (reports d)" "report_row_job_id old = report_row_job_id row"
    by (auto dest: lookup_by_Some)
  have put: "put_report old (refreshed_row old row) d = Inr d'"
    using assms(1) Some by (cases "put_report old (refreshed_row old row) d") (auto simp: upsert_report_def split: if_splits)
  show ?thesis
    by (rule put_untouched [OF put old(1)])
       (use old assms(2) in \<open>auto simp: refreshed_row_def Let_def\<close>)
qed

lemma redact_each_untouched:
  assumes "redact_each rs d = Inr d'" and "distinct (map report_row_id rs)" and "set rs \<subseteq> set (reports d)"
    and "\<And>r s. r \<in> set rs \<Longrightarrow> report_row_job_id s = report_row_job_id r \<Longrightarrow> \<not> Q s"
  shows "untouched Q d d'"
  using assms
proof (induction rs arbitrary: d)
  case (Cons r rs)
  then obtain d1 where put: "put_report r (redacted_row r) d = Inr d1" and rest: "redact_each rs d1 = Inr d'"
    by (auto split: sum.splits)
  have one: "untouched Q d d1"
  proof (rule put_untouched [OF put])
    show "\<not> Q r" and "\<not> Q (redacted_row r)" by (rule Cons.prems(4) [of r]; simp add: redacted_row_def)+
  qed (use Cons.prems in \<open>auto simp: redacted_row_def\<close>)
  have sub: "set rs \<subseteq> set (reports d1)"
  proof
    fix x
    assume x: "x \<in> set rs"
    with Cons.prems(2) have "report_row_id x \<noteq> report_row_id r" by (force simp: image_iff)
    with x Cons.prems(3) put show "x \<in> set (reports d1)"
      by (auto simp: put_report_Inr set_update_where intro!: image_eqI [where x = x])
  qed
  have "untouched Q d1 d'"
  proof (rule Cons.IH [OF rest _ sub])
    show "\<not> Q t" if "s \<in> set rs" "report_row_job_id t = report_row_job_id s" for s t
      by (rule Cons.prems(4) [of s]) (use that in simp_all)
  qed (use Cons.prems(2) in simp)
  with one show ?case using untouched_trans by (blast dest: transpD)
qed (simp add: untouched_def)

section \<open>Operations\<close>

lemma redact_untouched:
  assumes "redact_reports account orgs d = Inr (n, d')"
    and "\<And>r. report_row_job_id r \<in> job_pk ` set (account_jobs account orgs d) \<Longrightarrow> \<not> Q r"
  shows "untouched Q d d'"
proof -
  let ?rs = "filter (\<lambda>r. report_row_job_id r \<in> set (map job_pk (account_jobs account orgs d))
    \<and> report_row_snapshot r \<noteq> None) (reports d)"
  have red: "redact_each ?rs d = Inr d'"
    using assms(1) by (auto simp: redact_reports_def Let_def map_sum_def split: sum.splits)
  show ?thesis
  proof (cases "distinct (map report_row_id (reports d))")
    case True
    show ?thesis
      by (rule redact_each_untouched [OF red]) (use True assms(2) in \<open>auto simp: distinct_map_filter\<close>)
  next
    case False
    have "service_jobs d' = service_jobs d" if "redact_each rs d = Inr d'" for rs d
      using that by (induction rs arbitrary: d) (auto simp: put_report_Inr split: sum.splits)
    with red False show ?thesis by (auto simp: untouched_def)
  qed
qed

lemma other_statements_untouched:
  "append_history h d = Inr (u, d') \<Longrightarrow> untouched Q d d'"
  "append_audit au d = Inr (v, d') \<Longrightarrow> untouched Q d d'"
  "erase_photos env account orgs actor reason d = Inr (ps, d') \<Longrightarrow> untouched Q d d'"
  "queue_deletion env k account organization key d = Inr (w, d') \<Longrightarrow> untouched Q d d'"
  by (auto simp: append_history_def append_audit_def erase_photos_def queue_deletion_def Let_def map_sum_def
      intro!: untouched_other split: sum.splits if_splits)

lemma queue_untouched: "keeps (untouched Q) (queue_deletions env k account organization keys)"
  by (induction keys arbitrary: k) (auto intro!: untouched_rules dest: other_statements_untouched)

lemma audit_untouched: "keeps (untouched Q) (audit_erasure env k actor account orgs)"
  by (induction orgs arbitrary: k) (auto intro!: untouched_rules dest: other_statements_untouched)

lemma advance_untouched:
  assumes "\<And>r. report_row_id r = i \<Longrightarrow> \<not> Q r" and "\<And>r. report_row_id (f r) = report_row_id r"
  shows "keeps (untouched Q) (db_bind (db_stmt (set_report i f)) (\<lambda>_.
     db_bind (insert_status_history env i s t actor reason) (\<lambda>_.
     db_bind (insert_report_audit_event env i organization actor kind) (\<lambda>_. db_return a))))"
  unfolding insert_status_history_def insert_report_audit_event_def
  by (intro untouched_rules)
     (simp_all add: other_statements_untouched set_report_untouched [OF _ assms(2) assms(1)])

lemma report_transaction_untouched:
  assumes "\<And>r job. keeps (untouched Q) (k r job)"
  shows "keeps (untouched Q) (db_transaction (db_bind (db_select (report_with_job i)) (\<lambda>current. case current of
     None \<Rightarrow> db_return (Dropped x) | Some (r, job) \<Rightarrow> k r job)))"
proof (intro untouched_rules)
  show "keeps (untouched Q) (case a of (r, job) \<Rightarrow> k r job)" for a
    using assms by (cases a) simp
qed

lemma transitions_untouched:
  assumes "\<And>r. report_row_id r = i \<Longrightarrow> \<not> Q r"
  shows "keeps (untouched Q) (start_completion_report_review env i actor)"
    "keeps (untouched Q) (request_completion_report_changes env i actor reason)"
    "keeps (untouched Q) (resubmit_completion_report env i actor)"
    "keeps (untouched Q) (deliver_completion_report env i actor snapshot)"
  unfolding start_completion_report_review_def request_completion_report_changes_def resubmit_completion_report_def
    deliver_completion_report_def Let_def
  by (intro report_transaction_untouched keeps_if keeps_return untouched_refl advance_untouched assms;
      simp add: in_review_row_def changes_requested_row_def resubmitted_row_def delivered_row_def)+

lemma persist_untouched:
  assumes "\<And>r. report_row_job_id r = cr_job_id rep \<Longrightarrow> \<not> Q r"
  shows "keeps (untouched Q) (persist_report env pool rep)"
  unfolding persist_report_def repo_persist_completion_report_def read_or_unavailable_def persist_completion_report_def
  by (intro untouched_rules; erule upsert_untouched) (simp add: assms proposed_row_def)

text \<open>The erasure touches the reports of the account's jobs, and no operation changes the jobs.\<close>

definition untouched_for :: "job_row list \<Rightarrow> (report_row \<Rightarrow> bool) \<Rightarrow> db \<Rightarrow> db \<Rightarrow> bool" where
  "untouched_for jobs Q d d' \<longleftrightarrow> (service_jobs d = jobs \<longrightarrow> untouched Q d d')"

lemma untouched_for_refl [simp]: "reflp (untouched_for jobs Q)"
  by (simp add: reflp_def untouched_for_def untouched_def)

lemma untouched_for_trans [simp]: "transp (untouched_for jobs Q)"
  by (auto simp: transp_def untouched_for_def untouched_def)

lemma untouched_forI: "keeps (untouched Q) m \<Longrightarrow> keeps (untouched_for jobs Q) m"
  by (auto simp: keeps_def untouched_for_def)

lemma erase_untouched:
  assumes "\<And>r j. j \<in> set jobs \<Longrightarrow> job_customer_account_id j = Some account \<Longrightarrow> job_organization_id j \<in> set orgs \<Longrightarrow>
    report_row_job_id r = job_pk j \<Longrightarrow> \<not> Q r"
  shows "keeps (untouched_for jobs Q) (erase_customer_photo_evidence env account orgs actor reason)"
proof -
  have red: "untouched_for jobs Q d d'" if "redact_reports account orgs d = Inr (n, d')" for d n d'
    unfolding untouched_for_def
  proof
    assume "service_jobs d = jobs"
    with assms show "untouched Q d d'" by (intro redact_untouched [OF that]) (auto simp: account_jobs_def)
  qed
  have photos: "untouched_for jobs Q d d'" if "erase_photos env account orgs actor reason d = Inr (ps, d')" for d ps d'
    using other_statements_untouched(3) [OF that] by (simp add: untouched_for_def)
  note [intro!] = keeps_rules untouched_forI [OF queue_untouched] untouched_forI [OF audit_untouched]
  have "keeps (untouched_for jobs Q) (db_stmt (redact_reports account orgs))"
    "keeps (untouched_for jobs Q) (db_stmt (erase_photos env account orgs actor reason))"
    by (rule keeps_stmt [OF untouched_for_refl]; erule red photos)+
  then show ?thesis
    unfolding erase_customer_photo_evidence_def Let_def
    by (auto simp del: audit_erasure.simps split: option.split list.split)
qed

lemma job_of_report_id:
  assumes "job_of_report pool job c = (Inr (Inr j), c')"
  shows "js_id (jd_summary j) = job"
proof -
  obtain r where r: "repo_get_job pool job c = (Inr r, c')" and j: "r = ResourceLoaded j"
    using assms by (auto simp: job_of_report_def dest!: answer_of_map split: resource_read.splits)
  show ?thesis
    using r j
    by (auto simp: repo_get_job_def get_job_def db_return_def seed_job_detail_def Let_def find_job_def job_summary_of_def
        elim!: db_catch_cases db_bind_InrE db_select_InrE' dest!: lookup_by_Some split: if_splits option.splits)
qed

lemma with_route_stop_job:
  assumes "with_route_stop env pool job rep c = (Inr (Inr r), c')"
  shows "cr_job_id r = cr_job_id rep"
  using assms
  by (auto simp: with_route_stop_def db_return_def attach_completion_report_route_stop_def Let_def
      dest!: answer_of_map split: option.splits today_result.splits)

lemma read_only_map: "read_only_call m \<Longrightarrow> read_only_call (db_map f m)"
  unfolding db_map_def by (intro read_only_rules)

lemma report_reads_read_only:
  "read_only_call (job_of_report pool job)" "read_only_call (account_of_report pool job)"
  "read_only_call (photos_of_report storage pool job)" "read_only_call (add_ons_of_report pool job)"
  unfolding job_of_report_def account_of_report_def photos_of_report_def add_ons_of_report_def
    repo_get_account_for_job_def found_or_unavailable_def account_summary_for_job_def repo_list_photo_evidence_def
    read_or_unavailable_def list_job_photos_def
  by (intro read_only_map read_only_if read_only_rules read_operations read_only_select)+

lemma route_stop_read_only: "read_only_call (with_route_stop env pool job rep)"
  unfolding with_route_stop_def
  by (auto intro!: read_only_map read_only_return read_operations split: option.split)

lemma build_untouched:
  assumes "\<And>r. report_row_job_id r = job \<Longrightarrow> \<not> Q r"
  shows "keeps (untouched Q) (build_and_persist_completion_report env storage pool job)"
proof -
  note bind = api_bind_keeps [OF untouched_refl untouched_trans]
  note reads = report_reads_read_only [THEN reads_untouched] route_stop_read_only [THEN reads_untouched]
  have route: "cr_job_id r = job"
    if "js_id (jd_summary j) = job" "with_route_stop env pool job (build_completion_report j a ps as) c = (Inr (Inr r), c')"
    for j a ps as c r c'
    using with_route_stop_job [OF that(2)] that(1) by (simp add: build_completion_report_def Let_def)
  show ?thesis
    unfolding build_and_persist_completion_report_def
    by (rule bind [where Q = "\<lambda>j. js_id (jd_summary j) = job"],
        intro reads, erule job_of_report_id,
        intro bind [where Q = "\<lambda>_. True"] bind [where Q = "\<lambda>r. cr_job_id r = job"]
          reads TrueI, erule (1) route)
       (simp add: persist_untouched assms)
qed

lemma build_all_untouched:
  assumes "\<And>r j. j \<in> set js \<Longrightarrow> report_row_job_id r = js_id j \<Longrightarrow> \<not> Q r"
  shows "keeps (untouched Q) (build_reports env storage pool q js)"
  using assms
proof (induction js)
  case Nil
  show ?case unfolding build_reports.simps by (intro untouched_rules)
next
  case (Cons j js)
  have "keeps (untouched Q) (build_and_persist_completion_report env storage pool (js_id j))"
    by (rule build_untouched) (rule Cons.prems [of j]; simp)
  moreover have "keeps (untouched Q) (build_reports env storage pool q js)"
    by (rule Cons.IH) (rule Cons.prems; simp)
  ultimately show ?case unfolding build_reports.simps
    by (intro untouched_rules api_bind_keeps [where Q = "\<lambda>_. True"] TrueI)
qed

end
