(* ===== verification/Report_Grants.thy ===== *)
theory Report_Grants
  imports Report_Frame Principal_Facts
begin

text \<open>
  Tenant isolation of completion reports: whoever's request changed a report is a member, with the role the
  request asks for, of the organization of its job (\<open>changed_report_granted\<close>).
\<close>

lemma untouched_named:
  assumes "untouched Q d d'" and "reports_ok d" and "x \<in> set (reports d)" and "x \<notin> set (reports d')"
  shows "\<not> Q x"
proof
  assume "Q x"
  with assms(3) have "x \<in> set (filter Q (reports d))" by simp
  also have "filter Q (reports d) = filter Q (reports d')"
    using assms(1,2) by (simp add: untouched_def reports_ok_def)
  finally show False using assms(4) by simp
qed

lemma read_only_bind_cases:
  assumes "db_bind m k (fs, d) = (res, (fs', d'))" and "read_only_call m" and "d' \<noteq> d"
  obtains a fs1 where "m (fs, d) = (Inr a, (fs1, d))" and "k a (fs1, d) = (res, (fs', d'))"
proof -
  obtain r1 fs1 d1 where m: "m (fs, d) = (r1, (fs1, d1))" by (metis prod.collapse)
  with assms(2) have d1: "d1 = d" by (auto simp: read_only_call_def)
  with assms(1,3) m obtain a where "r1 = Inr a" by (cases r1) auto
  with m d1 assms(1) that show thesis by simp
qed

text \<open>The organization a caller acts for, and in which role.\<close>

definition acts_for :: "db \<Rightarrow> string \<Rightarrow> (access_role \<Rightarrow> bool) \<Rightarrow> report_row \<Rightarrow> bool" where
  "acts_for d subject role r \<longleftrightarrow> (\<exists>organization. job_organization d (report_row_job_id r) = Some organization
     \<and> belongs_to d subject organization role)"

fun report_role :: "report_request \<Rightarrow> access_role \<Rightarrow> bool" where
  "report_role (GetReport _) = can_view_crew_route"
| "report_role (StartReview _) = can_review_completion_report"
| "report_role (RequestChanges _ _) = can_review_completion_report"
| "report_role (Resubmit _) = can_submit_completion_report"
| "report_role (Deliver _) = can_deliver_completion_report"
| "report_role (ErasePhotos _ _) = can_review_completion_report"
| "report_role _ = (\<lambda>_. True)"

lemma report_owner_acts:
  assumes "granted_by (\<lambda>d. report_organization d i) subject role d" and "reports_ok d"
    and "x \<in> set (reports d)" and "report_row_id x = i"
  shows "acts_for d subject role x"
  using assms find_report_found [OF assms(2,3)]
  by (auto simp: granted_by_def acts_for_def report_organization_def report_with_job_def job_organization_def)

section \<open>Transitions\<close>

lemma transition_granted:
  assumes run: "checked (require_completion_report_organization_access pool user i role) handler (fs, d) = (res, (fs', d'))"
    and frame: "keeps (untouched (\<lambda>r. report_row_id r \<noteq> i)) handler"
    and ok: "reports_ok d" and x: "x \<in> set (reports d)" "x \<notin> set (reports d')"
  shows "acts_for d (principal_subject user) role x"
proof -
  have "untouched (\<lambda>r. report_row_id r \<noteq> i) d d'"
    using report_access.keeps_checked [OF untouched_refl untouched_trans frame] run by (rule keepsD)
  then have "report_row_id x = i" using untouched_named [OF _ ok x] by blast
  moreover have "d' \<noteq> d" using x by auto
  with run have "granted_by (\<lambda>d. report_organization d i) (principal_subject user) role d"
    by (blast intro: report_access.effect_granted)
  ultimately show ?thesis using report_owner_acts ok x(1) by blast
qed

lemma action_untouched:
  "keeps (untouched Q) m \<Longrightarrow> keeps (untouched Q) (action_or_unavailable pool m)"
  unfolding action_or_unavailable_def by (intro untouched_rules)

lemma repo_actions_untouched:
  "keeps (untouched (\<lambda>r. report_row_id r \<noteq> i)) (repo_start_completion_report_review env pool i actor)"
  "keeps (untouched (\<lambda>r. report_row_id r \<noteq> i)) (repo_request_completion_report_changes env pool i actor reason)"
  "keeps (untouched (\<lambda>r. report_row_id r \<noteq> i)) (repo_resubmit_completion_report env pool i actor)"
  unfolding repo_start_completion_report_review_def repo_request_completion_report_changes_def
    repo_resubmit_completion_report_def
  by (intro action_untouched transitions_untouched; simp)+

section \<open>Delivery\<close>

lemma candidate_job:
  assumes "repo_completion_report_delivery_candidate pool i (fs, d) = (Inr (CandidateReady job), c')"
  shows "\<exists>r. find_report d i = Some r \<and> report_row_job_id r = job"
  using assms
  by (auto simp: repo_completion_report_delivery_candidate_def completion_report_delivery_candidate_def db_return_def
      elim!: db_catch_cases db_select_InrE' split: if_splits option.splits)

lemma candidate_read_only: "read_only_call (repo_completion_report_delivery_candidate pool i)"
  unfolding repo_completion_report_delivery_candidate_def completion_report_delivery_candidate_def
  by (intro read_only_if read_only_rules read_only_select)

lemma deliver_candidate_untouched:
  assumes "\<And>r. report_row_id r = i \<or> report_row_job_id r = job \<Longrightarrow> \<not> Q r"
  shows "keeps (untouched Q) (deliver_candidate env storage pool user i job)"
proof -
  have "keeps (untouched Q) (build_and_persist_completion_report env storage pool job)"
    by (rule build_untouched) (simp add: assms)
  moreover have "keeps (untouched Q) (repo_deliver_completion_report env pool i actor snapshot)" for actor snapshot
    unfolding repo_deliver_completion_report_def by (intro action_untouched transitions_untouched) (simp add: assms)
  ultimately show ?thesis
    unfolding deliver_candidate_def by (auto intro!: untouched_rules split: sum.split)
qed

lemma deliver_granted:
  assumes run: "handle_deliver env storage pool user i (fs, d) = (res, (fs', d'))"
    and ok: "reports_ok d" and x: "x \<in> set (reports d)" "x \<notin> set (reports d')"
  shows "acts_for d (principal_subject user) can_deliver_completion_report x"
  using run unfolding handle_deliver_def
proof (cases rule: report_access.checked_cases)
  case stopped
  then show ?thesis using x by simp
next
  case (through fs1)
  have ch: "d' \<noteq> d" using x by auto
  from through(2) candidate_read_only ch obtain a fs2 where
      a: "repo_completion_report_delivery_candidate pool i (fs1, d) = (Inr a, (fs2, d))"
    and k: "(case a of
         CandidateReady job \<Rightarrow> deliver_candidate env storage pool user i job
       | CandidateInvalidTransition \<Rightarrow> db_return (Problem 409 ''invalid_completion_report_transition''
           ''Only ready in-review completion reports can be delivered.'')
       | CandidateNotFound \<Rightarrow> db_return (refuse (resource_not_found_response ''completion_report_not_found''
           ''The requested completion report was not found.''))
       | CandidateUnavailable \<Rightarrow> db_return (refuse (persisted_resource_unavailable_response
           ''completion_report_persistence_unavailable''
           ''Delivering a completion report requires database persistence.''))) (fs2, d) = (res, (fs', d'))"
    by (rule read_only_bind_cases)
  from k ch obtain job where job: "a = CandidateReady job"
    and deliver: "deliver_candidate env storage pool user i job (fs2, d) = (res, (fs', d'))"
    by (auto simp: db_return_def split: delivery_candidate.splits)
  obtain r where r: "find_report d i = Some r" "report_row_job_id r = job" using candidate_job a job by blast
  have "untouched (\<lambda>r. report_row_id r \<noteq> i \<and> report_row_job_id r \<noteq> job) d d'"
    by (rule keepsD [OF deliver_candidate_untouched deliver]) auto
  then have "report_row_id x = i \<or> report_row_job_id x = job" using untouched_named [OF _ ok x] by blast
  moreover have "acts_for d (principal_subject user) can_deliver_completion_report r"
    using through(1) ok r(1) by (auto dest: find_report_Some intro: report_owner_acts)
  moreover have "x = r" if "report_row_id x = i" using find_report_found [OF ok x(1)] r(1) that by simp
  ultimately show ?thesis using r(2) by (auto simp: acts_for_def)
qed

section \<open>Building\<close>

lemma get_report_granted:
  assumes run: "handle_get_completion_report env storage pool user job (fs, d) = (res, (fs', d'))"
    and ok: "reports_ok d" and x: "x \<in> set (reports d)" "x \<notin> set (reports d')"
  shows "acts_for d (principal_subject user) can_view_crew_route x"
proof -
  let ?Q = "\<lambda>r. report_row_job_id r \<noteq> job"
  have "keeps (untouched ?Q) (handle_get_completion_report env storage pool user job)"
    unfolding handle_get_completion_report_def
    by (intro job_access.keeps_checked untouched_rules build_untouched) simp
  then have "untouched ?Q d d'" using run by (rule keepsD)
  then have "report_row_job_id x = job" using untouched_named [OF _ ok x] by blast
  moreover have "granted_by (\<lambda>d. job_organization d job) (principal_subject user) can_view_crew_route d"
    using run x unfolding handle_get_completion_report_def by (blast intro: job_access.effect_granted)
  ultimately show ?thesis by (simp add: granted_by_def acts_for_def)
qed

lemma set_first_occurrences: "set (first_occurrences xs) = set xs"
proof -
  have "set (fold (\<lambda>x seen. if x \<in> set seen then seen else x # seen) xs seen) = set xs \<union> set seen" for seen
    by (induction xs arbitrary: seen) auto
  then show ?thesis by (simp add: first_occurrences_def)
qed

lemma visible_organizations:
  assumes "principal_active_organization_ids_for_role pool subject role (fs, d) = (Inr (Some ids), c')"
    and "organization \<in> set ids"
  shows "pool" and "belongs_to d subject organization role"
proof -
  obtain ms c1 where ms: "repo_list_active_memberships pool subject (fs, d) = (Inr (MembersLoaded ms), c1)"
    and ids: "ids = first_occurrences (map om_organization_id (filter (\<lambda>m. role (om_role m)) ms))"
    using assms(1)
    by (auto simp: principal_active_organization_ids_for_role_def db_return_def elim!: db_bind_InrE
        split: organization_collection.splits)
  from ms show pool by (auto simp: repo_list_active_memberships_def db_return_def split: if_splits)
  from assms(2) ids obtain m where "m \<in> set ms" "role (om_role m)" "om_organization_id m = organization"
    by (auto simp: set_first_occurrences)
  with loaded_memberships [OF ms] show "belongs_to d subject organization role"
    unfolding belongs_to_def by blast
qed

lemma listed_job:
  assumes "repo_list_jobs True (fs, d) = (Inr (ResourceLoaded js), c')" and "j \<in> set js"
    and "distinct (map job_pk (service_jobs d))"
  shows "job_organization d (js_id j) = Some (js_organization_id j)"
proof -
  from assms(1) have "js = map job_summary_of (order_by job_before (service_jobs d))"
    by (auto simp: repo_list_jobs_def list_jobs_def db_return_def elim!: db_catch_cases db_select_InrE')
  with assms(2) obtain row where row: "row \<in> set (service_jobs d)" "j = job_summary_of row" by auto
  then have "find_job d (job_pk row) = Some row"
    unfolding find_job_def by (intro lookup_by_unique [where key = job_pk] assms(3)) simp_all
  with row(2) show ?thesis by (simp add: job_organization_def job_summary_of_def)
qed

lemma organizations_read_only:
  "read_only_call (principal_active_organization_ids_for_role pool subject role)"
  unfolding principal_active_organization_ids_for_role_def by (intro read_only_rules read_operations)

lemma jobs_granted:
  assumes "reports_of_jobs env storage True q ids (ResourceLoaded js) (fs1, d) = (res, (fs', d'))"
    and list: "repo_list_jobs True (fs, d) = (Inr (ResourceLoaded js), c')"
    and ok: "reports_ok d" "distinct (map job_pk (service_jobs d))"
    and x: "x \<in> set (reports d)" "x \<notin> set (reports d')"
  shows "\<exists>organization \<in> set ids. job_organization d (report_row_job_id x) = Some organization"
proof -
  let ?mine = "filter (\<lambda>j. js_organization_id j \<in> set ids) js"
  let ?Q = "\<lambda>r. report_row_job_id r \<notin> js_id ` set ?mine"
  have "keeps (untouched ?Q) (reports_of_jobs env storage True q ids (ResourceLoaded js))"
    unfolding reports_of_jobs_def resource_read.case
    by (intro untouched_rules build_all_untouched) auto
  then have "untouched ?Q d d'" using assms(1) by (rule keepsD)
  then obtain j where "j \<in> set js" "js_organization_id j \<in> set ids" "report_row_job_id x = js_id j"
    using untouched_named [OF _ ok(1) x] by auto
  with listed_job [OF list _ ok(2)] show ?thesis by auto
qed

lemma list_reports_granted:
  assumes run: "handle_list_completion_reports env storage pool user q (fs, d) = (res, (fs', d'))"
    and ok: "reports_ok d" "distinct (map job_pk (service_jobs d))"
    and x: "x \<in> set (reports d)" "x \<notin> set (reports d')"
  shows "acts_for d (principal_subject user) (\<lambda>_. True) x"
proof -
  have ch: "d' \<noteq> d" using x by auto
  then have "validate_completion_report_list_query q = None"
    using run by (auto simp: handle_list_completion_reports_def db_return_def split: option.splits)
  with run have "db_bind (principal_active_organization_ids_for_role pool (principal_subject user) (\<lambda>_. True))
      (reports_of_organizations env storage pool q) (fs, d) = (res, (fs', d'))"
    by (simp add: handle_list_completion_reports_def principal_active_organization_ids_def)
  then obtain found fs1 where
      found: "principal_active_organization_ids_for_role pool (principal_subject user) (\<lambda>_. True) (fs, d) = (Inr found, (fs1, d))"
    and k: "reports_of_organizations env storage pool q found (fs1, d) = (res, (fs', d'))"
    using organizations_read_only ch by (rule read_only_bind_cases)
  from k ch obtain ids where ids: "found = Some ids" "ids \<noteq> []"
    and k: "db_bind (repo_list_jobs pool) (reports_of_jobs env storage pool q ids) (fs1, d) = (res, (fs', d'))"
    by (auto simp: reports_of_organizations_def db_return_def split: option.splits if_splits)
  from k read_operations(5) ch obtain listed fs2 where list: "repo_list_jobs pool (fs1, d) = (Inr listed, (fs2, d))"
    and k2: "reports_of_jobs env storage pool q ids listed (fs2, d) = (res, (fs', d'))"
    by (rule read_only_bind_cases)
  from k2 ch obtain js where js: "listed = ResourceLoaded js"
    by (auto simp: reports_of_jobs_def db_return_def split: resource_read.splits)
  note visible = visible_organizations [OF found [unfolded ids(1)]]
  have "pool" using visible(1) [of "hd ids"] ids(2) by simp
  with k2 list js obtain organization where "organization \<in> set ids"
    and "job_organization d (report_row_job_id x) = Some organization"
    using jobs_granted [OF _ _ ok x] by force
  with visible(2) show ?thesis by (auto simp: acts_for_def)
qed

section \<open>Erasure\<close>

lemma erase_granted:
  assumes run: "handle_erase_photos env storage delete pool user account reason (fs, d) = (res, (fs', d'))"
    and ok: "reports_ok d" "distinct (map job_pk (service_jobs d))"
    and x: "x \<in> set (reports d)" "x \<notin> set (reports d')"
  shows "acts_for d (principal_subject user) can_review_completion_report x"
proof -
  have ch: "d' \<noteq> d" using x by auto
  from run ch obtain cleaned where "db_bind (principal_active_organization_ids_for_role pool (principal_subject user)
      can_review_completion_report) (erase_for_organizations env storage delete pool user account cleaned) (fs, d) = (res, (fs', d'))"
    by (auto simp: handle_erase_photos_def db_return_def split: sum.splits)
  then obtain found fs1 where
      found: "principal_active_organization_ids_for_role pool (principal_subject user) can_review_completion_report (fs, d)
        = (Inr found, (fs1, d))"
    and k: "erase_for_organizations env storage delete pool user account cleaned found (fs1, d) = (res, (fs', d'))"
    using organizations_read_only ch by (rule read_only_bind_cases)
  from k ch obtain ids where ids: "found = Some ids"
    by (auto simp: erase_for_organizations_def db_return_def split: option.splits)
  note visible = visible_organizations [OF found [unfolded ids(1)]]
  let ?Q = "\<lambda>r. report_row_job_id r \<notin> job_pk ` {j \<in> set (service_jobs d). job_organization_id j \<in> set ids}"
  have "keeps (untouched_for (service_jobs d) ?Q) (erase_for_organizations env storage delete pool user account cleaned (Some ids))"
    unfolding erase_for_organizations_def repo_erase_customer_photo_evidence_def option.case
    by (intro keeps_rules untouched_for_refl untouched_for_trans erase_untouched) auto
  from keepsD [OF this k [unfolded ids]] have "untouched ?Q d d'" by (simp add: untouched_for_def)
  then obtain j where j: "j \<in> set (service_jobs d)" "job_organization_id j \<in> set ids" "report_row_job_id x = job_pk j"
    using untouched_named [OF _ ok(1) x] by auto
  have "find_job d (job_pk j) = Some j"
    unfolding find_job_def by (intro lookup_by_unique [where key = job_pk] ok(2) j) simp_all
  with j visible(2) [OF j(2)] show ?thesis by (simp add: acts_for_def job_organization_def)
qed

section \<open>Requests\<close>

lemma shared_read_only: "read_only_call (handle_shared_report pool t)"
  unfolding handle_shared_report_def repo_delivered_snapshot_for_report_share_token_def found_or_unavailable_def
    delivered_snapshot_for_share_token_def
  by (intro read_only_map read_only_if read_only_rules read_only_select)

lemma handle_report_granted:
  assumes run: "handle_report env eb pool user r (fs, d) = (res, (fs', d'))"
    and ok: "reports_ok d" "distinct (map job_pk (service_jobs d))"
    and x: "x \<in> set (reports d)" "x \<notin> set (reports d')"
  shows "acts_for d (principal_subject user) (report_role r) x"
proof -
  have mapped: "\<exists>res1. m (fs, d) = (res1, (fs', d'))" if "db_map f m (fs, d) = (res, (fs', d'))"
    for f :: "'x http_response \<Rightarrow> nat" and m
    using that by (auto simp: db_map_def db_bind_def db_return_def split: prod.splits sum.splits)
  note transitions = transition_granted [OF _ _ ok(1) x]
  show ?thesis
  proof (cases r)
    case (StartReview i)
    with run show ?thesis
      by (auto simp: handle_start_review_def dest!: mapped intro!: transitions untouched_rules repo_actions_untouched)
  next
    case (RequestChanges i reason)
    with run x show ?thesis
      by (auto simp: handle_request_changes_def db_return_def dest!: mapped split: sum.splits
          intro!: transitions untouched_rules repo_actions_untouched)
  next
    case (Resubmit i)
    with run show ?thesis
      by (auto simp: handle_resubmit_def dest!: mapped intro!: transitions untouched_rules repo_actions_untouched)
  next
    case (SharedReport t)
    with run x show ?thesis
      by (auto dest!: mapped dest: read_only_call.state_unchanged [OF shared_read_only])
  qed (use run ok x in \<open>auto dest!: mapped intro: get_report_granted list_reports_granted deliver_granted erase_granted\<close>)
qed

lemma public_report_unchanged:
  "handle_public_report pool r (fs, d) = (res, (fs', d')) \<Longrightarrow> d' = d"
  using read_only_map [OF shared_read_only, of http_status pool]
  by (cases r) (auto simp: db_return_def read_only_call_def)

lemma changed_report_granted:
  assumes run: "serve_report env eb backend pool authorization r (fs, d) = (res, (fs', d'))"
    and ok: "reports_ok d" "distinct (map job_pk (service_jobs d))"
    and x: "x \<in> set (reports d)" "x \<notin> set (reports d')"
  shows "\<exists>p. backend_principal backend authorization = Inr p
    \<and> acts_for d (principal_subject p) (report_role r) x"
proof -
  have "d' \<noteq> d" using x by auto
  with run gate_read_only obtain g fs1 where
      g: "require_api_auth backend True pool (report_method r) (report_path r) authorization (fs, d) = (Inr g, (fs1, d))"
    and k: "(case g of RunAs user \<Rightarrow> handle_report env eb pool user r | Refuse status _ \<Rightarrow> db_return status
        | RunPublic \<Rightarrow> handle_public_report pool r) (fs1, d) = (res, (fs', d'))"
    unfolding serve_report_def by (rule read_only_bind_cases)
  from k \<open>d' \<noteq> d\<close> obtain user where user: "g = RunAs user"
    and handled: "handle_report env eb pool user r (fs1, d) = (res, (fs', d'))"
    by (auto simp: db_return_def dest: public_report_unchanged split: gate_decision.splits)
  from gate_runs [OF g [unfolded user]] handle_report_granted [OF handled ok x]
  show ?thesis by auto
qed

end
