(* ===== verification/Snapshot_Facts.thy ===== *)
theory Snapshot_Facts
  imports Completion_Reports
begin

text \<open>
  The JSON of a report read back field by field, and the projection of a delivered snapshot: what the
  customer is shown from the stored document is what the report itself projects to.
\<close>

section \<open>Reading fields back\<close>

lemma unless_none_map_of [simp]:
  "map_of (unless_none k f x @ kvs) l = (if l = k \<and> x \<noteq> None then map_option f x else map_of kvs l)"
  by (auto simp: unless_none_def split: option.split)

lemma unless_none_map_of_last [simp]:
  "map_of (unless_none k f x) l = (if l = k then map_option f x else None)"
  by (auto simp: unless_none_def split: option.split)

lemma as_str_option [simp]: "Option.bind (Some (json_option JStr x)) as_str = x"
  by (cases x) (simp_all add: json_option_def)

lemma u32_bound [simp]: "uint (w :: u32) < 4294967296"
  using uint_bounded [of w] by simp

lemma u32_nat_bound [simp]: "unat (w :: u32) < 4294967296"
  using unsigned_less [of w] by simp

lemma u64_bound [simp]: "uint (w :: u64) < 18446744073709551616"
  using uint_bounded [of w] by simp

lemma u32_as_u64 [simp]: "as_u64 (json_u32 w) = Some (unat w)"
  using less_trans [OF u32_bound [of w], of 18446744073709551616] by (simp add: json_u32_def)

lemmas field_defs = str_field_def bool_field_def u64_field_def u32_field_def array_field_def

lemma checklist_item_read [simp]: "customer_checklist_item (checklist_item_json t) = Some (ci_label t, ci_completed t)"
  by (simp add: customer_checklist_item_def checklist_item_json_def field_defs)

lemma photo_read [simp]: "customer_photo_of (photo_json p) = Some
    \<lparr> cp_photo_type = pe_photo_type p, cp_file_name = pe_file_name p,
      cp_image_url = with_default (pe_thumbnail_url p) (pe_display_url p) \<rparr>"
  by (cases "pe_thumbnail_url p")
     (simp_all add: customer_photo_of_def photo_json_def field_defs json_option_def with_default_def)

lemma recommendation_read [simp]: "customer_recommendation_of (add_on_json a) = Some
    \<lparr> re_service_name = jao_service_name a, re_service_description = jao_service_description a,
      re_quantity = jao_quantity a \<rparr>"
  by (cases "jao_service_description a")
     (simp_all add: customer_recommendation_of_def add_on_json_def field_defs json_option_def)

lemma those_map: "(\<And>x. x \<in> set xs \<Longrightarrow> f (g x) = Some (h x)) \<Longrightarrow> those (map f (map g xs)) = Some (map h xs)"
  by (induction xs) simp_all

lemma those_reads:
  "those (map customer_checklist_item (map checklist_item_json ts)) = Some (map (\<lambda>t. (ci_label t, ci_completed t)) ts)"
  "those (map customer_photo_of (map photo_json ps)) = Some (map (\<lambda>p.
     \<lparr> cp_photo_type = pe_photo_type p, cp_file_name = pe_file_name p,
       cp_image_url = with_default (pe_thumbnail_url p) (pe_display_url p) \<rparr>) ps)"
  "those (map customer_recommendation_of (map add_on_json as)) = Some (map (\<lambda>a.
     \<lparr> re_service_name = jao_service_name a, re_service_description = jao_service_description a,
       re_quantity = jao_quantity a \<rparr>) as)"
  by (rule those_map, simp)+

lemma evidence_read:
  "evidence_matches (evidence_json e) before after issue photos completed =
     Some (ev_before e = before \<and> ev_after e = after \<and> ev_issue e = issue
       \<and> unat (ev_total_photos e) = photos \<and> unat (ev_completed_add_ons e) = completed)"
  by (simp add: evidence_matches_def evidence_json_def field_defs)

section \<open>The delivered snapshot\<close>

lemma report_fields:
  "str_field ''report_id'' (report_json r) = Some (cr_report_id r)"
  "str_field ''job_id'' (report_json r) = Some (cr_job_id r)"
  "str_field ''report_status'' (report_json r) = Some (cr_status r)"
  "bool_field ''persisted'' (report_json r) = Some (cr_persisted r)"
  "bool_field ''ready_for_customer'' (report_json r) = Some (cr_ready r)"
  "u32_field ''checklist_progress'' (report_json r) = Some (cr_progress r)"
  "u32_field ''before_photos'' (report_json r) = Some (cr_before r)"
  "u32_field ''after_photos'' (report_json r) = Some (cr_after r)"
  "u32_field ''issue_photos'' (report_json r) = Some (cr_issue r)"
  "json_get ''job'' (report_json r) = Some (job_detail_json (cr_job r))"
  "array_field ''photo_evidence'' (report_json r) = Some (map photo_json (cr_photos r))"
  "array_field ''completed_add_ons'' (report_json r) = Some (map add_on_json (cr_completed_add_ons r))"
  "json_get ''snapshot_metadata'' (report_json r) = map_option metadata_json (cr_metadata r)"
  by (simp_all add: report_json_def field_defs del: map_of_append)

lemma job_fields:
  "array_field ''checklist'' (job_detail_json j) = Some (map checklist_item_json (jd_checklist j))"
  "str_field ''customer_name'' (job_detail_json j) = Some (js_customer_name (jd_summary j))"
  "str_field ''property_address'' (job_detail_json j) = Some (js_property_address (jd_summary j))"
  "str_field ''scheduled_date'' (job_detail_json j) = Some (js_scheduled_date (jd_summary j))"
  "is_object (job_detail_json j)"
  by (simp_all add: job_detail_json_def field_defs Let_def)

lemma metadata_fields:
  "u64_field ''snapshot_version'' (metadata_json m) = Some (unat (meta_version m))"
  "str_field ''report_id'' (metadata_json m) = Some (meta_report_id m)"
  "str_field ''job_id'' (metadata_json m) = Some (meta_job_id m)"
  "json_get ''evidence'' (metadata_json m) = Some (evidence_json (meta_evidence m))"
  "u64_field ''captured_at_epoch_seconds'' (metadata_json m) = Some (unat (meta_captured_at m))"
  by (simp_all add: metadata_json_def field_defs)

lemma word_of_length: "length xs < 2 ^ 32 \<Longrightarrow> unat (word_of_nat (length xs) :: u32) = length xs"
  by (simp add: unat_of_nat take_bit_nat_eq_self)

lemma snapshot_projection_ok:
  assumes "is_valid_delivered_completion_report_snapshot i j r" and "\<not> is_blank i" and "\<not> is_blank j"
    and "length (cr_photos r) < 2 ^ 32" and "length (cr_completed_add_ons r) < 2 ^ 32"
  shows "customer_completion_report_snapshot_response (report_json r) = Some (customer_completion_report_response r)"
proof -
  obtain m where m: "cr_metadata r = Some m" and ids: "cr_report_id r = i" "cr_job_id r = j"
    and status: "cr_status r = ''delivered''" "cr_persisted r" "cr_ready r" "cr_progress r = 100"
    and photos: "cr_before r \<noteq> 0" "cr_after r \<noteq> 0"
    and meta: "meta_version m = COMPLETION_REPORT_SNAPSHOT_VERSION" "meta_report_id m = i" "meta_job_id m = j"
    and ev: "meta_evidence m = snapshot_evidence_of r"
    using assms(1) by (auto simp: is_valid_delivered_completion_report_snapshot_def split: option.splits)
  show ?thesis
    using assms(2,3) ids status photos meta
    by (simp add: customer_completion_report_snapshot_response_def report_fields m metadata_fields job_fields
        those_reads evidence_read ev snapshot_evidence_of_def word_of_length [OF assms(4)] word_of_length [OF assms(5)]
        customer_completion_report_response_def del: map_map)
qed

end
