(* ===== verification/Report_Links.thy ===== *)
theory Report_Links
  imports Report_Grants Snapshot_Facts
begin

text \<open>
  What a customer's link shows: the report as it was delivered, or nothing once its photos were erased.
\<close>

lemma link_row:
  assumes ok: "reports_ok d" and r: "r \<in> set (reports d)" "report_row_share_token r = Some token"
    and delivered: "report_row_status r = ''delivered''"
  shows "lookup_by (\<lambda>r. report_row_share_token r = Some token \<and> report_row_status r = ''delivered''
        \<and> report_row_delivered_at r \<noteq> None \<and> report_row_snapshot r \<noteq> None) (reports d) = Some r"
    (is "lookup_by ?P (reports d) = Some r")
proof -
  have P: "?P r" using assms by (auto simp: reports_ok_def report_row_ok_def publication_complete_def)
  have unique: "x = r" if x: "x \<in> set (reports d)" "?P x" for x
  proof (rule ccontr)
    assume "x \<noteq> r"
    then have "report_row_id x \<noteq> report_row_id r" using find_report_found [OF ok] x(1) r(1) by (metis option.inject)
    then have "\<not> report_clash x r" using ok x(1) r(1) by (simp add: reports_ok_def)
    with x(2) r(2) show False by (simp add: report_clash_def)
  qed
  show ?thesis
  proof (cases "lookup_by ?P (reports d)")
    case None
    with P r(1) show ?thesis by (auto simp: table_simps)
  next
    case (Some x)
    then show ?thesis using unique lookup_by_Some [OF Some] by blast
  qed
qed

lemma link_answer:
  assumes "reports_ok d" and "r \<in> set (reports d)" and "report_row_share_token r = Some token"
    and "report_row_status r = ''delivered''" and "report_row_snapshot r = Some s"
  shows "handle_shared_report True token ([], d) = (Inr (case customer_completion_report_snapshot_response s of
      Some report \<Rightarrow> Answer 200 report
    | None \<Rightarrow> refuse (persisted_resource_unavailable_response ''shared_report_snapshot_invalid''
        ''The persisted shared report snapshot could not be safely projected.'')), ([], d))"
proof -
  have "delivered_snapshot_for_share_token token ([], d) = (Inr (Some s), ([], d))"
    by (simp add: delivered_snapshot_for_share_token_def link_row [OF assms(1-4)] assms(5) del: not_None_eq)
  then show ?thesis
    by (simp add: handle_shared_report_def repo_delivered_snapshot_for_report_share_token_def found_or_unavailable_def
        db_map_def)
qed

section \<open>Delivery\<close>

lemma deliver_body:
  assumes "(if g then db_return (Dropped y) else if h then db_return (Dropped y) else let token = t in
       db_bind (db_stmt (set_report i (f token))) (\<lambda>_.
       db_bind (insert_status_history env i s u actor None) (\<lambda>_.
       db_bind (insert_report_audit_event env i organization actor kind) (\<lambda>_. db_return (Commit (answer_of token))))))
       (fs, d) = (Inr (Commit b), (fs', d'))"
    and "find_report d i = Some r" and "\<And>r. report_row_id (f t r) = report_row_id r"
  shows "\<not> h" and "b = answer_of t" and "f t r \<in> set (reports d')"
proof -
  from assms(1) show "\<not> h" by (auto simp: db_return_def split: if_splits)
  from assms(1) have "advance env i (f t) s u actor None organization kind (Commit (answer_of t)) (fs, d)
      = (Inr (Commit b), (fs', d'))"
    by (auto simp: advance_def db_return_def split: if_splits)
  then obtain d1 where put: "put_report r (f t r) d = Inr d1" and "reports d' = reports d1" and "b = answer_of t"
    using assms(2) by (auto elim!: advance_result)
  moreover have "f t r \<in> set (reports d1)"
    using put assms(2) by (auto simp: put_report_Inr set_update_where dest!: find_report_Some)
  ultimately show "b = answer_of t" and "f t r \<in> set (reports d')" by simp_all
qed

lemma deliver_result:
  assumes "deliver_completion_report env i actor snapshot (fs, d) = (Inr (ReportUpdated a), (fs', d'))"
  obtains r token where "find_report d i = Some r"
    and "is_valid_delivered_completion_report_snapshot i (report_row_job_id r) snapshot"
    and "ac_share_url a = Some (shared_report_url token)"
    and "delivered_row env token actor (report_json snapshot) r \<in> set (reports d')"
proof -
  let ?guard = "\<lambda>r. report_row_status r \<noteq> ''in_review'' \<or> report_row_reviewed_at r = None \<or> \<not> evidence_complete r"
  let ?token = "\<lambda>r. with_default (report_row_share_token r) (proposed_share_token env i)"
  let ?rest = "\<lambda>r job. if ?guard r then db_return (Dropped ReportInvalidTransition)
    else if \<not> snapshot_fits i r snapshot then db_return (Dropped ReportInvalidTransition)
    else let token = ?token r in
      db_bind (db_stmt (set_report i (delivered_row env token actor (report_json snapshot)))) (\<lambda>_.
      db_bind (insert_status_history env i ''in_review'' ''delivered'' actor None) (\<lambda>_.
      db_bind (insert_report_audit_event env i (job_organization_id job) actor ''report_delivered'') (\<lambda>_.
      db_return (Commit (action_answer i job ''delivered'' (Some (shared_report_url token)))))))"
  let ?body = "db_bind (db_select (report_with_job i)) (\<lambda>current. case current of
     None \<Rightarrow> db_return (Dropped ReportNotFound) | Some (r, job) \<Rightarrow> ?rest r job)"
  from assms have "db_transaction ?body (fs, d) = (Inr (ReportUpdated a), (fs', d'))"
    by (simp only: deliver_completion_report_def)
  then obtain fs1 where body: "?body (tl fs, d) = (Inr (Commit (ReportUpdated a)), (fs1, d'))"
  proof (rule transaction_commits)
    show "t \<noteq> Rollback (ReportUpdated a) \<and> t \<noteq> Dropped (ReportUpdated a)"
      if "?body (tl fs, d) = (Inr t, c')" for t c'
      using that
      by (elim db_bind_InrE db_select_InrE')
         (auto simp: db_return_def Let_def elim!: db_bind_InrE split: option.splits if_splits)
  qed
  then obtain r job fs2 where r: "find_report d i = Some r"
    and run: "?rest r job (fs2, d) = (Inr (Commit (ReportUpdated a)), (fs1, d'))"
    by (elim db_bind_InrE db_select_InrE') (auto simp: db_return_def dest: report_with_job_Some split: option.splits)
  note facts = deliver_body [OF run r]
  have "snapshot_fits i r snapshot" using facts(1) by (simp add: delivered_row_def)
  moreover have "ac_share_url a = Some (shared_report_url (?token r))"
    using facts(2) by (simp add: delivered_row_def action_answer_def)
  moreover have "delivered_row env (?token r) actor (report_json snapshot) r \<in> set (reports d')"
    using facts(3) by (simp add: delivered_row_def)
  ultimately show thesis using that r by (simp add: snapshot_fits_def)
qed

lemma report_id_not_blank: "\<not> is_blank (completion_report_id job)"
  by (simp add: is_blank_iff completion_report_id_def is_whitespace_def)

lemma link_after_delivery:
  assumes run: "deliver_completion_report env i actor snapshot (fs, d) = (Inr (ReportUpdated a), (fs', d'))"
    and ok: "reports_ok d" and "\<not> is_blank (cr_job_id snapshot)"
    and "length (cr_photos snapshot) < 2 ^ 32" and "length (cr_completed_add_ons snapshot) < 2 ^ 32"
    and keeps: "report_keeps d' d''"
  obtains token where "ac_share_url a = Some (shared_report_url token)"
    and "fst (handle_shared_report True token ([], d'')) =
        Inr (Answer 200 (customer_completion_report_response snapshot))
      \<or> fst (handle_shared_report True token ([], d'')) = Inr (Problem 503 ''shared_report_snapshot_invalid''
        ''The persisted shared report snapshot could not be safely projected.'')"
proof -
  obtain r token where r: "find_report d i = Some r"
    and valid: "is_valid_delivered_completion_report_snapshot i (report_row_job_id r) snapshot"
    and url: "ac_share_url a = Some (shared_report_url token)"
    and row: "delivered_row env token actor (report_json snapshot) r \<in> set (reports d')" (is "?q \<in> _")
    using run by (rule deliver_result)
  have ok1: "reports_ok d'" using keepsD [OF deliver_keeps run] ok by (simp add: report_keeps_def)
  then have ok2: "reports_ok d''" and "settled_reports d' d''" using keeps by (simp_all add: report_keeps_def)
  with row obtain q where q: "q \<in> set (reports d'')" "settled_row ?q q" unfolding settled_reports_def by blast
  then have link: "report_row_share_token q = Some token" "report_row_status q = ''delivered''"
    and snap: "report_row_snapshot q = Some (report_json snapshot)
      \<or> report_row_snapshot q = Some (privacy_redaction (report_json snapshot))"
    by (auto simp: settled_row_def delivered_row_def redactable_def)
  have "i = completion_report_id (report_row_job_id r)"
    using ok r by (auto simp: reports_ok_def report_row_ok_def dest!: find_report_Some)
  then have "\<not> is_blank i" by (simp add: report_id_not_blank)
  moreover have "cr_job_id snapshot = report_row_job_id r"
    using valid by (auto simp: is_valid_delivered_completion_report_snapshot_def split: option.splits)
  ultimately have proj: "customer_completion_report_snapshot_response (report_json snapshot)
      = Some (customer_completion_report_response snapshot)"
    using snapshot_projection_ok [OF valid] assms(3-5) by simp
  from snap show thesis
  proof
    assume "report_row_snapshot q = Some (report_json snapshot)"
    from link_answer [OF ok2 q(1) link this] show thesis by (intro that [OF url] disjI1) (simp add: proj)
  next
    assume "report_row_snapshot q = Some (privacy_redaction (report_json snapshot))"
    from link_answer [OF ok2 q(1) link this] show thesis
      by (intro that [OF url] disjI2)
        (simp add: redacted_not_projected persisted_resource_unavailable_response_def refuse_def)
  qed
qed

section \<open>Erasure\<close>

lemma put_report_others:
  assumes "put_report x q d = Inr d'"
  shows "y \<in> set (reports d) \<Longrightarrow> report_row_id y \<noteq> report_row_id x \<Longrightarrow> y \<in> set (reports d')"
    and "x \<in> set (reports d) \<Longrightarrow> q \<in> set (reports d')"
  using assms by (auto simp: put_report_Inr set_update_where intro!: image_eqI [where x = y])

lemma redact_each_others:
  "redact_each rs d = Inr d' \<Longrightarrow> y \<in> set (reports d) \<Longrightarrow> report_row_id y \<notin> report_row_id ` set rs \<Longrightarrow> y \<in> set (reports d')"
  by (induction rs arbitrary: d) (auto dest: put_report_others(1) split: sum.splits)

lemma redact_each_redacts:
  assumes "redact_each rs d = Inr d'" and "set rs \<subseteq> set (reports d)" and "distinct (map report_row_id rs)"
    and "r \<in> set rs"
  shows "redacted_row r \<in> set (reports d')"
  using assms
proof (induction rs arbitrary: d)
  case (Cons x xs)
  then obtain d1 where put: "put_report x (redacted_row x) d = Inr d1" and rest: "redact_each xs d1 = Inr d'"
    by (auto split: sum.splits)
  show ?case
  proof (cases "r = x")
    case True
    have "redacted_row x \<in> set (reports d1)" using put_report_others(2) [OF put] Cons.prems(2) by simp
    with redact_each_others [OF rest] Cons.prems(3) True show ?thesis by (simp add: redacted_row_def)
  next
    case False
    have "set xs \<subseteq> set (reports d1)"
    proof
      fix y assume y: "y \<in> set xs"
      then have "report_row_id y \<noteq> report_row_id x" using Cons.prems(3) by (force simp: image_iff)
      with y Cons.prems(2) show "y \<in> set (reports d1)" by (auto intro: put_report_others(1) [OF put])
    qed
    with Cons.IH [OF rest] Cons.prems(3,4) False show ?thesis by simp
  qed
qed simp

lemma redact_reports_redacts:
  assumes "redact_reports account orgs d = Inr (n, d')" and "reports_ok d" and "r \<in> set (reports d)"
    and "report_row_job_id r \<in> job_pk ` set (account_jobs account orgs d)" and "report_row_snapshot r \<noteq> None"
  shows "redacted_row r \<in> set (reports d')"
proof -
  let ?rs = "filter (\<lambda>r. report_row_job_id r \<in> set (map job_pk (account_jobs account orgs d))
    \<and> report_row_snapshot r \<noteq> None) (reports d)"
  have "redact_each ?rs d = Inr d'"
    using assms(1) by (auto simp: redact_reports_def Let_def map_sum_def split: sum.splits)
  then show ?thesis
    by (rule redact_each_redacts) (use assms in \<open>auto simp: reports_ok_def distinct_map_filter\<close>)
qed

definition same_rows :: "db \<Rightarrow> db \<Rightarrow> bool" where
  "same_rows d d' \<longleftrightarrow> reports d' = reports d"

lemma same_rows_rules [simp]: "reflp same_rows" "transp same_rows"
  by (simp_all add: reflp_def transp_def same_rows_def)

lemma queue_same_rows: "keeps same_rows (queue_deletions env k account organization keys)"
  by (induction keys arbitrary: k)
     (auto intro!: keeps_rules simp: same_rows_def queue_deletion_def Let_def map_sum_def split: if_splits sum.splits)

lemma audit_same_rows: "keeps same_rows (audit_erasure env k actor account orgs)"
  by (induction orgs arbitrary: k) (auto intro!: keeps_rules simp: same_rows_def dest: append_audit_reports)

lemma erase_redacts:
  assumes run: "erase_customer_photo_evidence env account orgs actor reason (fs, d) = (Inr (Erased s), (fs', d'))"
    and ok: "reports_ok d" and r: "r \<in> set (reports d)"
    and "report_row_job_id r \<in> job_pk ` set (account_jobs account orgs d)" and "report_row_snapshot r \<noteq> None"
  shows "redacted_row r \<in> set (reports d')"
proof -
  let ?changes = "\<lambda>owners. db_bind (db_stmt (erase_photos env account orgs actor reason)) (\<lambda>photos.
      db_bind (db_stmt (redact_reports account orgs)) (\<lambda>redacted. case owners of
        [] \<Rightarrow> db_return (Rollback ErasureNotFound)
      | owner # _ \<Rightarrow>
          db_bind (queue_deletions env 0 account owner (original_keys photos)) (\<lambda>k.
          db_bind (audit_erasure env k actor account owners) (\<lambda>_. db_return (Commit (Erased
            \<lparr> es_account_id = account, es_erased_photos = length photos,
              es_affected_jobs = card (set (map photo_job_id photos)), es_redacted_reports = redacted,
              es_deleted_keys = 0, es_failed_keys = length (original_keys photos),
              es_pending_keys = original_keys photos \<rparr>))))))"
  obtain owners fs1 where "db_transaction (?changes owners) (fs1, d) = (Inr (Erased s), (fs', d'))"
    using run unfolding erase_customer_photo_evidence_def Let_def
    by (auto simp: db_return_def elim!: db_bind_InrE db_select_InrE' split: if_splits option.splits)
  then obtain fs2 where "?changes owners (tl fs1, d) = (Inr (Commit (Erased s)), (fs2, d'))"
    by (rule transaction_commits)
       (auto simp: db_return_def elim!: db_bind_InrE db_stmt_InrE' split: list.splits)
  then obtain photos n fs3 d1 d2 owner rest where erased: "erase_photos env account orgs actor reason d = Inr (photos, d1)"
    and redacted: "redact_reports account orgs d1 = Inr (n, d2)"
    and after: "db_bind (queue_deletions env 0 account owner (original_keys photos)) (\<lambda>k.
        db_bind (audit_erasure env k actor account (owner # rest)) (\<lambda>_. db_return (Commit (Erased
            \<lparr> es_account_id = account, es_erased_photos = length photos,
              es_affected_jobs = card (set (map photo_job_id photos)), es_redacted_reports = n,
              es_deleted_keys = 0, es_failed_keys = length (original_keys photos),
              es_pending_keys = original_keys photos \<rparr>)))) (fs3, d2) = (Inr (Commit (Erased s)), (fs2, d'))"
    by (auto simp: db_return_def simp del: audit_erasure.simps elim!: db_bind_InrE db_stmt_InrE' split: list.splits)
  have same: "reports d1 = reports d" "service_jobs d1 = service_jobs d" "report_history d1 = report_history d"
    using erased by (auto simp: erase_photos_def Let_def)
  then have "reports_ok d1" using ok erasure_statements(1) [OF erased] by (simp add: report_keeps_def)
  with redacted have "redacted_row r \<in> set (reports d2)"
    by (rule redact_reports_redacts) (use assms(3-5) same in \<open>auto simp: account_jobs_def\<close>)
  moreover have "keeps same_rows (db_bind (queue_deletions env 0 account owner (original_keys photos)) (\<lambda>k.
        db_bind (audit_erasure env k actor account (owner # rest)) (\<lambda>_. db_return (b :: erasure_result tx_end))))" for b
    by (intro keeps_rules same_rows_rules queue_same_rows audit_same_rows)
  from keepsD [OF this after] have "reports d' = reports d2" by (simp add: same_rows_def)
  ultimately show ?thesis by simp
qed

text \<open>The link of a report whose photos were erased.\<close>

lemma erased_link:
  assumes run: "erase_customer_photo_evidence env account orgs actor reason (fs, d) = (Inr (Erased s), (fs', d'))"
    and ok: "reports_ok d" and r: "r \<in> set (reports d)" "report_row_status r = ''delivered''"
    and job: "report_row_job_id r \<in> job_pk ` set (account_jobs account orgs d)"
    and token: "report_row_share_token r = Some token"
  shows "fst (handle_shared_report True token ([], d')) = Inr (Problem 503 ''shared_report_snapshot_invalid''
    ''The persisted shared report snapshot could not be safely projected.'')"
proof -
  obtain snap where snap: "report_row_snapshot r = Some snap"
    using ok r by (auto simp: reports_ok_def report_row_ok_def publication_complete_def)
  then have row: "redacted_row r \<in> set (reports d')" by (intro erase_redacts [OF run ok r(1) job]) simp
  have "reports_ok d'" using keepsD [OF erase_keeps run] ok by (simp add: report_keeps_def)
  from link_answer [OF this row, of token "privacy_redaction snap"] r(2) token snap show ?thesis
    by (simp add: redacted_row_def redacted_not_projected persisted_resource_unavailable_response_def refuse_def)
qed

end
