(* ===== verification/Progress_Facts.thy ===== *)
theory Progress_Facts
  imports Completion_Reports
begin

text \<open>
  Bounds of the progress a report shows: the rounding of the two double operations stays within one unit
  in the last place, so a checklist that is ticked completely, and for fewer than 200 items only such a
  checklist, has progress 100.
\<close>

lemma bit_length_0 [simp]: "bit_length 0 = 0"
  by (simp add: bit_length.simps)

lemma bit_length_upper: "n < 2 ^ bit_length n"
proof (induction n rule: bit_length.induct)
  case (1 n)
  then show ?case by (cases "n = 0") (simp_all add: bit_length.simps [of n])
qed

lemma bit_length_lower: "n \<noteq> 0 \<Longrightarrow> 2 ^ bit_length n \<le> 2 * n"
proof (induction n rule: bit_length.induct)
  case (1 n)
  show ?case
  proof (cases "n div 2 = 0")
    case True
    with 1(2) have "n = 1" by (cases n) (auto simp: div_eq_0_iff)
    then show ?thesis by (simp add: bit_length.simps)
  next
    case False
    with 1 have "2 ^ bit_length (n div 2) \<le> 2 * (n div 2)" by simp
    also have "\<dots> \<le> n" by simp
    finally show ?thesis using 1(2) by (simp add: bit_length.simps [of n])
  qed
qed

lemma bit_length_mono: "a \<le> b \<Longrightarrow> bit_length a \<le> bit_length b"
proof (induction b arbitrary: a rule: bit_length.induct)
  case (1 b)
  show ?case
  proof (cases "a = 0")
    case False
    with 1 have "bit_length (a div 2) \<le> bit_length (b div 2)" by (auto intro: div_le_mono)
    with False 1(2) show ?thesis by (simp add: bit_length.simps [of a] bit_length.simps [of b])
  qed simp
qed

lemma bit_length_le: "n < 2 ^ k \<Longrightarrow> bit_length n \<le> k"
proof (cases "n = 0")
  case False
  assume "n < 2 ^ k"
  then have "2 ^ bit_length n < (2 :: nat) * 2 ^ k" using bit_length_lower [OF False] by linarith
  then have "(2 :: nat) ^ bit_length n < 2 ^ Suc k" by simp
  then have "bit_length n < Suc k" by (rule power_less_imp_less_exp [rotated]) simp
  then show ?thesis by simp
qed simp

section \<open>One rounding\<close>

lemma div_half_even_le:
  assumes "a \<le> c * b" and "0 < b"
  shows "div_half_even a b \<le> c"
proof (cases "a div b < c")
  case True
  then show ?thesis by (simp add: div_half_even_def Let_def)
next
  case False
  from assms have "a div b \<le> c" by (metis div_le_mono div_mult_self_is_m)
  with False have q: "a div b = c" by simp
  then have "a = c * b + a mod b" using div_mult_mod_eq [of a b] by simp
  with assms(1) have "a mod b = 0" by linarith
  then show ?thesis using q assms(2) by (simp add: div_half_even_def Let_def)
qed

text \<open>Half a unit of the last place, as an inequality between naturals.\<close>

lemma div_half_even_error: "0 < b \<Longrightarrow> 2 * (div_half_even a b * b) \<le> 2 * a + b"
proof -
  assume b: "0 < b"
  let ?q = "a div b" and ?r = "a mod b"
  have a: "a = ?q * b + ?r" by simp
  show ?thesis
  proof (cases "2 * ?r < b \<or> (2 * ?r = b \<and> even ?q)")
    case True
    then have "div_half_even a b = ?q" by (simp add: div_half_even_def Let_def)
    then show ?thesis using a by (metis add_leD1 le_add1 mult_le_mono2 trans_le_add1)
  next
    case False
    then have d: "div_half_even a b = ?q + 1" and "b \<le> 2 * ?r" by (auto simp: div_half_even_def Let_def)
    have "2 * ((?q + 1) * b) = 2 * (?q * b) + 2 * b" by (simp add: algebra_simps)
    also have "\<dots> \<le> 2 * (?q * b) + 2 * ?r + b" using \<open>b \<le> 2 * ?r\<close> by simp
    also have "\<dots> = 2 * a + b" using a by (metis distrib_left_numeral)
    finally show ?thesis using d by simp
  qed
qed

section \<open>The percentage\<close>

lemma f64_scale_ge:
  assumes "a \<le> b"
  shows "52 \<le> f64_scale a b"
proof -
  define k where "k = 53 + bit_length b - bit_length a"
  have "52 \<le> k - 1" using bit_length_mono [OF assms] by (simp add: k_def)
  moreover from this have "52 \<le> k" by linarith
  ultimately show ?thesis unfolding f64_scale_def Let_def k_def [symmetric] by (simp split: if_split)
qed

lemma f64_divide_le:
  assumes "a \<le> b" and "0 < b" and "f64_divide a b = (m, k)"
  shows "m \<le> 2 ^ k"
proof (cases "a = 0")
  case False
  then have mk: "m = div_half_even (a * 2 ^ k) b" using assms(3) by (auto simp: f64_divide_def)
  have "a * 2 ^ k \<le> 2 ^ k * b" using assms(1) by (simp add: mult.commute)
  then show ?thesis unfolding mk using assms(2) by (rule div_half_even_le)
qed (use assms in \<open>simp add: f64_divide_def\<close>)

lemma f64_divide_scale: "a \<le> b \<Longrightarrow> a \<noteq> 0 \<Longrightarrow> f64_divide a b = (m, k) \<Longrightarrow> 52 \<le> k"
  by (auto simp: f64_divide_def dest: f64_scale_ge)

text \<open>The product with 100 loses at most seven bits.\<close>

lemma product_shift: 
  assumes "m \<le> 2 ^ k" and "52 \<le> k"
  shows "bit_length (100 * m) - 53 \<le> k - 46"
proof -
  have "100 * m \<le> 100 * 2 ^ k" using assms(1) by simp
  also have "(100 :: nat) * 2 ^ k < 128 * 2 ^ k" by simp
  also have "(128 :: nat) * 2 ^ k = 2 ^ (k + 7)" by (simp add: power_add)
  finally have "100 * m < 2 ^ (k + 7)" .
  then have "bit_length (100 * m) \<le> k + 7" by (rule bit_length_le)
  then show ?thesis using assms(2) by simp
qed

lemma f64_times_100_le:
  assumes "m \<le> 2 ^ k" and "52 \<le> k" and "f64_times_100 (m, k) = (n, l)"
  shows "l = k \<and> n \<le> 100 * 2 ^ k \<and> n \<le> 100 * m + 2 ^ (k - 46)"
proof -
  let ?j = "bit_length (100 * m) - 53"
  have l: "l = k" and n: "n = div_half_even (100 * m) (2 ^ ?j) * 2 ^ ?j"
    using assms(3) by (simp_all add: f64_times_100_def Let_def)
  have j: "?j \<le> k - 46" using product_shift [OF assms(1,2)] .
  then have split: "(2 :: nat) ^ k = 2 ^ (k - ?j) * 2 ^ ?j" by (simp flip: power_add)
  have "100 * m \<le> (100 * 2 ^ (k - ?j)) * 2 ^ ?j" using assms(1) split by simp
  then have "div_half_even (100 * m) (2 ^ ?j) \<le> 100 * 2 ^ (k - ?j)" by (rule div_half_even_le) simp
  then have "n \<le> 100 * 2 ^ (k - ?j) * 2 ^ ?j" unfolding n by (rule mult_le_mono1)
  also have "\<dots> = 100 * 2 ^ k" using split by simp
  finally have one: "n \<le> 100 * 2 ^ k" .
  have "2 * n \<le> 2 * (100 * m) + 2 ^ ?j" unfolding n by (rule div_half_even_error) simp
  also have "\<dots> \<le> 2 * (100 * m) + 2 ^ (k - 46)" using j by (simp add: power_increasing)
  finally have "n \<le> 100 * m + 2 ^ (k - 46)" by simp
  with one l show ?thesis by simp
qed

lemma percent_complete_le: "a \<le> b \<Longrightarrow> 0 < b \<Longrightarrow> percent_complete a b \<le> 100"
proof (cases "a = 0")
  case False
  assume le: "a \<le> b" and b: "0 < b"
  obtain m k where mk: "f64_divide a b = (m, k)" by force
  obtain n l where nl: "f64_times_100 (m, k) = (n, l)" by force
  have k: "52 \<le> k" and m: "m \<le> 2 ^ k"
    using f64_divide_scale [OF le False mk] f64_divide_le [OF le b mk] by auto
  have "l = k" and n: "n \<le> 100 * 2 ^ k" using f64_times_100_le [OF m k nl] by auto
  then have "percent_complete a b = (2 * n + 2 ^ k) div (2 * 2 ^ k)"
    using mk nl by (simp add: percent_complete_def f64_round_def)
  also have "\<dots> \<le> (2 * (100 * 2 ^ k) + 2 ^ k) div (2 * 2 ^ k)" using n by (intro div_le_mono) simp
  also have "\<dots> = 100" by simp
  finally show ?thesis .
qed (simp add: percent_complete_def f64_divide_def f64_times_100_def f64_round_def div_half_even_def)


lemma percent_complete_full:
  assumes "0 < b"
  shows "percent_complete b b = 100"
proof -
  obtain m k where mk: "f64_divide b b = (m, k)" by force
  obtain n l where nl: "f64_times_100 (m, k) = (n, l)" by force
  have k: "52 \<le> k" using f64_divide_scale [OF _ _ mk] assms by simp
  have m: "m = 2 ^ k"
    using mk assms by (auto simp: f64_divide_def div_half_even_def Let_def)
  have j: "bit_length (100 * m) - 53 \<le> k" using product_shift [OF _ k, of m] m by simp
  have "n = 100 * 2 ^ k" and "l = k"
  proof -
    let ?j = "bit_length (100 * m) - 53"
    have split: "(2 :: nat) ^ k = 2 ^ (k - ?j) * 2 ^ ?j" using j by (simp flip: power_add)
    then have "100 * m = (100 * 2 ^ (k - ?j)) * 2 ^ ?j" using m by simp
    moreover have "div_half_even (c * 2 ^ ?j) (2 ^ ?j) = c" for c by (simp add: div_half_even_def Let_def)
    ultimately have "div_half_even (100 * m) (2 ^ ?j) = 100 * 2 ^ (k - ?j)" by metis
    then show "n = 100 * 2 ^ k" and "l = k" using nl split by (auto simp: f64_times_100_def Let_def)
  qed
  then show ?thesis using mk nl by (simp add: percent_complete_def f64_round_def)
qed

text \<open>With fewer than 200 items the last open item keeps the quotient below 199 / 200.\<close>

lemma percent_complete_open:
  assumes "a < b" and "b < 200"
  shows "percent_complete a b < 100"
proof (cases "a = 0")
  case False
  obtain m k where mk: "f64_divide a b = (m, k)" by force
  obtain n l where nl: "f64_times_100 (m, k) = (n, l)" by force
  have k: "52 \<le> k" and m: "m \<le> 2 ^ k"
    using f64_divide_scale [OF _ False mk] f64_divide_le [OF _ _ mk] assms by auto
  have l: "l = k" and n: "n \<le> 100 * m + 2 ^ (k - 46)" using f64_times_100_le [OF m k nl] by auto
  have mab: "2 * (m * b) \<le> 2 * (a * 2 ^ k) + b"
    using mk False assms(1) div_half_even_error [of b "a * 2 ^ k"] by (auto simp: f64_divide_def)
  define u where "u = (2 :: nat) ^ (k - 46)"
  have "(2 :: nat) ^ k = 2 ^ (46 + (k - 46))" using k by simp
  then have u: "2 ^ k = 2 ^ 46 * u" "64 \<le> u"
    unfolding power_add u_def using k power_increasing [of 6 "k - 46" "2 :: nat"] by simp_all
  have "(a + 1) * 2 ^ k \<le> b * 2 ^ k" using assms(1) by (intro mult_le_mono1) simp
  with mab have mb: "2 * (m * b) + 2 * 2 ^ k \<le> 2 * (b * 2 ^ k) + b" unfolding distrib_right by linarith
  have nb: "n * b \<le> 100 * (m * b) + u * b" using mult_le_mono1 [OF n, of b] by (simp add: u_def algebra_simps)
  have bX: "b * 2 ^ k \<le> 199 * 2 ^ k" and bu: "u * b \<le> 199 * u"
    using assms(2) by (simp_all add: mult.commute [of u])
  define X where "X = (2 :: nat) ^ k"
  have "X = 70368744177664 * u" using u(1) by (simp add: X_def)
  then have "2 * (n * b) < 199 * (b * X)"
    using mb nb bX bu u(2) assms(2) unfolding X_def [symmetric] by linarith
  then have "(2 * n) * b < (199 * X) * b" by (simp add: algebra_simps)
  then have "2 * n < 199 * X" by (metis mult_less_cancel2)
  then have "2 * n + X < 100 * (2 * X)" by simp
  then have "(2 * n + X) div (2 * X) < 100" by (simp add: div_less_iff_less_mult X_def)
  then show ?thesis using mk nl l by (simp add: percent_complete_def f64_round_def X_def)
qed (use assms in \<open>simp add: percent_complete_def f64_divide_def f64_times_100_def f64_round_def div_half_even_def\<close>)

text \<open>Kernel evaluation of a finished checklist.\<close>

lemma percent_complete_code [code]:
  "percent_complete a b = (if 0 < b \<and> a = b then 100 else f64_round (f64_times_100 (f64_divide a b)))"
  by (auto simp: percent_complete_full) (simp_all add: percent_complete_def)

lemma bit_length_numeral:
  "bit_length 0 = 0" "bit_length 1 = 1" "bit_length (Suc 0) = 1"
  "bit_length (numeral (num.Bit0 m)) = Suc (bit_length (numeral m))"
  "bit_length (numeral (num.Bit1 m)) = Suc (bit_length (numeral m))"
  by (subst bit_length.simps, simp add: bit_length.simps [of 0])+

lemma percent_complete_199: "percent_complete 199 200 = 100"
  by (simp add: percent_complete_def f64_divide_def f64_scale_def f64_times_100_def f64_round_def div_half_even_def
      bit_length_numeral Let_def)

section \<open>The progress of a report\<close>

lemma completion_progress_small:
  assumes "js_checklist_items (jd_summary job) \<noteq> 0"
    and "percent_complete (unat (js_completed_checklist_items (jd_summary job))) (unat (js_checklist_items (jd_summary job))) = n"
    and "n \<le> 100"
  shows "completion_progress job = word_of_nat n" and "unat (completion_progress job) = n"
proof -
  show *: "completion_progress job = word_of_nat n"
    using assms by (simp add: completion_progress_def Let_def min_def)
  have "n < 2 ^ LENGTH(32)" using assms(3) by simp
  then show "unat (completion_progress job) = n" unfolding * by (simp add: unat_of_nat take_bit_nat_eq_self)
qed

lemma progress_percent:
  assumes "js_completed_checklist_items (jd_summary job) \<le> js_checklist_items (jd_summary job)"
  shows "completion_progress job \<le> 100"
proof (cases "js_checklist_items (jd_summary job) = 0")
  case True
  then show ?thesis by (simp add: completion_progress_def Let_def)
next
  case False
  have le: "percent_complete (unat (js_completed_checklist_items (jd_summary job))) (unat (js_checklist_items (jd_summary job))) \<le> 100"
    using assms False by (intro percent_complete_le) (simp_all add: word_le_nat_alt unat_gt_0)
  from completion_progress_small(2) [OF False refl le] le show ?thesis by (simp add: word_le_nat_alt)
qed

lemma progress_full:
  assumes "js_completed_checklist_items (jd_summary job) = js_checklist_items (jd_summary job)"
    and "js_checklist_items (jd_summary job) \<noteq> 0"
  shows "completion_progress job = 100"
proof -
  have "percent_complete (unat (js_completed_checklist_items (jd_summary job))) (unat (js_checklist_items (jd_summary job))) = 100"
    using assms by (simp add: percent_complete_full unat_gt_0)
  from completion_progress_small(1) [OF assms(2) this] show ?thesis by simp
qed

lemma progress_open:
  assumes "js_completed_checklist_items (jd_summary job) < js_checklist_items (jd_summary job)"
    and "js_checklist_items (jd_summary job) < 200"
  shows "completion_progress job < 100"
proof -
  have less: "percent_complete (unat (js_completed_checklist_items (jd_summary job))) (unat (js_checklist_items (jd_summary job))) < 100"
    using assms by (intro percent_complete_open) (simp_all add: word_less_nat_alt)
  have "js_checklist_items (jd_summary job) \<noteq> 0" using assms(1) by auto
  from completion_progress_small(2) [OF this refl] less show ?thesis by (simp add: word_less_nat_alt)
qed

lemma progress_rounds_up:
  assumes "js_completed_checklist_items (jd_summary job) = 199" and "js_checklist_items (jd_summary job) = 200"
  shows "completion_progress job = 100"
  using completion_progress_small(1) [of job 100] assms by (simp add: percent_complete_199)

end
