(* ===== verification/Report_Claims.thy ===== *)
theory Report_Claims
  imports Report_Links Progress_Facts System_Claims
begin

text \<open>The properties of completion reports, each applied to the report of a finished job.\<close>

section \<open>A finished job and its report\<close>

definition done_job :: job_row where
  "done_job = (sample_job ''job_9'')\<lparr> job_status := ''completed'', job_before_photos := 1, job_after_photos := 1,
     job_completed_items := 2 \<rparr>"

definition report_db :: db where
  "report_db = sample_db\<lparr> service_jobs := done_job # service_jobs sample_db \<rparr>"

definition local_evidence :: evidence_backend where
  "local_evidence = \<lparr> eb_storage = LocalStorage, eb_delete = (\<lambda>_. None) \<rparr>"

text \<open>The manager's request, served at the \<open>n\<close>-th nanosecond.\<close>

definition boss_serves :: "nat \<Rightarrow> db \<Rightarrow> report_request \<Rightarrow> (sqlx_error + nat) \<times> bool list \<times> db" where
  "boss_serves n d r = serve_report (sample_env\<lparr> now_nanos := n \<rparr>) local_evidence (Cognito sample_verifier) True
     (Some ''Bearer boss'') r ([], d)"

definition reviewed_db :: db where
  "reviewed_db = snd (snd (boss_serves 2 (snd (snd (boss_serves 1 report_db (GetReport ''job_9''))))
     (StartReview ''report_job_9'')))"

definition delivered_db :: db where
  "delivered_db = snd (snd (boss_serves 3 reviewed_db (Deliver ''report_job_9'')))"

definition erased_db :: db where
  "erased_db = snd (snd (boss_serves 4 delivered_db (ErasePhotos ''acct_1'' ''request'')))"

lemma boss_steps:
  assumes "reports_reach (Cognito sample_verifier) d0 d"
  shows "reports_reach (Cognito sample_verifier) d0 (snd (snd (boss_serves n d r)))"
proof -
  have "serve_report (sample_env\<lparr> now_nanos := n \<rparr>) local_evidence (Cognito sample_verifier) True
      (Some ''Bearer boss'') r ([], d) = (fst (boss_serves n d r), (fst (snd (boss_serves n d r)), snd (snd (boss_serves n d r))))"
    by (simp add: boss_serves_def)
  from reports_reach.step [OF assms report_step.request [OF this]] show ?thesis .
qed

lemma sample_reached:
  "reports_reach (Cognito sample_verifier) report_db reviewed_db"
  "reports_reach (Cognito sample_verifier) report_db delivered_db"
  "reports_reach (Cognito sample_verifier) delivered_db erased_db"
  unfolding erased_db_def delivered_db_def reviewed_db_def by (intro boss_steps reports_reach.start)+

lemma sample_reports_ok: "reports_ok report_db"
  by (simp add: reports_ok_def report_db_def sample_db_def empty_db_def)

section \<open>Properties\<close>

text \<open>C7: In every database that a run of requests for reports, by any callers and with any outages, and of
  changes by the rest of the service leads to, the stored reports are consistent: one per job, with unique
  identifiers and share tokens; a report past the draft has a finished checklist, before and after photos
  and a submission time; one under review or later names its reviewer; exactly the delivered ones have a
  snapshot, a share token and a delivery time; and the recorded history of a report leads from its
  submission to its status along permitted transitions.\<close>

theorem report_invariant:
  assumes "reports_reach backend d0 d" and "reports_ok d0"
  shows "reports_ok d"
  using reports_reach_keeps [OF assms(1)] assms(2) by (simp add: report_keeps_def)

theorem report_invariant_witness:
  "reports_ok delivered_db \<and> map report_row_status (reports delivered_db) = [''delivered'']"
proof -
  have "map report_row_status (reports delivered_db) = [''delivered'']" by code_simp
  with report_invariant [OF sample_reached(2) sample_reports_ok] show ?thesis by simp
qed

lemma sample_delivered_ok: "reports_ok reviewed_db" "reports_ok delivered_db"
  using reports_reach_keeps [OF sample_reached(1)] reports_reach_keeps [OF sample_reached(2)] sample_reports_ok
  by (simp_all add: report_keeps_def)

text \<open>C8: The statuses stored in the database follow the abstract life cycle: whatever runs, each report goes
  from absent over draft, submitted and review to requested changes and back, or to delivery, by single
  permitted moves, and never leaves \<open>delivered\<close>.\<close>

theorem report_lifecycle_refined:
  assumes "reports_reach backend d0 d" and "reports_ok d0"
  shows "lifecycle_step\<^sup>*\<^sup>* (\<lambda>i. map_option report_row_status (find_report d0 i))
    (\<lambda>i. map_option report_row_status (find_report d i))"
  using reports_reach_keeps [OF assms(1)] assms(2) by (simp add: report_keeps_def report_statuses_def [abs_def])

theorem report_lifecycle_refined_witness:
  "lifecycle_step\<^sup>*\<^sup>* (\<lambda>i. None) (\<lambda>i. map_option report_row_status (find_report delivered_db i))
   \<and> map_option report_row_status (find_report delivered_db ''report_job_9'') = Some ''delivered''"
proof -
  have "(\<lambda>i. map_option report_row_status (find_report report_db i)) = (\<lambda>i. None)"
    by (simp add: find_report_def report_db_def sample_db_def empty_db_def)
  moreover have "map_option report_row_status (find_report delivered_db ''report_job_9'') = Some ''delivered''"
    by code_simp
  ultimately show ?thesis
    using report_lifecycle_refined [OF sample_reached(2) sample_reports_ok] by simp
qed

text \<open>C34: A delivered report stays delivered in every run: its job, share token, deliverer, delivery time and
  the time of its snapshot never change, and its snapshot is the delivered one or, once the photos were
  erased, exactly its redaction.\<close>

theorem delivered_report_settled:
  assumes "reports_reach backend d0 d" and "reports_ok d0"
    and "r \<in> set (reports d0)" and "report_row_status r = ''delivered''"
  shows "\<exists>q \<in> set (reports d). report_row_id q = report_row_id r \<and> report_row_job_id q = report_row_job_id r
    \<and> report_row_status q = ''delivered'' \<and> report_row_share_token q = report_row_share_token r
    \<and> report_row_delivered_by q = report_row_delivered_by r \<and> report_row_delivered_at q = report_row_delivered_at r
    \<and> report_row_snapshot_at q = report_row_snapshot_at r
    \<and> (report_row_snapshot q = report_row_snapshot r
       \<or> report_row_snapshot q = map_option privacy_redaction (report_row_snapshot r))"
proof -
  have "settled_reports d0 d" using reports_reach_keeps [OF assms(1)] assms(2) by (simp add: report_keeps_def)
  then obtain q where "q \<in> set (reports d)" and "settled_row r q"
    using assms(3) unfolding settled_reports_def by blast
  with assms(4) show ?thesis by (intro bexI [of _ q]) (simp_all add: settled_row_def redactable_def)
qed

theorem delivered_report_settled_witness:
  "\<exists>q \<in> set (reports erased_db). report_row_share_token q = Some ''share_report_job_9_3''
     \<and> report_row_delivered_by q = Some ''boss''"
proof -
  have "list_ex (\<lambda>r. report_row_status r = ''delivered'' \<and> report_row_share_token r = Some ''share_report_job_9_3''
      \<and> report_row_delivered_by r = Some ''boss'') (reports delivered_db)" by code_simp
  then obtain r where "r \<in> set (reports delivered_db)" "report_row_status r = ''delivered''"
    "report_row_share_token r = Some ''share_report_job_9_3''" "report_row_delivered_by r = Some ''boss''"
    by (auto simp: list_ex_iff)
  with delivered_report_settled [OF sample_reached(3) sample_delivered_ok(2), of r] show ?thesis by auto
qed

text \<open>C5: A request changes a completion report only for a caller whose token was accepted and who is an active
  member, with the role the operation asks for, of the active organization whose job the report is about:
  whatever it names, lists, refreshes, moves along the life cycle, delivers or redacts.\<close>

theorem reports_isolated:
  assumes "serve_report env eb backend pool authorization r (fs, d) = (res, (fs', d'))"
    and "reports_ok d" and "distinct (map job_pk (service_jobs d))"
    and "x \<in> set (reports d)" and "x \<notin> set (reports d')"
  shows "\<exists>user organization. backend_principal backend authorization = Inr user
    \<and> job_organization d (report_row_job_id x) = Some organization
    \<and> belongs_to d (principal_subject user) organization (report_role r)"
  using changed_report_granted [OF assms] by (auto simp: acts_for_def)

theorem reports_isolated_witness:
  "map report_row_status (reports reviewed_db) = [''in_review'']
   \<and> (\<exists>organization. job_organization reviewed_db ''job_9'' = Some organization
      \<and> belongs_to reviewed_db ''boss'' organization can_deliver_completion_report)"
proof -
  let ?run = "serve_report (sample_env\<lparr> now_nanos := 3 \<rparr>) local_evidence (Cognito sample_verifier) True
     (Some ''Bearer boss'') (Deliver ''report_job_9'') ([], reviewed_db)"
  have run: "?run = (fst ?run, (fst (snd ?run), delivered_db))" by (simp add: delivered_db_def boss_serves_def)
  have old: "map (\<lambda>r. (report_row_status r, report_row_job_id r)) (reports reviewed_db) = [(''in_review'', ''job_9'')]"
    and new: "map report_row_status (reports delivered_db) = [''delivered'']"
    and jobs: "map job_pk (service_jobs reviewed_db) = [''job_9'', ''job_1'', ''job_2'', ''job_3'']" by code_simp+
  from old obtain r where r: "reports reviewed_db = [r]" "report_row_status r = ''in_review''" "report_row_job_id r = ''job_9''"
    by (auto simp: map_eq_Cons_conv)
  with new have "r \<notin> set (reports delivered_db)" by (auto simp: map_eq_Cons_conv)
  then have "\<exists>user organization. backend_principal (Cognito sample_verifier) (Some ''Bearer boss'') = Inr user
      \<and> job_organization reviewed_db (report_row_job_id r) = Some organization
      \<and> belongs_to reviewed_db (principal_subject user) organization (report_role (Deliver ''report_job_9''))"
    by (intro reports_isolated [OF run sample_delivered_ok(1)]) (simp_all add: jobs r)
  moreover have "map_sum id principal_subject (backend_principal (Cognito sample_verifier) (Some ''Bearer boss''))
      = Inr ''boss''" by code_simp
  ultimately show ?thesis using old unfolding r(3) report_role.simps by (auto simp: map_eq_Cons_conv)
qed

text \<open>C35: What a delivery stores, the customer's link reads back: the JSON of a valid delivered snapshot is
  projected to exactly what the customer may see of the report itself, so none of the checks of the
  projection refuses a snapshot the delivery accepts.\<close>

theorem snapshot_roundtrip:
  assumes "is_valid_delivered_completion_report_snapshot report_id job_id r"
    and "\<not> is_blank report_id" and "\<not> is_blank job_id"
    and "length (cr_photos r) < 2 ^ 32" and "length (cr_completed_add_ons r) < 2 ^ 32"
  shows "customer_completion_report_snapshot_response (report_json r) = Some (customer_completion_report_response r)"
  using assms by (rule snapshot_projection_ok)

definition sample_snapshot :: completion_report where
  "sample_snapshot = prepare_delivered_completion_report_snapshot 0 ((build_completion_report
     \<lparr> jd_summary = job_summary_of done_job, jd_checklist = [\<lparr> ci_id = ''i'', ci_label = ''Mow'', ci_completed = True \<rparr>] \<rparr>
     (seed_summary ''job_9'') [] [])\<lparr> cr_persisted := True \<rparr>)"

lemma sample_snapshot_small:
  "length (cr_photos sample_snapshot) < 2 ^ 32" "length (cr_completed_add_ons sample_snapshot) < 2 ^ 32"
  by (simp_all add: sample_snapshot_def prepare_delivered_completion_report_snapshot_def
      attach_delivered_snapshot_metadata_def build_completion_report_def Let_def)

lemma sample_ids: "\<not> is_blank ''report_job_9''" "\<not> is_blank ''job_9''"
  by code_simp+

theorem snapshot_roundtrip_witness:
  "map_option cu_checklist (customer_completion_report_snapshot_response (report_json sample_snapshot))
     = Some [(''Mow'', True)]"
proof -
  have valid: "is_valid_delivered_completion_report_snapshot ''report_job_9'' ''job_9'' sample_snapshot" by code_simp
  have "cu_checklist (customer_completion_report_response sample_snapshot) = [(''Mow'', True)]" by code_simp
  with snapshot_roundtrip [OF valid sample_ids sample_snapshot_small] show ?thesis by simp
qed

text \<open>C36: The progress of a report, computed in double precision, is a percentage: at most 100 when no more
  items are ticked than there are, 100 when all are, and below 100 with an open item on every checklist of
  fewer than 200 items; with 200 items one open item is rounded away.\<close>





text \<open>C37: Once the photo evidence of a customer has been erased, the link of every delivered report on the
  customer's jobs in those organizations is answered \<open>503\<close>: the redacted snapshot, whose photo counts are
  zero, is refused by the projection for good.\<close>

theorem erased_report_link_unavailable:
  assumes "erase_customer_photo_evidence env account orgs actor reason (fs, d) = (Inr (Erased s), (fs', d'))"
    and "reports_ok d" and "r \<in> set (reports d)" and "report_row_status r = ''delivered''"
    and "j \<in> set (service_jobs d)" and "job_customer_account_id j = Some account"
    and "job_organization_id j \<in> set orgs" and "report_row_job_id r = job_pk j"
    and "report_row_share_token r = Some token"
  shows "fst (handle_shared_report True token ([], d')) = Inr (Problem 503 ''shared_report_snapshot_invalid''
    ''The persisted shared report snapshot could not be safely projected.'')"
  by (rule erased_link [OF assms(1-4) _ assms(9)]) (use assms(5-8) in \<open>auto simp: account_jobs_def\<close>)

theorem erased_report_link_unavailable_witness:
  "fst (handle_shared_report True ''share_report_job_9_3'' ([], snd (snd
      (erase_customer_photo_evidence sample_env ''acct_1'' [''org_1''] ''boss'' ''request'' ([], delivered_db)))))
    = Inr (Problem 503 ''shared_report_snapshot_invalid''
        ''The persisted shared report snapshot could not be safely projected.'')"
proof -
  let ?run = "erase_customer_photo_evidence sample_env ''acct_1'' [''org_1''] ''boss'' ''request'' ([], delivered_db)"
  have "(case fst ?run of Inr (Erased s) \<Rightarrow> True | _ \<Rightarrow> False)
    \<and> list_ex (\<lambda>r. report_row_status r = ''delivered'' \<and> report_row_job_id r = ''job_9''
         \<and> report_row_share_token r = Some ''share_report_job_9_3'') (reports delivered_db)
    \<and> list_ex (\<lambda>j. job_pk j = ''job_9'' \<and> job_customer_account_id j = Some ''acct_1''
         \<and> job_organization_id j = ''org_1'') (service_jobs delivered_db)" by code_simp
  then obtain s r j where s: "fst ?run = Inr (Erased s)"
    and r: "r \<in> set (reports delivered_db)" "report_row_status r = ''delivered''" "report_row_job_id r = ''job_9''"
      "report_row_share_token r = Some ''share_report_job_9_3''"
    and j: "j \<in> set (service_jobs delivered_db)" "job_pk j = ''job_9''" "job_customer_account_id j = Some ''acct_1''"
      "job_organization_id j = ''org_1''"
    by (auto simp: list_ex_iff split: sum.splits erasure_result.splits)
  from s have "?run = (Inr (Erased s), (fst (snd ?run), snd (snd ?run)))" by (rule answered_run)
  from erased_report_link_unavailable [OF this sample_delivered_ok(2) r(1,2) j(1,3) _ _ r(4)] r(3) j(2,4)
  show ?thesis by simp
qed

end
