(* ===== verification/Image_Headers.thy ===== *)
theory Image_Headers
  imports Grover_Prelude
begin

text \<open>
  The size of an uploaded image, read from the header of its first bytes
  (\<open>backend/src/photo_storage.rs\<close>, \<open>image_dimensions\<close> and the readers it tries).

  A reader runs on bytes a client stored, so its loops and its indexing are part of the model: an
  \<open>'a run\<close> is \<open>None\<close> when it never returns, \<open>Some Panic\<close> when an index is out of range, and
  \<open>Some (Value a)\<close> otherwise. Positions are \<open>usize\<close>; a slice has fewer than \<open>2 ^ 63\<close> bytes, so
  they do not wrap and are \<open>nat\<close>. Other integers have their width.
\<close>

type_synonym bytes = "8 word list"

datatype 'a outcome = Value 'a | Panic

type_synonym 'a run = "'a outcome option"

definition run_return :: "'a \<Rightarrow> 'a run" where
  "run_return a = Some (Value a)"

definition run_bind :: "'a run \<Rightarrow> ('a \<Rightarrow> 'b run) \<Rightarrow> 'b run" where
  "run_bind m k = Option.bind m (\<lambda>r. case r of Panic \<Rightarrow> Some Panic | Value a \<Rightarrow> k a)"

lemma run_bind_mono [partial_function_mono]:
  assumes "mono_option m" and "\<And>a. mono_option (\<lambda>f. k a f)"
  shows "mono_option (\<lambda>f. run_bind (m f) (\<lambda>a. k a f))"
  unfolding run_bind_def
proof (intro bind_mono assms)
  fix r
  show "mono_option (\<lambda>f. case r of Value a \<Rightarrow> k a f | Panic \<Rightarrow> Some Panic)"
    by (cases r) (simp_all add: assms option.const_mono)
qed

lemma run_bind_return [simp]: "run_bind (run_return a) k = k a"
  by (simp add: run_bind_def run_return_def)

lemma run_return_eq [simp]: "run_return a = Some r \<longleftrightarrow> r = Value a"
  by (auto simp: run_return_def)

section \<open>Bytes\<close>

text \<open>\<open>bytes[index]\<close>, \<open>bytes.get(index)\<close>, \<open>bytes.get(a..b)\<close>.\<close>

definition index_byte :: "bytes \<Rightarrow> nat \<Rightarrow> 8 word run" where
  "index_byte bs i = Some (if i < length bs then Value (bs ! i) else Panic)"

definition get_byte :: "bytes \<Rightarrow> nat \<Rightarrow> 8 word option" where
  "get_byte bs i = (if i < length bs then Some (bs ! i) else None)"

definition get_range :: "bytes \<Rightarrow> nat \<Rightarrow> nat \<Rightarrow> bytes option" where
  "get_range bs a b = (if a \<le> b \<and> b \<le> length bs then Some (take (b - a) (drop a bs)) else None)"

definition be16 :: "8 word \<Rightarrow> 8 word \<Rightarrow> 16 word" where
  "be16 a b = word_cat a b"

definition read_le_u16 :: "bytes \<Rightarrow> nat \<Rightarrow> 16 word option" where
  "read_le_u16 bs i = (case (get_byte bs i, get_byte bs (i + 1)) of
     (Some a, Some b) \<Rightarrow> Some (be16 b a) | _ \<Rightarrow> None)"

definition read_be_u16 :: "bytes \<Rightarrow> nat \<Rightarrow> 16 word option" where
  "read_be_u16 bs i = (case (get_byte bs i, get_byte bs (i + 1)) of
     (Some a, Some b) \<Rightarrow> Some (be16 a b) | _ \<Rightarrow> None)"

definition read_le_u24 :: "bytes \<Rightarrow> nat \<Rightarrow> u32 option" where
  "read_le_u24 bs i = (case (get_byte bs i, get_byte bs (i + 1), get_byte bs (i + 2)) of
     (Some a, Some b, Some c) \<Rightarrow> Some (or (ucast a) (or (push_bit 8 (ucast b)) (push_bit 16 (ucast c))))
   | _ \<Rightarrow> None)"

definition read_be_u32 :: "bytes \<Rightarrow> nat \<Rightarrow> u32 option" where
  "read_be_u32 bs i = (case (read_be_u16 bs i, read_be_u16 bs (i + 2)) of
     (Some a, Some b) \<Rightarrow> Some (word_cat a b) | _ \<Rightarrow> None)"

text \<open>\<open>i32::try_from(value).ok().filter(|value| *value > 0)\<close>, for both.\<close>

definition positive_i32 :: "u32 \<Rightarrow> int option" where
  "positive_i32 w = (if 0 < w \<and> w < 2 ^ 31 then Some (uint w) else None)"

definition dimensions_from_u32 :: "u32 \<Rightarrow> u32 \<Rightarrow> (int \<times> int) option" where
  "dimensions_from_u32 width height = (case (positive_i32 width, positive_i32 height) of
     (Some w, Some h) \<Rightarrow> Some (w, h) | _ \<Rightarrow> None)"

section \<open>PNG, GIF and WebP\<close>

definition png_signature :: bytes where
  "png_signature = [0x89, 0x50, 0x4e, 0x47, 0x0d, 0x0a, 0x1a, 0x0a]"

definition ascii_bytes :: "string \<Rightarrow> bytes" where
  "ascii_bytes s = map of_char s"

definition png_dimensions :: "bytes \<Rightarrow> (int \<times> int) option run" where
  "png_dimensions bs =
     (if length bs < 24 then run_return None
      else run_bind (case get_range bs 0 8 of None \<Rightarrow> Some Panic | Some s \<Rightarrow> run_return s) (\<lambda>signature.
        if signature \<noteq> png_signature \<or> get_range bs 12 16 \<noteq> Some (ascii_bytes ''IHDR'') then run_return None
        else run_return (case (read_be_u32 bs 16, read_be_u32 bs 20) of
            (Some w, Some h) \<Rightarrow> dimensions_from_u32 w h | _ \<Rightarrow> None)))"

definition is_prefix :: "bytes \<Rightarrow> bytes \<Rightarrow> bool" where
  "is_prefix p bs \<longleftrightarrow> take (length p) bs = p"

definition gif_dimensions :: "bytes \<Rightarrow> (int \<times> int) option run" where
  "gif_dimensions bs =
     (if length bs < 10 \<or> \<not> (is_prefix (ascii_bytes ''GIF87a'') bs \<or> is_prefix (ascii_bytes ''GIF89a'') bs)
      then run_return None
      else run_bind (index_byte bs 6) (\<lambda>b6. run_bind (index_byte bs 7) (\<lambda>b7.
        run_bind (index_byte bs 8) (\<lambda>b8. run_bind (index_byte bs 9) (\<lambda>b9.
        run_return (dimensions_from_u32 (ucast (be16 b7 b6)) (ucast (be16 b9 b8))))))))"

definition webp_extended_dimensions :: "bytes \<Rightarrow> (int \<times> int) option" where
  "webp_extended_dimensions bs = (case (read_le_u24 bs 24, read_le_u24 bs 27) of
     (Some w, Some h) \<Rightarrow> dimensions_from_u32 (1 + w) (1 + h) | _ \<Rightarrow> None)"

definition webp_lossless_dimensions :: "bytes \<Rightarrow> (int \<times> int) option" where
  "webp_lossless_dimensions bs =
     (if get_byte bs 20 \<noteq> Some 0x2f then None
      else case (get_byte bs 21, get_byte bs 22, get_byte bs 23, get_byte bs 24) of
        (Some b0, Some b1, Some b2, Some b3) \<Rightarrow>
          (let byte_0 = ucast b0 :: u32; byte_1 = ucast b1 :: u32; byte_2 = ucast b2 :: u32; byte_3 = ucast b3 :: u32
           in dimensions_from_u32 (1 + byte_0 + push_bit 8 (and byte_1 0x3f))
             (1 + drop_bit 6 byte_1 + push_bit 2 byte_2 + push_bit 10 (and byte_3 0x0f)))
      | _ \<Rightarrow> None)"

definition webp_lossy_dimensions :: "bytes \<Rightarrow> (int \<times> int) option" where
  "webp_lossy_dimensions bs =
     (if get_range bs 23 26 \<noteq> Some [0x9d, 0x01, 0x2a] then None
      else case (read_le_u16 bs 26, read_le_u16 bs 28) of
        (Some w, Some h) \<Rightarrow> dimensions_from_u32 (ucast (and w 0x3fff)) (ucast (and h 0x3fff))
      | _ \<Rightarrow> None)"

definition webp_dimensions :: "bytes \<Rightarrow> (int \<times> int) option" where
  "webp_dimensions bs =
     (if length bs < 16 \<or> get_range bs 0 4 \<noteq> Some (ascii_bytes ''RIFF'')
         \<or> get_range bs 8 12 \<noteq> Some (ascii_bytes ''WEBP'') then None
      else if get_range bs 12 16 = Some (ascii_bytes ''VP8X'') then webp_extended_dimensions bs
      else if get_range bs 12 16 = Some (ascii_bytes ''VP8L'') then webp_lossless_dimensions bs
      else if get_range bs 12 16 = Some (ascii_bytes ''VP8 '') then webp_lossy_dimensions bs
      else None)"

section \<open>JPEG\<close>

text \<open>\<open>while index < bytes.len() && p(bytes[index]) { index += 1; }\<close>.\<close>

partial_function (option) skip_while :: "(8 word \<Rightarrow> bool) \<Rightarrow> bytes \<Rightarrow> nat \<Rightarrow> nat run" where
  [code]: "skip_while p bs i =
     (if i < length bs
      then run_bind (index_byte bs i) (\<lambda>b. if p b then skip_while p bs (i + 1) else run_return i)
      else run_return i)"

definition is_jpeg_start_of_frame :: "8 word \<Rightarrow> bool" where
  "is_jpeg_start_of_frame m \<longleftrightarrow> m \<in> {0xc0, 0xc1, 0xc2, 0xc3, 0xc5, 0xc6, 0xc7, 0xc9, 0xca, 0xcb, 0xcd, 0xce, 0xcf}"

definition frame_dimensions :: "bytes \<Rightarrow> nat \<Rightarrow> (int \<times> int) option" where
  "frame_dimensions bs i = (case (read_be_u16 bs (i + 3), read_be_u16 bs (i + 5)) of
     (Some h, Some w) \<Rightarrow> dimensions_from_u32 (ucast w) (ucast h) | _ \<Rightarrow> None)"

partial_function (option) jpeg_scan :: "bytes \<Rightarrow> nat \<Rightarrow> (int \<times> int) option run" where
  [code]: "jpeg_scan bs i =
     (if i + 3 < length bs
      then run_bind (skip_while (\<lambda>b. b \<noteq> 0xff) bs i) (\<lambda>i1.
        run_bind (skip_while (\<lambda>b. b = 0xff) bs i1) (\<lambda>i2.
        if length bs \<le> i2 then run_return None
        else run_bind (index_byte bs i2) (\<lambda>marker.
          if marker = 0xd9 \<or> marker = 0xda then run_return None
          else if marker = 0xd8 \<or> (0xd0 \<le> marker \<and> marker \<le> 0xd7) then jpeg_scan bs (i2 + 1)
          else if length bs < i2 + 1 + 2 then run_return None
          else (case read_be_u16 bs (i2 + 1) of
              None \<Rightarrow> run_return None
            | Some w \<Rightarrow>
                if unat w < 2 \<or> length bs < i2 + 1 + unat w then run_return None
                else if is_jpeg_start_of_frame marker \<and> 7 \<le> unat w
                then run_return (frame_dimensions bs (i2 + 1))
                else jpeg_scan bs (i2 + 1 + unat w)))))
      else run_return None)"

definition jpeg_dimensions :: "bytes \<Rightarrow> (int \<times> int) option run" where
  "jpeg_dimensions bs =
     (if length bs < 4 then run_return None
      else run_bind (index_byte bs 0) (\<lambda>b0. if b0 \<noteq> 0xff then run_return None
        else run_bind (index_byte bs 1) (\<lambda>b1. if b1 \<noteq> 0xd8 then run_return None
        else jpeg_scan bs 2)))"

text \<open>\<open>first.or_else(|| second)\<close>.\<close>

definition or_else :: "'a option run \<Rightarrow> 'a option run \<Rightarrow> 'a option run" where
  "or_else m n = run_bind m (\<lambda>r. case r of None \<Rightarrow> n | Some a \<Rightarrow> run_return (Some a))"

definition image_dimensions :: "bytes \<Rightarrow> (int \<times> int) option run" where
  "image_dimensions bs = or_else (or_else (or_else (png_dimensions bs) (gif_dimensions bs)) (jpeg_dimensions bs))
     (run_return (webp_dimensions bs))"

section \<open>Every reader returns\<close>

definition returns :: "'a run \<Rightarrow> ('a \<Rightarrow> bool) \<Rightarrow> bool" where
  "returns m P \<longleftrightarrow> (\<exists>a. m = Some (Value a) \<and> P a)"

lemma returns_return [simp]: "returns (run_return a) P \<longleftrightarrow> P a"
  by (simp add: returns_def run_return_def)

lemma returns_bind: "returns m P \<Longrightarrow> (\<And>a. P a \<Longrightarrow> returns (k a) Q) \<Longrightarrow> returns (run_bind m k) Q"
  by (auto simp: returns_def run_bind_def)

lemma returns_index [simp]: "returns (index_byte bs i) P \<longleftrightarrow> i < length bs \<and> P (bs ! i)"
  by (auto simp: returns_def index_byte_def)

lemma index_byte_run [simp]: "i < length bs \<Longrightarrow> index_byte bs i = run_return (bs ! i)"
  by (simp add: index_byte_def run_return_def)

text \<open>A skip stops at or behind its start, at the end or at the first byte that it does not skip.\<close>

lemma skip_while_run:
  "skip_while p bs i = run_return (i + length (takeWhile p (drop i bs)))"
proof (induction "length bs - i" arbitrary: i)
  case 0
  then show ?case by (subst skip_while.simps) simp
next
  case (Suc n)
  then have i: "i < length bs" and n: "n = length bs - (i + 1)" by simp_all
  have "drop i bs = bs ! i # drop (i + 1) bs" using i by (simp add: Cons_nth_drop_Suc)
  then show ?case
    using Suc(1) [OF n] i by (subst skip_while.simps) simp
qed

definition plausible :: "(int \<times> int) option \<Rightarrow> bool" where
  "plausible r \<longleftrightarrow> (\<forall>w h. r = Some (w, h) \<longrightarrow> 0 < w \<and> w < 2 ^ 31 \<and> 0 < h \<and> h < 2 ^ 31)"

lemma plausible_None [simp]: "plausible None"
  by (simp add: plausible_def)

lemma positive_i32_Some: "positive_i32 w = Some n \<Longrightarrow> 0 < n \<and> n < 2 ^ 31"
  by (auto simp: positive_i32_def word_less_def split: if_splits)

lemma plausible_dimensions [simp]: "plausible (dimensions_from_u32 w h)"
  by (auto simp: plausible_def dimensions_from_u32_def dest: positive_i32_Some split: option.splits)

lemma plausible_frame [simp]: "plausible (frame_dimensions bs i)"
  by (simp add: frame_dimensions_def split: option.split)

lemma jpeg_scan_returns: "returns (jpeg_scan bs i) plausible"
proof (induction "length bs - i" arbitrary: i rule: less_induct)
  case less
  let ?i2 = "i + length (takeWhile (\<lambda>b. b \<noteq> 0xff) (drop i bs))"
  let ?i3 = "?i2 + length (takeWhile (\<lambda>b. b = 0xff) (drop ?i2 bs))"
  have smaller: "length bs - j < length bs - i" if "?i3 < length bs" "?i3 < j" for j
    using that by simp
  show ?case
    by (subst jpeg_scan.simps) (auto simp: skip_while_run intro!: less smaller split: option.split)
qed

lemma png_returns: "returns (png_dimensions bs) plausible"
  by (auto simp: png_dimensions_def get_range_def split: option.split)

lemma gif_returns: "returns (gif_dimensions bs) plausible"
  by (auto simp: gif_dimensions_def)

lemma jpeg_returns: "returns (jpeg_dimensions bs) plausible"
proof (cases "length bs < 4")
  case False
  then have "1 < length bs" and "bs \<noteq> []" by auto
  then show ?thesis using False by (simp add: jpeg_dimensions_def jpeg_scan_returns)
qed (simp add: jpeg_dimensions_def)

lemma webp_plausible: "plausible (webp_dimensions bs)"
  by (auto simp: webp_dimensions_def webp_extended_dimensions_def webp_lossless_dimensions_def
      webp_lossy_dimensions_def Let_def split: option.split)

lemma or_else_returns: "returns m plausible \<Longrightarrow> returns n plausible \<Longrightarrow> returns (or_else m n) plausible"
  unfolding or_else_def by (erule returns_bind) (auto split: option.split)

lemma image_dimensions_plausible: "returns (image_dimensions bs) plausible"
  unfolding image_dimensions_def
  by (intro or_else_returns png_returns gif_returns jpeg_returns) (simp add: webp_plausible)

end
