(* ===== verification/Photo_Storage.thy ===== *)
theory Photo_Storage
  imports Image_Headers Day_Plan_Requests "HOL-Library.Signed_Division"
begin

text \<open>
  The object store of the photos (\<open>backend/src/photo_storage.rs\<close>): its configuration, the keys and tickets
  of uploads, and the signed addresses under which S3 lets a client read or store one object.

  SHA-256 and HMAC are third-party code and come as the functions of a \<open>digests\<close> record.
\<close>

section \<open>Configuration\<close>

record s3_config =
  s3_bucket :: string
  s3_region :: string
  s3_access_key_id :: string
  s3_secret_access_key :: string
  s3_session_token :: "string option"
  s3_key_prefix :: string
  s3_upload_expires :: u32
  s3_display_expires :: u32

datatype photo_storage_config = Local_Storage | S3_Storage s3_config

type_synonym environment = "string \<Rightarrow> string option"

definition required_env :: "environment \<Rightarrow> string \<Rightarrow> string + string" where
  "required_env vars name = (case vars name of
      Some v \<Rightarrow> Inr v | None \<Rightarrow> Inl (name @ '' is required when PHOTO_STORAGE_MODE=s3''))"

definition env_u32 :: "environment \<Rightarrow> string \<Rightarrow> u32 option" where
  "env_u32 vars name = Option.bind (vars name) parse_u32"

definition eq_ignore_ascii_case :: "string \<Rightarrow> string \<Rightarrow> bool" where
  "eq_ignore_ascii_case a b \<longleftrightarrow> to_ascii_lowercase a = to_ascii_lowercase b"

definition some_or :: "'a option \<Rightarrow> 'a \<Rightarrow> 'a" where
  "some_or x d = (case x of Some a \<Rightarrow> a | None \<Rightarrow> d)"

definition s3_from_env :: "environment \<Rightarrow> string + photo_storage_config" where
  "s3_from_env vars = (case required_env vars ''S3_PHOTO_BUCKET'' of Inl e \<Rightarrow> Inl e | Inr bucket \<Rightarrow>
     (case required_env vars ''AWS_ACCESS_KEY_ID'' of Inl e \<Rightarrow> Inl e | Inr access \<Rightarrow>
     (case required_env vars ''AWS_SECRET_ACCESS_KEY'' of Inl e \<Rightarrow> Inl e | Inr secret \<Rightarrow>
       Inr (S3_Storage
         \<lparr> s3_bucket = bucket,
           s3_region = (case vars ''S3_PHOTO_REGION'' of Some r \<Rightarrow> r
             | None \<Rightarrow> some_or (vars ''AWS_REGION'') ''us-east-1''),
           s3_access_key_id = access, s3_secret_access_key = secret,
           s3_session_token = (case vars ''AWS_SESSION_TOKEN'' of
               Some t \<Rightarrow> if trim t = [] then None else Some t | None \<Rightarrow> None),
           s3_key_prefix = some_or (vars ''S3_PHOTO_KEY_PREFIX'') ''photos'',
           s3_upload_expires = some_or (env_u32 vars ''S3_PHOTO_UPLOAD_EXPIRES_SECONDS'') 900,
           s3_display_expires = some_or (env_u32 vars ''S3_PHOTO_DISPLAY_EXPIRES_SECONDS'') 900 \<rparr>))))"

definition try_from_env :: "environment \<Rightarrow> string + photo_storage_config" where
  "try_from_env vars = (case vars ''PHOTO_STORAGE_MODE'' of
       None \<Rightarrow> Inr Local_Storage
     | Some mode \<Rightarrow>
         if eq_ignore_ascii_case mode ''s3'' then s3_from_env vars
         else if eq_ignore_ascii_case mode ''local'' \<or> eq_ignore_ascii_case mode ''local-placeholder''
         then Inr Local_Storage
         else Inl (''PHOTO_STORAGE_MODE must be local or s3, received '' @ mode))"

definition from_env :: "environment \<Rightarrow> photo_storage_config" where
  "from_env vars = (case try_from_env vars of Inl _ \<Rightarrow> Local_Storage | Inr c \<Rightarrow> c)"

section \<open>Encodings\<close>

text \<open>The UTF-8 bytes of a string; the characters modelled take one or two.\<close>

definition utf8_char :: "char \<Rightarrow> bytes" where
  "utf8_char c = (let n = of_char c :: nat in
     if n < 128 then [of_nat n] else [of_nat (192 + n div 64), of_nat (128 + n mod 64)])"

definition utf8_bytes :: "string \<Rightarrow> bytes" where
  "utf8_bytes s = concat (map utf8_char s)"

definition unreserved :: "8 word \<Rightarrow> bool" where
  "unreserved b \<longleftrightarrow> (0x41 \<le> b \<and> b \<le> 0x5a) \<or> (0x61 \<le> b \<and> b \<le> 0x7a) \<or> (0x30 \<le> b \<and> b \<le> 0x39)
     \<or> b \<in> {0x2d, 0x5f, 0x2e, 0x7e}"

definition upper_hex :: "nat \<Rightarrow> char" where
  "upper_hex n = char_of (if n < 10 then 48 + n else 55 + n)"

definition lower_hex :: "nat \<Rightarrow> char" where
  "lower_hex n = char_of (if n < 10 then 48 + n else 87 + n)"

definition uri_byte :: "8 word \<Rightarrow> string" where
  "uri_byte b = (if unreserved b then [char_of (unat b)]
     else [CHR ''%'', upper_hex (unat b div 16), upper_hex (unat b mod 16)])"

definition uri_encode :: "string \<Rightarrow> string" where
  "uri_encode s = concat (map uri_byte (utf8_bytes s))"

definition uri_encode_path :: "string \<Rightarrow> string" where
  "uri_encode_path path = join_with (CHR ''/'') (map uri_encode (split_on (CHR ''/'') path))"

definition hex :: "bytes \<Rightarrow> string" where
  "hex bs = concat (map (\<lambda>b. [lower_hex (unat b div 16), lower_hex (unat b mod 16)]) bs)"

text \<open>\<open>encoded.sort()\<close> on pairs of strings.\<close>

definition pair_precedes :: "string \<times> string \<Rightarrow> string \<times> string \<Rightarrow> bool" where
  "pair_precedes p q \<longleftrightarrow> string_less (fst p) (fst q) \<or> (fst p = fst q \<and> \<not> string_less (snd q) (snd p))"

definition canonical_query_string :: "(string \<times> string) list \<Rightarrow> string" where
  "canonical_query_string params = join_with (CHR ''&'') (map (\<lambda>(k, v). k @ ''='' @ v)
     (order_by pair_precedes (map (\<lambda>(k, v). (uri_encode k, uri_encode v)) params)))"

section \<open>The calendar of the signature\<close>

text \<open>
  \<open>i64\<close> arithmetic with the division of Rust, which truncates. The days of a \<open>u64\<close> of seconds are below
  \<open>2 ^ 48\<close>, so that nothing overflows; the year is cut to an \<open>i32\<close>.
\<close>

definition civil_from_days :: "int \<Rightarrow> int \<times> nat \<times> nat" where
  "civil_from_days days_since_epoch =
     (let z = days_since_epoch + 719468;
          era = (if 0 \<le> z then z else z - 146096) sdiv 146097;
          doe = z - era * 146097;
          yoe = (doe - doe sdiv 1460 + doe sdiv 36524 - doe sdiv 146096) sdiv 365;
          y = yoe + era * 400;
          doy = doe - (365 * yoe + yoe sdiv 4 - yoe sdiv 100);
          mp = (5 * doy + 2) sdiv 153;
          d = doy - (153 * mp + 2) sdiv 5 + 1;
          m = mp + (if mp < 10 then 3 else - 9);
          year = y + (if m \<le> 2 then 1 else 0)
      in (sint (word_of_int year :: 32 word), unat (word_of_int m :: u32), unat (word_of_int d :: u32)))"

text \<open>\<open>{:04}\<close> and \<open>{:02}\<close>: at least so many characters, the sign among them.\<close>

definition zero_padded :: "nat \<Rightarrow> nat \<Rightarrow> string" where
  "zero_padded k n = replicate (k - length (nat_text n)) (CHR ''0'') @ nat_text n"

definition zero_padded_int :: "nat \<Rightarrow> int \<Rightarrow> string" where
  "zero_padded_int k i = (if i < 0 then CHR ''-'' # zero_padded (k - 1) (nat (- i)) else zero_padded k (nat i))"

definition aws_date_time :: "u64 \<Rightarrow> string" where
  "aws_date_time unix_seconds =
     (let s = unat unix_seconds; seconds_of_day = s mod 86400 in
      case civil_from_days (int (s div 86400)) of (year, month, day) \<Rightarrow>
        zero_padded_int 4 year @ zero_padded 2 month @ zero_padded 2 day @ ''T'' @
        zero_padded 2 (seconds_of_day div 3600) @ zero_padded 2 (seconds_of_day mod 3600 div 60) @
        zero_padded 2 (seconds_of_day mod 60) @ ''Z'')"

section \<open>Signed addresses\<close>

record digests =
  sha256 :: "bytes \<Rightarrow> bytes"
  hmac_sha256 :: "bytes \<Rightarrow> bytes \<Rightarrow> bytes"

definition s3_host :: "string \<Rightarrow> string \<Rightarrow> string" where
  "s3_host bucket region =
     (if region = ''us-east-1'' then bucket @ ''.s3.amazonaws.com''
      else bucket @ ''.s3.'' @ region @ ''.amazonaws.com'')"

definition signing_key :: "digests \<Rightarrow> string \<Rightarrow> string \<Rightarrow> string \<Rightarrow> bytes" where
  "signing_key dg secret_access_key date region =
     (let mac = hmac_sha256 dg;
          date_key = mac (utf8_bytes (''AWS4'' @ secret_access_key)) (utf8_bytes date);
          region_key = mac date_key (utf8_bytes region);
          service_key = mac region_key (utf8_bytes ''s3'')
      in mac service_key (utf8_bytes ''aws4_request''))"

definition newline :: char where
  "newline = char_of (10 :: nat)"

definition presigned_url_at :: "digests \<Rightarrow> s3_config \<Rightarrow> string \<Rightarrow> string \<Rightarrow> u32 \<Rightarrow> u64 \<Rightarrow> string" where
  "presigned_url_at dg c request_method object_key expires_seconds unix_seconds =
     (let date_time = aws_date_time unix_seconds;
          date = take 8 date_time;
          host = s3_host (s3_bucket c) (s3_region c);
          canonical_uri = ''/'' @ uri_encode_path object_key;
          credential_scope = date @ ''/'' @ s3_region c @ ''/s3/aws4_request'';
          credential = s3_access_key_id c @ ''/'' @ credential_scope;
          query = [(''X-Amz-Algorithm'', ''AWS4-HMAC-SHA256''), (''X-Amz-Credential'', credential),
              (''X-Amz-Date'', date_time), (''X-Amz-Expires'', nat_text (unat expires_seconds)),
              (''X-Amz-SignedHeaders'', ''host'')]
            @ (case s3_session_token c of None \<Rightarrow> [] | Some t \<Rightarrow> [(''X-Amz-Security-Token'', t)]);
          canonical_query = canonical_query_string query;
          canonical_request = request_method @ [newline] @ canonical_uri @ [newline] @ canonical_query @ [newline] @
            ''host:'' @ host @ [newline, newline] @ ''host'' @ [newline] @ ''UNSIGNED-PAYLOAD'';
          string_to_sign = ''AWS4-HMAC-SHA256'' @ [newline] @ date_time @ [newline] @ credential_scope @ [newline] @
            hex (sha256 dg (utf8_bytes canonical_request));
          signature = hex (hmac_sha256 dg (signing_key dg (s3_secret_access_key c) date (s3_region c))
            (utf8_bytes string_to_sign))
      in ''https://'' @ host @ canonical_uri @ ''?'' @ canonical_query @ ''&X-Amz-Signature='' @ signature)"

text \<open>\<open>presigned_url\<close>: with the seconds of the system clock.\<close>

definition presigned_url :: "digests \<Rightarrow> env \<Rightarrow> s3_config \<Rightarrow> string \<Rightarrow> string \<Rightarrow> u32 \<Rightarrow> string" where
  "presigned_url dg env c request_method object_key expires_seconds =
     presigned_url_at dg c request_method object_key expires_seconds (word_of_nat (now_nanos env div 10 ^ 9))"

section \<open>Keys and tickets\<close>

definition trim_matches :: "char \<Rightarrow> string \<Rightarrow> string" where
  "trim_matches c s = rev (dropWhile (\<lambda>x. x = c) (rev (dropWhile (\<lambda>x. x = c) s)))"

text \<open>The stem before the last dot; a name without one, or with nothing before it, stays whole.\<close>

definition thumbnail_file_name :: "string \<Rightarrow> string" where
  "thumbnail_file_name safe_file_name =
     (let parts = split_on (CHR ''.'') safe_file_name; stem = join_with (CHR ''.'') (butlast parts)
      in (if length parts < 2 \<or> stem = [] then safe_file_name else stem) @ ''.jpg'')"

definition scoped_object_key :: "s3_config \<Rightarrow> string \<Rightarrow> string \<Rightarrow> nat \<Rightarrow> string \<Rightarrow> string" where
  "scoped_object_key c scope kind upload_nonce safe_file_name =
     (let prefix = trim_matches (CHR ''/'') (s3_key_prefix c);
          key = scope @ ''/'' @ kind @ ''/'' @ nat_text upload_nonce @ ''_'' @ safe_file_name
      in if prefix = [] then key else prefix @ ''/'' @ key)"

definition scoped_thumbnail_object_key :: "s3_config \<Rightarrow> string \<Rightarrow> string \<Rightarrow> nat \<Rightarrow> string \<Rightarrow> string" where
  "scoped_thumbnail_object_key c scope kind upload_nonce safe_file_name =
     (let prefix = trim_matches (CHR ''/'') (s3_key_prefix c);
          key = ''thumbnails/'' @ scope @ ''/'' @ kind @ ''/'' @ nat_text upload_nonce @ ''_'' @
            thumbnail_file_name safe_file_name
      in if prefix = [] then key else prefix @ ''/'' @ key)"

record photo_ticket =
  pt_upload_mode :: string
  pt_upload_url :: string
  pt_object_key :: string
  pt_thumbnail_upload_url :: "string option"
  pt_thumbnail_object_key :: "string option"
  pt_thumbnail_content_type :: "string option"
  pt_thumbnail_max_dimension :: "u32 option"

definition scoped_upload_ticket :: "digests \<Rightarrow> env \<Rightarrow> photo_storage_config \<Rightarrow> string \<Rightarrow> string \<Rightarrow> nat \<Rightarrow> string \<Rightarrow>
    string \<Rightarrow> photo_ticket" where
  "scoped_upload_ticket dg env storage scope kind upload_nonce safe_file_name content_type = (case storage of
       Local_Storage \<Rightarrow>
         (let key = ''local/'' @ scope @ ''/'' @ kind @ ''/'' @ nat_text upload_nonce @ ''_'' @ safe_file_name in
          \<lparr> pt_upload_mode = ''local-placeholder'',
            pt_upload_url = ''local://'' @ key @ ''?content_type='' @ content_type, pt_object_key = key,
            pt_thumbnail_upload_url = None, pt_thumbnail_object_key = None, pt_thumbnail_content_type = None,
            pt_thumbnail_max_dimension = None \<rparr>)
     | S3_Storage c \<Rightarrow>
         (let key = scoped_object_key c scope kind upload_nonce safe_file_name;
              thumbnail = scoped_thumbnail_object_key c scope kind upload_nonce safe_file_name in
          \<lparr> pt_upload_mode = ''s3-presigned'', pt_upload_url = presigned_url dg env c ''PUT'' key (s3_upload_expires c),
            pt_object_key = key,
            pt_thumbnail_upload_url = Some (presigned_url dg env c ''PUT'' thumbnail (s3_upload_expires c)),
            pt_thumbnail_object_key = Some thumbnail, pt_thumbnail_content_type = Some ''image/jpeg'',
            pt_thumbnail_max_dimension = Some 640 \<rparr>))"

definition upload_ticket :: "digests \<Rightarrow> env \<Rightarrow> photo_storage_config \<Rightarrow> string \<Rightarrow> string \<Rightarrow> nat \<Rightarrow> string \<Rightarrow>
    string \<Rightarrow> photo_ticket" where
  "upload_ticket dg env storage job = scoped_upload_ticket dg env storage (''jobs/'' @ job)"

definition owner_intake_upload_ticket :: "digests \<Rightarrow> env \<Rightarrow> photo_storage_config \<Rightarrow> string \<Rightarrow> string \<Rightarrow> string \<Rightarrow> nat \<Rightarrow>
    string \<Rightarrow> string \<Rightarrow> photo_ticket" where
  "owner_intake_upload_ticket dg env storage owner property =
     scoped_upload_ticket dg env storage
       (''owner-intake/'' @ take 24 (hex (sha256 dg (utf8_bytes owner))) @ ''/'' @ property)"

definition display_authorization_seconds :: "photo_storage_config \<Rightarrow> u32 \<Rightarrow> u32" where
  "display_authorization_seconds storage maximum =
     min (case storage of Local_Storage \<Rightarrow> 900 | S3_Storage c \<Rightarrow> s3_display_expires c) (max maximum 1)"

definition display_url_for_seconds :: "digests \<Rightarrow> env \<Rightarrow> photo_storage_config \<Rightarrow> string \<Rightarrow> string \<Rightarrow> u32 \<Rightarrow> string" where
  "display_url_for_seconds dg env storage mode key maximum = (case storage of
       S3_Storage c \<Rightarrow> if mode = ''s3-presigned''
         then presigned_url dg env c ''GET'' key (min (s3_display_expires c) (max maximum 1))
         else ''local://'' @ key
     | Local_Storage \<Rightarrow> ''local://'' @ key)"

end
