(* ===== verification/Photo_Client.thy ===== *)
theory Photo_Client
  imports Photo_Storage
begin

text \<open>
  What the service asks of the object store over HTTP (\<open>backend/src/photo_storage.rs\<close>): the inspection of
  an uploaded photo, the thumbnail and the deletion of objects.

  The store and the HTTP client are not code of the repository. A client answers a method and an address
  with a reply, or \<open>None\<close> when \<open>reqwest\<close> fails; the decoder and encoder of the \<open>image\<close> crate is a function
  \<open>jpeg\<close> from the bytes of an image to those of its thumbnail, at most 640 pixels a side.
\<close>

record http_reply =
  hr_status :: nat
  hr_content_length :: "u64 option"
  hr_body :: "bytes option"

type_synonym http_client = "string \<Rightarrow> string \<Rightarrow> http_reply option"

definition is_success :: "http_reply \<Rightarrow> bool" where
  "is_success r \<longleftrightarrow> 200 \<le> hr_status r \<and> hr_status r \<le> 299"

record upload_metadata =
  um_file_size :: "int option"
  um_width :: "int option"
  um_height :: "int option"
  um_source :: "string option"

datatype inspection = Extracted upload_metadata | Rejected string | Uninspected

text \<open>\<open>i64::try_from(len).ok().filter(|value| *value > 0)\<close>.\<close>

definition positive_length :: "u64 option \<Rightarrow> int option" where
  "positive_length n = (case n of None \<Rightarrow> None | Some w \<Rightarrow> if 0 < w \<and> w < 2 ^ 63 then Some (uint w) else None)"

definition extracted_metadata :: "http_reply \<Rightarrow> bytes \<Rightarrow> (int \<times> int) option \<Rightarrow> inspection" where
  "extracted_metadata head body dims = (case dims of
       None \<Rightarrow> Rejected ''unsupported_or_invalid_image_header''
     | Some (w, h) \<Rightarrow> Extracted
         \<lparr> um_file_size = (case positive_length (hr_content_length head) of
              Some n \<Rightarrow> Some n | None \<Rightarrow> Some (int (length body))),
           um_width = Some w, um_height = Some h, um_source = Some ''server_extracted'' \<rparr>)"

text \<open>The \<open>?\<close> of each call makes the result \<open>Unavailable\<close> in the caller.\<close>

definition s3_inspection :: "digests \<Rightarrow> env \<Rightarrow> http_client \<Rightarrow> s3_config \<Rightarrow> string \<Rightarrow> inspection run" where
  "s3_inspection dg env http c key = (case http ''HEAD'' (presigned_url dg env c ''HEAD'' key (s3_display_expires c)) of
       None \<Rightarrow> run_return Uninspected
     | Some head \<Rightarrow>
         if \<not> is_success head then run_return Uninspected
         else (case http ''GET'' (presigned_url dg env c ''GET'' key (s3_display_expires c)) of
             None \<Rightarrow> run_return Uninspected
           | Some got \<Rightarrow>
               if \<not> is_success got \<and> hr_status got \<noteq> 206 then run_return Uninspected
               else (case hr_body got of
                   None \<Rightarrow> run_return Uninspected
                 | Some body \<Rightarrow> run_bind (image_dimensions body) (\<lambda>dims. run_return (extracted_metadata head body dims)))))"

definition uploaded_photo_inspection :: "digests \<Rightarrow> env \<Rightarrow> http_client \<Rightarrow> photo_storage_config \<Rightarrow> string \<Rightarrow> string \<Rightarrow>
    inspection run" where
  "uploaded_photo_inspection dg env http storage mode key =
     (if mode \<noteq> ''s3-presigned'' then run_return Uninspected
      else case storage of Local_Storage \<Rightarrow> run_return Uninspected | S3_Storage c \<Rightarrow> s3_inspection dg env http c key)"

text \<open>20 MiB at most are read for a thumbnail.\<close>

definition PHOTO_THUMBNAIL_SOURCE_MAX_BYTES :: nat where
  "PHOTO_THUMBNAIL_SOURCE_MAX_BYTES = 20 * 1024 * 1024"

definition s3_thumbnail :: "digests \<Rightarrow> env \<Rightarrow> http_client \<Rightarrow> (bytes \<Rightarrow> bytes option) \<Rightarrow> s3_config \<Rightarrow> string \<Rightarrow> string \<Rightarrow>
    bool option" where
  "s3_thumbnail dg env http jpeg c key thumbnail_key =
     Option.bind (http ''HEAD'' (presigned_url dg env c ''HEAD'' key (s3_display_expires c))) (\<lambda>head.
       case hr_content_length head of
         None \<Rightarrow> Some False
       | Some len \<Rightarrow>
           if \<not> is_success head \<or> PHOTO_THUMBNAIL_SOURCE_MAX_BYTES < unat len then Some False
           else Option.bind (http ''GET'' (presigned_url dg env c ''GET'' key (s3_display_expires c))) (\<lambda>got.
             if \<not> is_success got then Some False
             else Option.bind (hr_body got) (\<lambda>original.
               if PHOTO_THUMBNAIL_SOURCE_MAX_BYTES < length original then Some False
               else case jpeg original of
                   None \<Rightarrow> Some False
                 | Some thumbnail \<Rightarrow> map_option is_success
                     (http ''PUT'' (presigned_url dg env c ''PUT'' thumbnail_key (s3_upload_expires c))))))"

definition generate_uploaded_thumbnail :: "digests \<Rightarrow> env \<Rightarrow> http_client \<Rightarrow> (bytes \<Rightarrow> bytes option) \<Rightarrow>
    photo_storage_config \<Rightarrow> string \<Rightarrow> string \<Rightarrow> string \<Rightarrow> bool" where
  "generate_uploaded_thumbnail dg env http jpeg storage mode key thumbnail_key =
     (if mode \<noteq> ''s3-presigned'' then False
      else case storage of
          Local_Storage \<Rightarrow> False
        | S3_Storage c \<Rightarrow> some_or (s3_thumbnail dg env http jpeg c key thumbnail_key) False)"

text \<open>One request per key; an object that is gone counts as deleted, a failed request ends the loop.\<close>

fun s3_delete_objects :: "digests \<Rightarrow> env \<Rightarrow> http_client \<Rightarrow> s3_config \<Rightarrow> string list \<Rightarrow> (int \<times> string list) option" where
  "s3_delete_objects dg env http c [] = Some (0, [])"
| "s3_delete_objects dg env http c (key # keys) =
     Option.bind (http ''DELETE'' (presigned_url dg env c ''DELETE'' key (s3_upload_expires c))) (\<lambda>r.
       map_option (\<lambda>(deleted, failed). if is_success r \<or> hr_status r = 404 then (deleted + 1, failed)
           else (deleted, key # failed))
         (s3_delete_objects dg env http c keys))"

definition storage_delete_objects :: "digests \<Rightarrow> env \<Rightarrow> http_client \<Rightarrow> photo_storage_config \<Rightarrow> string list \<Rightarrow>
    int \<times> string list" where
  "storage_delete_objects dg env http storage keys =
     (if keys = [] then (0, [])
      else case storage of
          Local_Storage \<Rightarrow> (int (length keys), [])
        | S3_Storage c \<Rightarrow> some_or (s3_delete_objects dg env http c keys) (0, keys))"

text \<open>Every deletion is either done or reported.\<close>

lemma s3_deletions_reported:
  "s3_delete_objects dg env http c keys = Some (n, failed) \<Longrightarrow> n + int (length failed) = int (length keys)"
  by (induction keys arbitrary: n failed) (auto simp: bind_eq_Some_conv split: if_splits)

text \<open>An inspection ends, whatever the store serves.\<close>

lemma inspection_ends: "\<exists>r. uploaded_photo_inspection dg env http storage mode key = run_return r"
proof -
  have "\<exists>r. run_bind (image_dimensions body) (\<lambda>dims. run_return (f dims)) = run_return r" for body f
    using image_dimensions_plausible [of body] by (auto simp: returns_def run_bind_def run_return_def)
  then show ?thesis
    by (auto simp: uploaded_photo_inspection_def s3_inspection_def split: photo_storage_config.split option.split)
qed

end
