(* ===== verification/Photo_Uploads.thy ===== *)
theory Photo_Uploads
  imports Photo_Client Photo_Privacy
begin

text \<open>
  The upload of a photo: the ticket, the completion with the inspection of the stored object, the rejection,
  and the entry in the processing queue when the thumbnail could not be made
  (\<open>postgres_write.rs\<close>, the photo operations of \<open>db.rs\<close> and their handlers in \<open>main.rs\<close>).
\<close>

section \<open>Requests\<close>

record photo_upload_request =
  pur_file_name :: string
  pur_content_type :: string
  pur_photo_type :: string
  pur_client_mutation_id :: "string option"

definition validate_photo_upload_request :: "env \<Rightarrow> photo_upload_request \<Rightarrow> string option" where
  "validate_photo_upload_request env r =
     (if trim (pur_file_name r) = [] then Some ''file_name is required''
      else if pur_photo_type r \<notin> {''before'', ''after'', ''issue'', ''extra''}
      then Some ''photo_type must be before, after, issue, or extra''
      else if to_ascii_lowercase (trim (hd (split_on (CHR '';'') (pur_content_type r))))
          \<notin> {''image/jpeg'', ''image/png'', ''image/gif'', ''image/webp''}
      then Some ''content_type must be image/jpeg, image/png, image/gif, or image/webp''
      else (case pur_client_mutation_id r of
          None \<Rightarrow> None
        | Some i \<Rightarrow> if parse_uuid env i = None then Some ''client_mutation_id must be a UUID when provided'' else None))"

record photo_complete_request =
  pcr_photo_id :: string
  pcr_file_size :: "int option"
  pcr_width :: "int option"
  pcr_height :: "int option"

definition not_positive :: "int option \<Rightarrow> bool" where
  "not_positive x = (case x of None \<Rightarrow> False | Some n \<Rightarrow> n \<le> 0)"

definition request_metadata :: "photo_complete_request \<Rightarrow> string + upload_metadata" where
  "request_metadata r =
     (if trim (pcr_photo_id r) = [] then Inl ''photo_id is required''
      else if not_positive (pcr_file_size r) then Inl ''file_size_bytes must be greater than zero when provided''
      else if not_positive (pcr_width r) then Inl ''image_width_px must be greater than zero when provided''
      else if not_positive (pcr_height r) then Inl ''image_height_px must be greater than zero when provided''
      else Inr \<lparr> um_file_size = pcr_file_size r, um_width = pcr_width r, um_height = pcr_height r,
        um_source = (if pcr_file_size r \<noteq> None \<or> pcr_width r \<noteq> None \<or> pcr_height r \<noteq> None
          then Some ''client_reported'' else None) \<rparr>)"

section \<open>Statements\<close>

definition photo_kind_ok :: "photo_row \<Rightarrow> bool" where
  "photo_kind_ok p \<longleftrightarrow> photo_type p \<in> {''before'', ''after'', ''issue'', ''extra''}"

definition pending_photo :: "env \<Rightarrow> string \<Rightarrow> photo_upload_request \<Rightarrow> string \<Rightarrow> string \<Rightarrow> photo_ticket \<Rightarrow> photo_row" where
  "pending_photo env job r photo_id safe_file_name ticket =
     \<lparr> photo_pk = photo_id, photo_job_id = job, photo_type = pur_photo_type r, photo_file_name = safe_file_name,
       photo_content_type = pur_content_type r, photo_object_key = pt_object_key ticket,
       photo_upload_mode = pt_upload_mode ticket, photo_thumbnail_key = pt_thumbnail_object_key ticket,
       photo_status = ''pending'', photo_created_at = now_at env, photo_uploaded_at = None, photo_file_size = None,
       photo_width = None, photo_height = None, photo_metadata_source = None, photo_metadata_captured_at = None,
       photo_rejected_reason = None, photo_rejected_at = None, photo_erased_at = None, photo_erased_by = None,
       photo_erasure_reason = None, photo_erased_object_key = None, photo_erased_thumbnail_key = None \<rparr>"

text \<open>\<open>ON CONFLICT (id) DO UPDATE\<close>: name, type and place of the object are taken over, job and status kept.\<close>

definition readdressed_photo :: "photo_row \<Rightarrow> photo_row \<Rightarrow> photo_row" where
  "readdressed_photo excluded p = p\<lparr> photo_file_name := photo_file_name excluded,
     photo_content_type := photo_content_type excluded, photo_object_key := photo_object_key excluded,
     photo_upload_mode := photo_upload_mode excluded, photo_thumbnail_key := photo_thumbnail_key excluded \<rparr>"

definition upsert_photo :: "photo_row \<Rightarrow> (db, unit) statement" where
  "upsert_photo p d =
     (if \<not> photo_kind_ok p then Inl ConstraintViolation
      else if exists_row (\<lambda>q. photo_pk q = photo_pk p) (job_photos d)
      then Inr ((), d\<lparr> job_photos := update_where (\<lambda>q. photo_pk q = photo_pk p) (readdressed_photo p) (job_photos d) \<rparr>)
      else if photo_job_id p \<notin> job_pk ` set (service_jobs d) then Inl ConstraintViolation
      else Inr ((), d\<lparr> job_photos := job_photos d @ [p] \<rparr>))"

definition create_photo_upload :: "env \<Rightarrow> string \<Rightarrow> photo_upload_request \<Rightarrow> string \<Rightarrow> string \<Rightarrow> photo_ticket \<Rightarrow>
    (db, unit) db_call" where
  "create_photo_upload env job r photo_id safe_file_name ticket =
     db_stmt (upsert_photo (pending_photo env job r photo_id safe_file_name ticket))"

text \<open>\<open>WHERE id = $1 AND job_id = $2\<close>.\<close>

definition this_photo :: "string \<Rightarrow> string \<Rightarrow> photo_row \<Rightarrow> bool" where
  "this_photo job photo_id p \<longleftrightarrow> photo_pk p = photo_id \<and> photo_job_id p = job"

definition uploaded_photo :: "env \<Rightarrow> upload_metadata \<Rightarrow> photo_row \<Rightarrow> photo_row" where
  "uploaded_photo env m p =
     (let source = coalesce (um_source m)
        (if um_file_size m \<noteq> None \<or> um_width m \<noteq> None \<or> um_height m \<noteq> None then Some ''client_reported'' else None) in
      p\<lparr> photo_status := (if source = Some ''server_extracted'' then ''processed'' else ''uploaded''),
         photo_uploaded_at := Some (now_at env),
         photo_file_size := coalesce (um_file_size m) (photo_file_size p),
         photo_width := coalesce (um_width m) (photo_width p), photo_height := coalesce (um_height m) (photo_height p),
         photo_metadata_source := coalesce source (photo_metadata_source p),
         photo_metadata_captured_at := (if source = None then photo_metadata_captured_at p else Some (now_at env)) \<rparr>)"

text \<open>\<open>UPDATE .. RETURNING photo_type\<close>.\<close>

definition mark_uploaded :: "env \<Rightarrow> string \<Rightarrow> string \<Rightarrow> upload_metadata \<Rightarrow> (db, string option) statement" where
  "mark_uploaded env job photo_id m d =
     Inr (map_option photo_type (lookup_by (this_photo job photo_id) (job_photos d)),
       d\<lparr> job_photos := update_where (this_photo job photo_id) (uploaded_photo env m) (job_photos d) \<rparr>)"

definition count_before :: "env \<Rightarrow> job_row \<Rightarrow> job_row" where
  "count_before env j = j\<lparr> job_before_photos := job_before_photos j + 1, job_updated_at := now_at env \<rparr>"

definition count_after :: "env \<Rightarrow> job_row \<Rightarrow> job_row" where
  "count_after env j = j\<lparr> job_after_photos := job_after_photos j + 1, job_updated_at := now_at env \<rparr>"

text \<open>An \<open>INTEGER\<close> counter that would leave its range fails the statement.\<close>

definition bump_counter :: "string \<Rightarrow> (job_row \<Rightarrow> job_row) \<Rightarrow> (db, unit) statement" where
  "bump_counter job f d =
     (let rows = update_where (\<lambda>j. job_pk j = job) f (service_jobs d) in
      if list_all (\<lambda>j. job_pk j = job \<longrightarrow> int4_range (job_before_photos j) \<and> int4_range (job_after_photos j)) rows
      then Inr ((), d\<lparr> service_jobs := rows \<rparr>) else Inl ConstraintViolation)"

definition complete_photo_upload :: "env \<Rightarrow> string \<Rightarrow> string \<Rightarrow> upload_metadata \<Rightarrow> (db, unit) db_call" where
  "complete_photo_upload env job photo_id m =
     db_bind (db_stmt (mark_uploaded env job photo_id m)) (\<lambda>kind. case kind of
         None \<Rightarrow> db_return ()
       | Some k \<Rightarrow>
           if k = ''before'' then db_stmt (bump_counter job (count_before env))
           else if k = ''after'' then db_stmt (bump_counter job (count_after env))
           else db_return ())"

definition rejected_photo :: "env \<Rightarrow> string \<Rightarrow> photo_row \<Rightarrow> photo_row" where
  "rejected_photo env reason p = p\<lparr> photo_status := ''rejected'', photo_uploaded_at := Some (now_at env),
     photo_metadata_source := Some ''server_rejected'', photo_metadata_captured_at := Some (now_at env),
     photo_rejected_reason := Some reason, photo_rejected_at := Some (now_at env) \<rparr>"

definition reject_photo_upload :: "env \<Rightarrow> string \<Rightarrow> string \<Rightarrow> string \<Rightarrow> (db, bool) db_call" where
  "reject_photo_upload env job photo_id reason = db_stmt (\<lambda>d.
     Inr (0 < affected (this_photo job photo_id) (job_photos d),
       d\<lparr> job_photos := update_where (this_photo job photo_id) (rejected_photo env reason) (job_photos d) \<rparr>))"

record photo_location =
  pl_upload_mode :: string
  pl_object_key :: string
  pl_thumbnail_key :: "string option"

definition photo_storage_location :: "string \<Rightarrow> string \<Rightarrow> (db, photo_location option) db_call" where
  "photo_storage_location job photo_id = db_select (\<lambda>d. map_option (\<lambda>p.
       \<lparr> pl_upload_mode = photo_upload_mode p, pl_object_key = photo_object_key p,
         pl_thumbnail_key = photo_thumbnail_key p \<rparr>)
     (lookup_by (this_photo job photo_id) (job_photos d)))"

section \<open>The entry in the processing queue\<close>

definition truncate_photo_processing_error :: "string \<Rightarrow> string" where
  "truncate_photo_processing_error e = take 500 e"

definition queued_task :: "env \<Rightarrow> photo_row \<Rightarrow> job_row \<Rightarrow> string \<Rightarrow> string \<Rightarrow> photo_task_row" where
  "queued_task env p j kind reason =
     \<lparr> task_pk = ''photo_processing_'' @ fresh_uuid env 0, task_photo_id = photo_pk p, task_job_id = photo_job_id p,
       task_organization_id = job_organization_id j, task_type = kind, task_status = ''queued'',
       task_attempt_count = 0, task_available_at = now_at env, task_last_attempt_at = None, task_completed_at = None,
       task_last_error = None, task_failure_reason = Some reason, task_resolved_at = None, task_resolution_note = None,
       task_created_at = now_at env, task_updated_at = now_at env \<rparr>"

text \<open>The \<open>DO UPDATE\<close> of the conflict on photo and task; the attempts already made stay counted.\<close>

definition requeued_task :: "env \<Rightarrow> string \<Rightarrow> photo_task_row \<Rightarrow> photo_task_row" where
  "requeued_task env reason x =
     (let keep = task_status x \<in> {''completed'', ''processing''}; finished = task_status x = ''completed'' in
      x\<lparr> task_status := (if keep then task_status x else ''queued''),
         task_available_at := (if keep then task_available_at x else now_at env),
         task_failure_reason := (if finished then task_failure_reason x else Some reason),
         task_last_error := (if finished then task_last_error x else None),
         task_updated_at := now_at env \<rparr>)"

definition upsert_task :: "env \<Rightarrow> string \<Rightarrow> string \<Rightarrow> string \<Rightarrow> string \<Rightarrow> (db, photo_task_row option) statement" where
  "upsert_task env job photo_id kind reason d =
     (case (lookup_by (\<lambda>p. this_photo job photo_id p \<and> photo_thumbnail_key p \<noteq> None) (job_photos d),
            lookup_by (\<lambda>j. job_pk j = job) (service_jobs d)) of
        (Some p, Some j) \<Rightarrow>
          if kind \<noteq> ''thumbnail_generation'' then Inr (None, d)
          else (let same = (\<lambda>x. task_photo_id x = photo_id \<and> task_type x = kind) in
            case lookup_by same (photo_tasks d) of
              Some x \<Rightarrow> Inr (Some (requeued_task env reason x),
                d\<lparr> photo_tasks := update_where same (requeued_task env reason) (photo_tasks d) \<rparr>)
            | None \<Rightarrow> map_sum id (\<lambda>rows. (Some (queued_task env p j kind reason), d\<lparr> photo_tasks := rows \<rparr>))
                (insert_row (\<lambda>_. True) (\<lambda>a b. task_pk a = task_pk b) (queued_task env p j kind reason) (photo_tasks d)))
      | _ \<Rightarrow> Inr (None, d))"

definition queue_photo_processing_job :: "env \<Rightarrow> string \<Rightarrow> string \<Rightarrow> string \<Rightarrow> string \<Rightarrow>
    (db, photo_task_row option) db_call" where
  "queue_photo_processing_job env job photo_id kind reason =
     db_stmt (upsert_task env job photo_id kind (truncate_photo_processing_error reason))"

section \<open>The repository\<close>

record photo_upload_response =
  pu_job_id :: string
  pu_photo_id :: string
  pu_photo_type :: string
  pu_file_name :: string
  pu_content_type :: string
  pu_ticket :: photo_ticket

definition photo_upload_response :: "string \<Rightarrow> photo_upload_request \<Rightarrow> string \<Rightarrow> photo_ticket \<Rightarrow> photo_upload_response" where
  "photo_upload_response job r photo_id ticket =
     \<lparr> pu_job_id = job, pu_photo_id = photo_id, pu_photo_type = pur_photo_type r, pu_file_name = pur_file_name r,
       pu_content_type = pur_content_type r, pu_ticket = ticket \<rparr>"

text \<open>The store, as the deployment configures it, with the digests, the HTTP client and the image codec.\<close>

record object_store =
  os_config :: photo_storage_config
  os_digests :: digests
  os_http :: http_client
  os_jpeg :: "bytes \<Rightarrow> bytes option"

definition mutation_uuid :: "env \<Rightarrow> photo_upload_request \<Rightarrow> nat option" where
  "mutation_uuid env r = Option.bind (pur_client_mutation_id r) (parse_uuid env)"

definition photo_id_of :: "env \<Rightarrow> string \<Rightarrow> photo_upload_request \<Rightarrow> string" where
  "photo_id_of env job r = (case mutation_uuid env r of
       Some i \<Rightarrow> ''photo_offline_'' @ uuid_simple env i
     | None \<Rightarrow> ''photo_'' @ job @ ''_'' @ pur_photo_type r @ ''_'' @ nat_text (now_nanos env))"

definition repo_create_photo_upload :: "env \<Rightarrow> object_store \<Rightarrow> bool \<Rightarrow> string \<Rightarrow> photo_upload_request \<Rightarrow>
    (db, photo_upload_response resource_read) db_call" where
  "repo_create_photo_upload env store pool job r =
     (let safe_file_name = replace_char (CHR ''/'') (CHR ''-'') (pur_file_name r);
          upload_nonce = some_or (mutation_uuid env r) (now_nanos env);
          photo_id = photo_id_of env job r;
          ticket = upload_ticket (os_digests store) env (os_config store) job (pur_photo_type r) upload_nonce
            safe_file_name (pur_content_type r);
          response = db_return (ResourceLoaded (photo_upload_response job r photo_id ticket))
      in if pool then db_catch (create_photo_upload env job r photo_id safe_file_name ticket)
           (\<lambda>_. db_return ResourceUnavailable) (\<lambda>_. response)
         else response)"

definition inspect_upload :: "env \<Rightarrow> object_store \<Rightarrow> photo_location \<Rightarrow> inspection" where
  "inspect_upload env store l =
     (case uploaded_photo_inspection (os_digests store) env (os_http store) (os_config store)
         (pl_upload_mode l) (pl_object_key l) of
        Some (Value i) \<Rightarrow> i | _ \<Rightarrow> Uninspected)"

definition make_thumbnail :: "env \<Rightarrow> object_store \<Rightarrow> string \<Rightarrow> string \<Rightarrow> string \<Rightarrow> bool" where
  "make_thumbnail env store mode key thumbnail_key =
     generate_uploaded_thumbnail (os_digests store) env (os_http store) (os_jpeg store) (os_config store) mode key thumbnail_key"

text \<open>\<open>Ok(Some(_)) => {}\<close>, anything else makes the completion unavailable.\<close>

definition must_queue :: "env \<Rightarrow> string \<Rightarrow> string \<Rightarrow> string \<Rightarrow> (db, string resource_read) db_call \<Rightarrow>
    (db, string resource_read) db_call" where
  "must_queue env job photo_id reason next_call =
     db_catch (queue_photo_processing_job env job photo_id ''thumbnail_generation'' reason)
       (\<lambda>_. db_return ResourceUnavailable)
       (\<lambda>res. case res of None \<Rightarrow> db_return ResourceUnavailable | Some _ \<Rightarrow> next_call)"

definition finish_upload :: "env \<Rightarrow> string \<Rightarrow> string \<Rightarrow> upload_metadata \<Rightarrow> (db, string resource_read) db_call" where
  "finish_upload env job photo_id m = db_catch (complete_photo_upload env job photo_id m)
     (\<lambda>_. db_return ResourceUnavailable)
     (\<lambda>_. db_return (ResourceLoaded (''Photo '' @ photo_id @ '' for job '' @ job @ '' has been marked uploaded.'')))"

definition complete_at :: "env \<Rightarrow> object_store \<Rightarrow> string \<Rightarrow> string \<Rightarrow> upload_metadata \<Rightarrow> photo_location \<Rightarrow>
    (db, string resource_read) db_call" where
  "complete_at env store job photo_id m l = (case inspect_upload env store l of
       Extracted server_metadata \<Rightarrow>
         (case pl_thumbnail_key l of
            Some thumbnail_key \<Rightarrow>
              if make_thumbnail env store (pl_upload_mode l) (pl_object_key l) thumbnail_key
              then finish_upload env job photo_id server_metadata
              else must_queue env job photo_id ''thumbnail_generation_unavailable''
                (finish_upload env job photo_id server_metadata)
          | None \<Rightarrow> finish_upload env job photo_id server_metadata)
     | Rejected reason \<Rightarrow>
         db_catch (reject_photo_upload env job photo_id reason) (\<lambda>_. db_return ResourceUnavailable)
           (\<lambda>_. db_return (ResourceLoaded (''Photo '' @ photo_id @ '' for job '' @ job @ '' has been rejected.'')))
     | Uninspected \<Rightarrow>
         if pl_upload_mode l = ''s3-presigned'' \<and> pl_thumbnail_key l \<noteq> None
         then must_queue env job photo_id ''storage_inspection_unavailable'' (finish_upload env job photo_id m)
         else finish_upload env job photo_id m)"

definition repo_complete_photo_upload :: "env \<Rightarrow> object_store \<Rightarrow> bool \<Rightarrow> string \<Rightarrow> string \<Rightarrow> upload_metadata \<Rightarrow>
    (db, string resource_read) db_call" where
  "repo_complete_photo_upload env store pool job photo_id m =
     (if \<not> pool then db_return (ResourceLoaded
          (''Photo '' @ photo_id @ '' for job '' @ job @ '' has been marked uploaded.''))
      else db_catch (photo_storage_location job photo_id) (\<lambda>_. db_return ResourceUnavailable)
        (\<lambda>found. case found of None \<Rightarrow> db_return ResourceNotFound | Some l \<Rightarrow> complete_at env store job photo_id m l))"

definition repo_reject_photo_upload :: "env \<Rightarrow> bool \<Rightarrow> string \<Rightarrow> string \<Rightarrow> string \<Rightarrow> (db, bool resource_read) db_call" where
  "repo_reject_photo_upload env pool job photo_id reason =
     (if \<not> pool then db_return ResourceUnavailable
      else db_catch (reject_photo_upload env job photo_id reason) (\<lambda>_. db_return ResourceUnavailable)
        (\<lambda>hit. db_return (if hit then ResourceLoaded True else ResourceNotFound)))"

definition repo_queue_photo_processing_retry :: "env \<Rightarrow> bool \<Rightarrow> string \<Rightarrow> string \<Rightarrow> string \<Rightarrow> string \<Rightarrow>
    (db, photo_task_row resource_read) db_call" where
  "repo_queue_photo_processing_retry env pool job photo_id kind reason =
     (if pool then found_or_unavailable (queue_photo_processing_job env job photo_id kind reason)
      else db_return ResourceUnavailable)"

section \<open>Handlers\<close>

definition handle_create_photo_upload :: "env \<Rightarrow> object_store \<Rightarrow> bool \<Rightarrow> auth_principal \<Rightarrow> string \<Rightarrow>
    photo_upload_request \<Rightarrow> (db, photo_upload_response http_response) db_call" where
  "handle_create_photo_upload env store pool user job r = checked
     (require_job_organization_access pool user job can_view_crew_route)
     (case validate_photo_upload_request env r of
        Some message \<Rightarrow> db_return (Problem 400 ''invalid_photo_upload'' message)
      | None \<Rightarrow> db_map (\<lambda>res. case res of
            ResourceLoaded a \<Rightarrow> Answer 201 a
          | ResourceNotFound \<Rightarrow> refuse (resource_not_found_response ''job_not_found'' ''The requested job was not found.'')
          | ResourceUnavailable \<Rightarrow> refuse (persisted_resource_unavailable_response
              ''photo_upload_create_unavailable'' ''The persisted photo upload could not be created.''))
          (repo_create_photo_upload env store pool job r))"

definition handle_complete_photo_upload :: "env \<Rightarrow> object_store \<Rightarrow> bool \<Rightarrow> auth_principal \<Rightarrow> string \<Rightarrow>
    photo_complete_request \<Rightarrow> (db, string http_response) db_call" where
  "handle_complete_photo_upload env store pool user job r = checked
     (require_job_organization_access pool user job can_view_crew_route)
     (case request_metadata r of
        Inl message \<Rightarrow> db_return (Problem 400 ''invalid_photo_metadata'' message)
      | Inr m \<Rightarrow> db_map (\<lambda>res. case res of
            ResourceLoaded message \<Rightarrow> Answer 202 message
          | ResourceNotFound \<Rightarrow> refuse (resource_not_found_response ''photo_upload_not_found''
              ''The requested photo upload was not found.'')
          | ResourceUnavailable \<Rightarrow> refuse (persisted_resource_unavailable_response
              ''photo_upload_completion_unavailable'' ''The persisted photo upload could not be completed.''))
          (repo_complete_photo_upload env store pool job (pcr_photo_id r) m))"

definition handle_list_job_photos :: "photo_storage \<Rightarrow> bool \<Rightarrow> auth_principal \<Rightarrow> string \<Rightarrow>
    (db, photo_evidence list http_response) db_call" where
  "handle_list_job_photos storage pool user job = checked
     (require_job_organization_access pool user job can_view_crew_route)
     (db_map (\<lambda>res. case res of
          ResourceLoaded photos \<Rightarrow> Answer 200 photos
        | ResourceNotFound \<Rightarrow> Answer 200 []
        | ResourceUnavailable \<Rightarrow> refuse (persisted_resource_unavailable_response ''photo_evidence_unavailable''
            ''The persisted photo evidence could not be loaded.''))
      (repo_list_photo_evidence storage pool job))"

end
