(* ===== verification/Work_Queues.thy ===== *)
theory Work_Queues
  imports Photo_Uploads
begin

text \<open>
  The two queues the photo worker serves: thumbnails to make (\<open>photo_processing_jobs\<close>,
  \<open>postgres_write.rs\<close>) and objects to delete (\<open>photo_erasure_deletion_jobs\<close>, \<open>postgres_privacy.rs\<close>), each
  with its claim, its two finalizations, its history and the two recoveries a manager can order.

  One connection runs at a time, so that \<open>FOR UPDATE SKIP LOCKED\<close> never skips a row; the clock of
  PostgreSQL is in seconds.
\<close>

section \<open>Thumbnails to make\<close>

definition stale_task :: "env \<Rightarrow> photo_task_row \<Rightarrow> bool" where
  "stale_task env x \<longleftrightarrow> task_status x = ''processing'' \<and> task_updated_at x < now_at env - 600"

definition exhausted_task :: "env \<Rightarrow> int \<Rightarrow> photo_task_row \<Rightarrow> bool" where
  "exhausted_task env max_attempts x \<longleftrightarrow> max_attempts \<le> task_attempt_count x
     \<and> (task_status x = ''failed'' \<or> stale_task env x)"

definition bury_tasks :: "env \<Rightarrow> int \<Rightarrow> (db, unit) statement" where
  "bury_tasks env max_attempts d = Inr ((), d\<lparr> photo_tasks := update_where (exhausted_task env max_attempts)
     (\<lambda>x. x\<lparr> task_status := ''dead_letter'', task_updated_at := now_at env \<rparr>) (photo_tasks d) \<rparr>)"

text \<open>The join with the photo, which has to have a thumbnail still to be stored.\<close>

definition task_photo :: "db \<Rightarrow> photo_task_row \<Rightarrow> photo_row option" where
  "task_photo d x = lookup_by (\<lambda>p. photo_pk p = task_photo_id x \<and> photo_thumbnail_key p \<noteq> None) (job_photos d)"

definition claimable_task :: "env \<Rightarrow> int \<Rightarrow> db \<Rightarrow> photo_task_row \<Rightarrow> bool" where
  "claimable_task env max_attempts d x \<longleftrightarrow> task_photo d x \<noteq> None \<and> task_attempt_count x < max_attempts
     \<and> ((task_status x \<in> {''queued'', ''failed''} \<and> task_available_at x \<le> now_at env) \<or> stale_task env x)"

definition task_precedes :: "photo_task_row \<Rightarrow> photo_task_row \<Rightarrow> bool" where
  "task_precedes a b \<longleftrightarrow> task_available_at a < task_available_at b
     \<or> (task_available_at a = task_available_at b \<and> (task_created_at a < task_created_at b
         \<or> (task_created_at a = task_created_at b \<and> \<not> string_less (task_pk b) (task_pk a))))"

record photo_claim =
  pc_id :: string
  pc_photo_id :: string
  pc_job_id :: string
  pc_organization_id :: string
  pc_task_type :: string
  pc_upload_mode :: string
  pc_object_key :: string
  pc_thumbnail_key :: string
  pc_attempt_count :: int

definition claimed_task :: "env \<Rightarrow> photo_task_row \<Rightarrow> photo_task_row" where
  "claimed_task env x = x\<lparr> task_status := ''processing'', task_attempt_count := task_attempt_count x + 1,
     task_last_attempt_at := Some (now_at env), task_updated_at := now_at env \<rparr>"

definition photo_claim_of :: "db \<Rightarrow> photo_task_row \<Rightarrow> photo_claim" where
  "photo_claim_of d x =
     (let p = the (task_photo d x) in
      \<lparr> pc_id = task_pk x, pc_photo_id = task_photo_id x, pc_job_id = task_job_id x,
        pc_organization_id = task_organization_id x, pc_task_type = task_type x,
        pc_upload_mode = photo_upload_mode p, pc_object_key = photo_object_key p,
        pc_thumbnail_key = the (photo_thumbnail_key p), pc_attempt_count = task_attempt_count x \<rparr>)"

definition batch_limit :: "int \<Rightarrow> nat" where
  "batch_limit limit = nat (min (max limit 1) 100)"

text \<open>\<open>WITH candidates AS (..) UPDATE .. RETURNING\<close>; a \<open>processing.id\<close> is a primary key.\<close>

definition claim_tasks :: "env \<Rightarrow> nat \<Rightarrow> int \<Rightarrow> (db, photo_claim list) statement" where
  "claim_tasks env limit max_attempts d =
     (let chosen = map task_pk (take limit (order_by task_precedes
            (filter (claimable_task env max_attempts d) (photo_tasks d))));
          rows = update_where (\<lambda>x. task_pk x \<in> set chosen) (claimed_task env) (photo_tasks d)
      in Inr (map (photo_claim_of d) (filter (\<lambda>x. task_pk x \<in> set chosen) rows), d\<lparr> photo_tasks := rows \<rparr>))"

definition claim_photo_processing_jobs :: "env \<Rightarrow> int \<Rightarrow> int \<Rightarrow> (db, photo_claim list) db_call" where
  "claim_photo_processing_jobs env limit max_attempts =
     db_bind (db_stmt (bury_tasks env max_attempts)) (\<lambda>_. db_stmt (claim_tasks env (batch_limit limit) max_attempts))"

definition update_claimed_task :: "string \<Rightarrow> (photo_task_row \<Rightarrow> photo_task_row) \<Rightarrow> (db, bool) statement" where
  "update_claimed_task i f d =
     (let hit = (\<lambda>x. task_pk x = i \<and> task_status x = ''processing'') in
      Inr (affected hit (photo_tasks d) = 1, d\<lparr> photo_tasks := update_where hit f (photo_tasks d) \<rparr>))"

definition mark_photo_processing_completed :: "env \<Rightarrow> string \<Rightarrow> (db, bool) db_call" where
  "mark_photo_processing_completed env i = db_stmt (update_claimed_task i (\<lambda>x.
     x\<lparr> task_status := ''completed'', task_completed_at := Some (now_at env), task_last_error := None,
        task_updated_at := now_at env \<rparr>))"

text \<open>
  \<open>saturating_sub\<close>, \<open>min\<close> and \<open>saturating_mul\<close> of \<open>i32\<close>. The attempt count is that of a claim, so at least 1;
  for less, \<open>exponent as u32\<close> would be no exponent.
\<close>

definition photo_processing_retry_delay_seconds :: "int \<Rightarrow> int" where
  "photo_processing_retry_delay_seconds attempt_count =
     (let exponent = min (max (attempt_count - 1) (- (2 ^ 31))) 5; delay = min (30 * 2 ^ nat exponent) (2 ^ 31 - 1)
      in min delay 900)"

definition mark_photo_processing_failed :: "env \<Rightarrow> string \<Rightarrow> int \<Rightarrow> int \<Rightarrow> string \<Rightarrow> (db, bool) db_call" where
  "mark_photo_processing_failed env i attempt_count max_attempts error = db_stmt (update_claimed_task i (\<lambda>x.
     x\<lparr> task_status := (if max_attempts \<le> attempt_count then ''dead_letter'' else ''failed''),
        task_last_error := Some (truncate_photo_processing_error error),
        task_available_at := now_at env + photo_processing_retry_delay_seconds attempt_count,
        task_updated_at := now_at env \<rparr>))"

section \<open>Objects to delete\<close>

definition stale_deletion :: "env \<Rightarrow> deletion_row \<Rightarrow> bool" where
  "stale_deletion env x \<longleftrightarrow> deletion_status x = ''processing'' \<and> deletion_updated_at x < now_at env - 600"

definition exhausted_deletion :: "env \<Rightarrow> int \<Rightarrow> deletion_row \<Rightarrow> bool" where
  "exhausted_deletion env max_attempts x \<longleftrightarrow> stale_deletion env x \<and> max max_attempts 1 \<le> deletion_attempt_count x"

definition bury_deletions :: "env \<Rightarrow> int \<Rightarrow> (db, unit) statement" where
  "bury_deletions env max_attempts d = Inr ((), d\<lparr> deletion_jobs := update_where (exhausted_deletion env max_attempts)
     (\<lambda>x. x\<lparr> deletion_status := ''dead_letter'', deletion_updated_at := now_at env \<rparr>) (deletion_jobs d) \<rparr>)"

definition claimable_deletion :: "env \<Rightarrow> int \<Rightarrow> deletion_row \<Rightarrow> bool" where
  "claimable_deletion env max_attempts x \<longleftrightarrow>
     ((deletion_status x \<in> {''queued'', ''failed''} \<and> deletion_available_at x \<le> now_at env) \<or> stale_deletion env x)
     \<and> deletion_attempt_count x < max max_attempts 1"

text \<open>Rows that agree in both times may come in any order; here in that of the table.\<close>

definition deletion_precedes :: "deletion_row \<Rightarrow> deletion_row \<Rightarrow> bool" where
  "deletion_precedes a b \<longleftrightarrow> deletion_available_at a < deletion_available_at b
     \<or> (deletion_available_at a = deletion_available_at b \<and> deletion_created_at a \<le> deletion_created_at b)"

record deletion_claim =
  dc_id :: string
  dc_object_key :: string
  dc_attempt_count :: int

definition claimed_deletion :: "env \<Rightarrow> deletion_row \<Rightarrow> deletion_row" where
  "claimed_deletion env x = x\<lparr> deletion_status := ''processing'',
     deletion_attempt_count := deletion_attempt_count x + 1, deletion_last_attempt_at := Some (now_at env),
     deletion_updated_at := now_at env \<rparr>"

definition deletion_claim_of :: "deletion_row \<Rightarrow> deletion_claim" where
  "deletion_claim_of x = \<lparr> dc_id = deletion_pk x, dc_object_key = deletion_object_key x,
     dc_attempt_count = deletion_attempt_count x \<rparr>"

definition claim_deletions :: "env \<Rightarrow> nat \<Rightarrow> int \<Rightarrow> (db, deletion_claim list) statement" where
  "claim_deletions env limit max_attempts d =
     (let chosen = map deletion_pk (take limit (order_by deletion_precedes
            (filter (claimable_deletion env max_attempts) (deletion_jobs d))));
          rows = update_where (\<lambda>x. deletion_pk x \<in> set chosen) (claimed_deletion env) (deletion_jobs d)
      in Inr (map deletion_claim_of (filter (\<lambda>x. deletion_pk x \<in> set chosen) rows), d\<lparr> deletion_jobs := rows \<rparr>))"

definition claim_photo_erasure_deletion_jobs :: "env \<Rightarrow> int \<Rightarrow> int \<Rightarrow> (db, deletion_claim list) db_call" where
  "claim_photo_erasure_deletion_jobs env limit max_attempts =
     db_bind (db_stmt (bury_deletions env max_attempts)) (\<lambda>_.
       db_stmt (claim_deletions env (batch_limit limit) max_attempts))"

definition update_claimed_deletion :: "string \<Rightarrow> (deletion_row \<Rightarrow> deletion_row) \<Rightarrow> (db, bool) statement" where
  "update_claimed_deletion i f d =
     (let hit = (\<lambda>x. deletion_pk x = i \<and> deletion_status x = ''processing'') in
      Inr (affected hit (deletion_jobs d) = 1, d\<lparr> deletion_jobs := update_where hit f (deletion_jobs d) \<rparr>))"

definition mark_photo_erasure_deletion_completed :: "env \<Rightarrow> string \<Rightarrow> (db, bool) db_call" where
  "mark_photo_erasure_deletion_completed env i = db_stmt (update_claimed_deletion i (\<lambda>x.
     x\<lparr> deletion_status := ''completed'', deletion_completed_at := Some (now_at env),
        deletion_last_error := None, deletion_updated_at := now_at env \<rparr>))"

definition deletion_retry_seconds :: "int \<Rightarrow> int" where
  "deletion_retry_seconds attempt_count = 30 * 2 ^ nat (min (attempt_count - 1) 7)"

definition mark_photo_erasure_deletion_failed :: "env \<Rightarrow> string \<Rightarrow> int \<Rightarrow> int \<Rightarrow> string \<Rightarrow> (db, bool) db_call" where
  "mark_photo_erasure_deletion_failed env i attempt_count max_attempts error =
     db_stmt (update_claimed_deletion i (\<lambda>x.
     x\<lparr> deletion_status := (if max max_attempts 1 \<le> attempt_count then ''dead_letter'' else ''failed''),
        deletion_available_at := now_at env + deletion_retry_seconds attempt_count,
        deletion_last_error := Some (take 2000 error), deletion_updated_at := now_at env \<rparr>))"

end
