(* ===== verification/Queue_Recovery.thy ===== *)
theory Queue_Recovery
  imports Work_Queues
begin

text \<open>
  The managers' side of the two queues: their history, and ordering a failed job to be tried again or to be
  taken as resolved (\<open>postgres_write.rs\<close>, \<open>postgres_privacy.rs\<close>, \<open>db.rs\<close>, the handlers in \<open>main.rs\<close>).
\<close>

section \<open>History\<close>

record processing_item =
  pi_task :: photo_task_row
  pi_photo_type :: string
  pi_file_name :: string

definition newest_task_first :: "photo_task_row \<Rightarrow> photo_task_row \<Rightarrow> bool" where
  "newest_task_first a b \<longleftrightarrow> task_created_at b < task_created_at a
     \<or> (task_created_at a = task_created_at b \<and> \<not> string_less (task_pk a) (task_pk b))"

definition processing_item_of :: "db \<Rightarrow> photo_task_row \<Rightarrow> processing_item option" where
  "processing_item_of d x = map_option (\<lambda>p. \<lparr> pi_task = x, pi_photo_type = photo_type p, pi_file_name = photo_file_name p \<rparr>)
     (lookup_by (\<lambda>p. photo_pk p = task_photo_id x) (job_photos d))"

definition task_matches :: "string list \<Rightarrow> string option \<Rightarrow> string option \<Rightarrow> db \<Rightarrow> photo_task_row \<Rightarrow> bool" where
  "task_matches orgs kind status d x \<longleftrightarrow> task_organization_id x \<in> set orgs
     \<and> if_given kind (\<lambda>k. task_type x = k) \<and> if_given status (\<lambda>s. task_status x = s)
     \<and> processing_item_of d x \<noteq> None"

definition list_photo_processing_history :: "string list \<Rightarrow> string option \<Rightarrow> string option \<Rightarrow> int \<Rightarrow>
    (db, processing_item list) db_call" where
  "list_photo_processing_history orgs kind status limit =
     (if orgs = [] then db_return []
      else db_select (\<lambda>d. map (\<lambda>x. the (processing_item_of d x)) (take (batch_limit limit)
        (order_by newest_task_first (filter (task_matches orgs kind status d) (photo_tasks d))))))"

definition photo_processing_history_by_id :: "string \<Rightarrow> string list \<Rightarrow> (db, processing_item option) db_call" where
  "photo_processing_history_by_id i orgs = db_map (lookup_by (\<lambda>x. task_pk (pi_task x) = i))
     (list_photo_processing_history orgs None None 100)"

definition newest_deletion_first :: "deletion_row \<Rightarrow> deletion_row \<Rightarrow> bool" where
  "newest_deletion_first a b \<longleftrightarrow> deletion_created_at b < deletion_created_at a
     \<or> (deletion_created_at a = deletion_created_at b \<and> \<not> string_less (deletion_pk a) (deletion_pk b))"

definition list_photo_erasure_deletion_history :: "string list \<Rightarrow> string option \<Rightarrow> int \<Rightarrow>
    (db, deletion_row list) db_call" where
  "list_photo_erasure_deletion_history orgs status limit =
     (if orgs = [] then db_return []
      else db_select (\<lambda>d. take (batch_limit limit) (order_by newest_deletion_first
        (filter (\<lambda>x. deletion_organization_id x \<in> set orgs \<and> if_given status (\<lambda>s. deletion_status x = s))
          (deletion_jobs d)))))"

definition photo_erasure_deletion_history_by_id :: "string \<Rightarrow> string list \<Rightarrow> (db, deletion_row option) db_call" where
  "photo_erasure_deletion_history_by_id i orgs = db_map (lookup_by (\<lambda>x. deletion_pk x = i))
     (list_photo_erasure_deletion_history orgs None 100)"

section \<open>Recovery\<close>

datatype 'h recovery = Recovered 'h | NotRecoverable | RecoveryNotFound | RecoveryUnavailable

text \<open>
  The four recoveries have one shape: the status and organization of the row are read for update, only a
  failed or dead row is changed and audited, and the row is read back from the history.
\<close>

definition recover_job :: "string list \<Rightarrow> (db \<Rightarrow> (string \<times> string) option) \<Rightarrow> (db, unit) statement \<Rightarrow>
    (string \<Rightarrow> audit_row) \<Rightarrow> (db, 'h option) db_call \<Rightarrow> (db, 'h recovery) db_call" where
  "recover_job orgs current change audit reread =
     (if orgs = [] then db_return RecoveryNotFound
      else db_bind (db_transaction
          (db_bind (db_select current) (\<lambda>found. case found of
              None \<Rightarrow> db_return (Rollback (Some RecoveryNotFound))
            | Some (status, organization) \<Rightarrow>
                if status \<notin> {''failed'', ''dead_letter''} then db_return (Rollback (Some NotRecoverable))
                else db_bind (db_stmt change) (\<lambda>_.
                  db_bind (db_stmt (append_audit (audit organization))) (\<lambda>_.
                  db_return (Commit None))))))
        (\<lambda>refused. case refused of
            Some r \<Rightarrow> db_return r
          | None \<Rightarrow> db_map (\<lambda>item. case item of Some h \<Rightarrow> Recovered h | None \<Rightarrow> RecoveryNotFound) reread))"

definition own_task :: "string \<Rightarrow> string list \<Rightarrow> db \<Rightarrow> (string \<times> string) option" where
  "own_task i orgs d = map_option (\<lambda>x. (task_status x, task_organization_id x))
     (lookup_by (\<lambda>x. task_pk x = i \<and> task_organization_id x \<in> set orgs) (photo_tasks d))"

definition set_task :: "string \<Rightarrow> (photo_task_row \<Rightarrow> photo_task_row) \<Rightarrow> (db, unit) statement" where
  "set_task i f d = Inr ((), d\<lparr> photo_tasks := update_where (\<lambda>x. task_pk x = i) f (photo_tasks d) \<rparr>)"

definition retried_task :: "env \<Rightarrow> photo_task_row \<Rightarrow> photo_task_row" where
  "retried_task env x = x\<lparr> task_status := ''queued'', task_attempt_count := 0, task_available_at := now_at env,
     task_last_attempt_at := None, task_completed_at := None, task_resolved_at := None, task_last_error := None,
     task_resolution_note := None, task_updated_at := now_at env \<rparr>"

definition retry_photo_processing_job :: "env \<Rightarrow> string \<Rightarrow> string list \<Rightarrow> string \<Rightarrow>
    (db, processing_item recovery) db_call" where
  "retry_photo_processing_job env i orgs actor =
     recover_job orgs (own_task i orgs) (set_task i (retried_task env))
       (\<lambda>organization. privacy_audit_row env 0 actor organization ''photo_processing_retried'' i)
       (photo_processing_history_by_id i orgs)"

definition resolution_note :: "string option \<Rightarrow> string" where
  "resolution_note reason =
     take 500 (case reason of None \<Rightarrow> ''Manually resolved by manager''
       | Some r \<Rightarrow> if trim r = [] then ''Manually resolved by manager'' else trim r)"

definition resolved_task :: "env \<Rightarrow> string option \<Rightarrow> photo_task_row \<Rightarrow> photo_task_row" where
  "resolved_task env reason x = x\<lparr> task_status := ''resolved'', task_resolved_at := Some (now_at env),
     task_resolution_note := Some (resolution_note reason), task_updated_at := now_at env \<rparr>"

definition resolve_photo_processing_job :: "env \<Rightarrow> string \<Rightarrow> string list \<Rightarrow> string \<Rightarrow> string option \<Rightarrow>
    (db, processing_item recovery) db_call" where
  "resolve_photo_processing_job env i orgs actor reason =
     recover_job orgs (own_task i orgs) (set_task i (resolved_task env reason))
       (\<lambda>organization. privacy_audit_row env 0 actor organization ''photo_processing_resolved'' i)
       (photo_processing_history_by_id i orgs)"

definition own_deletion :: "string \<Rightarrow> string list \<Rightarrow> db \<Rightarrow> (string \<times> string) option" where
  "own_deletion i orgs d = map_option (\<lambda>x. (deletion_status x, deletion_organization_id x))
     (lookup_by (\<lambda>x. deletion_pk x = i \<and> deletion_organization_id x \<in> set orgs) (deletion_jobs d))"

definition set_deletion :: "string \<Rightarrow> (deletion_row \<Rightarrow> deletion_row) \<Rightarrow> (db, unit) statement" where
  "set_deletion i f d = Inr ((), d\<lparr> deletion_jobs := update_where (\<lambda>x. deletion_pk x = i) f (deletion_jobs d) \<rparr>)"

definition retried_deletion :: "env \<Rightarrow> deletion_row \<Rightarrow> deletion_row" where
  "retried_deletion env x = x\<lparr> deletion_status := ''queued'', deletion_attempt_count := 0,
     deletion_available_at := now_at env, deletion_last_attempt_at := None, deletion_completed_at := None,
     deletion_resolved_at := None, deletion_last_error := None, deletion_resolution_note := None,
     deletion_updated_at := now_at env \<rparr>"

definition retry_photo_erasure_deletion_job :: "env \<Rightarrow> string \<Rightarrow> string list \<Rightarrow> string \<Rightarrow>
    (db, deletion_row recovery) db_call" where
  "retry_photo_erasure_deletion_job env i orgs actor =
     recover_job orgs (own_deletion i orgs) (set_deletion i (retried_deletion env))
       (\<lambda>organization. privacy_audit_row env 0 actor organization ''photo_erasure_deletion_retried'' i)
       (photo_erasure_deletion_history_by_id i orgs)"

definition resolved_deletion :: "env \<Rightarrow> string option \<Rightarrow> deletion_row \<Rightarrow> deletion_row" where
  "resolved_deletion env reason x = x\<lparr> deletion_status := ''resolved'', deletion_resolved_at := Some (now_at env),
     deletion_resolution_note := Some (resolution_note reason), deletion_updated_at := now_at env \<rparr>"

definition resolve_photo_erasure_deletion_job :: "env \<Rightarrow> string \<Rightarrow> string list \<Rightarrow> string \<Rightarrow> string option \<Rightarrow>
    (db, deletion_row recovery) db_call" where
  "resolve_photo_erasure_deletion_job env i orgs actor reason =
     recover_job orgs (own_deletion i orgs) (set_deletion i (resolved_deletion env reason))
       (\<lambda>organization. privacy_audit_row env 0 actor organization ''photo_erasure_deletion_resolved'' i)
       (photo_erasure_deletion_history_by_id i orgs)"

section \<open>The repository\<close>

text \<open>Without persistence, and after any failed statement, the answer is \<open>Unavailable\<close>, and then \<open>503\<close>.\<close>

definition or_recovery_unavailable :: "bool \<Rightarrow> (db, 'h recovery) db_call \<Rightarrow> (db, 'h recovery) db_call" where
  "or_recovery_unavailable pool m =
     (if pool then db_catch m (\<lambda>_. db_return RecoveryUnavailable) db_return else db_return RecoveryUnavailable)"

definition loaded_or_unavailable :: "bool \<Rightarrow> (db, 'a) db_call \<Rightarrow> (db, 'a resource_read) db_call" where
  "loaded_or_unavailable pool m = (if pool
     then db_catch m (\<lambda>_. db_return ResourceUnavailable) (\<lambda>a. db_return (ResourceLoaded a))
     else db_return ResourceUnavailable)"

definition claim_photo_processing_batch :: "env \<Rightarrow> bool \<Rightarrow> int \<Rightarrow> int \<Rightarrow> (db, photo_claim list resource_read) db_call" where
  "claim_photo_processing_batch env pool limit max_attempts =
     loaded_or_unavailable pool (claim_photo_processing_jobs env limit max_attempts)"

definition repo_mark_photo_processing_completed :: "env \<Rightarrow> bool \<Rightarrow> string \<Rightarrow> (db, bool resource_read) db_call" where
  "repo_mark_photo_processing_completed env pool i =
     loaded_or_unavailable pool (mark_photo_processing_completed env i)"

definition repo_mark_photo_processing_failed :: "env \<Rightarrow> bool \<Rightarrow> string \<Rightarrow> int \<Rightarrow> int \<Rightarrow> string \<Rightarrow>
    (db, bool resource_read) db_call" where
  "repo_mark_photo_processing_failed env pool i attempt_count max_attempts error =
     loaded_or_unavailable pool (mark_photo_processing_failed env i attempt_count max_attempts error)"

definition repo_list_photo_processing_history :: "bool \<Rightarrow> string list \<Rightarrow> string option \<Rightarrow> string option \<Rightarrow> int \<Rightarrow>
    (db, processing_item list resource_read) db_call" where
  "repo_list_photo_processing_history pool orgs kind status limit =
     loaded_or_unavailable pool (list_photo_processing_history orgs kind status limit)"

definition repo_retry_photo_processing_job :: "env \<Rightarrow> bool \<Rightarrow> string \<Rightarrow> string list \<Rightarrow> string \<Rightarrow>
    (db, processing_item recovery) db_call" where
  "repo_retry_photo_processing_job env pool i orgs actor =
     or_recovery_unavailable pool (retry_photo_processing_job env i orgs actor)"

definition repo_resolve_photo_processing_job :: "env \<Rightarrow> bool \<Rightarrow> string \<Rightarrow> string list \<Rightarrow> string \<Rightarrow> string option \<Rightarrow>
    (db, processing_item recovery) db_call" where
  "repo_resolve_photo_processing_job env pool i orgs actor reason =
     or_recovery_unavailable pool (resolve_photo_processing_job env i orgs actor reason)"

definition claim_photo_erasure_deletion_batch :: "env \<Rightarrow> bool \<Rightarrow> int \<Rightarrow> int \<Rightarrow> (db, deletion_claim list resource_read) db_call" where
  "claim_photo_erasure_deletion_batch env pool limit max_attempts =
     loaded_or_unavailable pool (claim_photo_erasure_deletion_jobs env limit max_attempts)"

definition repo_mark_photo_erasure_deletion_completed :: "env \<Rightarrow> bool \<Rightarrow> string \<Rightarrow> (db, bool resource_read) db_call" where
  "repo_mark_photo_erasure_deletion_completed env pool i =
     loaded_or_unavailable pool (mark_photo_erasure_deletion_completed env i)"

definition repo_mark_photo_erasure_deletion_failed :: "env \<Rightarrow> bool \<Rightarrow> string \<Rightarrow> int \<Rightarrow> int \<Rightarrow> string \<Rightarrow>
    (db, bool resource_read) db_call" where
  "repo_mark_photo_erasure_deletion_failed env pool i attempt_count max_attempts error =
     loaded_or_unavailable pool (mark_photo_erasure_deletion_failed env i attempt_count max_attempts error)"

definition repo_list_photo_erasure_deletion_history :: "bool \<Rightarrow> string list \<Rightarrow> string option \<Rightarrow> int \<Rightarrow>
    (db, deletion_row list resource_read) db_call" where
  "repo_list_photo_erasure_deletion_history pool orgs status limit =
     loaded_or_unavailable pool (list_photo_erasure_deletion_history orgs status limit)"

definition repo_retry_photo_erasure_deletion_job :: "env \<Rightarrow> bool \<Rightarrow> string \<Rightarrow> string list \<Rightarrow> string \<Rightarrow>
    (db, deletion_row recovery) db_call" where
  "repo_retry_photo_erasure_deletion_job env pool i orgs actor =
     or_recovery_unavailable pool (retry_photo_erasure_deletion_job env i orgs actor)"

definition repo_resolve_photo_erasure_deletion_job :: "env \<Rightarrow> bool \<Rightarrow> string \<Rightarrow> string list \<Rightarrow> string \<Rightarrow> string option \<Rightarrow>
    (db, deletion_row recovery) db_call" where
  "repo_resolve_photo_erasure_deletion_job env pool i orgs actor reason =
     or_recovery_unavailable pool (resolve_photo_erasure_deletion_job env i orgs actor reason)"

lemmas queue_repo_defs = claim_photo_processing_batch_def repo_mark_photo_processing_completed_def
  repo_mark_photo_processing_failed_def repo_list_photo_processing_history_def repo_retry_photo_processing_job_def
  repo_resolve_photo_processing_job_def claim_photo_erasure_deletion_batch_def
  repo_mark_photo_erasure_deletion_completed_def repo_mark_photo_erasure_deletion_failed_def
  repo_list_photo_erasure_deletion_history_def repo_retry_photo_erasure_deletion_job_def
  repo_resolve_photo_erasure_deletion_job_def

section \<open>Handlers\<close>

definition with_organizations :: "bool \<Rightarrow> auth_principal \<Rightarrow> (string list \<Rightarrow> (db, 'a http_response) db_call) \<Rightarrow>
    (db, 'a http_response) db_call" where
  "with_organizations pool user k = db_bind (principal_active_organization_ids pool (principal_subject user))
     (\<lambda>ids. case ids of
         None \<Rightarrow> db_return (refuse (persisted_resource_unavailable_response
           ''organization_memberships_unavailable'' ''Active organization memberships could not be loaded.''))
       | Some orgs \<Rightarrow> k orgs)"

definition recovery_reply :: "string \<times> string \<Rightarrow> string \<times> string \<Rightarrow> string \<times> string \<Rightarrow> 'h recovery \<Rightarrow> 'h http_response" where
  "recovery_reply conflict missing unavailable res = (case res of
       Recovered h \<Rightarrow> Answer 200 h
     | NotRecoverable \<Rightarrow> Problem 409 (fst conflict) (snd conflict)
     | RecoveryNotFound \<Rightarrow> Problem 404 (fst missing) (snd missing)
     | RecoveryUnavailable \<Rightarrow> Problem 503 (fst unavailable) (snd unavailable))"

definition handle_retry_processing :: "env \<Rightarrow> bool \<Rightarrow> auth_principal \<Rightarrow> string \<Rightarrow>
    (db, processing_item http_response) db_call" where
  "handle_retry_processing env pool user i = with_organizations pool user (\<lambda>orgs.
     db_map (recovery_reply
         (''photo_processing_not_retryable'', ''Only failed or dead-letter photo processing jobs can be retried.'')
         (''photo_processing_job_not_found'', ''The requested photo processing job was not found.'')
         (''photo_processing_retry_unavailable'', ''Photo processing retry requires database persistence.''))
       (repo_retry_photo_processing_job env pool i orgs (principal_subject user)))"

definition normalize_notification_resolution_reason :: "string option \<Rightarrow> unit + string option" where
  "normalize_notification_resolution_reason reason = (case reason of
       None \<Rightarrow> Inr None
     | Some r \<Rightarrow> if trim r = [] then Inr None
         else if 1000 < length (trim r) then Inl () else Inr (Some (trim r)))"

definition handle_resolve_processing :: "env \<Rightarrow> bool \<Rightarrow> auth_principal \<Rightarrow> string \<Rightarrow> string option \<Rightarrow>
    (db, processing_item http_response) db_call" where
  "handle_resolve_processing env pool user i given = (case normalize_notification_resolution_reason given of
       Inl _ \<Rightarrow> db_return (Problem 400 ''invalid_photo_processing_resolution_reason''
         ''Resolution reason cannot exceed 1000 characters.'')
     | Inr reason \<Rightarrow> with_organizations pool user (\<lambda>orgs.
     db_map (recovery_reply
         (''photo_processing_not_resolvable'',
          ''Only failed or dead-letter photo processing jobs can be manually resolved.'')
         (''photo_processing_job_not_found'', ''The requested photo processing job was not found.'')
         (''photo_processing_resolution_unavailable'', ''Photo processing resolution requires database persistence.''))
       (repo_resolve_photo_processing_job env pool i orgs (principal_subject user) reason)))"

definition handle_retry_deletion :: "env \<Rightarrow> bool \<Rightarrow> auth_principal \<Rightarrow> string \<Rightarrow>
    (db, deletion_row http_response) db_call" where
  "handle_retry_deletion env pool user i = with_organizations pool user (\<lambda>orgs.
     db_map (recovery_reply
         (''photo_erasure_deletion_not_retryable'', ''Only failed or dead-letter deletion jobs can be retried.'')
         (''photo_erasure_deletion_job_not_found'', ''The requested photo erasure deletion job was not found.'')
         (''photo_erasure_deletion_retry_unavailable'',
          ''Photo erasure deletion retry requires database persistence.''))
       (repo_retry_photo_erasure_deletion_job env pool i orgs (principal_subject user)))"

definition handle_resolve_deletion :: "env \<Rightarrow> bool \<Rightarrow> auth_principal \<Rightarrow> string \<Rightarrow> string option \<Rightarrow>
    (db, deletion_row http_response) db_call" where
  "handle_resolve_deletion env pool user i given = (case normalize_notification_resolution_reason given of
       Inl _ \<Rightarrow> db_return (Problem 400 ''invalid_photo_erasure_deletion_resolution_reason''
         ''Resolution reason cannot exceed 1000 characters.'')
     | Inr reason \<Rightarrow> with_organizations pool user (\<lambda>orgs.
     db_map (recovery_reply
         (''photo_erasure_deletion_not_resolvable'', ''Only failed or dead-letter deletion jobs can be resolved.'')
         (''photo_erasure_deletion_job_not_found'', ''The requested photo erasure deletion job was not found.'')
         (''photo_erasure_deletion_resolution_unavailable'',
          ''Photo erasure deletion resolution requires database persistence.''))
       (repo_resolve_photo_erasure_deletion_job env pool i orgs (principal_subject user) reason)))"

definition queue_statuses :: "string list" where
  "queue_statuses = [''queued'', ''processing'', ''completed'', ''failed'', ''dead_letter'', ''resolved'']"

definition history_limit :: "int option \<Rightarrow> string + int" where
  "history_limit limit = (let n = some_or limit 25 in
     if 1 \<le> n \<and> n \<le> 100 then Inr n else Inl ''limit must be between 1 and 100'')"

text \<open>\<open>photo_processing_history_filter\<close>.\<close>

definition photo_processing_history_filter :: "string option \<Rightarrow> string option \<Rightarrow> int option \<Rightarrow> string + int" where
  "photo_processing_history_filter kind status limit =
     (if \<not> if_given kind (\<lambda>k. k = ''thumbnail_generation'')
      then Inl ''task_type must be thumbnail_generation when provided''
      else if \<not> if_given status (\<lambda>s. s \<in> set queue_statuses)
      then Inl ''status must be queued, processing, completed, failed, dead_letter, or resolved''
      else history_limit limit)"

definition history_reply :: "string \<times> string \<Rightarrow> 'h resource_read \<Rightarrow> 'h http_response" where
  "history_reply unavailable res = (case res of
       ResourceLoaded items \<Rightarrow> Answer 200 items
     | _ \<Rightarrow> Problem 503 (fst unavailable) (snd unavailable))"

definition handle_processing_history :: "bool \<Rightarrow> auth_principal \<Rightarrow> string option \<Rightarrow> string option \<Rightarrow> int option \<Rightarrow>
    (db, processing_item list http_response) db_call" where
  "handle_processing_history pool user kind status limit = (case photo_processing_history_filter kind status limit of
       Inl message \<Rightarrow> db_return (Problem 400 ''invalid_photo_processing_history_filter'' message)
     | Inr n \<Rightarrow> with_organizations pool user (\<lambda>orgs.
         db_map (history_reply (''photo_processing_history_unavailable'',
             ''Photo processing history could not be loaded from persistence.''))
           (repo_list_photo_processing_history pool orgs kind status n)))"

definition handle_deletion_history :: "bool \<Rightarrow> auth_principal \<Rightarrow> string option \<Rightarrow> int option \<Rightarrow>
    (db, deletion_row list http_response) db_call" where
  "handle_deletion_history pool user status limit =
     (if \<not> if_given status (\<lambda>s. s \<in> set queue_statuses)
      then db_return (Problem 400 ''invalid_photo_erasure_deletion_filter''
        ''status must be queued, processing, completed, failed, dead_letter, or resolved'')
      else case history_limit limit of
          Inl message \<Rightarrow> db_return (Problem 400 ''invalid_photo_erasure_deletion_filter'' message)
        | Inr n \<Rightarrow> with_organizations pool user (\<lambda>orgs.
            db_map (history_reply (''photo_erasure_deletion_history_unavailable'',
                ''Photo erasure deletion history could not be loaded from persistence.''))
              (repo_list_photo_erasure_deletion_history pool orgs status n)))"

end
