(* ===== verification/Photo_Worker.thy ===== *)
theory Photo_Worker
  imports Queue_Recovery
begin

text \<open>
  The worker of the two queues (\<open>backend/src/photo_processing.rs\<close>): its configuration and one cycle, which
  claims a batch of each queue, does the work and reports every claim as applied or stale.
\<close>

section \<open>Configuration\<close>

record worker_settings =
  ws_poll_seconds :: u64
  ws_batch_size :: int
  ws_max_attempts :: int

datatype worker_config = Disabled | Enabled worker_settings

definition parse_u64 :: "string \<Rightarrow> u64 option" where
  "parse_u64 s =
     (let ds = (case s of [] \<Rightarrow> [] | c # t \<Rightarrow> if c = CHR ''+'' then t else s) in
      if ds = [] \<or> \<not> list_all is_ascii_digit ds \<or> 2 ^ 64 \<le> digits_value ds then None
      else Some (word_of_nat (digits_value ds)))"

definition parse_positive_env :: "environment \<Rightarrow> string \<Rightarrow> u64 \<Rightarrow> string + u64" where
  "parse_positive_env vars name fallback = (case vars name of
       None \<Rightarrow> Inr fallback
     | Some v \<Rightarrow> (case parse_u64 v of
           None \<Rightarrow> Inl (name @ '' must be a positive integer'')
         | Some n \<Rightarrow> if n = 0 then Inl (name @ '' must be greater than zero'') else Inr n))"

text \<open>\<open>as i64\<close> and \<open>as i32\<close>.\<close>

definition worker_from_env :: "environment \<Rightarrow> string + worker_config" where
  "worker_from_env vars =
     (let mode = some_or (vars ''PHOTO_PROCESSING_WORKER_MODE'') ''disabled'' in
      if mode = ''disabled'' then Inr Disabled
      else if mode \<noteq> ''enabled'' \<and> mode \<noteq> ''thumbnail''
      then Inl (''unsupported PHOTO_PROCESSING_WORKER_MODE: '' @ mode)
      else case parse_positive_env vars ''PHOTO_PROCESSING_POLL_SECONDS'' 10 of Inl e \<Rightarrow> Inl e | Inr poll \<Rightarrow>
        (case parse_positive_env vars ''PHOTO_PROCESSING_BATCH_SIZE'' 5 of Inl e \<Rightarrow> Inl e | Inr batch \<Rightarrow>
        (case parse_positive_env vars ''PHOTO_PROCESSING_MAX_ATTEMPTS'' 5 of Inl e \<Rightarrow> Inl e | Inr attempts \<Rightarrow>
          Inr (Enabled \<lparr> ws_poll_seconds = poll, ws_batch_size = sint batch,
            ws_max_attempts = sint (ucast attempts :: 32 word) \<rparr>))))"

text \<open>What starting the worker checks; then it runs cycles for ever.\<close>

definition start_photo_processing_worker :: "bool \<Rightarrow> photo_storage_config \<Rightarrow> worker_config \<Rightarrow>
    string + worker_settings option" where
  "start_photo_processing_worker pool storage config = (case config of
       Disabled \<Rightarrow> Inr None
     | Enabled s \<Rightarrow>
         if \<not> pool then Inl ''photo processing worker requires DATABASE_URL''
         else if storage = Local_Storage then Inl ''photo processing worker requires PHOTO_STORAGE_MODE=s3''
         else Inr (Some s))"

section \<open>One cycle\<close>

record cycle_result =
  cy_claimed :: nat
  cy_finalized :: nat
  cy_stale :: nat

text \<open>The flag that a finalization could not be made, beside the counts.\<close>

type_synonym progress = "bool \<times> cycle_result"

definition record_finalization :: "bool resource_read \<Rightarrow> progress \<Rightarrow> progress" where
  "record_finalization outcome acc = (case acc of (unavailable, r) \<Rightarrow>
     (case outcome of
        ResourceLoaded True \<Rightarrow> (unavailable, r\<lparr> cy_finalized := cy_finalized r + 1 \<rparr>)
      | ResourceLoaded False \<Rightarrow> (unavailable, r\<lparr> cy_stale := cy_stale r + 1 \<rparr>)
      | ResourceNotFound \<Rightarrow> (unavailable, r\<lparr> cy_stale := cy_stale r + 1 \<rparr>)
      | ResourceUnavailable \<Rightarrow> (True, r)))"

text \<open>
  Time passes between the steps of a cycle and the store may answer differently each time, so that step \<open>k\<close>
  has a clock and a store of its own.
\<close>

type_synonym world = "nat \<Rightarrow> env \<times> object_store"

definition finalize_thumbnail :: "env \<Rightarrow> object_store \<Rightarrow> bool \<Rightarrow> int \<Rightarrow> photo_claim \<Rightarrow> (db, bool resource_read) db_call" where
  "finalize_thumbnail env store pool max_attempts c =
     (if pc_task_type c \<noteq> ''thumbnail_generation''
      then repo_mark_photo_processing_failed env pool (pc_id c) (pc_attempt_count c) max_attempts
        ''unsupported_photo_processing_task''
      else if make_thumbnail env store (pc_upload_mode c) (pc_object_key c) (pc_thumbnail_key c)
      then repo_mark_photo_processing_completed env pool (pc_id c)
      else repo_mark_photo_processing_failed env pool (pc_id c) (pc_attempt_count c) max_attempts
        ''thumbnail_generation_failed'')"

definition finalize_deletion :: "env \<Rightarrow> object_store \<Rightarrow> bool \<Rightarrow> int \<Rightarrow> deletion_claim \<Rightarrow> (db, bool resource_read) db_call" where
  "finalize_deletion env store pool max_attempts c =
     (if snd (storage_delete_objects (os_digests store) env (os_http store) (os_config store) [dc_object_key c]) = []
      then repo_mark_photo_erasure_deletion_completed env pool (dc_id c)
      else repo_mark_photo_erasure_deletion_failed env pool (dc_id c) (dc_attempt_count c)
        max_attempts ''photo_object_deletion_failed'')"

fun finalize_all :: "(env \<Rightarrow> object_store \<Rightarrow> 'c \<Rightarrow> (db, bool resource_read) db_call) \<Rightarrow> world \<Rightarrow> nat \<Rightarrow> 'c list \<Rightarrow>
    progress \<Rightarrow> (db, progress) db_call" where
  "finalize_all finalize w k [] acc = db_return acc"
| "finalize_all finalize w k (c # cs) acc =
     db_bind (finalize (fst (w k)) (snd (w k)) c) (\<lambda>outcome.
       finalize_all finalize w (k + 1) cs (record_finalization outcome acc))"

definition work_off :: "world \<Rightarrow> bool \<Rightarrow> int \<Rightarrow> photo_claim list \<Rightarrow> deletion_claim list \<Rightarrow>
    (db, cycle_result resource_read) db_call" where
  "work_off w pool max_attempts claims deletions =
     db_bind (finalize_all (\<lambda>env store. finalize_thumbnail env store pool max_attempts) w 2 claims
        (False, \<lparr> cy_claimed = length claims + length deletions, cy_finalized = 0, cy_stale = 0 \<rparr>)) (\<lambda>acc.
     db_map (\<lambda>(unavailable, r). if unavailable then ResourceUnavailable else ResourceLoaded r)
       (finalize_all (\<lambda>env store. finalize_deletion env store pool max_attempts) w (2 + length claims) deletions acc))"

definition process_photo_processing_once :: "world \<Rightarrow> bool \<Rightarrow> int \<Rightarrow> int \<Rightarrow> (db, cycle_result resource_read) db_call" where
  "process_photo_processing_once w pool batch_size max_attempts =
     db_bind (claim_photo_processing_batch (fst (w 0)) pool batch_size max_attempts) (\<lambda>res.
       case res of
         ResourceLoaded claims \<Rightarrow>
           db_bind (claim_photo_erasure_deletion_batch (fst (w 1)) pool batch_size max_attempts)
             (\<lambda>res'. case res' of
                ResourceLoaded deletions \<Rightarrow> work_off w pool max_attempts claims deletions
              | _ \<Rightarrow> db_return ResourceUnavailable)
       | _ \<Rightarrow> db_return ResourceUnavailable)"

text \<open>The loop of the worker, over the worlds of its cycles: what each cycle reported.\<close>

fun worker_cycles :: "world list \<Rightarrow> bool \<Rightarrow> int \<Rightarrow> int \<Rightarrow> (db, cycle_result resource_read list) db_call" where
  "worker_cycles [] pool batch_size max_attempts = db_return []"
| "worker_cycles (w # ws) pool batch_size max_attempts =
     db_bind (process_photo_processing_once w pool batch_size max_attempts) (\<lambda>r.
       db_map (\<lambda>rs. r # rs) (worker_cycles ws pool batch_size max_attempts))"

end
