(* ===== verification/Queue_Facts.thy ===== *)
theory Queue_Facts
  imports Photo_Worker
begin

text \<open>
  The life cycle of a job in either queue, as an abstract transition relation on its status and attempts,
  and the operations of both queues as steps of it. The contract of a claim is the locale \<open>leased_queue\<close>:
  every claim is paid for by an attempt.
\<close>

section \<open>The abstract life cycle\<close>

type_synonym work_state = "string \<times> int"

inductive work_step :: "int \<Rightarrow> work_state \<Rightarrow> work_state \<Rightarrow> bool" for M where
  claim: "s \<in> {''queued'', ''failed'', ''processing''} \<Longrightarrow> n < M \<Longrightarrow> work_step M (s, n) (''processing'', n + 1)"
| complete: "work_step M (''processing'', n) (''completed'', n)"
| fail: "work_step M (''processing'', n) (''failed'', n)"
| bury: "s \<in> {''failed'', ''processing''} \<Longrightarrow> work_step M (s, n) (''dead_letter'', n)"
| requeue: "s \<noteq> ''completed'' \<Longrightarrow> work_step M (s, n) (''queued'', n)"
| retry: "s \<in> {''failed'', ''dead_letter''} \<Longrightarrow> work_step M (s, n) (''queued'', 0)"
| resolve: "s \<in> {''failed'', ''dead_letter''} \<Longrightarrow> work_step M (s, n) (''resolved'', n)"

inductive_cases work_stepE: "work_step M s t"

lemma work_step_mono: "work_step M s t \<Longrightarrow> M \<le> M' \<Longrightarrow> work_step M' s t"
  by (erule work_step.cases) (auto intro: work_step.intros)

text \<open>A state a row can have: a status of the table and a count within the limit.\<close>

definition work_state_ok :: "int \<Rightarrow> work_state \<Rightarrow> bool" where
  "work_state_ok M s \<longleftrightarrow> fst s \<in> set queue_statuses \<and> 0 \<le> snd s \<and> snd s \<le> M"

lemma work_step_ok: "work_step M s t \<Longrightarrow> work_state_ok M s \<Longrightarrow> 0 \<le> M \<Longrightarrow> work_state_ok M t"
  by (erule work_stepE) (auto simp: work_state_ok_def queue_statuses_def)

lemma work_steps_ok: "(work_step M)\<^sup>*\<^sup>* s t \<Longrightarrow> work_state_ok M s \<Longrightarrow> 0 \<le> M \<Longrightarrow> work_state_ok M t"
  by (induction rule: rtranclp_induct) (auto intro: work_step_ok)

section \<open>Attempts left\<close>

definition attempts_left :: "int \<Rightarrow> int list \<Rightarrow> nat" where
  "attempts_left M counts = sum_list (map (\<lambda>n. nat (M - n)) counts)"

lemma claims_spend:
  assumes "\<And>x. x \<in> set rows \<Longrightarrow> P x \<Longrightarrow> tries x < M" and "\<And>x. tries (f x) = tries x + 1"
  shows "attempts_left M (map tries (update_where P f rows)) + length (filter P rows) = attempts_left M (map tries rows)"
  using assms(1)
proof (induction rows)
  case (Cons x rows)
  then have "attempts_left M (map tries (update_where P f rows)) + length (filter P rows) = attempts_left M (map tries rows)"
    by simp
  moreover have "nat (M - tries x) = Suc (nat (M - (tries x + 1)))" if "P x"
    using Cons.prems [of x] that by simp
  ultimately show ?case using assms(2) by (simp add: attempts_left_def)
qed (simp add: attempts_left_def)

lemma chosen_rows:
  assumes "distinct (map key rows)" and "x \<in> set rows"
    and "key x \<in> set (map key (take limit (order_by precedes (filter P rows))))"
  shows "P x"
proof -
  obtain y where "y \<in> set (take limit (order_by precedes (filter P rows)))" "key y = key x"
    using assms(3) by auto
  then have "y \<in> set rows" "P y" "key y = key x" by (auto dest!: in_set_takeD)
  then show ?thesis using assms(1,2) by (metis distinct_map inj_onD)
qed

lemma chosen_spend:
  fixes precedes :: "'r \<Rightarrow> 'r \<Rightarrow> bool" and n :: nat and P key rows
  defines "hit \<equiv> \<lambda>x. key x \<in> set (map key (take n (order_by precedes (filter P rows))))"
  assumes "distinct (map key rows)" and "\<And>x. P x \<Longrightarrow> tries x < M"
    and "\<And>x. tries (f x) = tries x + 1" and "\<And>x. key (f x) = key x"
  shows "attempts_left M (map tries (update_where hit f rows)) + length (filter hit (update_where hit f rows))
    = attempts_left M (map tries rows)"
proof -
  have "hit (f x) = hit x" for x using assms(5) by (simp add: hit_def)
  then have "length (filter hit (update_where hit f rows)) = length (filter hit rows)"
    by (simp add: update_where_def filter_map comp_def if_distrib cong: if_cong)
  moreover have "attempts_left M (map tries (update_where hit f rows)) + length (filter hit rows)
      = attempts_left M (map tries rows)"
  proof (rule claims_spend)
    fix x
    assume "x \<in> set rows" "hit x"
    then have "P x" unfolding hit_def by (rule chosen_rows [OF assms(2)])
    then show "tries x < M" by (rule assms(3))
  qed (rule assms(4))
  ultimately show ?thesis by simp
qed

locale leased_queue =
  fixes rows :: "db \<Rightarrow> 'r list" and key :: "'r \<Rightarrow> string" and tries :: "'r \<Rightarrow> int"
    and claim :: "env \<Rightarrow> int \<Rightarrow> int \<Rightarrow> (db, 'c list) db_call" and limit :: "int \<Rightarrow> int"
  assumes claim_spends: "claim env batch M (fs, d) = (Inr cs, (fs', d')) \<Longrightarrow> distinct (map key (rows d)) \<Longrightarrow>
      attempts_left (limit M) (map tries (rows d')) + length cs = attempts_left (limit M) (map tries (rows d))"
    and failed_claim: "claim env batch M (fs, d) = (Inl e, (fs', d')) \<Longrightarrow> map tries (rows d') = map tries (rows d)"
    and claim_keys: "claim env batch M (fs, d) = (r, (fs', d')) \<Longrightarrow> map key (rows d') = map key (rows d)"
begin

definition left :: "int \<Rightarrow> db \<Rightarrow> nat" where
  "left M d = attempts_left (limit M) (map tries (rows d))"

definition keyed :: "db \<Rightarrow> bool" where
  "keyed d \<longleftrightarrow> distinct (map key (rows d))"

text \<open>The same through the repository, which turns a failure into \<open>Unavailable\<close>.\<close>

lemma repo_claim_spends:
  assumes "loaded_or_unavailable pool (claim env batch M) (fs, d) = (Inr res, (fs', d'))" and "keyed d"
  shows "left M d' + (case res of ResourceLoaded cs \<Rightarrow> length cs | _ \<Rightarrow> 0) = left M d \<and> keyed d'"
proof (cases pool)
  case True
  have "db_catch (claim env batch M) (\<lambda>_. db_return ResourceUnavailable) (\<lambda>a. db_return (ResourceLoaded a)) (fs, d)
      = (Inr res, (fs', d'))"
    using assms(1) True by (simp add: loaded_or_unavailable_def)
  then show ?thesis
  proof (cases rule: db_catch_cases)
    case (failed e c1)
    then have "claim env batch M (fs, d) = (Inl e, (fs', d'))" "res = ResourceUnavailable"
      by (auto simp: db_return_def)
    then show ?thesis using failed_claim claim_keys assms(2) by (simp add: left_def keyed_def)
  next
    case (answered cs c1)
    then have "claim env batch M (fs, d) = (Inr cs, (fs', d'))" "res = ResourceLoaded cs"
      by (auto simp: db_return_def)
    then show ?thesis using claim_spends claim_keys assms(2) by (simp add: left_def keyed_def)
  qed
next
  case False
  then show ?thesis using assms by (auto simp: loaded_or_unavailable_def)
qed

end

section \<open>The two queues\<close>

text \<open>A claim is two statements; the second one sees the rows the first has buried.\<close>

lemma claim_cases:
  assumes "db_bind (db_stmt m) (\<lambda>_. db_stmt n) (fs, d) = (r, (fs', d'))"
  obtains (lost) e where "r = Inl e" and "d' = d"
    | (half) e u where "r = Inl e" and "m d = Inr (u, d')"
    | (made) u a d1 where "r = Inr a" and "m d = Inr (u, d1)" and "n d1 = Inr (a, d')"
  using assms
  by (auto simp: db_bind_def db_stmt_def split: if_splits sum.splits prod.splits)

interpretation thumbnails: leased_queue photo_tasks task_pk task_attempt_count
    claim_photo_processing_jobs "\<lambda>M. M"
proof unfold_locales
  fix env batch M fs d and cs :: "photo_claim list" and fs' d'
  assume run: "claim_photo_processing_jobs env batch M (fs, d) = (Inr cs, (fs', d'))"
    and keys: "distinct (map task_pk (photo_tasks d))"
  from run [unfolded claim_photo_processing_jobs_def]
  show "attempts_left (M) (map task_attempt_count (photo_tasks d')) + length cs
      = attempts_left (M) (map task_attempt_count (photo_tasks d))"
  proof (cases rule: claim_cases)
    case (made u a d1)
    have same: "map task_pk (photo_tasks d1) = map task_pk (photo_tasks d)"
      "map task_attempt_count (photo_tasks d1) = map task_attempt_count (photo_tasks d)"
      using made(2) by (auto simp: bury_tasks_def map_update_where)
    then have "distinct (map task_pk (photo_tasks d1))" using keys by simp
    then show ?thesis
      using made(1,3) chosen_spend [of task_pk "photo_tasks d1" "claimable_task env M d1" task_attempt_count "M"
          "claimed_task env" "batch_limit batch" task_precedes] same(2)
      by (auto simp: claim_tasks_def Let_def claimable_task_def claimed_task_def)
  qed simp_all
next
  fix env batch M fs d e and fs' d'
  assume "claim_photo_processing_jobs env batch M (fs, d) = (Inl e, (fs', d'))"
  then show "map task_attempt_count (photo_tasks d') = map task_attempt_count (photo_tasks d)"
    unfolding claim_photo_processing_jobs_def
    by (cases rule: claim_cases) (auto simp: bury_tasks_def map_update_where)
next
  fix env batch M fs d and r :: "sqlx_error + photo_claim list" and fs' d'
  assume "claim_photo_processing_jobs env batch M (fs, d) = (r, (fs', d'))"
  then show "map task_pk (photo_tasks d') = map task_pk (photo_tasks d)"
    unfolding claim_photo_processing_jobs_def
    by (cases rule: claim_cases)
      (auto simp: bury_tasks_def claim_tasks_def Let_def claimed_task_def map_update_where)
qed

interpretation deletions: leased_queue deletion_jobs deletion_pk deletion_attempt_count
    claim_photo_erasure_deletion_jobs "\<lambda>M. max M 1"
proof unfold_locales
  fix env batch M fs d and cs :: "deletion_claim list" and fs' d'
  assume run: "claim_photo_erasure_deletion_jobs env batch M (fs, d) = (Inr cs, (fs', d'))"
    and keys: "distinct (map deletion_pk (deletion_jobs d))"
  from run [unfolded claim_photo_erasure_deletion_jobs_def]
  show "attempts_left (max M 1) (map deletion_attempt_count (deletion_jobs d')) + length cs
      = attempts_left (max M 1) (map deletion_attempt_count (deletion_jobs d))"
  proof (cases rule: claim_cases)
    case (made u a d1)
    have same: "map deletion_pk (deletion_jobs d1) = map deletion_pk (deletion_jobs d)"
      "map deletion_attempt_count (deletion_jobs d1) = map deletion_attempt_count (deletion_jobs d)"
      using made(2) by (auto simp: bury_deletions_def map_update_where)
    then have "distinct (map deletion_pk (deletion_jobs d1))" using keys by simp
    then show ?thesis
      using made(1,3) chosen_spend [of deletion_pk "deletion_jobs d1" "claimable_deletion env M" deletion_attempt_count "max M 1"
          "claimed_deletion env" "batch_limit batch" deletion_precedes] same(2)
      by (auto simp: claim_deletions_def Let_def claimable_deletion_def claimed_deletion_def)
  qed simp_all
next
  fix env batch M fs d e and fs' d'
  assume "claim_photo_erasure_deletion_jobs env batch M (fs, d) = (Inl e, (fs', d'))"
  then show "map deletion_attempt_count (deletion_jobs d') = map deletion_attempt_count (deletion_jobs d)"
    unfolding claim_photo_erasure_deletion_jobs_def
    by (cases rule: claim_cases) (auto simp: bury_deletions_def map_update_where)
next
  fix env batch M fs d and r :: "sqlx_error + deletion_claim list" and fs' d'
  assume "claim_photo_erasure_deletion_jobs env batch M (fs, d) = (r, (fs', d'))"
  then show "map deletion_pk (deletion_jobs d') = map deletion_pk (deletion_jobs d)"
    unfolding claim_photo_erasure_deletion_jobs_def
    by (cases rule: claim_cases)
      (auto simp: bury_deletions_def claim_deletions_def Let_def claimed_deletion_def map_update_where)
qed

end
