(* ===== verification/Worker_Facts.thy ===== *)
theory Worker_Facts
  imports Queue_Facts
begin

text \<open>
  The cycles of the worker: every claim is reported as applied or stale unless the cycle is unavailable, and
  the claims of any number of cycles are paid for by the attempts the queues had left.
\<close>

section \<open>What a finalization keeps\<close>

definition same_attempts :: "db \<Rightarrow> db \<Rightarrow> bool" where
  "same_attempts d d' \<longleftrightarrow> map task_pk (photo_tasks d') = map task_pk (photo_tasks d)
     \<and> map task_attempt_count (photo_tasks d') = map task_attempt_count (photo_tasks d)
     \<and> map deletion_pk (deletion_jobs d') = map deletion_pk (deletion_jobs d)
     \<and> map deletion_attempt_count (deletion_jobs d') = map deletion_attempt_count (deletion_jobs d)"

lemma same_attempts_refl [simp]: "reflp same_attempts"
  by (simp add: reflp_def same_attempts_def)

lemma same_attempts_trans [simp]: "transp same_attempts"
  by (auto simp: transp_def same_attempts_def)

lemma loaded_keeps: "reflp R \<Longrightarrow> transp R \<Longrightarrow> keeps R m \<Longrightarrow> keeps R (loaded_or_unavailable pool m)"
  unfolding loaded_or_unavailable_def by (intro keeps_rules)

lemma update_claimed_task_same:
  assumes "\<And>x. task_pk (f x) = task_pk x" and "\<And>x. task_attempt_count (f x) = task_attempt_count x"
  shows "keeps same_attempts (db_stmt (update_claimed_task i f))"
  by (rule keeps_stmt) (auto simp: update_claimed_task_def Let_def same_attempts_def map_update_where assms)

lemma update_claimed_deletion_same:
  assumes "\<And>x. deletion_pk (f x) = deletion_pk x" and "\<And>x. deletion_attempt_count (f x) = deletion_attempt_count x"
  shows "keeps same_attempts (db_stmt (update_claimed_deletion i f))"
  by (rule keeps_stmt) (auto simp: update_claimed_deletion_def Let_def same_attempts_def map_update_where assms)

lemma finalize_thumbnail_same: "keeps same_attempts (finalize_thumbnail env store pool M c)"
  unfolding finalize_thumbnail_def queue_repo_defs mark_photo_processing_failed_def mark_photo_processing_completed_def
  by (intro keeps_if loaded_keeps update_claimed_task_same same_attempts_refl same_attempts_trans) simp_all

lemma finalize_deletion_same: "keeps same_attempts (finalize_deletion env store pool M c)"
  unfolding finalize_deletion_def queue_repo_defs mark_photo_erasure_deletion_failed_def mark_photo_erasure_deletion_completed_def
  by (intro keeps_if loaded_keeps update_claimed_deletion_same same_attempts_refl same_attempts_trans) simp_all

lemma finalize_all_same:
  assumes "\<And>env store c. keeps same_attempts (finalize env store c)"
  shows "keeps same_attempts (finalize_all finalize w k cs acc)"
proof (induction cs arbitrary: k acc)
  case Nil
  show ?case unfolding finalize_all.simps by (rule keeps_return) simp
next
  case (Cons c cs)
  then show ?case unfolding finalize_all.simps by (intro keeps_bind assms same_attempts_trans)
qed

lemma work_off_same: "keeps same_attempts (work_off w pool M claims jobs)"
  unfolding work_off_def
  by (intro keeps_bind keeps_map finalize_all_same finalize_thumbnail_same finalize_deletion_same
      same_attempts_refl same_attempts_trans)

section \<open>Every claim is accounted for\<close>

definition handled :: "progress \<Rightarrow> nat" where
  "handled acc = cy_finalized (snd acc) + cy_stale (snd acc)"

lemma record_finalization_counts:
  assumes "\<not> fst (record_finalization outcome acc)"
  shows "\<not> fst acc \<and> handled (record_finalization outcome acc) = Suc (handled acc)
    \<and> cy_claimed (snd (record_finalization outcome acc)) = cy_claimed (snd acc)"
  using assms
  by (auto simp: record_finalization_def handled_def split: prod.splits resource_read.splits bool.splits)

lemma finalize_all_counts:
  assumes "finalize_all finalize w k cs acc c = (Inr acc', c')" and "\<not> fst acc'"
  shows "\<not> fst acc \<and> handled acc' = length cs + handled acc \<and> cy_claimed (snd acc') = cy_claimed (snd acc)"
  using assms(1)
proof (induction cs arbitrary: k acc c)
  case Nil
  then show ?case using assms(2) by (simp add: db_return_def)
next
  case (Cons x cs)
  from Cons.prems obtain outcome c1 where "finalize_all finalize w (k + 1) cs (record_finalization outcome acc) c1 = (Inr acc', c')"
    by (auto elim: db_bind_InrE)
  from Cons.IH [OF this] show ?case using record_finalization_counts [of outcome acc] by simp
qed

lemma work_off_counts:
  assumes "work_off w pool M claims jobs c = (Inr (ResourceLoaded r), c')"
  shows "cy_claimed r = length claims + length jobs \<and> cy_finalized r + cy_stale r = cy_claimed r"
proof -
  let ?start = "(False, \<lparr> cy_claimed = length claims + length jobs, cy_finalized = 0, cy_stale = 0 \<rparr>)"
  from assms obtain acc c1 acc' where
    one: "finalize_all (\<lambda>env store. finalize_thumbnail env store pool M) w 2 claims ?start c = (Inr acc, c1)"
    and two: "finalize_all (\<lambda>env store. finalize_deletion env store pool M) w (2 + length claims) jobs acc c1 = (Inr acc', c')"
    and r: "\<not> fst acc'" "r = snd acc'"
    unfolding work_off_def
    by (auto elim!: db_bind_InrE simp: db_map_def db_return_def split: if_splits prod.splits)
  from finalize_all_counts [OF two r(1)] finalize_all_counts [OF one] show ?thesis
    by (simp add: r(2) handled_def)
qed

lemma work_off_found: "work_off w pool M claims jobs c = (Inr res, c') \<Longrightarrow> res \<noteq> ResourceNotFound"
  unfolding work_off_def db_map_def by (auto elim!: db_bind_InrE simp: db_return_def split: if_splits)

lemma cycle_cases:
  assumes "process_photo_processing_once w pool n M c = (Inr res, c')"
  obtains "res = ResourceUnavailable"
    | claims jobs c1 where "work_off w pool M claims jobs c1 = (Inr res, c')"
  using assms unfolding process_photo_processing_once_def queue_repo_defs
  by (auto elim!: db_bind_InrE simp: db_return_def split: resource_read.splits)

section \<open>The attempts pay for the claims\<close>

definition attempt_budget :: "int \<Rightarrow> db \<Rightarrow> nat" where
  "attempt_budget M d = attempts_left M (map task_attempt_count (photo_tasks d))
     + attempts_left (max M 1) (map deletion_attempt_count (deletion_jobs d))"

definition keyed_queues :: "db \<Rightarrow> bool" where
  "keyed_queues d \<longleftrightarrow> distinct (map task_pk (photo_tasks d)) \<and> distinct (map deletion_pk (deletion_jobs d))"

lemma same_attempts_budget:
  "same_attempts d d' \<Longrightarrow> attempt_budget M d' = attempt_budget M d \<and> keyed_queues d' = keyed_queues d"
  by (simp add: same_attempts_def attempt_budget_def keyed_queues_def)

lemma claims_keep_other_queue:
  "keeps (\<lambda>d d'. deletion_jobs d' = deletion_jobs d) (loaded_or_unavailable pool (claim_photo_processing_jobs env n M))"
  "keeps (\<lambda>d d'. photo_tasks d' = photo_tasks d) (loaded_or_unavailable pool (claim_photo_erasure_deletion_jobs env n M))"
  unfolding claim_photo_processing_jobs_def claim_photo_erasure_deletion_jobs_def
  by (intro loaded_keeps keeps_bind keeps_stmt;
      auto simp: reflp_def transp_def bury_tasks_def claim_tasks_def bury_deletions_def claim_deletions_def Let_def)+

definition claims_reported :: "cycle_result resource_read \<Rightarrow> nat" where
  "claims_reported r = (case r of ResourceLoaded c \<Rightarrow> cy_claimed c | _ \<Rightarrow> 0)"

lemma loaded_total: "\<exists>res c'. loaded_or_unavailable pool m c = (Inr res, c') \<and> res \<noteq> ResourceNotFound"
  by (auto simp: loaded_or_unavailable_def db_catch_def db_return_def split: sum.split prod.split)

lemma cycle_budget:
  assumes "process_photo_processing_once w pool n M (fs, d) = (res, (fs', d'))" and keyed: "keyed_queues d"
  shows "keyed_queues d' \<and> (\<forall>r. res = Inr r \<longrightarrow> attempt_budget M d' + claims_reported r \<le> attempt_budget M d)"
proof -
  obtain r1 fs1 d1 where c1: "loaded_or_unavailable pool (claim_photo_processing_jobs (fst (w 0)) n M) (fs, d) = (Inr r1, (fs1, d1))"
    and r1: "r1 \<noteq> ResourceNotFound"
    using loaded_total by (metis prod.collapse)
  have t1: "thumbnails.left M d1 + (case r1 of ResourceLoaded cs \<Rightarrow> length cs | _ \<Rightarrow> 0) = thumbnails.left M d \<and> thumbnails.keyed d1"
    by (rule thumbnails.repo_claim_spends [OF c1]) (use keyed in \<open>simp add: keyed_queues_def thumbnails.keyed_def\<close>)
  have same1: "deletion_jobs d1 = deletion_jobs d" using claims_keep_other_queue(1) c1 by (rule keepsD)
  show ?thesis
  proof (cases r1)
    case (ResourceLoaded claims)
    obtain r2 fs2 d2 where c2: "loaded_or_unavailable pool (claim_photo_erasure_deletion_jobs (fst (w 1)) n M) (fs1, d1) = (Inr r2, (fs2, d2))"
      and r2: "r2 \<noteq> ResourceNotFound"
      using loaded_total by (metis prod.collapse)
    have t2: "deletions.left M d2 + (case r2 of ResourceLoaded cs \<Rightarrow> length cs | _ \<Rightarrow> 0) = deletions.left M d1 \<and> deletions.keyed d2"
      by (rule deletions.repo_claim_spends [OF c2]) (use keyed same1 in \<open>simp add: keyed_queues_def deletions.keyed_def\<close>)
    have same2: "photo_tasks d2 = photo_tasks d1" using claims_keep_other_queue(2) c2 by (rule keepsD)
    have keyed2: "keyed_queues d2"
      using t1 t2 same2 by (simp add: keyed_queues_def thumbnails.keyed_def deletions.keyed_def)
    have spent: "attempt_budget M d2 + length claims + (case r2 of ResourceLoaded cs \<Rightarrow> length cs | _ \<Rightarrow> 0) = attempt_budget M d"
      using t1 t2 same1 same2 ResourceLoaded
      by (simp add: attempt_budget_def thumbnails.left_def deletions.left_def)
    show ?thesis
    proof (cases r2)
      case loaded: (ResourceLoaded jobs)
      then have w: "work_off w pool M claims jobs (fs2, d2) = (res, (fs', d'))"
        using assms(1) c1 c2 ResourceLoaded by (simp add: process_photo_processing_once_def queue_repo_defs)
      have "same_attempts d2 d'" by (rule keepsD [OF work_off_same w])
      then have kept: "attempt_budget M d' = attempt_budget M d2" "keyed_queues d'"
        using same_attempts_budget keyed2 by blast+
      have "claims_reported r \<le> length claims + length jobs" if "res = Inr r" for r
        using work_off_counts [of w pool M claims jobs] w that
        by (cases r) (auto simp: claims_reported_def)
      then show ?thesis using kept spent loaded by auto
    qed (use assms(1) c1 c2 ResourceLoaded r2 keyed2 spent in
        \<open>auto simp: process_photo_processing_once_def queue_repo_defs claims_reported_def\<close>)
  qed (use assms(1) c1 r1 t1 same1 keyed in
      \<open>auto simp: process_photo_processing_once_def queue_repo_defs claims_reported_def keyed_queues_def thumbnails.keyed_def
        attempt_budget_def thumbnails.left_def\<close>)
qed

lemma cycles_budget:
  assumes "worker_cycles ws pool n M (fs, d) = (Inr rs, (fs', d'))" and "keyed_queues d"
  shows "attempt_budget M d' + sum_list (map claims_reported rs) \<le> attempt_budget M d \<and> keyed_queues d'"
  using assms
proof (induction ws arbitrary: fs d rs)
  case Nil
  then show ?case by (auto simp: db_return_def)
next
  case (Cons w ws)
  from Cons.prems(1) obtain r fs1 d1 rs1 where
    one: "process_photo_processing_once w pool n M (fs, d) = (Inr r, (fs1, d1))"
    and more: "worker_cycles ws pool n M (fs1, d1) = (Inr rs1, (fs', d'))" and rs: "rs = r # rs1"
    by (auto elim!: db_bind_InrE simp: db_map_def db_return_def)
  show ?case
    using cycle_budget [OF one Cons.prems(2)] Cons.IH [OF more] rs by auto
qed

text \<open>A cycle always answers, whatever fails.\<close>

definition ends_well :: "(db, 'a) db_call \<Rightarrow> bool" where
  "ends_well m \<longleftrightarrow> (\<forall>c. \<exists>a c'. m c = (Inr a, c'))"

lemma ends_well_bind: "ends_well m \<Longrightarrow> (\<And>a. ends_well (k a)) \<Longrightarrow> ends_well (db_bind m k)"
  unfolding ends_well_def by (metis db_bind_Inr)

lemma ends_well_return: "ends_well (db_return a)"
  by (simp add: ends_well_def db_return_def)

lemma ends_well_map: "ends_well m \<Longrightarrow> ends_well (db_map f m)"
  unfolding db_map_def by (intro ends_well_bind ends_well_return)

lemma ends_well_loaded: "ends_well (loaded_or_unavailable pool m)"
  unfolding ends_well_def using loaded_total by metis

lemmas ends_well_rules = ends_well_bind ends_well_return ends_well_map ends_well_loaded

lemma finalize_answers:
  "ends_well (finalize_thumbnail env store pool M c)" "ends_well (finalize_deletion env store pool M x)"
  by (simp_all add: finalize_thumbnail_def finalize_deletion_def queue_repo_defs ends_well_loaded)

lemma finalize_all_answers:
  assumes "\<And>env store c. ends_well (finalize env store c)"
  shows "ends_well (finalize_all finalize w k cs acc)"
proof (induction cs arbitrary: k acc)
  case Nil
  show ?case unfolding finalize_all.simps by (rule ends_well_return)
next
  case (Cons c cs)
  then show ?case unfolding finalize_all.simps by (intro ends_well_bind assms)
qed

lemma cycle_answers: "ends_well (process_photo_processing_once w pool n M)"
  unfolding process_photo_processing_once_def queue_repo_defs work_off_def
  by (intro ends_well_bind ends_well_loaded)
    (auto split: resource_read.split intro!: ends_well_rules finalize_all_answers finalize_answers)

lemma cycles_answer: "\<exists>rs c'. worker_cycles ws pool n M c = (Inr rs, c') \<and> length rs = length ws"
proof (induction ws arbitrary: c)
  case (Cons w ws)
  obtain r c1 where "process_photo_processing_once w pool n M c = (Inr r, c1)"
    using cycle_answers unfolding ends_well_def by metis
  moreover obtain rs c2 where "worker_cycles ws pool n M c1 = (Inr rs, c2)" "length rs = length ws"
    using Cons by metis
  ultimately show ?case by (simp add: db_map_def db_return_def)
qed (simp add: db_return_def)

end
