(* ===== verification/Photo_System.thy ===== *)
theory Photo_System
  imports Worker_Facts Report_Frame
begin

text \<open>
  Photos and their work queues in the running service: \<open>serve_photo\<close> is one request behind the middleware,
  \<open>photo_step\<close> a request, a cycle of the worker or a change elsewhere, and \<open>photos_reach\<close> relates the
  databases of a run. Every step keeps the queues well formed and moves each of their rows along the life cycle.
\<close>

section \<open>Requests\<close>

datatype photo_request =
    ListPhotos string
  | PresignPhoto string photo_upload_request
  | CompletePhoto string photo_complete_request
  | ProcessingHistory "string option" "string option" "int option"
  | RetryProcessing string
  | ResolveProcessing string "string option"
  | DeletionHistory "string option" "int option"
  | RetryDeletion string
  | ResolveDeletion string "string option"
  | EraseEvidence string string

fun photo_method :: "photo_request \<Rightarrow> http_method" where
  "photo_method (ListPhotos _) = GET"
| "photo_method (ProcessingHistory _ _ _) = GET"
| "photo_method (DeletionHistory _ _) = GET"
| "photo_method _ = POST"

fun photo_path :: "photo_request \<Rightarrow> string" where
  "photo_path (ListPhotos j) = ''/jobs/'' @ j @ ''/photos''"
| "photo_path (PresignPhoto j _) = ''/jobs/'' @ j @ ''/photos/presign''"
| "photo_path (CompletePhoto j _) = ''/jobs/'' @ j @ ''/photos/complete''"
| "photo_path (ProcessingHistory _ _ _) = ''/photo-processing-jobs''"
| "photo_path (RetryProcessing i) = ''/photo-processing-jobs/'' @ i @ ''/retry''"
| "photo_path (ResolveProcessing i _) = ''/photo-processing-jobs/'' @ i @ ''/resolve''"
| "photo_path (DeletionHistory _ _) = ''/photo-erasure-deletion-jobs''"
| "photo_path (RetryDeletion i) = ''/photo-erasure-deletion-jobs/'' @ i @ ''/retry''"
| "photo_path (ResolveDeletion i _) = ''/photo-erasure-deletion-jobs/'' @ i @ ''/resolve''"
| "photo_path (EraseEvidence a _) = ''/accounts/'' @ a @ ''/photo-erasure''"

text \<open>The reports' view of the store: how an address is signed, and its deletions.\<close>

definition evidence_storage :: "env \<Rightarrow> object_store \<Rightarrow> photo_storage" where
  "evidence_storage env store = (case os_config store of
       Local_Storage \<Rightarrow> LocalStorage
     | S3_Storage c \<Rightarrow> S3Storage (\<lambda>key. display_url_for_seconds (os_digests store) env (os_config store)
         ''s3-presigned'' key (- 1)))"

definition evidence_deletion :: "env \<Rightarrow> object_store \<Rightarrow> object_deletion" where
  "evidence_deletion env store keys = (case os_config store of
       Local_Storage \<Rightarrow> None
     | S3_Storage c \<Rightarrow> s3_delete_objects (os_digests store) env (os_http store) c keys)"

fun handle_photo :: "env \<Rightarrow> object_store \<Rightarrow> bool \<Rightarrow> auth_principal \<Rightarrow> photo_request \<Rightarrow> (db, nat) db_call" where
  "handle_photo env store pool user (ListPhotos j) =
     db_map http_status (handle_list_job_photos (evidence_storage env store) pool user j)"
| "handle_photo env store pool user (PresignPhoto j r) =
     db_map http_status (handle_create_photo_upload env store pool user j r)"
| "handle_photo env store pool user (CompletePhoto j r) =
     db_map http_status (handle_complete_photo_upload env store pool user j r)"
| "handle_photo env store pool user (ProcessingHistory k s n) =
     db_map http_status (handle_processing_history pool user k s n)"
| "handle_photo env store pool user (RetryProcessing i) = db_map http_status (handle_retry_processing env pool user i)"
| "handle_photo env store pool user (ResolveProcessing i r) =
     db_map http_status (handle_resolve_processing env pool user i r)"
| "handle_photo env store pool user (DeletionHistory s n) = db_map http_status (handle_deletion_history pool user s n)"
| "handle_photo env store pool user (RetryDeletion i) = db_map http_status (handle_retry_deletion env pool user i)"
| "handle_photo env store pool user (ResolveDeletion i r) =
     db_map http_status (handle_resolve_deletion env pool user i r)"
| "handle_photo env store pool user (EraseEvidence a reason) =
     db_map http_status (handle_erase_photos env (evidence_storage env store) (evidence_deletion env store) pool user a reason)"

text \<open>None of these routes is public, so that a handler without a principal answers \<open>500\<close>.\<close>

definition serve_photo :: "env \<Rightarrow> object_store \<Rightarrow> 'k auth_backend \<Rightarrow> bool \<Rightarrow> string option \<Rightarrow> photo_request \<Rightarrow>
    (db, nat) db_call" where
  "serve_photo env store backend pool authorization r =
     db_bind (require_api_auth backend True pool (photo_method r) (photo_path r) authorization)
       (\<lambda>decision. case decision of
          RunAs user \<Rightarrow> handle_photo env store pool user r
        | Refuse status _ \<Rightarrow> db_return status
        | RunPublic \<Rightarrow> db_return 500)"

section \<open>Runs\<close>

text \<open>\<open>M\<close> is the largest number of attempts that any worker of the run is configured with.\<close>

inductive photo_step :: "int \<Rightarrow> 'k auth_backend \<Rightarrow> db \<Rightarrow> db \<Rightarrow> bool" for M backend where
  request: "serve_photo env store backend pool authorization r (fs, d) = (res, (fs', d'))
    \<Longrightarrow> photo_step M backend d d'"
| cycle: "process_photo_processing_once w pool n max_attempts (fs, d) = (res, (fs', d')) \<Longrightarrow> max_attempts \<le> M
    \<Longrightarrow> photo_step M backend d d'"
| elsewhere: "photo_tasks d' = photo_tasks d \<Longrightarrow> deletion_jobs d' = deletion_jobs d \<Longrightarrow> photo_step M backend d d'"

inductive photos_reach :: "int \<Rightarrow> 'k auth_backend \<Rightarrow> db \<Rightarrow> db \<Rightarrow> bool" for M backend d0 where
  start: "photos_reach M backend d0 d0"
| step: "photos_reach M backend d0 d \<Longrightarrow> photo_step M backend d d' \<Longrightarrow> photos_reach M backend d0 d'"

inductive_cases photo_stepE: "photo_step M backend d d'"

section \<open>Well-formed queues and their moves\<close>

definition task_state :: "photo_task_row \<Rightarrow> work_state" where
  "task_state x = (task_status x, task_attempt_count x)"

definition deletion_state :: "deletion_row \<Rightarrow> work_state" where
  "deletion_state x = (deletion_status x, deletion_attempt_count x)"

definition rows_ok :: "int \<Rightarrow> ('r \<Rightarrow> string) \<Rightarrow> ('r \<Rightarrow> string \<times> string) \<Rightarrow> ('r \<Rightarrow> work_state) \<Rightarrow> 'r list \<Rightarrow> bool" where
  "rows_ok M key target state rows \<longleftrightarrow> distinct (map key rows) \<and> distinct (map target rows)
     \<and> (\<forall>x \<in> set rows. work_state_ok M (state x))"

definition rows_moved :: "int \<Rightarrow> ('r \<Rightarrow> string) \<Rightarrow> ('r \<Rightarrow> string \<times> string) \<Rightarrow> ('r \<Rightarrow> work_state) \<Rightarrow>
    'r list \<Rightarrow> 'r list \<Rightarrow> bool" where
  "rows_moved M key target state rows rows' \<longleftrightarrow>
     (\<forall>x \<in> set rows. \<exists>x' \<in> set rows'. key x' = key x \<and> target x' = target x
        \<and> (work_step M)\<^sup>*\<^sup>* (state x) (state x'))"

definition task_target :: "photo_task_row \<Rightarrow> string \<times> string" where
  "task_target x = (task_photo_id x, task_type x)"

definition deletion_target :: "deletion_row \<Rightarrow> string \<times> string" where
  "deletion_target x = (deletion_organization_id x, deletion_object_key x)"

definition queues_ok :: "int \<Rightarrow> db \<Rightarrow> bool" where
  "queues_ok M d \<longleftrightarrow> rows_ok M task_pk task_target task_state (photo_tasks d)
     \<and> rows_ok (max M 1) deletion_pk deletion_target deletion_state (deletion_jobs d)"

definition queues_moved :: "int \<Rightarrow> db \<Rightarrow> db \<Rightarrow> bool" where
  "queues_moved M d d' \<longleftrightarrow> rows_moved M task_pk task_target task_state (photo_tasks d) (photo_tasks d')
     \<and> rows_moved (max M 1) deletion_pk deletion_target deletion_state (deletion_jobs d) (deletion_jobs d')"

definition queues_keep :: "int \<Rightarrow> db \<Rightarrow> db \<Rightarrow> bool" where
  "queues_keep M d d' \<longleftrightarrow> (queues_ok M d \<longrightarrow> queues_ok M d' \<and> queues_moved M d d')"

lemma rows_moved_refl [simp]: "rows_moved M key target state rows rows"
  by (auto simp: rows_moved_def)

lemma rows_moved_trans: "rows_moved M key target state a b \<Longrightarrow> rows_moved M key target state b c \<Longrightarrow>
    rows_moved M key target state a c"
  unfolding rows_moved_def by (metis rtranclp_trans)

lemma queues_keep_refl [simp]: "reflp (queues_keep M)"
  by (simp add: reflp_def queues_keep_def queues_moved_def)

lemma queues_keep_trans [simp]: "transp (queues_keep M)"
  unfolding transp_def queues_keep_def queues_moved_def by (blast intro: rows_moved_trans)

lemma queues_keep_other: "photo_tasks d' = photo_tasks d \<Longrightarrow> deletion_jobs d' = deletion_jobs d \<Longrightarrow> queues_keep M d d'"
  by (simp add: queues_keep_def queues_ok_def queues_moved_def)

text \<open>An update that takes the rows it hits along one step.\<close>

lemma rows_update:
  assumes ok: "rows_ok M key target state rows" and "0 \<le> M"
    and "\<And>x. x \<in> set rows \<Longrightarrow> P x \<Longrightarrow> key (f x) = key x \<and> target (f x) = target x
      \<and> (state (f x) = state x \<or> work_step M (state x) (state (f x)))"
  shows "rows_ok M key target state (update_where P f rows) \<and> rows_moved M key target state rows (update_where P f rows)"
proof
  let ?g = "\<lambda>x. if P x then f x else x"
  have "map key (update_where P f rows) = map key rows" "map target (update_where P f rows) = map target rows"
    by (rule map_update_where; use assms(3) in blast)+
  moreover have "\<forall>x \<in> set rows. work_state_ok M (state (?g x))"
  proof
    fix x
    assume "x \<in> set rows"
    then have here: "work_state_ok M (state x)" using ok by (simp add: rows_ok_def)
    then have "work_state_ok M (state (f x))" if "P x"
      using assms(3) [OF \<open>x \<in> set rows\<close> that] work_step_ok [OF _ here \<open>0 \<le> M\<close>] by fastforce
    then show "work_state_ok M (state (?g x))" using here by simp
  qed
  then have "\<forall>y \<in> set (update_where P f rows). work_state_ok M (state y)"
    unfolding set_update_where by blast
  ultimately show "rows_ok M key target state (update_where P f rows)"
    using ok by (simp add: rows_ok_def)
  show "rows_moved M key target state rows (update_where P f rows)"
    unfolding rows_moved_def
  proof
    fix x
    assume "x \<in> set rows"
    then have "?g x \<in> set (update_where P f rows)" by (simp add: set_update_where)
    moreover have "key (?g x) = key x \<and> target (?g x) = target x \<and> (work_step M)\<^sup>*\<^sup>* (state x) (state (?g x))"
      using assms(3) [OF \<open>x \<in> set rows\<close>] by (auto intro: r_into_rtranclp)
    ultimately show "\<exists>x' \<in> set (update_where P f rows). key x' = key x \<and> target x' = target x
        \<and> (work_step M)\<^sup>*\<^sup>* (state x) (state x')" by blast
  qed
qed

lemma rows_append:
  assumes "rows_ok M key target state rows" and "key r \<notin> key ` set rows" and "target r \<notin> target ` set rows"
    and "work_state_ok M (state r)"
  shows "rows_ok M key target state (rows @ [r]) \<and> rows_moved M key target state rows (rows @ [r])"
  using assms by (auto simp: rows_ok_def rows_moved_def)

lemma tasks_update:
  assumes "0 \<le> M" and "\<And>x. queues_ok M d \<Longrightarrow> x \<in> set (photo_tasks d) \<Longrightarrow> P x \<Longrightarrow>
      task_pk (f x) = task_pk x \<and> task_target (f x) = task_target x
      \<and> (task_state (f x) = task_state x \<or> work_step M (task_state x) (task_state (f x)))"
  shows "queues_keep M d (d\<lparr> photo_tasks := update_where P f (photo_tasks d) \<rparr>)"
  unfolding queues_keep_def
proof
  assume ok: "queues_ok M d"
  show "queues_ok M (d\<lparr> photo_tasks := update_where P f (photo_tasks d) \<rparr>)
      \<and> queues_moved M d (d\<lparr> photo_tasks := update_where P f (photo_tasks d) \<rparr>)"
    using rows_update [of M task_pk task_target task_state "photo_tasks d" P f] ok assms
    by (simp add: queues_ok_def queues_moved_def)
qed

lemma deletions_update:
  assumes "\<And>x. queues_ok M d \<Longrightarrow> x \<in> set (deletion_jobs d) \<Longrightarrow> P x \<Longrightarrow>
      deletion_pk (f x) = deletion_pk x \<and> deletion_target (f x) = deletion_target x
      \<and> (deletion_state (f x) = deletion_state x \<or> work_step (max M 1) (deletion_state x) (deletion_state (f x)))"
  shows "queues_keep M d (d\<lparr> deletion_jobs := update_where P f (deletion_jobs d) \<rparr>)"
  unfolding queues_keep_def
proof
  assume ok: "queues_ok M d"
  show "queues_ok M (d\<lparr> deletion_jobs := update_where P f (deletion_jobs d) \<rparr>)
      \<and> queues_moved M d (d\<lparr> deletion_jobs := update_where P f (deletion_jobs d) \<rparr>)"
    using rows_update [of "max M 1" deletion_pk deletion_target deletion_state "deletion_jobs d" P f] ok assms
    by (simp add: queues_ok_def queues_moved_def)
qed

end
