(* ===== verification/Photo_Service.thy ===== *)
theory Photo_Service
  imports Photo_System
begin

text \<open>
  Every handler of photos and every cycle of the worker satisfies \<open>queues_keep\<close>: the queues stay well formed
  and each row moves along its life cycle.
\<close>

section \<open>Statements\<close>

lemmas queue_rules = queues_keep_refl queues_keep_trans keeps_rules
lemmas reads_keep_queues = read_only_keeps [OF _ queues_keep_refl]

lemma task_state_ok: "queues_ok M d \<Longrightarrow> x \<in> set (photo_tasks d) \<Longrightarrow> work_state_ok M (task_state x)"
  by (simp add: queues_ok_def rows_ok_def)

lemma bury_tasks_keeps: "0 \<le> M \<Longrightarrow> keeps (queues_keep M) (db_stmt (bury_tasks env n))"
  by (rule keeps_stmt [OF queues_keep_refl])
    (auto simp: bury_tasks_def exhausted_task_def stale_task_def task_target_def task_state_def
      intro!: tasks_update work_step.bury)

lemma bury_deletions_keeps: "keeps (queues_keep M) (db_stmt (bury_deletions env n))"
  by (rule keeps_stmt [OF queues_keep_refl])
    (auto simp: bury_deletions_def exhausted_deletion_def stale_deletion_def deletion_target_def deletion_state_def
      intro!: deletions_update work_step.bury)

lemma claim_tasks_keeps:
  assumes "0 \<le> M" and "n \<le> M"
  shows "keeps (queues_keep M) (db_stmt (claim_tasks env k n))"
proof (rule keeps_stmt [OF queues_keep_refl])
  fix d cs d'
  assume run: "claim_tasks env k n d = Inr (cs, d')"
  let ?hit = "\<lambda>x. task_pk x \<in> set (map task_pk (take k (order_by task_precedes (filter (claimable_task env n d) (photo_tasks d)))))"
  have "queues_keep M d (d\<lparr> photo_tasks := update_where ?hit (claimed_task env) (photo_tasks d) \<rparr>)"
  proof (rule tasks_update [OF assms(1)])
    fix x
    assume ok: "queues_ok M d" and x: "x \<in> set (photo_tasks d)" "?hit x"
    have "claimable_task env n d x"
      by (rule chosen_rows [OF _ x]) (use ok in \<open>simp add: queues_ok_def rows_ok_def\<close>)
    then show "task_pk (claimed_task env x) = task_pk x \<and> task_target (claimed_task env x) = task_target x
        \<and> (task_state (claimed_task env x) = task_state x \<or> work_step M (task_state x) (task_state (claimed_task env x)))"
      using assms(2) by (auto simp: claimable_task_def stale_task_def task_state_def claimed_task_def task_target_def
        intro!: work_step.claim)
  qed
  then show "queues_keep M d d'" using run by (simp add: claim_tasks_def Let_def)
qed

lemma claim_deletions_keeps:
  assumes "n \<le> M"
  shows "keeps (queues_keep M) (db_stmt (claim_deletions env k n))"
proof (rule keeps_stmt [OF queues_keep_refl])
  fix d cs d'
  assume run: "claim_deletions env k n d = Inr (cs, d')"
  let ?hit = "\<lambda>x. deletion_pk x \<in> set (map deletion_pk (take k (order_by deletion_precedes (filter (claimable_deletion env n) (deletion_jobs d)))))"
  have "queues_keep M d (d\<lparr> deletion_jobs := update_where ?hit (claimed_deletion env) (deletion_jobs d) \<rparr>)"
  proof (rule deletions_update)
    fix x
    assume ok: "queues_ok M d" and x: "x \<in> set (deletion_jobs d)" "?hit x"
    have "claimable_deletion env n x"
      by (rule chosen_rows [OF _ x]) (use ok in \<open>simp add: queues_ok_def rows_ok_def\<close>)
    then show "deletion_pk (claimed_deletion env x) = deletion_pk x \<and> deletion_target (claimed_deletion env x) = deletion_target x
        \<and> (deletion_state (claimed_deletion env x) = deletion_state x
          \<or> work_step (max M 1) (deletion_state x) (deletion_state (claimed_deletion env x)))"
      using assms by (auto simp: claimable_deletion_def stale_deletion_def deletion_state_def claimed_deletion_def
        deletion_target_def intro!: work_step.claim)
  qed
  then show "queues_keep M d d'" using run by (simp add: claim_deletions_def Let_def)
qed

lemmas update_claimed_defs = update_claimed_task_def update_claimed_deletion_def Let_def task_target_def task_state_def
  deletion_target_def deletion_state_def

lemma marks_keep:
  "0 \<le> M \<Longrightarrow> keeps (queues_keep M) (mark_photo_processing_completed env i)"
  "0 \<le> M \<Longrightarrow> keeps (queues_keep M) (mark_photo_processing_failed env i n k e)"
  "keeps (queues_keep M) (mark_photo_erasure_deletion_completed env i)"
  "keeps (queues_keep M) (mark_photo_erasure_deletion_failed env i n k e)"
  unfolding mark_photo_processing_completed_def mark_photo_processing_failed_def
    mark_photo_erasure_deletion_completed_def mark_photo_erasure_deletion_failed_def
  by (rule keeps_stmt [OF queues_keep_refl];
      auto simp: update_claimed_defs intro!: tasks_update deletions_update intro: work_step.intros)+

lemma inserted_rows:
  "map_sum id (\<lambda>rows. (a, g rows)) x = Inr (r, d') \<longleftrightarrow> (\<exists>rows. x = Inr rows \<and> r = a \<and> d' = g rows)"
  by (cases x) auto

lemma upsert_task_keeps:
  assumes "0 \<le> M" and run: "upsert_task env job photo_id kind reason d = Inr (r, d')"
  shows "queues_keep M d d'"
proof -
  let ?same = "\<lambda>x. task_photo_id x = photo_id \<and> task_type x = kind"
  consider (nothing) "d' = d"
    | (again) "d' = d\<lparr> photo_tasks := update_where ?same (requeued_task env reason) (photo_tasks d) \<rparr>"
    | (fresh) p j where "photo_pk p = photo_id" and "lookup_by ?same (photo_tasks d) = None"
      and "insert_row (\<lambda>_. True) (\<lambda>a b. task_pk a = task_pk b) (queued_task env p j kind reason) (photo_tasks d)
        = Inr (photo_tasks d')" and "deletion_jobs d' = deletion_jobs d"
    using run unfolding upsert_task_def Let_def inserted_rows
    by (fastforce simp: inserted_rows this_photo_def split: option.splits if_splits dest: lookup_by_Some)
  then show ?thesis
  proof cases
    case nothing
    then show ?thesis by (simp add: queues_keep_other)
  next
    case again
    show ?thesis unfolding again
      by (rule tasks_update [OF assms(1)])
        (auto simp: requeued_task_def Let_def task_target_def task_state_def intro: work_step.requeue)
  next
    case fresh
    then have "photo_tasks d' = photo_tasks d @ [queued_task env p j kind reason]"
      "task_pk (queued_task env p j kind reason) \<notin> task_pk ` set (photo_tasks d)"
      by (auto simp: insert_row_Inr)
    moreover have "task_target (queued_task env p j kind reason) \<notin> task_target ` set (photo_tasks d)"
      using fresh(1,2) by (auto simp: lookup_by_None task_target_def queued_task_def)
    moreover have "work_state_ok M (task_state (queued_task env p j kind reason))"
      using assms(1) by (simp add: work_state_ok_def task_state_def queued_task_def queue_statuses_def)
    ultimately show ?thesis
      using rows_append fresh(4) by (fastforce simp: queues_keep_def queues_ok_def queues_moved_def)
  qed
qed

lemma queue_deletion_keeps:
  assumes run: "queue_deletion env k account organization okey d = Inr (u, d')"
  shows "queues_keep M d d'"
proof -
  let ?same = "\<lambda>x. deletion_organization_id x = organization \<and> deletion_object_key x = okey"
  let ?new = "queued_deletion env k account organization okey"
  consider (again) "d' = d\<lparr> deletion_jobs := update_where ?same (requeued_deletion env) (deletion_jobs d) \<rparr>"
    | (fresh) "\<not> exists_row ?same (deletion_jobs d)"
      and "insert_row (\<lambda>_. True) (\<lambda>a b. deletion_pk a = deletion_pk b) ?new (deletion_jobs d) = Inr (deletion_jobs d')"
      and "photo_tasks d' = photo_tasks d"
    using run unfolding queue_deletion_def Let_def
    by (fastforce simp: inserted_rows split: if_splits)
  then show ?thesis
  proof cases
    case again
    show ?thesis unfolding again
      by (rule deletions_update)
        (auto simp: requeued_deletion_def Let_def deletion_target_def deletion_state_def intro: work_step.requeue)
  next
    case fresh
    then have "deletion_jobs d' = deletion_jobs d @ [?new]" "deletion_pk ?new \<notin> deletion_pk ` set (deletion_jobs d)"
      by (auto simp: insert_row_Inr)
    moreover have "deletion_target ?new \<notin> deletion_target ` set (deletion_jobs d)"
      using fresh(1) by (auto simp: exists_row_def deletion_target_def queued_deletion_def list_ex_iff)
    moreover have "work_state_ok (max M 1) (deletion_state ?new)"
      by (simp add: work_state_ok_def deletion_state_def queued_deletion_def queue_statuses_def)
    ultimately show ?thesis
      using rows_append fresh(3) by (fastforce simp: queues_keep_def queues_ok_def queues_moved_def)
  qed
qed

section \<open>Operations\<close>

lemma recover_keeps:
  assumes set_ok: "\<And>d d1 s org u. current d = Some (s, org) \<Longrightarrow> s \<in> {''failed'', ''dead_letter''} \<Longrightarrow> change d = Inr (u, d1) \<Longrightarrow>
      queues_keep M d d1"
    and reread: "read_only_call again"
  shows "keeps (queues_keep M) (recover_job orgs current change audit again)"
proof -
  let ?body = "db_bind (db_select current) (\<lambda>found. case found of
      None \<Rightarrow> db_return (Rollback (Some RecoveryNotFound))
    | Some (status, organization) \<Rightarrow>
        if status \<notin> {''failed'', ''dead_letter''} then db_return (Rollback (Some NotRecoverable))
        else db_bind (db_stmt change) (\<lambda>_.
          db_bind (db_stmt (append_audit (audit organization))) (\<lambda>_. db_return (Commit None))))"
  have "keeps (queues_keep M) (db_transaction ?body)"
  proof (rule keeps_transaction_commit [OF queues_keep_refl])
    fix fs d a fs1 d1
    assume "?body (fs, d) = (Inr (Commit a), (fs1, d1))"
    then obtain s org u d2 v where "current d = Some (s, org)" "s \<in> {''failed'', ''dead_letter''}"
      "change d = Inr (u, d2)" and audit: "append_audit (audit org) d2 = Inr (v, d1)"
      by (auto elim!: db_bind_InrE simp: db_return_def db_select_def db_stmt_def split: option.splits if_splits sum.splits prod.splits)
    then have "queues_keep M d d2" by (blast intro: set_ok)
    moreover have "queues_keep M d2 d1"
      using audit by (auto simp: append_audit_def intro!: queues_keep_other split: sum.splits)
    ultimately show "queues_keep M d d1" using queues_keep_trans by (blast dest: transpD)
  qed
  then show ?thesis
    unfolding recover_job_def
    by (intro keeps_if keeps_return keeps_bind keeps_option keeps_map reads_keep_queues [OF reread] queues_keep_refl queues_keep_trans)
qed

lemma history_reads:
  "read_only_call (photo_processing_history_by_id i orgs)"
  "read_only_call (photo_erasure_deletion_history_by_id i orgs)"
  "read_only_call (list_photo_processing_history orgs kind status n)"
  "read_only_call (list_photo_erasure_deletion_history orgs status n)"
  unfolding photo_processing_history_by_id_def photo_erasure_deletion_history_by_id_def
    list_photo_processing_history_def list_photo_erasure_deletion_history_def
  by (intro read_only_map read_only_if read_only_rules read_only_select)+

text \<open>The row that was checked is the only one with its key.\<close>

lemma keyed_lookup:
  assumes "distinct (map key rows)" and "lookup_by (\<lambda>x. key x = i \<and> P x) rows = Some y" and "x \<in> set rows" and "key x = i"
  shows "x = y"
  using assms by (auto dest!: lookup_by_Some simp: distinct_map inj_on_def)

lemma set_task_keeps:
  assumes "0 \<le> M" and "own_task i orgs d = Some (s, org)" and "set_task i f d = Inr (u, d')"
    and "\<And>x. task_pk (f x) = task_pk x \<and> task_target (f x) = task_target x"
    and "\<And>x. task_status x = s \<Longrightarrow> work_step M (task_state x) (task_state (f x))"
  shows "queues_keep M d d'"
proof -
  obtain y where y: "lookup_by (\<lambda>x. task_pk x = i \<and> task_organization_id x \<in> set orgs) (photo_tasks d) = Some y"
    "task_status y = s" using assms(2) by (auto simp: own_task_def)
  have "queues_keep M d (d\<lparr> photo_tasks := update_where (\<lambda>x. task_pk x = i) f (photo_tasks d) \<rparr>)"
  proof (rule tasks_update [OF assms(1)])
    fix x
    assume "queues_ok M d" "x \<in> set (photo_tasks d)" "task_pk x = i"
    then have "x = y" using keyed_lookup [OF _ y(1)] by (simp add: queues_ok_def rows_ok_def)
    then show "task_pk (f x) = task_pk x \<and> task_target (f x) = task_target x
        \<and> (task_state (f x) = task_state x \<or> work_step M (task_state x) (task_state (f x)))"
      using assms(4,5) y(2) by simp
  qed
  then show ?thesis using assms(3) by (simp add: set_task_def)
qed

lemma set_deletion_keeps:
  assumes "own_deletion i orgs d = Some (s, org)" and "set_deletion i f d = Inr (u, d')"
    and "\<And>x. deletion_pk (f x) = deletion_pk x \<and> deletion_target (f x) = deletion_target x"
    and "\<And>x. deletion_status x = s \<Longrightarrow> work_step (max M 1) (deletion_state x) (deletion_state (f x))"
  shows "queues_keep M d d'"
proof -
  obtain y where y: "lookup_by (\<lambda>x. deletion_pk x = i \<and> deletion_organization_id x \<in> set orgs) (deletion_jobs d) = Some y"
    "deletion_status y = s" using assms(1) by (auto simp: own_deletion_def)
  have "queues_keep M d (d\<lparr> deletion_jobs := update_where (\<lambda>x. deletion_pk x = i) f (deletion_jobs d) \<rparr>)"
  proof (rule deletions_update)
    fix x
    assume "queues_ok M d" "x \<in> set (deletion_jobs d)" "deletion_pk x = i"
    then have "x = y" using keyed_lookup [OF _ y(1)] by (simp add: queues_ok_def rows_ok_def)
    then show "deletion_pk (f x) = deletion_pk x \<and> deletion_target (f x) = deletion_target x
        \<and> (deletion_state (f x) = deletion_state x \<or> work_step (max M 1) (deletion_state x) (deletion_state (f x)))"
      using assms(3,4) y(2) by simp
  qed
  then show ?thesis using assms(2) by (simp add: set_deletion_def)
qed

lemma recoveries_keep:
  "0 \<le> M \<Longrightarrow> keeps (queues_keep M) (retry_photo_processing_job env i orgs actor)"
  "0 \<le> M \<Longrightarrow> keeps (queues_keep M) (resolve_photo_processing_job env i orgs actor reason)"
  "keeps (queues_keep M) (retry_photo_erasure_deletion_job env i orgs actor)"
  "keeps (queues_keep M) (resolve_photo_erasure_deletion_job env i orgs actor reason)"
  unfolding retry_photo_processing_job_def resolve_photo_processing_job_def
    retry_photo_erasure_deletion_job_def resolve_photo_erasure_deletion_job_def
  by (intro recover_keeps history_reads;
      (rule set_task_keeps set_deletion_keeps, assumption+;
       auto simp: retried_task_def resolved_task_def retried_deletion_def resolved_deletion_def task_target_def task_state_def
         deletion_target_def deletion_state_def intro: work_step.intros)?)+

text \<open>Statements on photos and jobs leave the queues alone.\<close>

lemma photo_statements:
  "upsert_photo p d = Inr (u, d') \<Longrightarrow> queues_keep M d d'"
  "mark_uploaded env job i m d = Inr (k, d') \<Longrightarrow> queues_keep M d d'"
  "bump_counter job f d = Inr (u, d') \<Longrightarrow> queues_keep M d d'"
  "erase_photos env account orgs actor reason d = Inr (ps, d') \<Longrightarrow> queues_keep M d d'"
  "append_audit au d = Inr (u, d') \<Longrightarrow> queues_keep M d d'"
  by (auto simp: upsert_photo_def mark_uploaded_def bump_counter_def erase_photos_def append_audit_def Let_def
      intro!: queues_keep_other split: if_splits sum.splits)

lemma redact_each_queues: "redact_each rs d = Inr d' \<Longrightarrow> photo_tasks d' = photo_tasks d \<and> deletion_jobs d' = deletion_jobs d"
  by (induction rs arbitrary: d) (auto simp: put_report_Inr split: sum.splits)

lemma redact_reports_queues: "redact_reports account orgs d = Inr (n, d') \<Longrightarrow> queues_keep M d d'"
  by (auto simp: redact_reports_def Let_def map_sum_def dest: redact_each_queues intro!: queues_keep_other split: sum.splits)

lemma queue_deletions_keep: "keeps (queues_keep M) (queue_deletions env k account organization ks)"
  by (induction ks arbitrary: k) (auto intro!: queue_rules dest: queue_deletion_keeps)

lemma audit_erasure_queues: "keeps (queues_keep M) (audit_erasure env k actor account orgs)"
  by (induction orgs arbitrary: k) (auto intro!: queue_rules dest: photo_statements)

lemma erasure_keeps: "keeps (queues_keep M) (repo_erase_customer_photo_evidence env storage delete pool account orgs actor reason)"
  unfolding repo_erase_customer_photo_evidence_def erase_customer_photo_evidence_def Let_def
  by (auto intro!: queue_rules queue_deletions_keep audit_erasure_queues
      dest: photo_statements redact_reports_queues split: option.split list.split)

lemma create_upload_keeps: "keeps (queues_keep M) (repo_create_photo_upload env store pool job r)"
  unfolding repo_create_photo_upload_def create_photo_upload_def Let_def
  by (auto intro!: queue_rules dest: photo_statements)

lemma complete_photo_upload_keeps: "keeps (queues_keep M) (complete_photo_upload env job i m)"
  unfolding complete_photo_upload_def by (auto intro!: queue_rules dest: photo_statements)

lemma reject_keeps: "keeps (queues_keep M) (reject_photo_upload env job i reason)"
  unfolding reject_photo_upload_def by (auto intro!: queue_rules queues_keep_other)

lemma finish_upload_keeps: "keeps (queues_keep M) (finish_upload env job i m)"
  unfolding finish_upload_def by (intro queue_rules complete_photo_upload_keeps)

lemma must_queue_keeps:
  assumes "0 \<le> M" and "keeps (queues_keep M) m"
  shows "keeps (queues_keep M) (must_queue env job i reason m)"
  unfolding must_queue_def queue_photo_processing_job_def
  using assms upsert_task_keeps by (intro queue_rules) auto

lemma complete_at_keeps: "0 \<le> M \<Longrightarrow> keeps (queues_keep M) (complete_at env store job i m l)"
  unfolding complete_at_def
  by (auto intro!: queue_rules must_queue_keeps finish_upload_keeps reject_keeps split: inspection.split)

lemma complete_upload_keeps: "0 \<le> M \<Longrightarrow> keeps (queues_keep M) (repo_complete_photo_upload env store pool job i m)"
  unfolding repo_complete_photo_upload_def photo_storage_location_def
  by (auto intro!: queue_rules complete_at_keeps split: option.split)

section \<open>Handlers\<close>

lemma organizations_keep_queues:
  "keeps (queues_keep M) (principal_active_organization_ids pool subject)"
  "keeps (queues_keep M) (principal_active_organization_ids_for_role pool subject role)"
  by (rule reads_keep_queues;
      auto simp: principal_active_organization_ids_def principal_active_organization_ids_for_role_def
        intro!: read_only_rules read_operations)+

lemma with_organizations_keeps:
  "(\<And>orgs. keeps (queues_keep M) (k orgs)) \<Longrightarrow> keeps (queues_keep M) (with_organizations pool user k)"
  unfolding with_organizations_def
  by (auto intro!: queue_rules organizations_keep_queues split: option.split)

lemma or_recovery_keeps: "keeps (queues_keep M) m \<Longrightarrow> keeps (queues_keep M) (or_recovery_unavailable pool m)"
  unfolding or_recovery_unavailable_def by (auto intro!: queue_rules)

lemmas photo_checks = job_access.keeps_checked [OF queues_keep_refl queues_keep_trans]

lemma photos_read_only: "read_only_call (repo_list_photo_evidence storage pool job)"
  unfolding repo_list_photo_evidence_def read_or_unavailable_def list_job_photos_def
  by (intro read_only_map read_only_if read_only_rules read_operations read_only_select)

lemma upload_handlers_keep:
  "keeps (queues_keep M) (handle_list_job_photos storage pool user job)"
  "keeps (queues_keep M) (handle_create_photo_upload env store pool user job r)"
  "0 \<le> M \<Longrightarrow> keeps (queues_keep M) (handle_complete_photo_upload env store pool user job c)"
  unfolding handle_list_job_photos_def handle_create_photo_upload_def handle_complete_photo_upload_def
  by (auto intro!: photo_checks keeps_map keeps_return create_upload_keeps complete_upload_keeps
      photos_read_only [THEN reads_keep_queues] split: option.split sum.split)

lemma recovery_handlers_keep:
  "0 \<le> M \<Longrightarrow> keeps (queues_keep M) (handle_retry_processing env pool user i)"
  "0 \<le> M \<Longrightarrow> keeps (queues_keep M) (handle_resolve_processing env pool user i reason)"
  "keeps (queues_keep M) (handle_retry_deletion env pool user i)"
  "keeps (queues_keep M) (handle_resolve_deletion env pool user i reason)"
  unfolding queue_repo_defs handle_retry_processing_def handle_resolve_processing_def handle_retry_deletion_def handle_resolve_deletion_def
  by (auto intro!: with_organizations_keeps keeps_map keeps_return or_recovery_keeps recoveries_keep split: sum.split)

lemma history_handlers_keep:
  "keeps (queues_keep M) (handle_processing_history pool user kind status n)"
  "keeps (queues_keep M) (handle_deletion_history pool user status n)"
  unfolding queue_repo_defs handle_processing_history_def handle_deletion_history_def
  by (auto intro!: with_organizations_keeps keeps_map keeps_return loaded_keeps history_reads [THEN reads_keep_queues]
      split: sum.split)

lemma erase_handler_keeps: "keeps (queues_keep M) (handle_erase_photos env storage delete pool user account reason)"
  unfolding handle_erase_photos_def erase_for_organizations_def
  by (auto intro!: keeps_bind keeps_map keeps_return organizations_keep_queues erasure_keeps split: sum.split option.split)

lemma handle_photo_keeps: "0 \<le> M \<Longrightarrow> keeps (queues_keep M) (handle_photo env store pool user r)"
  by (cases r) (auto intro!: keeps_map upload_handlers_keep recovery_handlers_keep history_handlers_keep erase_handler_keeps)

lemma serve_photo_keeps: "0 \<le> M \<Longrightarrow> keeps (queues_keep M) (serve_photo env store backend pool authorization r)"
  unfolding serve_photo_def
  by (auto intro!: queue_rules reads_keep_queues [OF gate_read_only] handle_photo_keeps split: gate_decision.split)

section \<open>The worker and runs\<close>

lemma finalize_all_keeps:
  assumes "\<And>env store c. keeps (queues_keep M) (finalize env store c)"
  shows "keeps (queues_keep M) (finalize_all finalize w k cs acc)"
proof (induction cs arbitrary: k acc)
  case Nil
  show ?case unfolding finalize_all.simps by (rule keeps_return [OF queues_keep_refl])
next
  case (Cons c cs)
  then show ?case unfolding finalize_all.simps by (intro keeps_bind assms queues_keep_trans)
qed

lemma finalize_keeps:
  "0 \<le> M \<Longrightarrow> keeps (queues_keep M) (finalize_thumbnail env store pool n c)"
  "keeps (queues_keep M) (finalize_deletion env store pool n x)"
  unfolding queue_repo_defs finalize_thumbnail_def finalize_deletion_def
  by (auto intro!: loaded_keeps marks_keep)

lemma cycle_keeps:
  assumes "0 \<le> M" and "n \<le> M"
  shows "keeps (queues_keep M) (process_photo_processing_once w pool k n)"
  unfolding queue_repo_defs process_photo_processing_once_def work_off_def claim_photo_processing_jobs_def
    claim_photo_erasure_deletion_jobs_def
  by (auto intro!: keeps_bind keeps_map keeps_return loaded_keeps finalize_all_keeps finalize_keeps bury_tasks_keeps
      claim_tasks_keeps bury_deletions_keeps claim_deletions_keeps assms split: resource_read.split)

lemma photo_step_keeps: "photo_step M backend d d' \<Longrightarrow> 0 \<le> M \<Longrightarrow> queues_keep M d d'"
  by (erule photo_stepE)
     (blast intro: queues_keep_other dest: keepsD [OF serve_photo_keeps] keepsD [OF cycle_keeps])+

lemma photos_reach_keeps: "photos_reach M backend d0 d \<Longrightarrow> 0 \<le> M \<Longrightarrow> queues_keep M d0 d"
proof (induction rule: photos_reach.induct)
  case start
  show ?case by (simp add: queues_keep_other)
next
  case (step d d')
  then show ?case using photo_step_keeps queues_keep_trans by (blast dest: transpD)
qed

section \<open>A queued row without attempts\<close>

definition spent_row :: "int \<Rightarrow> photo_task_row \<Rightarrow> bool" where
  "spent_row n x \<longleftrightarrow> task_status x = ''queued'' \<and> n \<le> task_attempt_count x"

definition holds_row :: "photo_task_row \<Rightarrow> db \<Rightarrow> db \<Rightarrow> bool" where
  "holds_row x d d' \<longleftrightarrow> (distinct (map task_pk (photo_tasks d)) \<and> x \<in> set (photo_tasks d) \<longrightarrow>
     distinct (map task_pk (photo_tasks d')) \<and> x \<in> set (photo_tasks d'))"

lemma holds_row_refl [simp]: "reflp (holds_row x)"
  by (simp add: reflp_def holds_row_def)

lemma holds_row_trans [simp]: "transp (holds_row x)"
  by (auto simp: transp_def holds_row_def)

lemma holds_row_other: "photo_tasks d' = photo_tasks d \<Longrightarrow> holds_row x d d'"
  by (simp add: holds_row_def)

lemma holds_row_update:
  assumes "\<And>y. task_pk (f y) = task_pk y" and "distinct (map task_pk (photo_tasks d)) \<Longrightarrow> x \<in> set (photo_tasks d) \<Longrightarrow> \<not> P x"
  shows "holds_row x d (d\<lparr> photo_tasks := update_where P f (photo_tasks d) \<rparr>)"
proof -
  have "map task_pk (update_where P f (photo_tasks d)) = map task_pk (photo_tasks d)"
    by (rule map_update_where) (rule assms(1))
  moreover have "x \<in> set (update_where P f (photo_tasks d))" if "x \<in> set (photo_tasks d)" "\<not> P x"
    using that by (force simp: set_update_where)
  ultimately show ?thesis using assms(2) by (simp add: holds_row_def)
qed

lemma claim_holds_row: "spent_row n x \<Longrightarrow> claim_tasks env k n d = Inr (cs, d') \<Longrightarrow> holds_row x d d'"
  using chosen_rows [of task_pk "photo_tasks d" x k task_precedes "claimable_task env n d"]
  by (auto simp: claim_tasks_def Let_def spent_row_def claimed_task_def claimable_task_def intro!: holds_row_update)

lemma bury_holds_row: "spent_row n x \<Longrightarrow> bury_tasks env n d = Inr (u, d') \<Longrightarrow> holds_row x d d'"
  by (auto simp: bury_tasks_def spent_row_def exhausted_task_def stale_task_def intro!: holds_row_update)

lemma update_claimed_holds_row:
  "spent_row n x \<Longrightarrow> (\<And>y. task_pk (f y) = task_pk y) \<Longrightarrow> update_claimed_task i f d = Inr (b, d') \<Longrightarrow> holds_row x d d'"
  by (auto simp: update_claimed_task_def Let_def spent_row_def intro!: holds_row_update)

lemma deletions_hold_row:
  "bury_deletions env n d = Inr (u, d') \<Longrightarrow> holds_row x d d'"
  "claim_deletions env k n d = Inr (cs, d') \<Longrightarrow> holds_row x d d'"
  "update_claimed_deletion i g d = Inr (b, d') \<Longrightarrow> holds_row x d d'"
  by (auto simp: bury_deletions_def claim_deletions_def update_claimed_deletion_def Let_def intro!: holds_row_other)

lemma finalize_all_holds:
  assumes "\<And>env store c. keeps (holds_row x) (finalize env store c)"
  shows "keeps (holds_row x) (finalize_all finalize w k cs acc)"
proof (induction cs arbitrary: k acc)
  case Nil
  show ?case unfolding finalize_all.simps by (rule keeps_return [OF holds_row_refl])
next
  case (Cons c cs)
  then show ?case unfolding finalize_all.simps by (intro keeps_bind assms holds_row_trans)
qed

lemma finalizations_hold:
  assumes "spent_row n x"
  shows "keeps (holds_row x) (finalize_thumbnail env store pool m c)" "keeps (holds_row x) (finalize_deletion env store pool m e)"
  unfolding queue_repo_defs finalize_thumbnail_def finalize_deletion_def mark_photo_processing_failed_def
    mark_photo_processing_completed_def mark_photo_erasure_deletion_failed_def mark_photo_erasure_deletion_completed_def
  by (auto intro!: loaded_keeps keeps_stmt dest: update_claimed_holds_row [OF assms, rotated] deletions_hold_row [where x = x])

lemma cycle_holds_row:
  assumes "spent_row n x"
  shows "keeps (holds_row x) (process_photo_processing_once w pool k n)"
  unfolding queue_repo_defs process_photo_processing_once_def work_off_def claim_photo_processing_jobs_def
    claim_photo_erasure_deletion_jobs_def
  by (auto intro!: keeps_bind keeps_map keeps_return keeps_stmt loaded_keeps finalize_all_holds finalizations_hold [OF assms]
      intro: claim_holds_row [OF assms] bury_holds_row [OF assms] split: resource_read.split)
    (erule deletions_hold_row)+

lemma cycles_hold_row:
  assumes "spent_row n x"
  shows "keeps (holds_row x) (worker_cycles ws pool k n)"
proof (induction ws)
  case Nil
  show ?case unfolding worker_cycles.simps by (rule keeps_return [OF holds_row_refl])
next
  case (Cons w ws)
  then show ?case unfolding worker_cycles.simps
    by (intro keeps_bind keeps_map cycle_holds_row [OF assms] holds_row_refl holds_row_trans)
qed

text \<open>A manager's retry does not touch it either.\<close>

lemma retry_refused:
  assumes "retry_photo_processing_job env (task_pk x) orgs actor (fs, d) = (Inr res, (fs', d'))"
    and "distinct (map task_pk (photo_tasks d))" and "x \<in> set (photo_tasks d)" and "task_status x = ''queued''"
  shows "res \<in> {NotRecoverable, RecoveryNotFound} \<and> d' = d"
proof -
  have own: "own_task (task_pk x) orgs d = None \<or> (\<exists>org. own_task (task_pk x) orgs d = Some (''queued'', org))"
  proof (cases "lookup_by (\<lambda>y. task_pk y = task_pk x \<and> task_organization_id y \<in> set orgs) (photo_tasks d)")
    case (Some y)
    from keyed_lookup [OF assms(2) this assms(3) refl] have "x = y" .
    with Some assms(4) show ?thesis by (simp add: own_task_def)
  qed (simp add: own_task_def)
  show ?thesis
    using assms(1) own unfolding retry_photo_processing_job_def recover_job_def
    by (auto elim!: db_bind_InrE db_transaction_InrE simp: db_return_def db_select_def db_stmt_def
        split: if_splits option.splits sum.splits prod.splits)
qed

end
