(* ===== verification/Image_Facts.thy ===== *)
theory Image_Facts
  imports Image_Headers
begin

text \<open>
  Well-formed image files, written out independently of the readers, and the readers on them: PNG, GIF,
  the three kinds of WebP, and JPEG streams whose frame header follows any marker segments.
\<close>

section \<open>Files\<close>

definition be_bytes16 :: "nat \<Rightarrow> bytes" where
  "be_bytes16 n = [of_nat (n div 256), of_nat (n mod 256)]"

definition le_bytes16 :: "nat \<Rightarrow> bytes" where
  "le_bytes16 n = rev (be_bytes16 n)"

definition le_bytes24 :: "nat \<Rightarrow> bytes" where
  "le_bytes24 n = [of_nat (n mod 256), of_nat (n div 256 mod 256), of_nat (n div 65536)]"

definition be_bytes32 :: "nat \<Rightarrow> bytes" where
  "be_bytes32 n = be_bytes16 (n div 65536) @ be_bytes16 (n mod 65536)"

text \<open>
  Before the frame header of a JPEG stream: restart markers, and segments that carry their length. Any
  number of fill bytes may precede a marker.
\<close>

datatype jpeg_part = Standalone nat "8 word" | Segment nat "8 word" bytes

definition standalone :: "8 word \<Rightarrow> bool" where
  "standalone m \<longleftrightarrow> m = 0xd8 \<or> (0xd0 \<le> m \<and> m \<le> 0xd7)"

fun part_ok :: "jpeg_part \<Rightarrow> bool" where
  "part_ok (Standalone k m) \<longleftrightarrow> standalone m"
| "part_ok (Segment k m payload) \<longleftrightarrow> \<not> standalone m \<and> m \<notin> {0xff, 0xd9, 0xda} \<and> \<not> is_jpeg_start_of_frame m
     \<and> length payload + 2 < 65536"

fun part_bytes :: "jpeg_part \<Rightarrow> bytes" where
  "part_bytes (Standalone k m) = replicate k 0xff @ [0xff, m]"
| "part_bytes (Segment k m payload) = replicate k 0xff @ [0xff, m] @ be_bytes16 (length payload + 2) @ payload"

datatype image_file =
    Png nat nat bytes
  | Gif bool nat nat bytes
  | Webp_Extended bytes bytes nat nat bytes
  | Webp_Lossless bytes bytes nat nat nat bytes
  | Webp_Lossy bytes bytes nat nat nat nat bytes
  | Jpeg "jpeg_part list" nat "8 word" nat "8 word" nat nat bytes

fun image_size :: "image_file \<Rightarrow> int \<times> int" where
  "image_size (Png w h _) = (int w, int h)"
| "image_size (Gif _ w h _) = (int w, int h)"
| "image_size (Webp_Extended _ _ w h _) = (int w, int h)"
| "image_size (Webp_Lossless _ _ w h _ _) = (int w, int h)"
| "image_size (Webp_Lossy _ _ w h _ _ _) = (int w, int h)"
| "image_size (Jpeg _ _ _ _ _ w h _) = (int w, int h)"

fun image_ok :: "image_file \<Rightarrow> bool" where
  "image_ok (Png w h _) \<longleftrightarrow> w \<in> {1..<2 ^ 31} \<and> h \<in> {1..<2 ^ 31}"
| "image_ok (Gif _ w h _) \<longleftrightarrow> w \<in> {1..<65536} \<and> h \<in> {1..<65536}"
| "image_ok (Webp_Extended riff chunk w h _) \<longleftrightarrow> length riff = 4 \<and> length chunk = 8
     \<and> w \<in> {1..2 ^ 24} \<and> h \<in> {1..2 ^ 24}"
| "image_ok (Webp_Lossless riff chunk w h extra _) \<longleftrightarrow> length riff = 4 \<and> length chunk = 4
     \<and> w \<in> {1..16384} \<and> h \<in> {1..16384} \<and> extra < 16"
| "image_ok (Webp_Lossy riff chunk w h ws hs _) \<longleftrightarrow> length riff = 4 \<and> length chunk = 7
     \<and> w \<in> {1..<16384} \<and> h \<in> {1..<16384} \<and> ws < 4 \<and> hs < 4"
| "image_ok (Jpeg parts k m len precision w h rest) \<longleftrightarrow> list_all part_ok parts \<and> is_jpeg_start_of_frame m
     \<and> 7 \<le> len \<and> len < 65536 \<and> len \<le> length rest + 7 \<and> w \<in> {1..<65536} \<and> h \<in> {1..<65536}"

fun image_bytes :: "image_file \<Rightarrow> bytes" where
  "image_bytes (Png w h rest) =
     png_signature @ be_bytes32 13 @ ascii_bytes ''IHDR'' @ be_bytes32 w @ be_bytes32 h @ rest"
| "image_bytes (Gif old w h rest) =
     ascii_bytes (if old then ''GIF87a'' else ''GIF89a'') @ le_bytes16 w @ le_bytes16 h @ rest"
| "image_bytes (Webp_Extended riff chunk w h rest) =
     ascii_bytes ''RIFF'' @ riff @ ascii_bytes ''WEBPVP8X'' @ chunk @ le_bytes24 (w - 1) @ le_bytes24 (h - 1) @ rest"
| "image_bytes (Webp_Lossless riff chunk w h extra rest) =
     ascii_bytes ''RIFF'' @ riff @ ascii_bytes ''WEBPVP8L'' @ chunk @ [0x2f] @
     [of_nat ((w - 1) mod 256), of_nat ((w - 1) div 256 + 64 * ((h - 1) mod 4)),
      of_nat ((h - 1) div 4 mod 256), of_nat ((h - 1) div 1024 + 16 * extra)] @ rest"
| "image_bytes (Webp_Lossy riff chunk w h ws hs rest) =
     ascii_bytes ''RIFF'' @ riff @ ascii_bytes ''WEBPVP8 '' @ chunk @ [0x9d, 0x01, 0x2a] @
     le_bytes16 (w + 16384 * ws) @ le_bytes16 (h + 16384 * hs) @ rest"
| "image_bytes (Jpeg parts k m len precision w h rest) =
     [0xff, 0xd8] @ concat (map part_bytes parts) @ replicate k 0xff @ [0xff, m] @ be_bytes16 len @ [precision] @
     be_bytes16 h @ be_bytes16 w @ rest"

section \<open>Words\<close>

lemma unat_byte [simp]: "n < 256 \<Longrightarrow> unat (of_nat n :: 8 word) = n"
  by (simp add: unat_of_nat take_bit_eq_mod)

lemma ucast_byte:
  assumes "n < 256"
  shows "ucast (of_nat n :: 8 word) = (of_nat n :: 'a :: len word)"
  using assms by (simp add: unsigned_of_nat take_bit_eq_mod)

lemma ucast_half:
  assumes "n < 65536"
  shows "ucast (of_nat n :: 16 word) = (of_nat n :: 'a :: len word)"
  using assms by (simp add: unsigned_of_nat take_bit_eq_mod)

lemma be16_nat:
  assumes "a < 256" and "b < 256"
  shows "be16 (of_nat a) (of_nat b) = of_nat (256 * a + b)"
  using assms by (simp add: be16_def word_cat_eq ucast_byte push_bit_eq_mult)

lemma be32_nat:
  assumes "a < 65536" and "b < 65536"
  shows "(word_cat (of_nat a :: 16 word) (of_nat b :: 16 word) :: u32) = of_nat (65536 * a + b)"
  using assms by (simp add: word_cat_eq ucast_half push_bit_eq_mult)

lemma dimensions_nat:
  assumes "0 < w" "w < 2 ^ 31" "0 < h" "h < 2 ^ 31"
  shows "dimensions_from_u32 (of_nat w) (of_nat h) = Some (int w, int h)"
proof -
  have "positive_i32 (of_nat n) = Some (int n)" if "0 < n" "n < 2 ^ 31" for n
  proof -
    have "unat (of_nat n :: u32) = n" using that by (simp add: unat_of_nat take_bit_eq_mod)
    then show ?thesis
      using that by (simp add: positive_i32_def word_less_nat_alt unsigned_of_nat take_bit_eq_mod)
  qed
  then show ?thesis using assms by (simp add: dimensions_from_u32_def)
qed

section \<open>Reading inside a list\<close>

lemma get_byte_append [simp]:
  "get_byte (p @ bs) i = (if i < length p then Some (p ! i) else get_byte bs (i - length p))"
  by (auto simp: get_byte_def nth_append)

lemma read_be_u16_at:
  assumes "i = length p" and "n < 65536"
  shows "read_be_u16 (p @ be_bytes16 n @ rest) i = Some (of_nat n)"
proof -
  have "n div 256 < 256" "n mod 256 < 256" using assms(2) by simp_all
  then show ?thesis
    using assms by (simp add: read_be_u16_def be_bytes16_def get_byte_def nth_append be16_nat)
qed

lemma read_le_u16_at:
  assumes "i = length p" and "n < 65536"
  shows "read_le_u16 (p @ le_bytes16 n @ rest) i = Some (of_nat n)"
proof -
  have "n div 256 < 256" "n mod 256 < 256" using assms(2) by simp_all
  then show ?thesis
    using assms by (simp add: read_le_u16_def le_bytes16_def be_bytes16_def get_byte_def nth_append be16_nat)
qed

lemma read_be_u32_at:
  assumes "i = length p" and "n < 2 ^ 32"
  shows "read_be_u32 (p @ be_bytes32 n @ rest) i = Some (of_nat n)"
proof -
  have small: "n div 65536 < 65536" "n mod 65536 < 65536" using assms(2) by simp_all
  have len: "length (be_bytes16 k) = 2" for k by (simp add: be_bytes16_def)
  have "read_be_u16 (p @ be_bytes16 (n div 65536) @ be_bytes16 (n mod 65536) @ rest) i
      = Some (of_nat (n div 65536))"
    by (rule read_be_u16_at) (use assms small in simp_all)
  moreover have "read_be_u16 ((p @ be_bytes16 (n div 65536)) @ be_bytes16 (n mod 65536) @ rest) (i + 2)
      = Some (of_nat (n mod 65536))"
    by (rule read_be_u16_at) (use assms small len in simp_all)
  ultimately show ?thesis
    using small by (simp add: read_be_u32_def be_bytes32_def be32_nat)
qed

lemma read_le_u24_at:
  assumes "i = length p" and "n < 2 ^ 24"
  shows "read_le_u24 (p @ le_bytes24 n @ rest) i = Some (of_nat n)"
proof -
  have small: "n div 65536 < 256" "n div 256 mod 256 < 256" "n mod 256 < 256" using assms(2) by simp_all
  let ?a = "of_nat (n mod 256) :: u32" and ?b = "of_nat (n div 256 mod 256) :: u32"
    and ?c = "of_nat (n div 65536) :: u32"
  have "or ?a (or (push_bit 8 ?b) (push_bit 16 ?c))
      = of_nat (or (n mod 256) (or (push_bit 8 (n div 256 mod 256)) (push_bit 16 (n div 65536))))"
    by (simp add: of_nat_or_eq push_bit_of_nat)
  also have "or (n mod 256) (or (push_bit 8 (n div 256 mod 256)) (push_bit 16 (n div 65536))) = n"
  proof (rule bit_eqI)
    fix j :: nat
    have eqs: "n mod 256 = take_bit 8 n" "n div 256 mod 256 = take_bit 8 (drop_bit 8 n)" "n div 65536 = drop_bit 16 n"
      by (simp_all add: take_bit_eq_mod drop_bit_eq_div)
    show "bit (or (n mod 256) (or (push_bit 8 (n div 256 mod 256)) (push_bit 16 (n div 65536)))) j = bit n j"
      unfolding eqs
      by (cases "j < 8"; cases "j < 16")
        (auto simp: bit_or_iff bit_push_bit_iff bit_take_bit_iff bit_drop_bit_eq)
  qed
  finally show ?thesis
    using assms(1) small
    by (simp add: read_le_u24_def le_bytes24_def get_byte_def nth_append ucast_byte)
qed

section \<open>JPEG\<close>

text \<open>One round of the loop, at a marker behind any number of fill bytes.\<close>

lemma scan_marker:
  fixes k :: nat and m :: "8 word"
  assumes bs: "bs = pre @ replicate k 0xff @ [0xff, m] @ rest" and i: "i = length pre"
    and m: "m \<noteq> 0xff" and long: "2 \<le> k + length rest"
  defines "j \<equiv> i + k + 2"
  shows "jpeg_scan bs i =
    (if m = 0xd9 \<or> m = 0xda then run_return None
     else if standalone m then jpeg_scan bs j
     else if length bs < j + 2 then run_return None
     else (case read_be_u16 bs j of None \<Rightarrow> run_return None
       | Some w \<Rightarrow>
           if unat w < 2 \<or> length bs < j + unat w then run_return None
           else if is_jpeg_start_of_frame m \<and> 7 \<le> unat w then run_return (frame_dimensions bs j)
           else jpeg_scan bs (j + unat w)))"
proof -
  have drop: "drop i bs = replicate (k + 1) 0xff @ m # rest"
    by (simp add: bs i replicate_append_same flip: replicate_Suc)
  have "takeWhile (\<lambda>b. b \<noteq> 0xff) (drop i bs) = []"
    by (simp add: drop)
  moreover have "takeWhile (\<lambda>b. b = 0xff) (drop i bs) = replicate (k + 1) 0xff"
    unfolding drop using m by (subst takeWhile_append2) auto
  moreover have "bs ! (i + k + 1) = m" "i + k + 1 < length bs" "i + 3 < length bs"
    using long by (simp_all add: bs i nth_append)
  ultimately show ?thesis
    by (subst jpeg_scan.simps) (simp add: skip_while_run j_def standalone_def split: option.split)
qed

lemma scan_part:
  assumes "part_ok p" and "bs = pre @ part_bytes p @ rest" and "2 \<le> length rest"
  shows "jpeg_scan bs (length pre) = jpeg_scan bs (length (pre @ part_bytes p))"
proof (cases p)
  case (Standalone k m)
  then have m: "standalone m" "m \<noteq> 0xff" "m \<noteq> 0xd9" "m \<noteq> 0xda"
    using assms(1) by (auto simp: standalone_def)
  have "bs = pre @ replicate k 0xff @ [0xff, m] @ rest"
    using assms(2) Standalone by simp
  from scan_marker [OF this refl m(2)] show ?thesis
    using m assms(3) by (simp add: Standalone add.assoc)
next
  case (Segment k m payload)
  then have m: "\<not> standalone m" "m \<noteq> 0xff" "m \<noteq> 0xd9" "m \<noteq> 0xda" "\<not> is_jpeg_start_of_frame m"
    and len: "length payload + 2 < 65536"
    using assms(1) by auto
  let ?head = "pre @ replicate k 0xff @ [0xff, m]"
  have bs: "bs = pre @ replicate k 0xff @ [0xff, m] @ be_bytes16 (length payload + 2) @ payload @ rest"
    using assms(2) Segment by simp
  then have "read_be_u16 bs (length ?head) = Some (of_nat (length payload + 2))"
    using read_be_u16_at [of "length ?head" ?head "length payload + 2" "payload @ rest"] len by simp
  moreover have "unat (of_nat (length payload + 2) :: 16 word) = length payload + 2"
    using len by (simp only: unat_of_nat take_bit_eq_mod) simp
  moreover have "length (be_bytes16 n) = 2" for n by (simp add: be_bytes16_def)
  ultimately show ?thesis
    using scan_marker [OF bs refl m(2)] m len by (simp add: Segment bs add.assoc)
qed

lemma scan_parts:
  assumes "list_all part_ok parts" and "bs = pre @ concat (map part_bytes parts) @ rest" and "2 \<le> length rest"
  shows "jpeg_scan bs (length pre) = jpeg_scan bs (length (pre @ concat (map part_bytes parts)))"
  using assms(1,2)
proof (induction parts arbitrary: pre)
  case (Cons p parts)
  have "jpeg_scan bs (length pre) = jpeg_scan bs (length (pre @ part_bytes p))"
    by (rule scan_part [where rest = "concat (map part_bytes parts) @ rest"]) (use Cons.prems assms(3) in auto)
  also have "\<dots> = jpeg_scan bs (length ((pre @ part_bytes p) @ concat (map part_bytes parts)))"
    by (rule Cons.IH) (use Cons.prems in auto)
  finally show ?case by simp
qed simp

lemma scan_frame:
  assumes m: "is_jpeg_start_of_frame m" and len: "7 \<le> len" "len < 65536" "len \<le> length rest + 7"
    and size: "w \<in> {1..<65536}" "h \<in> {1..<65536}"
    and bs: "bs = pre @ replicate k 0xff @ [0xff, m] @ be_bytes16 len @ [precision] @
      be_bytes16 h @ be_bytes16 w @ rest"
  shows "jpeg_scan bs (length pre) = run_return (Some (int w, int h))"
proof -
  let ?head = "pre @ replicate k 0xff @ [0xff, m]"
  have mm: "m \<noteq> 0xff" "m \<noteq> 0xd9" "m \<noteq> 0xda" "\<not> standalone m"
    using m by (auto simp: is_jpeg_start_of_frame_def standalone_def)
  have two [simp]: "length (be_bytes16 n) = 2" for n by (simp add: be_bytes16_def)
  have "read_be_u16 bs (length ?head) = Some (of_nat len)"
    using read_be_u16_at [of "length ?head" ?head len] len by (simp add: bs)
  moreover have "unat (of_nat len :: 16 word) = len"
    using len by (simp only: unat_of_nat take_bit_eq_mod) simp
  moreover have "read_be_u16 bs (length ?head + 3) = Some (of_nat h)"
    using read_be_u16_at [of "length ?head + 3" "?head @ be_bytes16 len @ [precision]" h] size by (simp add: bs)
  moreover have "read_be_u16 bs (length ?head + 5) = Some (of_nat w)"
    using read_be_u16_at [of "length ?head + 5" "?head @ be_bytes16 len @ [precision] @ be_bytes16 h" w] size
    by (simp add: bs)
  ultimately show ?thesis
    using scan_marker [OF bs refl mm(1)] mm m len size
    by (simp add: bs frame_dimensions_def ucast_half dimensions_nat add.assoc)
qed

lemma jpeg_reader:
  assumes "image_ok (Jpeg parts k m len precision w h rest)"
  shows "jpeg_dimensions (image_bytes (Jpeg parts k m len precision w h rest)) = run_return (Some (int w, int h))"
proof -
  let ?frame = "replicate k 0xff @ [0xff, m] @ be_bytes16 len @ [precision] @ be_bytes16 h @ be_bytes16 w @ rest"
  let ?bs = "image_bytes (Jpeg parts k m len precision w h rest)"
  have "jpeg_scan ?bs (length [0xff, 0xd8 :: 8 word])
      = jpeg_scan ?bs (length ([0xff, 0xd8] @ concat (map part_bytes parts)))"
    by (rule scan_parts [where rest = ?frame]) (use assms in auto)
  also have "\<dots> = run_return (Some (int w, int h))"
    by (rule scan_frame [where rest = rest and len = len and m = m]) (use assms in auto)
  finally show ?thesis by (simp add: jpeg_dimensions_def numeral_2_eq_2)
qed

section \<open>The other readers\<close>

lemma png_reader:
  assumes "image_ok (Png w h rest)"
  shows "png_dimensions (image_bytes (Png w h rest)) = run_return (Some (int w, int h))"
proof -
  let ?p = "png_signature @ be_bytes32 13 @ ascii_bytes ''IHDR''"
  have sizes: "length png_signature = 8" "length (ascii_bytes s) = length s" "length (be_bytes32 n) = 4" for s n
    by (simp_all add: png_signature_def ascii_bytes_def be_bytes32_def be_bytes16_def)
  have "read_be_u32 (?p @ be_bytes32 w @ be_bytes32 h @ rest) 16 = Some (of_nat w)"
    by (rule read_be_u32_at) (use assms sizes in auto)
  moreover have "read_be_u32 ((?p @ be_bytes32 w) @ be_bytes32 h @ rest) 20 = Some (of_nat h)"
    by (rule read_be_u32_at) (use assms sizes in auto)
  ultimately show ?thesis
    using assms by (simp add: png_dimensions_def get_range_def sizes dimensions_nat)
qed

lemma gif_reader:
  assumes "image_ok (Gif old w h rest)"
  shows "gif_dimensions (image_bytes (Gif old w h rest)) = run_return (Some (int w, int h))"
proof -
  have small: "n div 256 < 256" "n mod 256 < 256" if "n < 65536" for n :: nat using that by simp_all
  let ?bs = "image_bytes (Gif old w h rest)"
  have "?bs ! 6 = of_nat (w mod 256)" "?bs ! 7 = of_nat (w div 256)"
    "?bs ! 8 = of_nat (h mod 256)" "?bs ! 9 = of_nat (h div 256)"
    by (auto simp: ascii_bytes_def le_bytes16_def be_bytes16_def nth_append)
  moreover have "\<not> length ?bs < 10" "is_prefix (ascii_bytes ''GIF87a'') ?bs \<or> is_prefix (ascii_bytes ''GIF89a'') ?bs"
    by (auto simp: ascii_bytes_def le_bytes16_def be_bytes16_def is_prefix_def)
  ultimately show ?thesis
    using assms by (simp add: gif_dimensions_def be16_nat small ucast_half dimensions_nat
        del: image_bytes.simps)
qed

lemma lengths [simp]: "length (le_bytes24 n) = 3" "length (le_bytes16 n) = 2" "length (ascii_bytes s) = length s"
  by (simp_all add: le_bytes24_def le_bytes16_def be_bytes16_def ascii_bytes_def)

lemma webp_kind:
  assumes "length riff = 4"
    and "bs = ascii_bytes ''RIFF'' @ riff @ ascii_bytes (''WEBP'' @ kind) @ rest" and "length kind = 4"
  shows "webp_dimensions bs =
    (if kind = ''VP8X'' then webp_extended_dimensions bs
     else if kind = ''VP8L'' then webp_lossless_dimensions bs
     else if kind = ''VP8 '' then webp_lossy_dimensions bs else None)"
proof -
  have "unat (of_char c :: 8 word) = of_char c" for c
    by (metis nat_of_char_less_256 of_nat_of_char unat_byte)
  then have "inj (of_char :: char \<Rightarrow> 8 word)"
    by (metis injI of_char_eq_iff)
  then have inj: "ascii_bytes s = ascii_bytes t \<longleftrightarrow> s = t" for s t
    by (simp add: ascii_bytes_def inj_map_eq_map)
  have "get_range bs 0 4 = Some (ascii_bytes ''RIFF'')" "get_range bs 8 12 = Some (ascii_bytes ''WEBP'')"
    "get_range bs 12 16 = Some (ascii_bytes kind)" "\<not> length bs < 16"
    using assms by (simp_all add: get_range_def ascii_bytes_def)
  then show ?thesis by (simp add: webp_dimensions_def inj)
qed

lemma webp_extended_reader:
  assumes ok: "image_ok (Webp_Extended riff chunk w h rest)"
  shows "webp_dimensions (image_bytes (Webp_Extended riff chunk w h rest)) = Some (int w, int h)"
proof -
  let ?p = "ascii_bytes ''RIFF'' @ riff @ ascii_bytes ''WEBPVP8X'' @ chunk"
  let ?bs = "image_bytes (Webp_Extended riff chunk w h rest)"
  have "read_le_u24 (?p @ le_bytes24 (w - 1) @ le_bytes24 (h - 1) @ rest) 24 = Some (of_nat (w - 1))"
    by (rule read_le_u24_at) (use ok in auto)
  moreover have "read_le_u24 ((?p @ le_bytes24 (w - 1)) @ le_bytes24 (h - 1) @ rest) 27 = Some (of_nat (h - 1))"
    by (rule read_le_u24_at) (use ok in auto)
  moreover have "(1 + of_nat (n - 1) :: u32) = of_nat n" if "1 \<le> n" for n
    using that by (cases n) simp_all
  ultimately have "webp_extended_dimensions ?bs = Some (int w, int h)"
    using ok by (simp add: webp_extended_dimensions_def dimensions_nat)
  then show ?thesis
    using webp_kind [of riff ?bs "''VP8X''"] ok by simp
qed

lemma webp_lossy_reader:
  assumes ok: "image_ok (Webp_Lossy riff chunk w h ws hs rest)"
  shows "webp_dimensions (image_bytes (Webp_Lossy riff chunk w h ws hs rest)) = Some (int w, int h)"
proof -
  let ?p = "ascii_bytes ''RIFF'' @ riff @ ascii_bytes ''WEBPVP8 '' @ chunk @ [0x9d, 0x01, 0x2a]"
  let ?w = "w + 16384 * ws" and ?h = "h + 16384 * hs"
  let ?bs = "image_bytes (Webp_Lossy riff chunk w h ws hs rest)"
  have "read_le_u16 (?p @ le_bytes16 ?w @ le_bytes16 ?h @ rest) 26 = Some (of_nat ?w)"
    by (rule read_le_u16_at) (use ok in auto)
  moreover have "read_le_u16 ((?p @ le_bytes16 ?w) @ le_bytes16 ?h @ rest) 28 = Some (of_nat ?h)"
    by (rule read_le_u16_at) (use ok in auto)
  moreover have "get_range ?bs 23 26 = Some [0x9d, 0x01, 0x2a]"
    using ok by (simp add: get_range_def ascii_bytes_def)
  moreover have "and (of_nat (n + 16384 * s) :: 16 word) 0x3fff = of_nat n" if "n < 16384" for n s
  proof -
    have "and (n + 16384 * s) (mask 14) = n"
      using that by (simp only: take_bit_eq_mask [symmetric] take_bit_eq_mod) simp
    then have "and (of_nat (n + 16384 * s)) (of_nat (mask 14)) = (of_nat n :: 16 word)"
      by (metis of_nat_and_eq)
    then show ?thesis by (simp add: mask_eq_exp_minus_1)
  qed
  ultimately have "webp_lossy_dimensions ?bs = Some (int w, int h)"
    using ok by (simp add: webp_lossy_dimensions_def ucast_half dimensions_nat)
  then show ?thesis
    using webp_kind [of riff ?bs "''VP8 ''"] ok by simp
qed

lemma webp_lossless_reader:
  assumes ok: "image_ok (Webp_Lossless riff chunk w h extra rest)"
  shows "webp_dimensions (image_bytes (Webp_Lossless riff chunk w h extra rest)) = Some (int w, int h)"
proof -
  let ?bs = "image_bytes (Webp_Lossless riff chunk w h extra rest)"
  define a b where "a = w - 1" and "b = h - 1"
  have ab: "a < 16384" "b < 16384" "w = a + 1" "h = b + 1" using ok by (auto simp: a_def b_def)
  let ?b1 = "a div 256 + 64 * (b mod 4)" and ?b3 = "b div 1024 + 16 * extra"
  have bytes: "a mod 256 < 256" "?b1 < 256" "b div 4 mod 256 < 256" "?b3 < 256"
    using ab ok by auto
  have get: "get_byte ?bs 20 = Some 0x2f" "get_byte ?bs 21 = Some (of_nat (a mod 256))"
    "get_byte ?bs 22 = Some (of_nat ?b1)" "get_byte ?bs 23 = Some (of_nat (b div 4 mod 256))"
    "get_byte ?bs 24 = Some (of_nat ?b3)"
    using ok by (simp_all add: get_byte_def nth_append ascii_bytes_def a_def b_def)
  have low_bits: "and (of_nat n :: u32) (mask k) = of_nat (n mod 2 ^ k)" for n k
    by (metis take_bit_eq_mask take_bit_of_nat take_bit_eq_mod)
  have mask: "and (of_nat n :: u32) 0x3f = of_nat (n mod 64)" "and (of_nat n :: u32) 0x0f = of_nat (n mod 16)" for n
    using low_bits [of n 6] low_bits [of n 4] by (simp_all add: mask_eq_exp_minus_1)
  have high: "drop_bit 6 (of_nat n :: u32) = of_nat (n div 64)" if "n < 256" for n
    using that by (simp add: word_unat_eq_iff drop_bit_eq_div unat_div unat_of_nat take_bit_eq_mod)
  have split: "n mod 256 + 256 * (n div 256) = n" for n :: nat
    by (rule mod_mult_div_eq)
  have split4: "n mod 4 + 4 * (n div 4 mod 256) + 1024 * (n div 1024) = n" for n :: nat
  proof -
    have "n div 1024 = n div 4 div 256" using div_mult2_eq [of n 4 256] by simp
    then show ?thesis using split [of "n div 4"] mod_mult_div_eq [of n 4] by linarith
  qed
  have parts: "?b1 mod 64 = a div 256" "?b1 div 64 = b mod 4" "?b3 mod 16 = b div 1024"
    using ab by auto
  have width: "1 + of_nat (a mod 256) + push_bit 8 (of_nat (?b1 mod 64)) = (of_nat w :: u32)"
  proof -
    have "1 + of_nat x + push_bit 8 (of_nat y) = (of_nat (1 + (x + 256 * y)) :: u32)" for x y
      by (simp add: push_bit_eq_mult)
    then have "1 + of_nat (a mod 256) + push_bit 8 (of_nat (a div 256))
        = (of_nat (1 + (a mod 256 + 256 * (a div 256))) :: u32)" .
    also have "1 + (a mod 256 + 256 * (a div 256)) = w" using split [of a] ab by simp
    finally show ?thesis by (simp only: parts)
  qed
  have height: "1 + drop_bit 6 (of_nat ?b1) + push_bit 2 (of_nat (b div 4 mod 256)) + push_bit 10 (of_nat (?b3 mod 16))
      = (of_nat h :: u32)"
  proof -
    have "1 + of_nat x + push_bit 2 (of_nat y) + push_bit 10 (of_nat z) = (of_nat (1 + (x + 4 * y + 1024 * z)) :: u32)"
      for x y z by (simp add: push_bit_eq_mult)
    then have "1 + of_nat (b mod 4) + push_bit 2 (of_nat (b div 4 mod 256)) + push_bit 10 (of_nat (b div 1024))
        = (of_nat (1 + (b mod 4 + 4 * (b div 4 mod 256) + 1024 * (b div 1024))) :: u32)" .
    also have "1 + (b mod 4 + 4 * (b div 4 mod 256) + 1024 * (b div 1024)) = h" using split4 [of b] ab by simp
    finally show ?thesis by (simp only: high [OF bytes(2)] parts)
  qed
  have dims: "dimensions_from_u32 (of_nat w) (of_nat h) = Some (int w, int h)"
    by (rule dimensions_nat) (use ok in auto)
  have "webp_lossless_dimensions ?bs = Some (int w, int h)"
    unfolding webp_lossless_dimensions_def get
    by (simp only: option.case prod.case Let_def ucast_byte [OF bytes(1)] ucast_byte [OF bytes(2)]
        ucast_byte [OF bytes(3)] ucast_byte [OF bytes(4)] mask width height dims simp_thms if_False)
  then show ?thesis
    using webp_kind [of riff ?bs "''VP8L''"] ok by simp
qed

section \<open>All formats\<close>

text \<open>The first two bytes tell the formats apart.\<close>

lemma first_bytes:
  "b \<noteq> 0x89 \<Longrightarrow> png_dimensions (b # c # bs) = run_return None"
  "b \<noteq> 0x47 \<Longrightarrow> gif_dimensions (b # c # bs) = run_return None"
  "b \<noteq> 0xff \<Longrightarrow> jpeg_dimensions (b # c # bs) = run_return None"
  by (simp_all add: png_dimensions_def get_range_def png_signature_def gif_dimensions_def is_prefix_def
      ascii_bytes_def jpeg_dimensions_def)

lemma or_else_None [simp]: "or_else (run_return None) n = n"
  by (simp add: or_else_def)

lemma or_else_Some [simp]: "or_else (run_return (Some a)) n = run_return (Some a)"
  by (simp add: or_else_def)

lemma image_reader:
  assumes "image_ok f"
  shows "image_dimensions (image_bytes f) = run_return (Some (image_size f))"
proof (cases f)
  case (Png w h rest)
  then show ?thesis using png_reader assms by (simp add: image_dimensions_def del: image_bytes.simps)
next
  case (Gif old w h rest)
  have "png_dimensions (image_bytes f) = run_return None"
    by (simp add: Gif ascii_bytes_def first_bytes)
  then show ?thesis using gif_reader assms Gif by (simp add: image_dimensions_def del: image_bytes.simps)
next
  case (Jpeg parts k m len precision w h rest)
  have "png_dimensions (image_bytes f) = run_return None" "gif_dimensions (image_bytes f) = run_return None"
    by (simp_all add: Jpeg first_bytes)
  then show ?thesis using jpeg_reader assms Jpeg by (simp add: image_dimensions_def del: image_bytes.simps image_ok.simps)
next
  case (Webp_Extended riff chunk w h rest)
  have "png_dimensions (image_bytes f) = run_return None" "gif_dimensions (image_bytes f) = run_return None"
    "jpeg_dimensions (image_bytes f) = run_return None"
    by (simp_all add: Webp_Extended ascii_bytes_def first_bytes)
  then show ?thesis using webp_extended_reader assms Webp_Extended
    by (simp add: image_dimensions_def del: image_bytes.simps image_ok.simps)
next
  case (Webp_Lossless riff chunk w h extra rest)
  have "png_dimensions (image_bytes f) = run_return None" "gif_dimensions (image_bytes f) = run_return None"
    "jpeg_dimensions (image_bytes f) = run_return None"
    by (simp_all add: Webp_Lossless ascii_bytes_def first_bytes)
  then show ?thesis using webp_lossless_reader assms Webp_Lossless
    by (simp add: image_dimensions_def del: image_bytes.simps image_ok.simps)
next
  case (Webp_Lossy riff chunk w h ws hs rest)
  have "png_dimensions (image_bytes f) = run_return None" "gif_dimensions (image_bytes f) = run_return None"
    "jpeg_dimensions (image_bytes f) = run_return None"
    by (simp_all add: Webp_Lossy ascii_bytes_def first_bytes)
  then show ?thesis using webp_lossy_reader assms Webp_Lossy
    by (simp add: image_dimensions_def del: image_bytes.simps image_ok.simps)
qed

end
