(* ===== verification/Calendar_Facts.thy ===== *)
theory Calendar_Facts
  imports Photo_Storage
begin

text \<open>
  The date of a signature is that of the Gregorian calendar, counted day by day from 1 January 1970.
\<close>

section \<open>The calendar\<close>

type_synonym civil_date = "nat \<times> nat \<times> nat"

fun next_date :: "civil_date \<Rightarrow> civil_date" where
  "next_date (y, m, d) =
     (if d < days_in_month y m then (y, m, d + 1) else if m < 12 then (y, m + 1, 1) else (y + 1, 1, 1))"

fun date_of_day :: "nat \<Rightarrow> civil_date" where
  "date_of_day 0 = (1970, 1, 1)"
| "date_of_day (Suc n) = next_date (date_of_day n)"

fun valid_date :: "civil_date \<Rightarrow> bool" where
  "valid_date (y, m, d) \<longleftrightarrow> 1970 \<le> y \<and> 1 \<le> m \<and> m \<le> 12 \<and> 1 \<le> d \<and> d \<le> days_in_month y m"

lemma next_date_valid: "valid_date x \<Longrightarrow> valid_date (next_date x)"
  by (cases x) (auto simp: days_in_month_def)

lemma date_of_day_valid: "valid_date (date_of_day n)"
  by (induction n) (simp_all add: days_in_month_def next_date_valid)

section \<open>Counting the days of a date\<close>

text \<open>The year that begins in March, the month in it, and the day in that year.\<close>

definition march_year :: "nat \<Rightarrow> nat \<Rightarrow> nat" where
  "march_year y m = (if m \<le> 2 then y - 1 else y)"

definition march_month :: "nat \<Rightarrow> nat" where
  "march_month m = (if m \<le> 2 then m + 9 else m - 3)"

definition march_day :: "nat \<Rightarrow> nat \<Rightarrow> nat" where
  "march_day m d = (153 * march_month m + 2) div 5 + d - 1"

definition year_start :: "nat \<Rightarrow> nat" where
  "year_start y = 365 * y + y div 4 - y div 100 + y div 400"

fun day_count :: "civil_date \<Rightarrow> nat" where
  "day_count (y, m, d) = year_start (march_year y m) + march_day m d"

lemma leap_year_dvd: "leap_year y \<longleftrightarrow> y mod 4 = 0 \<and> (y mod 100 \<noteq> 0 \<or> y mod 400 = 0)"
  by (simp add: leap_year_def dvd_eq_mod_eq_0)

lemma year_start_step:
  "year_start (Suc y) = year_start y + (if leap_year (Suc y) then 366 else 365)"
proof -
  have steps: "Suc y div 4 = y div 4 + (if Suc y mod 4 = 0 then 1 else 0)"
    "Suc y div 100 = y div 100 + (if Suc y mod 100 = 0 then 1 else 0)"
    "Suc y div 400 = y div 400 + (if Suc y mod 400 = 0 then 1 else 0)"
    by (simp_all only: div_Suc split: if_split) simp_all
  have "400 dvd Suc y \<Longrightarrow> 100 dvd Suc y" "100 dvd Suc y \<Longrightarrow> 4 dvd Suc y"
    by (erule dvd_trans [rotated], simp)+
  then have nested: "Suc y mod 400 = 0 \<Longrightarrow> Suc y mod 100 = 0" "Suc y mod 100 = 0 \<Longrightarrow> Suc y mod 4 = 0"
    by (simp_all only: dvd_eq_mod_eq_0)
  have "y div 100 \<le> 365 * y" by (rule order_trans [OF div_le_dividend]) simp
  moreover have "365 * Suc y + (a + i) - (b + j) + (c + k) = 365 * y + a - b + c + (365 + i - j + k)"
    if "b \<le> 365 * y" "j \<le> 1" for a b c i j k :: nat
    using that by simp
  ultimately show ?thesis
    using nested by (auto simp: year_start_def leap_year_dvd steps simp del: mod_Suc_eq) (simp_all add: ac_simps)
qed

lemma month_cases:
  assumes "1 \<le> m" and "m \<le> (12 :: nat)"
  obtains "m = 1" | "m = 2" | "m = 3" | "m = 4" | "m = 5" | "m = 6" | "m = 7" | "m = 8" | "m = 9"
    | "m = 10" | "m = 11" | "m = 12"
proof -
  have "m = 1 \<or> m = 2 \<or> m = 3 \<or> m = 4 \<or> m = 5 \<or> m = 6 \<or> m = 7 \<or> m = 8 \<or> m = 9 \<or> m = 10 \<or> m = 11 \<or> m = 12"
    using assms by arith
  then show thesis using that by blast
qed

lemma day_count_next:
  assumes "valid_date x"
  shows "day_count (next_date x) = Suc (day_count x)"
proof -
  obtain y m d where x: "x = (y, m, d)" by (cases x)
  have y: "Suc (y - 1) = y" using assms x by simp
  have "1 \<le> m" "m \<le> 12" using assms x by simp_all
  then show ?thesis
    using assms x year_start_step [of "y - 1"] y
    by (cases rule: month_cases)
      (auto simp: march_year_def march_month_def march_day_def days_in_month_def)
qed

lemma day_count_date: "day_count (date_of_day n) = 719468 + n"
proof (induction n)
  case 0
  show ?case by (simp add: march_year_def march_month_def march_day_def year_start_def)
next
  case (Suc n)
  then show ?case using day_count_next [OF date_of_day_valid [of n]] by simp
qed

section \<open>The algorithm of the code\<close>

lemma div_unique_int: "c * q \<le> x \<Longrightarrow> x < c * q + c \<Longrightarrow> x div c = (q :: int)"
  by (rule int_div_pos_eq [where r = "x - c * q"]) auto

text \<open>The year of a period of 400 years, from the day in the period.\<close>

lemma year_of_period:
  fixes c q t doy :: int
  assumes c: "0 \<le> c" "c \<le> 3" and q: "0 \<le> q" "q \<le> 24" and t: "0 \<le> t" "t \<le> 3"
    and doy: "0 \<le> doy" "doy \<le> 365" and leap: "doy = 365 \<Longrightarrow> t = 3 \<and> (q < 24 \<or> c = 3)"
  defines "doe \<equiv> 36524 * c + 1461 * q + 365 * t + doy"
  shows "(doe - doe div 1460 + doe div 36524 - doe div 146096) div 365 = 100 * c + 4 * q + t"
proof (cases "doe = 146096")
  case True
  then have "c = 3 \<and> q = 24 \<and> t = 3"
    using c q t doy unfolding doe_def by (intro conjI) linarith+
  then show ?thesis by (simp add: True)
next
  case False
  define s where "s = 365 * t + doy"
  define e where "e = (if 1460 \<le> q + 24 * c + s then 1 else 0 :: int)"
  have s: "0 \<le> s" "s \<le> 1460" using t doy by (simp_all add: s_def)
  have r: "0 \<le> 1461 * q + s" "1461 * q + s < 36524"
  proof -
    show "0 \<le> 1461 * q + s" using q s by simp
    have "s = 1460 \<Longrightarrow> doy = 365 \<and> t = 3" using t doy unfolding s_def by (intro conjI) linarith+
    then have "s = 1460 \<Longrightarrow> q < 24" using leap False q unfolding doe_def by fastforce
    then show "1461 * q + s < 36524" using q s by (cases "s = 1460") linarith+
  qed
  have "doe div 36524 = c"
    by (rule div_unique_int) (use r in \<open>simp_all add: doe_def s_def\<close>)
  moreover have "doe div 146096 = 0"
    by (rule div_unique_int) (use r c in \<open>simp_all add: doe_def s_def\<close>)
  moreover have "doe div 1460 = 25 * c + q + e"
    by (rule div_unique_int) (use s c q in \<open>auto simp: doe_def s_def e_def\<close>)
  moreover have "(36500 * c + 1460 * q + s - e) div 365 = 100 * c + 4 * q + t"
  proof (rule div_unique_int)
    have "1364 \<le> s" if "e = 1" using that c q by (auto simp: e_def split: if_splits)
    then have "365 * t \<le> s - e" using t doy by (auto simp: s_def e_def split: if_splits)
    then show "365 * (100 * c + 4 * q + t) \<le> 36500 * c + 1460 * q + s - e" by simp
    have "e = 1" if "doy = 365" using leap [OF that] that c q by (simp add: s_def e_def)
    moreover have "0 \<le> e" by (simp add: e_def)
    ultimately have "s - e < 365 * t + 365" using doy by (cases "doy = 365") (simp_all add: s_def)
    then show "36500 * c + 1460 * q + s - e < 365 * (100 * c + 4 * q + t) + 365" by simp
  qed
  ultimately show ?thesis by (simp add: doe_def s_def algebra_simps)
qed

lemma sdiv_pos: "0 \<le> a \<Longrightarrow> 0 < b \<Longrightarrow> a sdiv b = a div (b :: int)"
  by (auto simp: signed_divide_int_def sgn_if)

lemma march_day_bound:
  assumes "valid_date (y, m, d)"
  shows "march_day m d \<le> 365 \<and> (march_day m d = 365 \<longrightarrow> leap_year (march_year y m + 1))"
proof -
  have m: "1 \<le> m" "m \<le> 12" using assms by simp_all
  then show ?thesis
    using assms
    by (cases rule: month_cases)
      (auto simp: march_day_def march_month_def march_year_def days_in_month_def split: if_splits)
qed

lemma march_month_recovered:
  assumes "valid_date (y, m, d)"
  shows "(5 * march_day m d + 2) div 153 = march_month m"
    and "march_day m d + 1 - (153 * march_month m + 2) div 5 = d"
proof -
  have m: "1 \<le> m" "m \<le> 12" using assms by simp_all
  have d: "1 \<le> d" "d \<le> days_in_month y m" using assms by simp_all
  show "march_day m d + 1 - (153 * march_month m + 2) div 5 = d"
    using d by (simp add: march_day_def)
  show "(5 * march_day m d + 2) div 153 = march_month m"
    using m d
    by (cases rule: month_cases)
      (auto simp: march_day_def march_month_def days_in_month_def split: if_splits)
qed

lemma year_start_period:
  assumes "k < 400"
  shows "year_start (400 * e + k) = 146097 * e + (365 * k + k div 4 - k div 100)"
proof -
  have "400 * e + k = k + 100 * (4 * e)" "400 * e + k = k + 4 * (100 * e)" by simp_all
  then have "(400 * e + k) div 4 = 100 * e + k div 4" "(400 * e + k) div 100 = 4 * e + k div 100"
    by (metis add.commute div_mult_self2 zero_neq_numeral)+
  moreover have "(400 * e + k) div 400 = e" using assms by simp
  moreover have "k div 100 \<le> 365 * k" by (rule order_trans [OF div_le_dividend]) simp
  ultimately show ?thesis by (simp add: year_start_def)
qed

text \<open>The algorithm inverts the count, before the year is cut to 32 bits.\<close>

lemma civil_from_day_count:
  assumes valid: "valid_date (y, m, d)" and count: "day_count (y, m, d) = 719468 + n" and small: "y < 2 ^ 31"
  shows "civil_from_days (int n) = (int y, m, d)"
proof -
  define Y where "Y = march_year y m"
  define e k where "e = Y div 400" and "k = Y mod 400"
  define c q t where "c = k div 100" and "q = k mod 100 div 4" and "t = k mod 4"
  let ?doy = "march_day m d" and ?mp = "march_month m"
  have Y: "Y = 400 * e + k" "k < 400" by (simp_all add: e_def k_def)
  have k: "k = 100 * c + 4 * q + t" "c \<le> 3" "q \<le> 24" "t \<le> 3"
  proof -
    have "k mod 100 mod 4 = k mod 4" by (rule mod_mod_cancel) simp
    then have "k mod 100 = 4 * q + t" using mod_mult_div_eq [of "k mod 100" 4] by (simp add: q_def t_def)
    then show "k = 100 * c + 4 * q + t" using mod_mult_div_eq [of k 100] by (simp add: c_def)
    have "k mod 100 < 100" by simp
    then show "c \<le> 3" "q \<le> 24" "t \<le> 3"
      using Y(2) less_mult_imp_div_less [of k 4 100] less_mult_imp_div_less [of "k mod 100" 25 4]
      by (simp_all add: c_def q_def t_def)
  qed
  have kdiv: "k div 4 = 25 * c + q" "k div 100 = c"
    using k by (simp_all add: div_mult_self3)
  have leap: "?doy \<le> 365" "?doy = 365 \<Longrightarrow> t = 3 \<and> (q < 24 \<or> c = 3)"
  proof -
    show "?doy \<le> 365" using march_day_bound [OF valid] by simp
    assume "?doy = 365"
    then have l: "leap_year (Y + 1)" using march_day_bound [OF valid] by (simp add: Y_def)
    have "(Y + 1) mod 4 = (t + 1) mod 4"
      using Y(1) k(1) mod_mult_self2 [of "t + 1" 4 "100 * e + 25 * c + q"] by (simp add: algebra_simps)
    then have t: "t = 3" using l k(4) by (simp add: leap_year_dvd mod_Suc split: if_splits)
    moreover have "c = 3" if "q = 24"
    proof -
      have Y1: "Y + 1 = 100 * (4 * e + c + 1)" using Y(1) k(1) t that by simp
      then have "(Y + 1) mod 100 = 0" by simp
      then have "(100 * (c + 1) + 400 * e) mod 400 = 0"
        using l Y1 by (simp add: leap_year_dvd algebra_simps)
      then have "(100 * (c + 1)) mod 400 = 0" by simp
      moreover have "c = 0 \<or> c = 1 \<or> c = 2 \<or> c = 3" using k(2) by arith
      ultimately show ?thesis by auto
    qed
    ultimately show "t = 3 \<and> (q < 24 \<or> c = 3)" using k(3) le_neq_implies_less by blast
  qed
  define doe where "doe = 36524 * int c + 1461 * int q + 365 * int t + int ?doy"
  have z: "719468 + int n = 146097 * int e + doe"
  proof -
    have "year_start Y + ?doy = 719468 + n" using count by (simp add: Y_def)
    then have "146097 * e + (36524 * c + 1461 * q + 365 * t) + ?doy = 719468 + n"
      using year_start_period [OF Y(2), of e] k(1) kdiv by (simp add: Y(1))
    then show ?thesis by (simp add: doe_def flip: of_nat_eq_iff [where 'a = int])
  qed
  have doe: "0 \<le> doe" "doe < 146097"
    using k leap(1) by (simp_all add: doe_def)
  have era: "(719468 + int n) sdiv 146097 = int e"
    using doe z by (simp add: sdiv_pos div_unique_int)
  have yoe: "(doe - doe sdiv 1460 + doe sdiv 36524 - doe sdiv 146096) sdiv 365 = int k"
  proof -
    have y: "(doe - doe div 1460 + doe div 36524 - doe div 146096) div 365 = int k"
      using year_of_period [of "int c" "int q" "int t" "int ?doy"] k leap by (simp add: doe_def)
    moreover have "0 \<le> doe - doe div 1460 + doe div 36524 - doe div 146096"
      using y pos_imp_zdiv_nonneg_iff [of 365] by (metis of_nat_0_le_iff zero_less_numeral)
    ultimately show ?thesis using doe by (simp add: sdiv_pos)
  qed
  have doy: "doe - (365 * int k + int k sdiv 4 - int k sdiv 100) = int ?doy"
  proof -
    have "int k sdiv 4 = int (k div 4)" "int k sdiv 100 = int (k div 100)"
      by (simp_all add: sdiv_pos zdiv_int)
    then show ?thesis using k(1) kdiv by (simp add: doe_def)
  qed
  have mp: "(5 * int ?doy + 2) sdiv 153 = int ?mp"
    using march_month_recovered(1) [OF valid] by (simp add: sdiv_pos zdiv_int flip: of_nat_eq_iff [where 'a = int])
  have d: "int ?doy - (153 * int ?mp + 2) sdiv 5 + 1 = int d"
  proof -
    have "(153 * int ?mp + 2) sdiv 5 = int ((153 * ?mp + 2) div 5)" by (simp add: sdiv_pos zdiv_int)
    moreover have "(153 * ?mp + 2) div 5 \<le> ?doy + 1" using valid by (simp add: march_day_def)
    ultimately show ?thesis using march_month_recovered(2) [OF valid] by simp
  qed
  have m: "int ?mp + (if int ?mp < 10 then 3 else - 9) = int m"
    using valid by (auto simp: march_month_def)
  have y: "int k + int e * 400 + (if int m \<le> 2 then 1 else 0) = int y"
    using Y(1) valid by (auto simp: Y_def march_year_def)
  have pos: "(0 \<le> int n + 719468) = True" by simp
  have start: "(int n + 719468) sdiv 146097 = int e" "int n + 719468 - int e * 146097 = doe"
    using era z by (simp_all add: add.commute)
  have "civil_from_days (int n) = (sint (word_of_int (int y) :: 32 word), unat (word_of_int (int m) :: u32),
      unat (word_of_int (int d) :: u32))"
    by (simp only: civil_from_days_def Let_def pos if_True start yoe doy mp d m y)
  also have "\<dots> = (int y, m, d)"
  proof -
    have "m \<le> 12" "d \<le> 31" using valid days_in_month_le [of y m] by simp_all
    then show ?thesis
      using small by (simp add: signed_of_nat signed_take_bit_int_eq_self unat_of_nat take_bit_eq_mod)
  qed
  finally show ?thesis .
qed

lemma civil_from_days_date:
  assumes "date_of_day n = (y, m, d)" and "y < 2 ^ 31"
  shows "civil_from_days (int n) = (int y, m, d)"
  using assms by (intro civil_from_day_count) (metis date_of_day_valid, metis day_count_date, simp)

text \<open>The years that the days of a clock reach.\<close>

lemma date_of_day_year:
  assumes date: "date_of_day n = (y, m, d)"
  shows "365 * (y - 1) \<le> 719468 + n"
proof -
  let ?Y = "march_year y m"
  have "?Y div 100 \<le> ?Y div 4" by (rule div_le_mono2) simp_all
  then have "365 * ?Y \<le> year_start ?Y" by (simp add: year_start_def)
  moreover have "y - 1 \<le> ?Y" by (simp add: march_year_def)
  moreover have "year_start ?Y \<le> 719468 + n" using day_count_date [of n] date by simp
  ultimately show ?thesis by linarith
qed

lemma clock_year:
  assumes "date_of_day (s div 86400) = (y, m, d)" and "s < 2 ^ 55"
  shows "y < 2 ^ 31"
proof -
  have "s div 86400 < 417007497405" by (rule less_mult_imp_div_less) (use assms(2) in simp)
  then show ?thesis using date_of_day_year [OF assms(1)] by simp
qed

lemma aws_date_time_date:
  assumes "date_of_day (unat s div 86400) = (y, m, d)" and "unat s < 2 ^ 55"
  shows "aws_date_time s = zero_padded 4 y @ zero_padded 2 m @ zero_padded 2 d @ ''T'' @
    zero_padded 2 (unat s mod 86400 div 3600) @ zero_padded 2 (unat s mod 3600 div 60) @
    zero_padded 2 (unat s mod 60) @ ''Z''"
proof -
  have "unat s mod 86400 mod 3600 = unat s mod 3600" "unat s mod 86400 mod 60 = unat s mod 60"
    by (rule mod_mod_cancel, simp)+
  then show ?thesis
    using civil_from_days_date [OF assms(1) clock_year [OF assms]]
    by (simp add: aws_date_time_def Let_def zero_padded_int_def)
qed

end
