(* ===== verification/Url_Facts.thy ===== *)
theory Url_Facts
  imports Photo_Storage Image_Facts
begin

text \<open>
  Percent encoding can be undone, and an address tells which object it opens and for how long: the encoded
  parts hold none of the characters that end them.
\<close>

section \<open>Decoders\<close>

fun utf8_decode :: "bytes \<Rightarrow> string" where
  "utf8_decode [] = []"
| "utf8_decode [b] = [char_of (unat b)]"
| "utf8_decode (b # c # bs) =
     (if unat b < 128 then char_of (unat b) # utf8_decode (c # bs)
      else char_of (64 * (unat b - 192) + (unat c - 128)) # utf8_decode bs)"

lemma utf8_decode_ascii: "unat b < 128 \<Longrightarrow> utf8_decode (b # bs) = char_of (unat b) # utf8_decode bs"
  by (cases bs) simp_all

lemma utf8_decode_char: "utf8_decode (utf8_char c @ bs) = c # utf8_decode bs"
proof (cases "of_char c < (128 :: nat)")
  case True
  then show ?thesis by (simp add: utf8_char_def Let_def utf8_decode_ascii)
next
  case False
  have "of_char c < (256 :: nat)" by (rule nat_of_char_less_256)
  then have "(of_char c :: nat) div 64 < 4" by (simp add: less_mult_imp_div_less)
  then have "unat (of_nat (192 + of_char c div 64) :: 8 word) = 192 + of_char c div 64"
    "unat (of_nat (128 + of_char c mod 64) :: 8 word) = 128 + of_char c mod 64"
    by (simp_all add: unat_byte del: of_nat_add)
  moreover have "64 * (of_char c div 64) + of_char c mod 64 = (of_char c :: nat)" by simp
  ultimately show ?thesis
    using False by (simp add: utf8_char_def Let_def del: of_nat_add)
qed

lemma utf8_roundtrip: "utf8_decode (utf8_bytes s) = s"
  by (induction s) (simp_all add: utf8_bytes_def utf8_decode_char)

lemma utf8_inject: "utf8_bytes s = utf8_bytes t \<longleftrightarrow> s = t"
  by (metis utf8_roundtrip)

definition hex_value :: "char \<Rightarrow> nat" where
  "hex_value c = (let n = of_char c in if n < 65 then n - 48 else n - 55)"

fun uri_decode :: "string \<Rightarrow> bytes" where
  "uri_decode [] = []"
| "uri_decode (c # s) =
     (if c = CHR ''%'' then (case s of a # b # t \<Rightarrow> of_nat (16 * hex_value a + hex_value b) # uri_decode t | _ \<Rightarrow> [])
      else of_nat (of_char c) # uri_decode s)"

lemma hex_value_upper: "n < 16 \<Longrightarrow> hex_value (upper_hex n) = n"
  by (simp add: hex_value_def upper_hex_def Let_def)

text \<open>The characters an encoded string is made of.\<close>

definition url_char :: "char \<Rightarrow> bool" where
  "url_char c \<longleftrightarrow> c = CHR ''%'' \<or> is_ascii_alphanumeric c \<or> c \<in> {CHR ''-'', CHR ''_'', CHR ''.'', CHR ''~''}"

lemma unreserved_nat: "unreserved b \<longleftrightarrow> (65 \<le> unat b \<and> unat b \<le> 90) \<or> (97 \<le> unat b \<and> unat b \<le> 122)
    \<or> (48 \<le> unat b \<and> unat b \<le> 57) \<or> unat b \<in> {45, 95, 46, 126}"
  by (simp add: unreserved_def word_le_nat_alt word_unat_eq_iff)

lemma unreserved_char:
  assumes "unreserved b"
  shows "char_of (unat b) \<noteq> CHR ''%''" and "url_char (char_of (unat b))"
    and "of_nat (of_char (char_of (unat b) :: char)) = b"
proof -
  have small: "unat b < 256" using assms by (auto simp: unreserved_nat)
  then have code: "of_char (char_of (unat b) :: char) = unat b" by simp
  then show "of_nat (of_char (char_of (unat b) :: char)) = b" by simp
  have "unat b \<noteq> 37" using assms by (auto simp: unreserved_nat)
  show "char_of (unat b) \<noteq> CHR ''%''"
  proof
    assume "char_of (unat b) = CHR ''%''"
    then have "unat b = of_char (CHR ''%'')" using code by metis
    with \<open>unat b \<noteq> 37\<close> show False by simp
  qed
  have "char_of (45 :: nat) = CHR ''-''" "char_of (95 :: nat) = CHR ''_''" "char_of (46 :: nat) = CHR ''.''"
    "char_of (126 :: nat) = CHR ''~''"
    by code_simp+
  then show "url_char (char_of (unat b))"
    using assms by (auto simp: unreserved_nat url_char_def is_ascii_alphanumeric_def Let_def code)
qed

lemma hex_char: "n < 16 \<Longrightarrow> url_char (upper_hex n)"
  by (auto simp: url_char_def upper_hex_def is_ascii_alphanumeric_def Let_def)

lemma uri_byte_chars: "c \<in> set (uri_byte b) \<Longrightarrow> url_char c"
proof -
  have "unat b < 256" using unsigned_less [of b, where 'a = nat] by simp
  then have "unat b div 16 < 16" "unat b mod 16 < 16" by (simp_all add: less_mult_imp_div_less)
  moreover have "url_char (CHR ''%'')" by (simp add: url_char_def)
  ultimately show "c \<in> set (uri_byte b) \<Longrightarrow> url_char c"
    by (auto simp: uri_byte_def unreserved_char(2) hex_char split: if_splits)
qed

lemma uri_encode_chars: "c \<in> set (uri_encode s) \<Longrightarrow> url_char c"
  by (auto simp: uri_encode_def dest: uri_byte_chars)

lemma uri_decode_byte: "uri_decode (uri_byte b @ s) = b # uri_decode s"
proof (cases "unreserved b")
  case True
  then show ?thesis using unreserved_char by (simp add: uri_byte_def)
next
  case False
  have "unat b < 256" using unsigned_less [of b, where 'a = nat] by simp
  then have "unat b div 16 < 16" "unat b mod 16 < 16" by (simp_all add: less_mult_imp_div_less)
  moreover have "16 * (unat b div 16) + unat b mod 16 = unat b" by simp
  ultimately show ?thesis using False by (simp add: uri_byte_def hex_value_upper del: of_nat_add)
qed

lemma uri_decode_encode: "uri_decode (uri_encode s) = utf8_bytes s"
proof -
  have "uri_decode (concat (map uri_byte bs)) = bs" for bs
    by (induction bs) (simp_all add: uri_decode_byte)
  then show ?thesis by (simp add: uri_encode_def)
qed

lemma uri_encode_inject [simp]: "uri_encode s = uri_encode t \<longleftrightarrow> s = t"
  by (metis uri_decode_encode utf8_inject)

lemma url_char_separators: "\<not> url_char (CHR ''/'')" "\<not> url_char (CHR ''?'')" "\<not> url_char (CHR ''&'')"
    "\<not> url_char (CHR ''='')"
  by (simp_all add: url_char_def is_ascii_alphanumeric_def)

section \<open>Paths\<close>

lemma split_join: "ps \<noteq> [] \<Longrightarrow> (\<And>p. p \<in> set ps \<Longrightarrow> c \<notin> set p) \<Longrightarrow> split_on c (join_with c ps) = ps"
  by (induction c ps rule: join_with.induct) (simp_all add: split_no_sep split_append_sep)

lemma split_join_append:
  "ps \<noteq> [] \<Longrightarrow> (\<And>p. p \<in> set ps \<Longrightarrow> c \<notin> set p) \<Longrightarrow>
     split_on c (join_with c ps @ c # s) = ps @ split_on c s"
  by (induction c ps rule: join_with.induct) (simp_all add: split_append_sep)

lemma set_join_with: "set (join_with c ps) \<subseteq> insert c (\<Union> (set ` set ps))"
  by (induction c ps rule: join_with.induct) auto

lemma path_chars: "c \<in> set (uri_encode_path path) \<Longrightarrow> url_char c \<or> c = CHR ''/''"
  using set_join_with [of "CHR ''/''" "map uri_encode (split_on (CHR ''/'') path)"]
  by (auto simp: uri_encode_path_def dest!: subsetD dest: uri_encode_chars)

lemma uri_encode_path_inject: "uri_encode_path p = uri_encode_path q \<longleftrightarrow> p = q"
proof
  assume eq: "uri_encode_path p = uri_encode_path q"
  have "split_on (CHR ''/'') (uri_encode_path r) = map uri_encode (split_on (CHR ''/'') r)" for r
    unfolding uri_encode_path_def
    by (rule split_join) (auto dest: uri_encode_chars simp: url_char_separators)
  with eq have "map uri_encode (split_on (CHR ''/'') p) = map uri_encode (split_on (CHR ''/'') q)" by metis
  moreover have "inj uri_encode" by (simp add: inj_def)
  ultimately have "split_on (CHR ''/'') p = split_on (CHR ''/'') q" by (simp add: inj_map_eq_map)
  then show "p = q" by (metis join_split)
qed simp

lemma append_sep_inject:
  assumes "p @ c # s = q @ c # t" and "c \<notin> set p" and "c \<notin> set q"
  shows "p = q \<and> s = t"
proof -
  have "takeWhile (\<lambda>x. x \<noteq> c) (p @ c # s) = p" "takeWhile (\<lambda>x. x \<noteq> c) (q @ c # t) = q"
    by (subst takeWhile_append2; use assms(2,3) in auto)+
  then show ?thesis using assms(1) by auto
qed

section \<open>Addresses\<close>

text \<open>An address up to its signature.\<close>

definition address_query :: "s3_config \<Rightarrow> u32 \<Rightarrow> u64 \<Rightarrow> (string \<times> string) list" where
  "address_query c expires t =
     [(''X-Amz-Algorithm'', ''AWS4-HMAC-SHA256''),
      (''X-Amz-Credential'', s3_access_key_id c @ ''/'' @ take 8 (aws_date_time t) @ ''/'' @ s3_region c @ ''/s3/aws4_request''),
      (''X-Amz-Date'', aws_date_time t), (''X-Amz-Expires'', nat_text (unat expires)),
      (''X-Amz-SignedHeaders'', ''host'')]
     @ (case s3_session_token c of None \<Rightarrow> [] | Some token \<Rightarrow> [(''X-Amz-Security-Token'', token)])"

lemma presigned_url_parts:
  "\<exists>signature. presigned_url_at dg c request_method key expires t =
     (''https://'' @ s3_host (s3_bucket c) (s3_region c) @ ''/'') @ uri_encode_path key @ CHR ''?'' #
       canonical_query_string (address_query c expires t) @ ''&X-Amz-Signature='' @ signature"
  by (simp add: presigned_url_at_def address_query_def Let_def)

text \<open>The parameters in the order of the canonical query.\<close>

definition sorted_query :: "s3_config \<Rightarrow> u32 \<Rightarrow> u64 \<Rightarrow> string list" where
  "sorted_query c expires t =
     map (\<lambda>(k, v). k @ ''='' @ uri_encode v)
       (take 4 (address_query c expires t)
        @ (case s3_session_token c of None \<Rightarrow> [] | Some token \<Rightarrow> [(''X-Amz-Security-Token'', token)])
        @ [(''X-Amz-SignedHeaders'', ''host'')])"

lemma encoded_names:
  "uri_encode ''X-Amz-Algorithm'' = ''X-Amz-Algorithm''" "uri_encode ''X-Amz-Credential'' = ''X-Amz-Credential''"
  "uri_encode ''X-Amz-Date'' = ''X-Amz-Date''" "uri_encode ''X-Amz-Expires'' = ''X-Amz-Expires''"
  "uri_encode ''X-Amz-SignedHeaders'' = ''X-Amz-SignedHeaders''"
  "uri_encode ''X-Amz-Security-Token'' = ''X-Amz-Security-Token''"
  by code_simp+

lemma canonical_query_sorted:
  "canonical_query_string (address_query c expires t) = join_with (CHR ''&'') (sorted_query c expires t)"
  by (cases "s3_session_token c")
    (simp_all add: canonical_query_string_def address_query_def sorted_query_def encoded_names order_by_def
      pair_precedes_def)

lemma sorted_query_chars: "p \<in> set (sorted_query c expires t) \<Longrightarrow> CHR ''&'' \<notin> set p"
  by (auto simp: sorted_query_def address_query_def url_char_separators dest!: uri_encode_chars
      split: option.splits)

lemma presigned_url_inject:
  assumes "presigned_url_at dg c request_method key expires t = presigned_url_at dg' c request_method' key' expires' t'"
  shows "key = key' \<and> expires = expires'"
proof -
  obtain sg where url: "presigned_url_at dg c request_method key expires t =
     (''https://'' @ s3_host (s3_bucket c) (s3_region c) @ ''/'') @ uri_encode_path key @ CHR ''?'' #
       canonical_query_string (address_query c expires t) @ ''&X-Amz-Signature='' @ sg"
    using presigned_url_parts by blast
  obtain sg' where url': "presigned_url_at dg' c request_method' key' expires' t' =
     (''https://'' @ s3_host (s3_bucket c) (s3_region c) @ ''/'') @ uri_encode_path key' @ CHR ''?'' #
       canonical_query_string (address_query c expires' t') @ ''&X-Amz-Signature='' @ sg'"
    using presigned_url_parts by blast
  have "CHR ''?'' \<notin> set (uri_encode_path k)" for k
    using path_chars [of "CHR ''?''" k] by (auto simp: url_char_separators)
  then have "uri_encode_path key = uri_encode_path key'"
    and query: "canonical_query_string (address_query c expires t) @ ''&X-Amz-Signature='' @ sg
      = canonical_query_string (address_query c expires' t') @ ''&X-Amz-Signature='' @ sg'"
    using assms append_sep_inject [of "uri_encode_path key"] by (auto simp: url url')
  have "split_on (CHR ''&'') (join_with (CHR ''&'') (sorted_query c x u) @ CHR ''&'' # s)
      = sorted_query c x u @ split_on (CHR ''&'') s" for x u s
    by (rule split_join_append) (use sorted_query_chars in \<open>auto simp: sorted_query_def\<close>)
  then have "sorted_query c expires t @ split_on (CHR ''&'') (''X-Amz-Signature='' @ sg)
      = sorted_query c expires' t' @ split_on (CHR ''&'') (''X-Amz-Signature='' @ sg')"
    using query by (metis append_Cons canonical_query_sorted)
  moreover have "3 < length (sorted_query c x u)" for x u
    by (simp add: sorted_query_def address_query_def)
  ultimately have "sorted_query c expires t ! 3 = sorted_query c expires' t' ! 3"
    by (metis nth_append)
  then have "uri_encode (nat_text (unat expires)) = uri_encode (nat_text (unat expires'))"
    by (simp add: sorted_query_def address_query_def nth_append eval_nat_numeral split: option.splits)
  then show ?thesis
    using \<open>uri_encode_path key = _\<close> by (simp add: uri_encode_path_inject word_unat_eq_iff)
qed

end
