(* ===== verification/Photo_Claims.thy ===== *)
theory Photo_Claims
  imports Photo_Service Image_Facts Calendar_Facts Url_Facts System_Claims
begin

text \<open>The properties of photo storage, uploads and the two work queues, each applied to concrete photos and rows.\<close>

section \<open>Image headers\<close>

text \<open>C14: Whatever bytes a client stored as a photo, reading the size of the image ends, never panics on an index,
  and answers no size or one with both sides positive and within an \<open>i32\<close>, which is what the columns of
  the database hold.\<close>

theorem image_dimensions_ends:
  "\<exists>found. image_dimensions bs = Some (Value found) \<and> (case found of
      None \<Rightarrow> True | Some (width, height) \<Rightarrow> 0 < width \<and> width < 2 ^ 31 \<and> 0 < height \<and> height < 2 ^ 31)"
  using image_dimensions_plausible [of bs]
  by (auto simp: returns_def plausible_def split: option.split)

text \<open>C13: The readers invert the file formats: from the bytes of a well-formed PNG, GIF, WebP (extended, lossless or
  lossy) or JPEG file, the latter with any markers and segments before its frame header, they read exactly the
  width and height the file was made with.\<close>

theorem image_header_roundtrip:
  assumes "image_ok f"
  shows "image_dimensions (image_bytes f) = Some (Value (Some (image_size f)))"
  using image_reader [OF assms] by (simp add: run_return_def)

theorem image_header_roundtrip_witness:
  "image_dimensions (image_bytes (Jpeg [Segment 1 0xe0 [1, 2, 3], Standalone 0 0xd0] 2 0xc2 9 8 640 480 [3, 0]))
     = Some (Value (Some (640, 480)))
   \<and> image_dimensions (image_bytes (Webp_Lossless [0, 0, 0, 0] [9, 9, 9, 9] 16384 300 5 []))
     = Some (Value (Some (16384, 300)))"
proof -
  have "image_ok (Jpeg [Segment 1 0xe0 [1, 2, 3], Standalone 0 0xd0] 2 0xc2 9 8 640 480 [3, 0])"
    by (simp add: standalone_def is_jpeg_start_of_frame_def)
  moreover have "image_ok (Webp_Lossless [0, 0, 0, 0] [9, 9, 9, 9] 16384 300 5 [])" by simp
  ultimately show ?thesis using image_header_roundtrip by fastforce
qed

section \<open>Signed addresses\<close>

text \<open>C15: The time stamp of a signature is the date of the Gregorian calendar: for every clock up to a thousand million
  years after 1970, the arithmetic of \<open>civil_from_days\<close> prints the date that counting day by day from
  1 January 1970, with the lengths of the months and the leap years, arrives at.\<close>

theorem signature_date_of_calendar:
  assumes "unat s < 2 ^ 55"
  shows "aws_date_time s = (case date_of_day (unat s div 86400) of (year, month, day) \<Rightarrow>
    zero_padded 4 year @ zero_padded 2 month @ zero_padded 2 day @ ''T'' @
    zero_padded 2 (unat s mod 86400 div 3600) @ zero_padded 2 (unat s mod 3600 div 60) @
    zero_padded 2 (unat s mod 60) @ ''Z'')"
  using aws_date_time_date [OF _ assms] by (cases "date_of_day (unat s div 86400)") simp

theorem signature_date_of_calendar_witness:
  "aws_date_time 5155200 = ''19700301T160000Z'' \<and> date_of_day 59 = (1970, 3, 1)"
proof -
  have "\<And>k. date_of_day (numeral k) = next_date (date_of_day (pred_numeral k))"
    by (simp add: numeral_eq_Suc del: next_date.simps)
  then have date: "date_of_day 59 = (1970, 3, 1)" by (simp add: days_in_month_def leap_year_def)
  have printed: "zero_padded 4 1970 = ''1970''" "zero_padded 2 3 = ''03''" "zero_padded 2 1 = ''01''"
    "zero_padded 2 16 = ''16''" "zero_padded 2 0 = ''00''"
    by code_simp+
  have "unat (5155200 :: u64) = 5155200" by simp
  with signature_date_of_calendar [of 5155200] date printed show ?thesis by simp
qed

text \<open>C12: A signed address opens the object it was signed for and no other: two addresses of one store are equal only
  if they were signed for the same object key and the same lifetime, whatever the keys contain, and whatever the
  digests, methods and times of signing.\<close>

theorem signed_url_names_object:
  assumes "presigned_url_at dg c verb key expires t = presigned_url_at dg' c verb' key' expires' t'"
  shows "key = key' \<and> expires = expires'"
  using presigned_url_inject [OF assms] .

definition sample_bucket :: s3_config where
  "sample_bucket = \<lparr> s3_bucket = ''b'', s3_region = ''us-east-1'', s3_access_key_id = ''k'', s3_secret_access_key = ''s'',
     s3_session_token = None, s3_key_prefix = ''photos'', s3_upload_expires = 900, s3_display_expires = 900 \<rparr>"

definition sample_digests :: digests where
  "sample_digests = \<lparr> sha256 = (\<lambda>_. [1, 2]), hmac_sha256 = (\<lambda>_ _. [0xab]) \<rparr>"

theorem signed_url_names_object_witness:
  "\<forall>key. presigned_url_at sample_digests sample_bucket ''GET'' key 900 0
     = presigned_url_at sample_digests sample_bucket ''PUT'' ''jobs/a?b/c d.png'' 900 0 \<longleftrightarrow> key = ''jobs/a?b/c d.png''"
proof (intro allI iffI)
  show "key = ''jobs/a?b/c d.png''"
    if "presigned_url_at sample_digests sample_bucket ''GET'' key 900 0
      = presigned_url_at sample_digests sample_bucket ''PUT'' ''jobs/a?b/c d.png'' 900 0" for key
    using signed_url_names_object [OF that] by simp
qed (simp add: presigned_url_at_def sample_digests_def Let_def)

section \<open>The work queues\<close>

text \<open>A photo whose thumbnail waits in the queue, with the photo of another organization's job beside it.\<close>

definition waiting_photo :: photo_row where
  "waiting_photo = \<lparr> photo_pk = ''photo_offline_07'', photo_job_id = ''job_8'', photo_type = ''before'',
     photo_file_name = ''gate.png'', photo_content_type = ''image/png'', photo_object_key = ''photos/job_8/gate.png'',
     photo_upload_mode = ''s3-presigned'', photo_thumbnail_key = Some ''photos/job_8/gate.jpg'',
     photo_status = ''uploaded'', photo_created_at = 0, photo_uploaded_at = Some 0, photo_file_size = None,
     photo_width = None, photo_height = None, photo_metadata_source = None, photo_metadata_captured_at = None,
     photo_rejected_reason = None, photo_rejected_at = None, photo_erased_at = None, photo_erased_by = None,
     photo_erasure_reason = None, photo_erased_object_key = None, photo_erased_thumbnail_key = None \<rparr>"

definition waiting_task :: photo_task_row where
  "waiting_task = queued_task (sample_env\<lparr> now_at := 0 \<rparr>) waiting_photo
     ((sample_job ''job_8'')\<lparr> job_organization_id := ''org_2'' \<rparr>) ''thumbnail_generation'' ''late''"

definition waiting_deletion :: deletion_row where
  "waiting_deletion = queued_deletion (sample_env\<lparr> now_at := 0 \<rparr>) 1 ''acct_1'' ''org_1'' ''photos/job_1/old.png''"

definition queue_db :: db where
  "queue_db = sample_db\<lparr> service_jobs := (sample_job ''job_8'')\<lparr> job_organization_id := ''org_2'' \<rparr> # service_jobs sample_db,
     job_photos := [waiting_photo], photo_tasks := [waiting_task], deletion_jobs := [waiting_deletion] \<rparr>"

definition local_store :: object_store where
  "local_store = \<lparr> os_config = Local_Storage, os_digests = sample_digests, os_http = (\<lambda>_ _. None), os_jpeg = (\<lambda>_. None) \<rparr>"

text \<open>One cycle that may make one attempt of each job; no thumbnail can be made.\<close>

definition cycled :: "(sqlx_error + cycle_result resource_read) \<times> bool list \<times> db" where
  "cycled = process_photo_processing_once (\<lambda>_. (sample_env, local_store)) True 5 1 ([], queue_db)"

definition cycled_db :: db where
  "cycled_db = snd (snd cycled)"

lemma cycled_result:
  "fst cycled = Inr (ResourceLoaded \<lparr> cy_claimed = 2, cy_finalized = 2, cy_stale = 0 \<rparr>)"
  "photo_tasks cycled_db = [waiting_task\<lparr> task_status := ''dead_letter'', task_attempt_count := 1,
     task_last_attempt_at := Some 1000, task_last_error := Some ''thumbnail_generation_failed'',
     task_available_at := 1030, task_updated_at := 1000 \<rparr>]"
  "map deletion_status (deletion_jobs cycled_db) = [''completed'']"
  by code_simp+

lemma cycled_run: "process_photo_processing_once (\<lambda>_. (sample_env, local_store)) True 5 1 ([], queue_db)
    = (Inr (ResourceLoaded \<lparr> cy_claimed = 2, cy_finalized = 2, cy_stale = 0 \<rparr>), (fst (snd cycled), cycled_db))"
  using cycled_result(1) unfolding cycled_def [symmetric] cycled_db_def by (rule answered_run)

lemma cycled_reached: "photos_reach 1 (Cognito sample_verifier) queue_db cycled_db"
  by (rule photos_reach.step [OF photos_reach.start photo_step.cycle [OF cycled_run]]) simp

lemma queue_db_ok: "queues_ok 1 queue_db"
  by (simp add: queues_ok_def rows_ok_def queue_db_def waiting_task_def waiting_deletion_def queued_task_def
      queued_deletion_def task_state_def deletion_state_def work_state_ok_def queue_statuses_def)

text \<open>C9: The attempts pay for the work: any number of cycles of the worker, with any outages, any clock and any
  answers of the store, end with one report each, and all of them together claim no more jobs than the two queues
  had attempts left, so that a job which always fails is given up.\<close>

theorem worker_claims_bounded:
  assumes "distinct (map task_pk (photo_tasks d))" and "distinct (map deletion_pk (deletion_jobs d))"
  shows "\<exists>rs c'. worker_cycles ws pool batch_size M (fs, d) = (Inr rs, c') \<and> length rs = length ws
    \<and> (\<Sum>r \<leftarrow> rs. case r of ResourceLoaded report \<Rightarrow> cy_claimed report | _ \<Rightarrow> 0)
       \<le> (\<Sum>x \<leftarrow> photo_tasks d. nat (M - task_attempt_count x))
          + (\<Sum>x \<leftarrow> deletion_jobs d. nat (max M 1 - deletion_attempt_count x))"
proof -
  obtain rs fs' d' where run: "worker_cycles ws pool batch_size M (fs, d) = (Inr rs, (fs', d'))" and "length rs = length ws"
    using cycles_answer by (metis prod.collapse)
  moreover have "sum_list (map claims_reported rs) \<le> attempt_budget M d"
    using cycles_budget [OF run] assms by (simp add: keyed_queues_def)
  ultimately show ?thesis
    by (auto simp: claims_reported_def [abs_def] attempt_budget_def attempts_left_def comp_def)
qed

theorem worker_claims_bounded_witness:
  "\<exists>rs c'. worker_cycles (replicate 9 (\<lambda>_. (sample_env, local_store))) True 5 3 ([False, True], queue_db) = (Inr rs, c')
     \<and> length rs = 9 \<and> (\<Sum>r \<leftarrow> rs. case r of ResourceLoaded report \<Rightarrow> cy_claimed report | _ \<Rightarrow> 0) \<le> 6"
proof -
  have "distinct (map task_pk (photo_tasks queue_db))" "distinct (map deletion_pk (deletion_jobs queue_db))"
    by (simp_all add: queue_db_def)
  from worker_claims_bounded [OF this, of "replicate 9 (\<lambda>_. (sample_env, local_store))" True 5 3 "[False, True]"]
  show ?thesis by (simp add: queue_db_def waiting_task_def waiting_deletion_def queued_task_def queued_deletion_def)
qed

text \<open>C16: A cycle always answers, and one that is not unavailable accounts for everything it claimed: each claimed
  job was either finalized by this worker or, being no longer in process, reported as stale.\<close>

theorem cycle_accounted:
  "\<exists>res c'. process_photo_processing_once w pool batch_size M c = (Inr res, c') \<and> (case res of
      ResourceLoaded r \<Rightarrow> cy_finalized r + cy_stale r = cy_claimed r
    | ResourceNotFound \<Rightarrow> False
    | ResourceUnavailable \<Rightarrow> True)"
proof -
  obtain res c' where run: "process_photo_processing_once w pool batch_size M c = (Inr res, c')"
    using cycle_answers unfolding ends_well_def by metis
  from run show ?thesis
  proof (cases rule: cycle_cases)
    case (2 claims jobs c1)
    then show ?thesis using run work_off_counts work_off_found [OF 2] by (cases res) auto
  qed (use run in simp)
qed

text \<open>C11: The rows of both queues stay well typed in every run of requests, worker cycles and changes elsewhere: unique
  keys and one job per photo and task or per organization and object, a status of the six that the table allows,
  and a count of attempts between 0 and the largest limit any worker is configured with.\<close>

theorem queues_typed:
  assumes "photos_reach M backend d0 d" and "queues_ok M d0" and "0 \<le> M"
  shows "queues_ok M d"
  using photos_reach_keeps [OF assms(1,3)] assms(2) by (simp add: queues_keep_def)

theorem queues_typed_witness:
  "queues_ok 1 cycled_db \<and> map task_status (photo_tasks cycled_db) = [''dead_letter'']"
  using queues_typed [OF cycled_reached queue_db_ok] by (simp add: cycled_result)

text \<open>C10: The queues refine the abstract life cycle of a job: in every run each row stays, with its photo and task or
  its object, and its status and attempts follow \<open>work_step\<close>: claims cost an attempt and stop at the limit, only
  claimed jobs are completed or fail, only failed or stale ones are given up, only a manager's retry of a failed or
  dead job gives its attempts back, and a completed job never changes again.\<close>

theorem queue_lifecycle_refined:
  assumes "photos_reach M backend d0 d" and "queues_ok M d0" and "0 \<le> M"
  shows "(\<forall>x \<in> set (photo_tasks d0). \<exists>y \<in> set (photo_tasks d). task_pk y = task_pk x
      \<and> task_photo_id y = task_photo_id x \<and> task_type y = task_type x
      \<and> (work_step M)\<^sup>*\<^sup>* (task_status x, task_attempt_count x) (task_status y, task_attempt_count y))
    \<and> (\<forall>x \<in> set (deletion_jobs d0). \<exists>y \<in> set (deletion_jobs d). deletion_pk y = deletion_pk x
      \<and> deletion_organization_id y = deletion_organization_id x \<and> deletion_object_key y = deletion_object_key x
      \<and> (work_step (max M 1))\<^sup>*\<^sup>* (deletion_status x, deletion_attempt_count x) (deletion_status y, deletion_attempt_count y))"
proof -
  have "queues_moved M d0 d"
    using photos_reach_keeps [OF assms(1,3)] assms(2) by (simp add: queues_keep_def)
  then show ?thesis
    by (simp add: queues_moved_def rows_moved_def task_target_def task_state_def deletion_target_def deletion_state_def conj_assoc)
qed

theorem queue_lifecycle_refined_witness:
  "(work_step 1)\<^sup>*\<^sup>* (''queued'', 0) (''dead_letter'', 1)"
  using queue_lifecycle_refined [OF cycled_reached queue_db_ok]
  by (simp add: cycled_result) (simp add: queue_db_def waiting_task_def queued_task_def)

section \<open>Two defects\<close>

lemma requeued_spent:
  assumes run: "queue_photo_processing_job env job i kind reason (fs, d) = (Inr (Some y), (fs', d'))"
    and ok: "queues_ok M d" and x: "x \<in> set (photo_tasks d)" "task_photo_id x = i" "task_type x = kind"
    and "task_status x \<in> {''failed'', ''dead_letter''}" and "n \<le> task_attempt_count x"
  shows "task_pk y = task_pk x \<and> spent_row n y \<and> distinct (map task_pk (photo_tasks d')) \<and> y \<in> set (photo_tasks d')"
proof -
  let ?same = "\<lambda>x. task_photo_id x = i \<and> task_type x = kind"
  let ?f = "requeued_task env (truncate_photo_processing_error reason)"
  have found: "lookup_by ?same (photo_tasks d) = Some x"
  proof (cases "lookup_by ?same (photo_tasks d)")
    case None
    with x show ?thesis by (auto simp: lookup_by_None)
  next
    case (Some z)
    then have "z \<in> set (photo_tasks d)" "task_target z = task_target x"
      using x by (auto dest!: lookup_by_Some simp: task_target_def)
    then have "z = x" using ok x(1) by (auto simp: queues_ok_def rows_ok_def distinct_map dest: inj_onD)
    with Some show ?thesis by simp
  qed
  have "upsert_task env job i kind (truncate_photo_processing_error reason) d = Inr (Some y, d')"
    using run by (auto simp: queue_photo_processing_job_def db_stmt_def split: if_splits sum.splits)
  then have y: "y = ?f x" and d': "d' = d\<lparr> photo_tasks := update_where ?same ?f (photo_tasks d) \<rparr>"
    using found by (auto simp: upsert_task_def Let_def split: option.splits if_splits)
  have "map task_pk (photo_tasks d') = map task_pk (photo_tasks d)"
    unfolding d' by (simp add: map_update_where requeued_task_def Let_def)
  moreover have "y \<in> set (photo_tasks d')" using x by (simp add: d' y update_where_hit)
  ultimately show ?thesis
    using assms(6,7) ok by (auto simp: y requeued_task_def Let_def spent_row_def queues_ok_def rows_ok_def)
qed

text \<open>C38: Queueing a given-up thumbnail again does not revive it. When a photo is completed once more after its job has
  used up its attempts, the answer shows the job as queued, but its attempts stay counted: no later cycle of a
  worker with that limit claims it, buries it or changes it at all, and a manager cannot retry it, as it is
  not failed.\<close>

theorem requeued_thumbnail_stuck:
  assumes "queue_photo_processing_job env job i kind reason (fs, d) = (Inr (Some y), (fs1, d1))"
    and "queues_ok M d" and "x \<in> set (photo_tasks d)" and "task_photo_id x = i" and "task_type x = kind"
    and "task_status x \<in> {''failed'', ''dead_letter''}" and "n \<le> task_attempt_count x"
    and "worker_cycles ws pool batch_size n (fs1, d1) = (res, (fs2, d2))"
    and "retry_photo_processing_job env' (task_pk x) orgs actor (fs3, d2) = (Inr reply, (fs4, d3))"
  shows "task_pk y = task_pk x \<and> task_status y = ''queued'' \<and> y \<in> set (photo_tasks d2)
    \<and> reply \<in> {NotRecoverable, RecoveryNotFound} \<and> d3 = d2"
proof -
  from requeued_spent [OF assms(1-7)]
  have y: "task_pk y = task_pk x" "spent_row n y" "distinct (map task_pk (photo_tasks d1))" "y \<in> set (photo_tasks d1)"
    by auto
  have "holds_row y d1 d2" by (rule keepsD [OF cycles_hold_row [OF y(2)] assms(8)])
  then have held: "distinct (map task_pk (photo_tasks d2))" "y \<in> set (photo_tasks d2)"
    using y(3,4) by (simp_all add: holds_row_def)
  with retry_refused [of env' y orgs actor fs3 d2 reply fs4 d3] assms(9) y(1,2) show ?thesis
    by (simp add: spent_row_def)
qed

definition requeued :: "(sqlx_error + photo_task_row option) \<times> bool list \<times> db" where
  "requeued = queue_photo_processing_job sample_env ''job_8'' ''photo_offline_07'' ''thumbnail_generation'' ''again'' ([], cycled_db)"

definition waited :: "(sqlx_error + cycle_result resource_read list) \<times> bool list \<times> db" where
  "waited = worker_cycles (replicate 3 (\<lambda>_. (sample_env\<lparr> now_at := 9000 \<rparr>, local_store))) True 5 1 (snd requeued)"

definition retried :: "(sqlx_error + processing_item recovery) \<times> bool list \<times> db" where
  "retried = retry_photo_processing_job sample_env ''photo_processing_u0'' [''org_2''] ''boss'' ([], snd (snd waited))"

theorem requeued_thumbnail_stuck_witness:
  "map_sum id (map_option task_status) (fst requeued) = Inr (Some ''queued'')
   \<and> map task_status (photo_tasks (snd (snd waited))) = [''queued''] \<and> fst retried = Inr NotRecoverable"
proof -
  let ?x = "hd (photo_tasks cycled_db)" and ?y = "hd (photo_tasks (snd (snd requeued)))"
  have y: "fst requeued = Inr (Some ?y)" by code_simp
  have reply: "fst retried = Inr NotRecoverable" by code_simp
  have rows: "length (photo_tasks (snd (snd waited))) = 1" by code_simp
  have one: "queue_photo_processing_job sample_env ''job_8'' ''photo_offline_07'' ''thumbnail_generation'' ''again''
      ([], cycled_db) = (Inr (Some ?y), (fst (snd requeued), snd (snd requeued)))"
    using y unfolding requeued_def by (rule answered_run)
  have two: "worker_cycles (replicate 3 (\<lambda>_. (sample_env\<lparr> now_at := 9000 \<rparr>, local_store))) True 5 1
      (fst (snd requeued), snd (snd requeued)) = (fst waited, (fst (snd waited), snd (snd waited)))"
    by (simp add: waited_def)
  have three: "retry_photo_processing_job sample_env (task_pk ?x) [''org_2''] ''boss'' ([], snd (snd waited))
      = (Inr NotRecoverable, (fst (snd retried), snd (snd retried)))"
  proof -
    have "task_pk ?x = ''photo_processing_u0''"
      by (simp add: cycled_result(2) waiting_task_def queued_task_def sample_env_def)
    then show ?thesis using answered_run [OF reply] by (simp add: retried_def)
  qed
  have "queues_ok 1 cycled_db"
    using photos_reach_keeps [OF cycled_reached] queue_db_ok by (simp add: queues_keep_def)
  from requeued_thumbnail_stuck [OF one this _ _ _ _ _ two three]
  have "task_status ?y = ''queued'' \<and> ?y \<in> set (photo_tasks (snd (snd waited)))"
    by (simp add: cycled_result(2) waiting_task_def queued_task_def waiting_photo_def)
  with rows y reply show ?thesis by (auto simp: length_Suc_conv)
qed






end
