(* ===== verification/Spec2Isabelle.thy ===== *)
theory Spec2Isabelle
  imports Access_Control Route_Claims Field_Claims Amendment_Claims System_Claims Api_Claims Report_Claims
    Photo_Claims
begin

text \<open>
  A model of the backend of Grover Landscaping (\<open>backend/src\<close>, Rust): a web service over PostgreSQL by
  which landscaping organizations plan routes for their crews and crews report the work of a day.

  The program. Requests pass the authentication middleware (\<open>auth.rs\<close>), reach a handler
  (\<open>main.rs\<close>) that checks the caller's membership of the organization that owns the resource
  (\<open>organizations.rs\<close>, \<open>access_control.rs\<close>), and then call a repository (\<open>day_plans.rs\<close>,
  \<open>db.rs\<close>) that runs SQL statements (\<open>postgres_*.rs\<close>) and turns their outcome into a value of a
  result type. All state is in the database.

  The model. \<open>db\<close> (Schema) is a record of tables, each a list of rows, one record type per table of
  \<open>backend/migrations\<close>. A statement is a function \<open>db \<Rightarrow> sqlx_error + ('a \<times> db)\<close>, written from the
  SQL text with the constraints it can meet: \<open>Inl ConstraintViolation\<close> for a \<open>CHECK\<close>, a key or a
  reference, \<open>Inl InvalidInput\<close> for a cast or an overflow of \<open>INTEGER\<close>. A call (Sql_Tx) threads the
  database and a schedule of outages: any round trip may fail, a transaction commits, rolls back or is
  dropped. \<open>expr.await?\<close> is \<open>db_bind\<close>, the \<open>match\<close> on the outcome \<open>db_catch\<close>. Rust's \<open>u32\<close> is
  \<open>32 word\<close>, the columns are integers in the range of \<open>INTEGER\<close>, and the casts between them wrap as
  \<open>as i32\<close> and \<open>as u32\<close> do (Grover_Prelude). What lies outside the program is the record \<open>env\<close>: the
  clock, the calendar of PostgreSQL, the UUID library, and the order in which an \<open>UPDATE\<close> visits its
  rows (\<open>scan_ok\<close>: each row once, in any order).

  Theories, in the order of import, and the code they model:
  \<^item> Grover_Prelude: strings, numbers, tables as lists of rows; Sql_Tx: calls and transactions, what a
    call keeps (\<open>keeps\<close>), and the interfaces \<open>atomic_call\<close>, \<open>refusing_call\<close>, \<open>read_only_call\<close> that the
    repositories rely on; Schema: the tables.
  \<^item> Access_Control (\<open>access_control.rs\<close>): roles and permissions. Membership_Gate (\<open>organizations.rs\<close>):
    active memberships, with the specification \<open>belongs_to\<close> of what the check decides.
  \<^item> Day_Plan_Requests (\<open>day_plans.rs\<close>, \<open>day_plan_status.rs\<close>, \<open>stop_progress.rs\<close>): requests,
    validation, identifiers, responses.
  \<^item> Route_Plans (\<open>postgres_day_plans.rs\<close>, \<open>day_plans.rs\<close>): drafts, publication, assignment, removal
    and reordering of stops, the route of the day. Route_Facts: the invariant \<open>route_ok\<close> and that every
    statement keeps it and leaves published routes alone. Route_Properties and Route_Claims: every
    operation on every branch.
  \<^item> Route_Amendments, Amendment_Facts, Amendment_Claims: requests to change a running route.
  \<^item> Idempotent_Writes (\<open>postgres_stop_progress.rs\<close>, \<open>postgres_write.rs\<close>, \<open>db.rs\<close>): progress, job
    lifecycle, checklists, add-ons, with the ledgers of client mutation ids. Idempotent_Facts: the
    interfaces \<open>idempotent_mutation\<close> and \<open>claimed_mutation\<close>, interpreted on the three ledgers;
    Field_Claims.
  \<^item> Api_Gate (\<open>auth.rs\<close>), Api_Routes (the router of \<open>main.rs\<close>), Api_Facts, Principal_Facts,
    Api_Claims: which route asks for a principal, and what a principal may do.
  \<^item> Job_Reads (\<open>postgres_read.rs\<close>, \<open>db.rs\<close>, \<open>lib.rs\<close>), Route_Handlers (\<open>main.rs\<close>): the handlers with
    their guards and answers. Route_System: middleware and handler composed (\<open>serve\<close>), and runs of the
    service (\<open>service_step\<close>, \<open>reachable\<close>).
  \<^item> Access_Checks: every request is answered, and the interface \<open>access_check\<close> of the three guards.
    Route_Frame: what each request leaves alone. System_Facts, System_Claims: tenant isolation,
    authorization, the invariants of a run.
  \<^item> Completion_Reports (\<open>completion_reports.rs\<close>): life-cycle predicates, progress in double precision,
    readiness, snapshots with their JSON, and what a customer is shown. Report_Store
    (\<open>postgres_completion_reports.rs\<close>, \<open>postgres_read.rs\<close>, \<open>accounts.rs\<close>, \<open>db.rs\<close>): refreshing a report, its
    review, resubmission and delivery, with the snapshot trigger. Report_Handlers (\<open>main.rs\<close>).
    Photo_Privacy (\<open>postgres_privacy.rs\<close>, \<open>db.rs\<close>, \<open>main.rs\<close>): the erasure of a customer's photos.
  \<^item> Progress_Facts, Snapshot_Facts, Redaction_Facts: percentages, the round trip of a snapshot, what a
    redaction leaves. Report_Facts: the invariant \<open>reports_ok\<close>, the abstract life cycle
    \<open>lifecycle_step\<close>, and \<open>report_keeps\<close>, which Report_Operations and Report_Service show of every
    operation and request. Report_System: requests and runs (\<open>serve_report\<close>, \<open>reports_reach\<close>).
    Report_Frame, Report_Grants: which reports a request touches and for whom. Report_Links: what a
    shared link shows. Report_Claims.
  \<^item> Image_Headers (\<open>photo_storage.rs\<close>): the readers of PNG, GIF, JPEG and WebP headers, with the loops and
    the indexing that could fail. Photo_Storage: configuration, tickets, keys, encodings, the calendar and
    the signed addresses of S3. Photo_Client: inspection, thumbnails and deletion over an HTTP client.
  \<^item> Photo_Uploads (\<open>postgres_write.rs\<close>, \<open>db.rs\<close>, \<open>main.rs\<close>): presigning, completion and rejection of a
    photo. Work_Queues (\<open>postgres_write.rs\<close>, \<open>postgres_privacy.rs\<close>): the queues of thumbnails to make and
    objects to delete. Queue_Recovery: their history and what a manager can order. Photo_Worker
    (\<open>photo_processing.rs\<close>): the worker's configuration, one cycle and the loop.
  \<^item> Image_Facts: well-formed files, of which the readers are the inverse. Calendar_Facts: the calendar
    counted day by day. Url_Facts: the encodings decoded, and what a signed address determines.
    Queue_Facts: the abstract life cycle \<open>work_step\<close> of a job, and the contract \<open>leased_queue\<close> of a claim,
    interpreted on both queues. Worker_Facts: the attempts pay for the claims of any number of cycles.
  \<^item> Photo_System: requests for photos behind the middleware and runs (\<open>serve_photo\<close>, \<open>photos_reach\<close>).
    Photo_Service: every request and every cycle satisfies \<open>queues_keep\<close>. Photo_Claims.
  \<^item> Sample_Data: the database at which the properties are applied.

  What the groups of lemmas show: an operation that is not answered with success has changed nothing
  (\<open>refusing_call\<close>; reordering apart, which commits on one refusal); a mutation id takes effect at most
  once over any history (\<open>at_most_once\<close>); the effect of every operation on every branch; \<open>route_ok\<close>
  and the permanence of published routes over any run; that a request changes only what belongs to an
  organization its caller is a member of; that the gate guards all routes but ten. For completion
  reports: every run refines the abstract life cycle, keeps \<open>reports_ok\<close>, and leaves a delivered report
  as its link shows it, but for the redaction of an erasure. For photos: reading a header always ends and
  inverts the file formats; a signed address names one object; both work queues stay typed and refine the
  life cycle of a job in every run; and the worker cannot claim more jobs than attempts are left.

  Bounds. No fuel is used: every definition terminates structurally or by a measure, but for the two loops of
  the JPEG reader, which are partial functions and shown to return on every input. A run is any finite
  sequence of requests, with any principals, outages and clocks; requests do not interleave inside a
  handler, while the guard and the write of one request are separate statements of the code.

  Not modelled. The wire format (JSON, headers, percent-encoding: a path segment is the identifier it
  names); concurrency inside the database (isolation levels, locks); \<open>TIMESTAMPTZ\<close> values but for their
  order; S3 (the signature of an address, the deletion of objects), SMTP, JWT decoding (parameters of
  the definitions that use them); the local-review backend, which the code refuses in production; and
  the components that PROJECT.json lists as not modelled, among them owner acquisition, the
  administration of accounts, bids, notifications and the marketing intake. What those may do to routes
  is \<open>background_change\<close>: of all their statements only the conversion of a bid writes a stop.
\<close>

end
